(* ===== verification/Prelude.thy ===== *)
theory Prelude
  imports Complex_Main "HOL-Library.AList"
begin

text \<open>
  Shared vocabulary of the development: the types of identifiers and clocks, database tables as
  lists of rows, keyed stores, and the collections of facts the component theories add to.

  \<^item> \<open>micros\<close> is a point in time as Python's \<open>datetime\<close> counts it (UTC, whole microseconds);
    \<open>secs\<close> is a reading of \<open>time.time()\<close> or \<open>time.monotonic()\<close>.
  \<^item> A table is the list of its rows in insertion order. \<open>first_row\<close> is an unordered
    \<open>select ... where\<close> read by \<open>db.scalar\<close>, \<open>latest_row\<close> one with \<open>order_by(column.desc())\<close>,
    and \<open>upd_rows\<close> the write-back of the attributes assigned to the rows found.
  \<^item> The locale \<open>kv_store\<close> is the contract of every keyed store the program uses (a JSON
    object, the idempotency cache of the bridge, the Redis key space); its lemmas are proved
    once and reached through the interpretations in the theories that provide the stores.
\<close>

type_synonym ident = string
type_synonym micros = int
type_synonym secs = real

named_theorems row_simps \<open>facts about tables\<close>
named_theorems store_simps \<open>facts about keyed stores\<close>

section \<open>Tables\<close>

definition first_row :: "('r \<Rightarrow> bool) \<Rightarrow> 'r list \<Rightarrow> 'r option" where
  "first_row P rows = find P rows"

definition upd_rows :: "('r \<Rightarrow> bool) \<Rightarrow> ('r \<Rightarrow> 'r) \<Rightarrow> 'r list \<Rightarrow> 'r list" where
  "upd_rows P f rows = map (\<lambda>r. if P r then f r else r) rows"

fun latest_row :: "('r \<Rightarrow> int) \<Rightarrow> 'r list \<Rightarrow> 'r option" where
  "latest_row key [] = None"
| "latest_row key (r # rs) =
     (case latest_row key rs of
        None \<Rightarrow> Some r
      | Some r' \<Rightarrow> if key r' \<le> key r then Some r else Some r')"

lemma first_row_Some [row_simps]:
  "first_row P rows = Some r \<Longrightarrow> r \<in> set rows \<and> P r"
  by (auto simp: first_row_def find_Some_iff)

lemma first_row_None [row_simps]:
  "first_row P rows = None \<longleftrightarrow> (\<forall>r \<in> set rows. \<not> P r)"
  by (auto simp: first_row_def find_None_iff)

lemma first_row_Nil [simp]: "first_row P [] = None"
  by (simp add: first_row_def)

lemma first_row_Cons [simp]:
  "first_row P (r # rs) = (if P r then Some r else first_row P rs)"
  by (simp add: first_row_def)

lemma upd_rows_Nil [simp]: "upd_rows P f [] = []"
  by (simp add: upd_rows_def)

lemma upd_rows_Cons [simp]:
  "upd_rows P f (r # rs) = (if P r then f r else r) # upd_rows P f rs"
  by (simp add: upd_rows_def)

lemma length_upd_rows [simp]: "length (upd_rows P f rows) = length rows"
  by (simp add: upd_rows_def)

lemma upd_rows_other:
  "r \<in> set rows \<Longrightarrow> \<not> P r \<Longrightarrow> r \<in> set (upd_rows P f rows)"
  by (auto simp: upd_rows_def image_iff)

lemma set_upd_rowsE:
  assumes "r \<in> set (upd_rows P f rows)"
  obtains (same) "r \<in> set rows" "\<not> P r"
        | (updated) r0 where "r0 \<in> set rows" "P r0" "r = f r0"
  using assms by (auto simp: upd_rows_def split: if_splits)

lemma latest_row_in: "latest_row key rows = Some r \<Longrightarrow> r \<in> set rows"
  by (induction rows arbitrary: r) (auto split: option.splits if_splits)

lemma latest_row_None [simp]: "latest_row key rows = None \<longleftrightarrow> rows = []"
  by (cases rows) (auto split: option.splits)

lemma latest_row_max:
  "latest_row key rows = Some r \<Longrightarrow> s \<in> set rows \<Longrightarrow> key s \<le> key r"
proof (induction rows arbitrary: r)
  case (Cons a rows)
  show ?case
  proof (cases "latest_row key rows")
    case None
    with Cons.prems show ?thesis by simp
  next
    case (Some b)
    with Cons show ?thesis by (auto split: if_splits intro: order_trans)
  qed
qed simp

section \<open>Keyed stores\<close>

locale kv_store =
  fixes get :: "'s \<Rightarrow> 'k \<Rightarrow> 'v option"
    and put :: "'k \<Rightarrow> 'v \<Rightarrow> 's \<Rightarrow> 's"
    and drop :: "'k \<Rightarrow> 's \<Rightarrow> 's"
  assumes get_put: "get (put k v s) k' = (if k' = k then Some v else get s k')"
    and get_drop: "get (drop k s) k' = (if k' = k then None else get s k')"
begin

definition put_all :: "('k \<times> 'v) list \<Rightarrow> 's \<Rightarrow> 's" where
  "put_all kvs s = fold (\<lambda>(k, v). put k v) kvs s"

lemma put_all_Nil: "put_all [] s = s"
  by (simp add: put_all_def)

lemma put_all_Cons: "put_all ((k, v) # kvs) s = put_all kvs (put k v s)"
  by (simp add: put_all_def)

text \<open>A batch of writes: the last write of a key wins, every other key keeps its value.\<close>

lemma get_put_all:
  "get (put_all kvs s) k = (case map_of (rev kvs) k of None \<Rightarrow> get s k | Some v \<Rightarrow> Some v)"
proof (induction kvs arbitrary: s)
  case Nil
  then show ?case by (simp add: put_all_Nil)
next
  case (Cons kv kvs)
  obtain a b where kv: "kv = (a, b)" by (cases kv)
  show ?case
    unfolding kv put_all_Cons Cons.IH
    by (auto simp: get_put map_add_def split: option.splits)
qed

lemma get_put_all_frame: "k \<notin> fst ` set kvs \<Longrightarrow> get (put_all kvs s) k = get s k"
proof -
  assume "k \<notin> fst ` set kvs"
  then have "map_of (rev kvs) k = None"
    by (simp add: map_of_eq_None_iff)
  then show ?thesis by (simp add: get_put_all)
qed

lemma put_put_get: "get (put k v (put k w s)) k' = get (put k v s) k'"
  by (simp add: get_put)

lemma drop_put_get: "get (drop k (put k v s)) k' = get (drop k s) k'"
  by (simp add: get_put get_drop)

end

end
