(* ===== verification/Json.thy ===== *)
theory Json
  imports Prelude
begin

text \<open>
  JSON values and the Python operations the code applies to them. A Python \<open>dict\<close> that came out
  of \<open>json.loads\<close> or is about to enter \<open>json.dumps\<close> is the association list of its items
  (keys distinct, insertion order); \<open>None\<close> and JSON \<open>null\<close> are \<open>JNull\<close>, so \<open>d.get(k)\<close> of an
  absent key is \<open>JNull\<close>. Numbers keep Python's distinction between \<open>int\<close> and \<open>float\<close>; floats are
  reals (no rounding, no NaN). Key equality is structural: Python's \<open>1 == 1.0 == True\<close> as
  dictionary keys is not modelled.
\<close>

datatype json =
    JNull
  | JBool bool
  | JInt int
  | JFloat real
  | JStr string
  | JArr "json list"
  | JObj "(string \<times> json) list"

type_synonym dict = "(string \<times> json) list"

definition jhas :: "dict \<Rightarrow> string \<Rightarrow> bool" where
  "jhas d k \<longleftrightarrow> map_of d k \<noteq> None"

definition jget :: "dict \<Rightarrow> string \<Rightarrow> json" where
  "jget d k = (case map_of d k of None \<Rightarrow> JNull | Some v \<Rightarrow> v)"

definition jget_or :: "dict \<Rightarrow> string \<Rightarrow> json \<Rightarrow> json" where
  "jget_or d k dflt = (case map_of d k of None \<Rightarrow> dflt | Some v \<Rightarrow> v)"

definition jset :: "string \<Rightarrow> json \<Rightarrow> dict \<Rightarrow> dict" where
  "jset k v d = AList.update k v d"

definition jpop :: "string \<Rightarrow> dict \<Rightarrow> dict" where
  "jpop k d = AList.delete k d"

definition jupdate :: "dict \<Rightarrow> dict \<Rightarrow> dict" where
  "jupdate d items = fold (\<lambda>(k, v). jset k v) items d"

text \<open>Python truthiness, \<open>x or y\<close>, and what may be a dictionary key or a set member.\<close>

fun truthy :: "json \<Rightarrow> bool" where
  "truthy JNull = False"
| "truthy (JBool b) = b"
| "truthy (JInt i) = (i \<noteq> 0)"
| "truthy (JFloat r) = (r \<noteq> 0)"
| "truthy (JStr s) = (s \<noteq> [])"
| "truthy (JArr xs) = (xs \<noteq> [])"
| "truthy (JObj d) = (d \<noteq> [])"

definition py_or :: "json \<Rightarrow> json \<Rightarrow> json" where
  "py_or a b = (if truthy a then a else b)"

fun hashable :: "json \<Rightarrow> bool" where
  "hashable (JArr xs) = False"
| "hashable (JObj d) = False"
| "hashable v = True"

fun as_dict :: "json \<Rightarrow> dict" where
  "as_dict (JObj d) = d"
| "as_dict v = []"

definition jopt :: "string option \<Rightarrow> json" where
  "jopt x = (case x of None \<Rightarrow> JNull | Some s \<Rightarrow> JStr s)"

section \<open>Lookup laws\<close>

interpretation jdict: kv_store map_of jset jpop
proof
  show "map_of (jset k v s) k' = (if k' = k then Some v else map_of s k')" for k v s k'
    by (simp add: jset_def update_conv')
  show "map_of (jpop k s) k' = (if k' = k then None else map_of s k')" for k s k'
    by (simp add: jpop_def delete_conv')
qed

lemma jget_jset [simp, store_simps]: "jget (jset k v d) k' = (if k' = k then v else jget d k')"
  by (simp add: jget_def jdict.get_put)

lemma jhas_jset [simp, store_simps]: "jhas (jset k v d) k' \<longleftrightarrow> k' = k \<or> jhas d k'"
  by (simp add: jhas_def jdict.get_put)

lemma jget_jpop [simp, store_simps]: "jget (jpop k d) k' = (if k' = k then JNull else jget d k')"
  by (simp add: jget_def jdict.get_drop)

lemma jhas_jpop [simp, store_simps]: "jhas (jpop k d) k' \<longleftrightarrow> k' \<noteq> k \<and> jhas d k'"
  by (simp add: jhas_def jdict.get_drop)

lemma jupdate_put_all: "jupdate d items = jdict.put_all items d"
  by (simp add: jupdate_def jdict.put_all_def)

lemma jupdate_Nil [simp]: "jupdate d [] = d"
  by (simp add: jupdate_def)

lemma jupdate_Cons [simp]: "jupdate d ((k, v) # items) = jupdate (jset k v d) items"
  by (simp add: jupdate_def)

lemma map_of_jupdate:
  "map_of (jupdate d items) k =
     (case map_of (rev items) k of None \<Rightarrow> map_of d k | Some v \<Rightarrow> Some v)"
  by (simp add: jupdate_put_all jdict.get_put_all)

lemma jget_jupdate_frame: "k \<notin> fst ` set items \<Longrightarrow> jget (jupdate d items) k = jget d k"
  by (simp add: jget_def jupdate_put_all jdict.get_put_all_frame)

lemma jhas_jupdate_frame: "k \<notin> fst ` set items \<Longrightarrow> jhas (jupdate d items) k = jhas d k"
  by (simp add: jhas_def jupdate_put_all jdict.get_put_all_frame)

lemma jget_Nil [simp]: "jget [] k = JNull"
  by (simp add: jget_def)

lemma jget_Cons [simp]: "jget ((k, v) # d) k' = (if k' = k then v else jget d k')"
  by (simp add: jget_def)

lemma jhas_Nil [simp]: "\<not> jhas [] k"
  by (simp add: jhas_def)

lemma jhas_Cons [simp]: "jhas ((k, v) # d) k' \<longleftrightarrow> k' = k \<or> jhas d k'"
  by (simp add: jhas_def)

lemma jget_or_Nil [simp]: "jget_or [] k dflt = dflt"
  by (simp add: jget_or_def)

lemma jget_or_Cons [simp]:
  "jget_or ((k, v) # d) k' dflt = (if k' = k then v else jget_or d k' dflt)"
  by (simp add: jget_or_def)

lemma py_or_simps [simp]:
  "truthy a \<Longrightarrow> py_or a b = a"
  "\<not> truthy a \<Longrightarrow> py_or a b = b"
  by (simp_all add: py_or_def)

lemma jopt_simps [simp]: "jopt None = JNull" "jopt (Some s) = JStr s"
  by (simp_all add: jopt_def)

lemma jopt_eq_JNull [simp]: "jopt x = JNull \<longleftrightarrow> x = None"
  by (cases x) simp_all

end
