(* ===== verification/Protocol.thy ===== *)
theory Protocol
  imports Json
begin

text \<open>
  The bridge's protocol layer (\<open>firebot_bridge/protocol.py\<close>, \<open>downlink/command_validator.py\<close>,
  \<open>ros/interfaces.py\<close>): the frozen vocabularies of schema 1.3, message construction with one
  sequence counter per message type, and validation of downlink commands. What the standard
  library supplies at run time (clocks, UUIDs, ISO-8601 parsing and printing, \<open>str()\<close> of a
  non-string) is read from the record \<open>pyenv\<close>.
\<close>

section \<open>The Python environment\<close>

text \<open>
  \<open>datetime.fromisoformat\<close> raises, or returns a naive or an aware datetime; comparing a naive one
  with an aware one raises \<open>TypeError\<close>. \<open>stamp\<close> is \<open>strftime("%Y%m%d%H%M%S")\<close>, \<open>float_of\<close> and
  \<open>int_parse\<close> are \<open>float\<close> and \<open>int\<close> of a string (\<open>None\<close> when they raise \<open>ValueError\<close>).
\<close>

datatype iso_result = Iso_Error | Iso_Naive micros | Iso_Aware micros

record pyenv =
  wall :: secs
  mono :: secs
  utc_now :: micros
  iso_parse :: "string \<Rightarrow> iso_result"
  iso_format :: "micros \<Rightarrow> string"
  uuid :: "nat \<Rightarrow> string"
  str_repr :: "json \<Rightarrow> string"
  stamp :: "micros \<Rightarrow> string"
  float_of :: "string \<Rightarrow> real option"
  int_parse :: "string \<Rightarrow> int option"

datatype py_exn = TypeError | AttributeError | KeyError | ValueError

fun py_str :: "pyenv \<Rightarrow> json \<Rightarrow> string" where
  "py_str env (JStr s) = s"
| "py_str env v = str_repr env v"

definition replace_Z :: "string \<Rightarrow> string" where
  "replace_Z s = concat (map (\<lambda>c. if c = CHR ''Z'' then ''+00:00'' else [c]) s)"

text \<open>
  What the code relies on from \<open>datetime\<close>: \<open>isoformat()\<close> of an aware UTC datetime ends in
  \<open>+00:00\<close>, has no letter Z, and \<open>fromisoformat\<close> inverts it. \<open>plain_env\<close> is an environment with
  this law, used to run the definitions on concrete inputs: it prints a time as a signed decimal.
\<close>

definition iso_roundtrip :: "pyenv \<Rightarrow> bool" where
  "iso_roundtrip env \<longleftrightarrow>
     (\<forall>t. iso_parse env (iso_format env t) = Iso_Aware t
        \<and> replace_Z (iso_format env t) = iso_format env t \<and> iso_format env t \<noteq> [])"

function digits :: "int \<Rightarrow> string" where
  "digits n = (if n < 10 then [char_of (48 + n)] else digits (n div 10) @ [char_of (48 + n mod 10)])"
  by auto
termination by (relation "measure nat") auto

declare digits.simps [simp del]

definition undigits :: "string \<Rightarrow> int" where
  "undigits s = foldl (\<lambda>a c. 10 * a + (of_char c - 48)) 0 s"

lemma undigits_digits: "0 \<le> n \<Longrightarrow> undigits (digits n) = n"
proof (induction n rule: digits.induct)
  case (1 n)
  have c: "of_char (char_of (48 + k) :: char) = 48 + k" if "0 \<le> k" "k < 10" for k :: int
    using that by (simp add: of_char_of)
  have "0 \<le> n div 10" using 1(2) by simp
  with 1 show ?case
    using c [of n] c [of "n mod 10"]
    by (subst digits.simps) (simp add: undigits_def)
qed

lemma digits_no_Z: "0 \<le> n \<Longrightarrow> CHR ''Z'' \<notin> set (digits n)"
proof (induction n rule: digits.induct)
  case (1 n)
  have c: "char_of (48 + k) \<noteq> CHR ''Z''" if "0 \<le> k" "k < 10" for k :: int
  proof
    assume "char_of (48 + k) = CHR ''Z''"
    then have "(of_char (char_of (48 + k) :: char) :: int) = of_char CHR ''Z''" by simp
    then show False using that by (simp add: of_char_of)
  qed
  have s: "set (digits n) = (if n < 10 then {char_of (48 + n)} else set (digits (n div 10)) \<union> {char_of (48 + n mod 10)})"
    by (subst digits.simps) simp
  have "0 \<le> n div 10" using 1(2) by simp
  then show ?case using 1 c [of n] c [of "n mod 10"] by (auto simp: s)
qed

definition decimal_format :: "micros \<Rightarrow> string" where
  "decimal_format t = (if 0 \<le> t then CHR ''+'' else CHR ''-'') # digits \<bar>t\<bar>"

fun decimal_parse :: "string \<Rightarrow> iso_result" where
  "decimal_parse [] = Iso_Error"
| "decimal_parse (c # s) =
     (if c = CHR ''+'' then Iso_Aware (undigits s)
      else if c = CHR ''-'' then Iso_Aware (- undigits s) else Iso_Error)"

lemma decimal_roundtrip: "decimal_parse (decimal_format t) = Iso_Aware t"
  by (simp add: decimal_format_def undigits_digits)
definition plain_env :: "micros \<Rightarrow> pyenv" where
  "plain_env now = \<lparr>wall = real_of_int now / 1000000, mono = real_of_int now / 1000000, utc_now = now,
     iso_parse = decimal_parse, iso_format = decimal_format,
     uuid = (\<lambda>n. ''u'' @ replicate n CHR ''x''), str_repr = (\<lambda>_. ''?''),
     stamp = decimal_format, float_of = (\<lambda>_. None), int_parse = (\<lambda>_. None)\<rparr>"

lemma replace_Z_none: "CHR ''Z'' \<notin> set s \<Longrightarrow> replace_Z s = s"
  by (induction s) (auto simp: replace_Z_def)

lemma plain_env_roundtrip [simp]: "iso_roundtrip (plain_env now)"
proof -
  have "CHR ''Z'' \<notin> set (decimal_format t)" for t
    using digits_no_Z [of "\<bar>t\<bar>"] by (auto simp: decimal_format_def)
  moreover have "decimal_format t \<noteq> []" for t by (simp add: decimal_format_def)
  ultimately show ?thesis
    by (simp add: iso_roundtrip_def plain_env_def replace_Z_none decimal_roundtrip)
qed

lemma iso_roundtripD:
  assumes "iso_roundtrip env"
  shows "iso_parse env (iso_format env t) = Iso_Aware t"
    and "replace_Z (iso_format env t) = iso_format env t" and "iso_format env t \<noteq> []"
  using assms by (simp_all add: iso_roundtrip_def)

lemma plain_env_simps [simp]: "utc_now (plain_env now) = now"
  by (simp add: plain_env_def)

fun py_float :: "pyenv \<Rightarrow> json \<Rightarrow> py_exn + real" where
  "py_float env (JInt i) = Inr (real_of_int i)"
| "py_float env (JFloat r) = Inr r"
| "py_float env (JBool b) = Inr (if b then 1 else 0)"
| "py_float env (JStr s) = (case float_of env s of None \<Rightarrow> Inl ValueError | Some r \<Rightarrow> Inr r)"
| "py_float env v = Inl TypeError"

fun py_int :: "pyenv \<Rightarrow> json \<Rightarrow> py_exn + int" where
  "py_int env (JInt i) = Inr i"
| "py_int env (JBool b) = Inr (if b then 1 else 0)"
| "py_int env (JFloat r) = Inr (if 0 \<le> r then \<lfloor>r\<rfloor> else \<lceil>r\<rceil>)"
| "py_int env (JStr s) = (case int_parse env s of None \<Rightarrow> Inl ValueError | Some i \<Rightarrow> Inr i)"
| "py_int env v = Inl TypeError"

definition bind :: "py_exn + 'a \<Rightarrow> ('a \<Rightarrow> py_exn + 'b) \<Rightarrow> py_exn + 'b" where
  "bind x f = (case x of Inl e \<Rightarrow> Inl e | Inr v \<Rightarrow> f v)"

lemma bind_simps [simp]: "bind (Inl e) f = Inl e" "bind (Inr v) f = f v"
  by (simp_all add: bind_def)

lemma bind_Inr: "bind x f = Inr y \<longleftrightarrow> (\<exists>v. x = Inr v \<and> f v = Inr y)"
  by (cases x) simp_all

section \<open>Vocabulary\<close>

definition COMMAND_REQUIRED_FIELDS :: "string list" where
  "COMMAND_REQUIRED_FIELDS =
     [''schema_version'', ''message_id'', ''type'', ''vehicle_id'', ''target_boot_id'',
      ''command_id'', ''correlation_id'', ''issued_at'', ''expires_at'', ''ttl_ms'',
      ''priority'', ''source'', ''operator_id'', ''cmd'', ''params'']"

definition SUPPORTED_SCHEMA_VERSIONS :: "string list" where
  "SUPPORTED_SCHEMA_VERSIONS = [''1.2'', ''1.3'']"

definition COMMAND_ENUM :: "string list" where
  "COMMAND_ENUM =
     [''manual_control'', ''stop_motion'', ''emergency_stop'', ''reset_estop'',
      ''return_dock'', ''patrol'', ''extinguish'', ''cancel_task'']"

definition TASK_CMDS :: "string list" where
  "TASK_CMDS = [''patrol'', ''return_dock'', ''extinguish'']"

definition ACK_REASON_CODES :: "json list" where
  "ACK_REASON_CODES = JNull # map JStr
     [''ROBOT_DISABLED'', ''ROBOT_STALE'', ''ROBOT_OFFLINE'', ''ROBOT_BOOT_SESSION_UNKNOWN'',
      ''ROBOT_CAPABILITY_UNSUPPORTED'', ''ROBOT_ESTOP_ACTIVE'', ''MANUAL_LEASE_INVALID'',
      ''ACTIVE_TASK_CONFLICT'', ''MAP_VERSION_MISMATCH'', ''COMMAND_EXPIRED'',
      ''COMMAND_REJECTED'', ''COMMAND_UNSUPPORTED'', ''INVALID_PROTOCOL_MESSAGE'',
      ''PROTOCOL_VERSION_UNSUPPORTED'', ''BRIDGE_ADAPTER_NOT_CONNECTED'']"

definition MQTT_CMD_TO_ROS :: "(string \<times> string) list" where
  "MQTT_CMD_TO_ROS =
     [(''patrol'', ''PATROL_START''), (''stop_motion'', ''STOP_MOTION''),
      (''emergency_stop'', ''EMERGENCY_STOP''), (''reset_estop'', ''RESET_ESTOP''),
      (''return_dock'', ''RETURN_DOCK''), (''extinguish'', ''EXTINGUISH_START''),
      (''cancel_task'', ''CANCEL_TASK''), (''manual_control'', ''MANUAL_CONTROL'')]"

text \<open>\<open>cmd in TASK_CMDS\<close> and \<open>cmd not in COMMAND_ENUM\<close> for the JSON value of \<open>cmd\<close>.\<close>

definition is_task_cmd :: "json \<Rightarrow> bool" where
  "is_task_cmd c \<longleftrightarrow> c \<in> set (map JStr TASK_CMDS)"

definition known_cmd :: "json \<Rightarrow> bool" where
  "known_cmd c \<longleftrightarrow> c \<in> set (map JStr COMMAND_ENUM)"

lemma is_task_cmd_simps [simp]:
  "is_task_cmd (JStr ''patrol'')" "is_task_cmd (JStr ''return_dock'')"
  "is_task_cmd (JStr ''extinguish'')" "\<not> is_task_cmd (JStr ''stop_motion'')"
  "\<not> is_task_cmd (JStr ''emergency_stop'')" "\<not> is_task_cmd (JStr ''cancel_task'')"
  "\<not> is_task_cmd (JStr ''reset_estop'')" "\<not> is_task_cmd (JStr ''manual_control'')"
  "\<not> is_task_cmd JNull"
  by (simp_all add: is_task_cmd_def TASK_CMDS_def)

lemma is_task_cmd_known: "is_task_cmd c \<Longrightarrow> known_cmd c"
  by (auto simp: is_task_cmd_def known_cmd_def TASK_CMDS_def COMMAND_ENUM_def)

section \<open>Message construction\<close>

record protocol =
  p_vehicle_id :: string
  p_boot_id :: string
  p_seq :: "string \<rightharpoonup> int"
  p_uuids :: nat

definition Protocol_init :: "string \<Rightarrow> string \<Rightarrow> protocol" where
  "Protocol_init vid boot =
     \<lparr>p_vehicle_id = vid, p_boot_id = boot, p_seq = Map.empty, p_uuids = 0\<rparr>"

definition next_seq :: "string \<Rightarrow> protocol \<Rightarrow> int \<times> protocol" where
  "next_seq ty p =
     (let n = (case p_seq p ty of None \<Rightarrow> 0 | Some k \<Rightarrow> k) + 1
      in (n, p\<lparr>p_seq := (p_seq p)(ty \<mapsto> n)\<rparr>))"

text \<open>
  \<open>base(msg_type)\<close>; no caller passes \<open>stamp_sec\<close>, so the timestamp is the current time. The
  counter \<open>p_uuids\<close> stands for the draws from \<open>uuid4\<close>.
\<close>

definition base :: "pyenv \<Rightarrow> string \<Rightarrow> protocol \<Rightarrow> dict \<times> protocol" where
  "base env ty p =
     (let mid = uuid env (p_uuids p);
          (n, p') = next_seq ty (p\<lparr>p_uuids := p_uuids p + 1\<rparr>)
      in ([(''schema_version'', JStr ''1.3''),
           (''message_id'', JStr mid),
           (''type'', JStr ty),
           (''vehicle_id'', JStr (p_vehicle_id p)),
           (''boot_id'', JStr (p_boot_id p)),
           (''timestamp'', JStr (iso_format env (utc_now env))),
           (''seq'', JInt n)], p'))"

definition seq_of :: "protocol \<Rightarrow> string \<Rightarrow> int" where
  "seq_of p ty = (case p_seq p ty of None \<Rightarrow> 0 | Some k \<Rightarrow> k)"

lemma base_seq [simp]:
  "jget (fst (base env ty p)) ''seq'' = JInt (seq_of p ty + 1)"
  by (simp add: base_def next_seq_def seq_of_def Let_def)

lemma base_type [simp]: "jget (fst (base env ty p)) ''type'' = JStr ty"
  by (simp add: base_def next_seq_def Let_def)

lemma seq_of_base [simp]:
  "seq_of (snd (base env ty p)) ty' = (if ty' = ty then seq_of p ty + 1 else seq_of p ty')"
  by (simp add: base_def next_seq_def seq_of_def Let_def)

lemma base_ids [simp]:
  "p_vehicle_id (snd (base env ty p)) = p_vehicle_id p"
  "p_boot_id (snd (base env ty p)) = p_boot_id p"
  by (simp_all add: base_def next_seq_def Let_def)

section \<open>Command validation\<close>

text \<open>
  The expiry check runs inside \<open>try ... except Exception\<close>: a value that is not a string, does not
  parse, or is naive falls into the handler.
\<close>

fun expiry_check :: "pyenv \<Rightarrow> json \<Rightarrow> string option" where
  "expiry_check env (JStr s) =
     (case iso_parse env (replace_Z s) of
        Iso_Aware t \<Rightarrow> if t \<le> utc_now env then Some ''COMMAND_EXPIRED'' else None
      | _ \<Rightarrow> Some ''INVALID_PROTOCOL_MESSAGE'')"
| "expiry_check env v = Some ''INVALID_PROTOCOL_MESSAGE''"

text \<open>
  \<open>validate_command\<close> returns \<open>(ok, reason_code)\<close>. A \<open>cmd\<close> that is a list or an object makes
  \<open>cmd not in COMMAND_ENUM\<close> raise \<open>TypeError\<close>.
\<close>

fun validate_command :: "pyenv \<Rightarrow> json \<Rightarrow> string \<Rightarrow> py_exn + (bool \<times> string option)" where
  "validate_command env (JObj c) boot =
     (if py_str env (jget_or c ''schema_version'' (JStr [])) \<notin> set SUPPORTED_SCHEMA_VERSIONS
      then Inr (False, Some ''PROTOCOL_VERSION_UNSUPPORTED'')
      else if \<exists>f \<in> set COMMAND_REQUIRED_FIELDS. \<not> jhas c f
      then Inr (False, Some ''INVALID_PROTOCOL_MESSAGE'')
      else if jget c ''type'' \<noteq> JStr ''command''
      then Inr (False, Some ''INVALID_PROTOCOL_MESSAGE'')
      else if \<not> hashable (jget c ''cmd'') then Inl TypeError
      else if \<not> known_cmd (jget c ''cmd'')
      then Inr (False, Some ''COMMAND_UNSUPPORTED'')
      else case expiry_check env (jget c ''expires_at'') of
        Some reason \<Rightarrow> Inr (False, Some reason)
      | None \<Rightarrow>
          (if jget c ''cmd'' = JStr ''emergency_stop''
           then (if jget c ''target_boot_id'' \<notin> {JNull, JStr boot}
                 then Inr (False, Some ''ROBOT_BOOT_SESSION_UNKNOWN'')
                 else Inr (True, None))
           else if jget c ''target_boot_id'' \<noteq> JStr boot
           then Inr (False, Some ''ROBOT_BOOT_SESSION_UNKNOWN'')
           else Inr (True, None)))"
| "validate_command env v boot = Inr (False, Some ''INVALID_PROTOCOL_MESSAGE'')"

record bridge_config =
  c_stub_mode :: bool
  c_stub_simulate_feedback :: bool
  c_stub_feedback_simulation :: string
  c_supported_commands :: "string list"

definition validate_received_command ::
    "pyenv \<Rightarrow> bridge_config \<Rightarrow> json \<Rightarrow> string \<Rightarrow> py_exn + (bool \<times> string option)" where
  "validate_received_command env cfg command boot =
     (case validate_command env command boot of
        Inl e \<Rightarrow> Inl e
      | Inr (ok, reason) \<Rightarrow>
          (if \<not> ok then Inr (False, reason)
           else let cmd = jget (as_dict command) ''cmd'' in
             if is_task_cmd cmd \<and> \<not> truthy (jget (as_dict command) ''task_id'')
             then Inr (False, Some ''INVALID_PROTOCOL_MESSAGE'')
             else if \<not> c_stub_mode cfg \<and> cmd \<notin> set (map JStr (c_supported_commands cfg))
             then Inr (False, Some ''COMMAND_UNSUPPORTED'')
             else Inr (True, None)))"

text \<open>\<open>cmd.upper()\<close> is evaluated even when the table has the command; \<open>upper\<close> on ASCII letters.\<close>

definition ascii_upper :: "string \<Rightarrow> string" where
  "ascii_upper s =
     map (\<lambda>c. let n = (of_char c :: nat) in if 97 \<le> n \<and> n \<le> 122 then char_of (n - 32) else c) s"

fun build_ros_command :: "dict \<Rightarrow> py_exn + dict" where
  "build_ros_command m =
     (case jget m ''cmd'' of
        JStr cmd \<Rightarrow> Inr
          [(''interface_version'', JStr ''1.0''),
           (''command_id'', jget m ''command_id''),
           (''task_id'', jget m ''task_id''),
           (''command'', JStr (case map_of MQTT_CMD_TO_ROS cmd of
              Some r \<Rightarrow> r | None \<Rightarrow> ascii_upper cmd)),
           (''params'', py_or (jget_or m ''params'' (JObj [])) (JObj [])),
           (''received_at'', jget m ''issued_at''),
           (''expires_at'', jget m ''expires_at'')]
      | _ \<Rightarrow> Inl AttributeError)"

end
