(* ===== verification/Bridge_State.thy ===== *)
theory Bridge_State
  imports Protocol
begin

text \<open>
  \<open>firebot_bridge/state.py\<close>: the state shared by the bridge's threads. Every method takes the
  lock, so each is one atomic function here. Values that come from ROS messages keep their JSON
  form (\<open>JNull\<close> is Python's \<open>None\<close>). The theory also states the two contracts the command
  processor relies on, the task lock and the idempotency cache, as locales, and interprets them
  on the operations below.
\<close>

section \<open>State\<close>

definition DEDUP_TTL_SECONDS :: real where
  "DEDUP_TTL_SECONDS = 300"

record cmd_rec =
  cr_ts :: secs
  cr_command :: dict
  cr_ack :: "dict option"
  cr_task_status :: "dict option"
  cr_terminal :: bool

record bridge_state =
  b_mode :: json
  b_estop_active :: json
  b_reported_task :: json
  b_task_lock :: json
  b_cancel_requested :: bool
  b_battery :: json
  b_smoke :: json
  b_bottom_ir :: json
  b_top_ir_max :: json
  b_location :: json
  b_location_revision :: nat
  b_location_updated :: "secs option"
  b_battery_updated :: "secs option"
  b_smoke_updated :: "secs option"
  b_battery_was_stale :: bool
  b_smoke_was_stale :: bool
  b_processed :: "json \<rightharpoonup> cmd_rec"

definition BridgeState_init :: bridge_state where
  "BridgeState_init =
     \<lparr>b_mode = JNull, b_estop_active = JNull, b_reported_task = JNull, b_task_lock = JNull,
      b_cancel_requested = False, b_battery = JNull, b_smoke = JNull, b_bottom_ir = JNull,
      b_top_ir_max = JNull, b_location = JNull, b_location_revision = 0,
      b_location_updated = None, b_battery_updated = None, b_smoke_updated = None,
      b_battery_was_stale = False, b_smoke_was_stale = False, b_processed = Map.empty\<rparr>"

section \<open>Idempotency cache\<close>

definition cleanup_locked :: "secs \<Rightarrow> bridge_state \<Rightarrow> bridge_state" where
  "cleanup_locked now s = s\<lparr>b_processed := (\<lambda>k. case b_processed s k of
       None \<Rightarrow> None
     | Some r \<Rightarrow> if now - cr_ts r > DEDUP_TTL_SECONDS then None else Some r)\<rparr>"

definition register_command :: "secs \<Rightarrow> json \<Rightarrow> dict \<Rightarrow> bridge_state \<Rightarrow> bridge_state" where
  "register_command now cid command s =
     (let s' = cleanup_locked now s in
      s'\<lparr>b_processed := (b_processed s')(cid \<mapsto>
        \<lparr>cr_ts = now, cr_command = command, cr_ack = None, cr_task_status = None,
         cr_terminal = False\<rparr>)\<rparr>)"

definition get_command_record ::
    "secs \<Rightarrow> json \<Rightarrow> bridge_state \<Rightarrow> cmd_rec option \<times> bridge_state" where
  "get_command_record now cid s =
     (let s' = cleanup_locked now s in (b_processed s' cid, s'))"

definition update_record :: "json \<Rightarrow> (cmd_rec \<Rightarrow> cmd_rec) \<Rightarrow> bridge_state \<Rightarrow> bridge_state" where
  "update_record cid f s =
     (case b_processed s cid of
        None \<Rightarrow> s
      | Some r \<Rightarrow> s\<lparr>b_processed := (b_processed s)(cid \<mapsto> f r)\<rparr>)"

definition remember_ack :: "secs \<Rightarrow> json \<Rightarrow> dict \<Rightarrow> bridge_state \<Rightarrow> bridge_state" where
  "remember_ack now cid ack = update_record cid (\<lambda>r. r\<lparr>cr_ack := Some ack, cr_ts := now\<rparr>)"

definition remember_task_status :: "secs \<Rightarrow> json \<Rightarrow> dict \<Rightarrow> bridge_state \<Rightarrow> bridge_state" where
  "remember_task_status now cid ts =
     update_record cid (\<lambda>r. r\<lparr>cr_task_status := Some ts, cr_ts := now\<rparr>)"

definition mark_terminal :: "secs \<Rightarrow> json \<Rightarrow> bridge_state \<Rightarrow> bridge_state" where
  "mark_terminal now cid = update_record cid (\<lambda>r. r\<lparr>cr_terminal := True, cr_ts := now\<rparr>)"

section \<open>Task lock\<close>

definition acquire_task :: "json \<Rightarrow> bridge_state \<Rightarrow> bool \<times> bridge_state" where
  "acquire_task task_id s =
     (if \<not> truthy task_id \<or> b_task_lock s \<noteq> JNull then (False, s)
      else (True, s\<lparr>b_task_lock := task_id, b_cancel_requested := False\<rparr>))"

definition release_task :: "bridge_state \<Rightarrow> bridge_state" where
  "release_task s = s\<lparr>b_task_lock := JNull, b_cancel_requested := False\<rparr>"

definition request_cancel :: "bridge_state \<Rightarrow> bridge_state" where
  "request_cancel s = s\<lparr>b_cancel_requested := True\<rparr>"

section \<open>Telemetry cache\<close>

definition set_battery :: "secs \<Rightarrow> json \<Rightarrow> bridge_state \<Rightarrow> bool \<times> bridge_state" where
  "set_battery now v s =
     (b_battery_was_stale s,
      s\<lparr>b_battery := v, b_battery_updated := Some now, b_battery_was_stale := False\<rparr>)"

definition set_smoke :: "secs \<Rightarrow> json \<Rightarrow> bridge_state \<Rightarrow> bool \<times> bridge_state" where
  "set_smoke now v s =
     (b_smoke_was_stale s,
      s\<lparr>b_smoke := v, b_smoke_updated := Some now, b_smoke_was_stale := False\<rparr>)"

definition set_location :: "secs \<Rightarrow> json \<Rightarrow> bridge_state \<Rightarrow> bridge_state" where
  "set_location now v s =
     (let s' = s\<lparr>b_location := v\<rparr> in
      if v \<noteq> JNull
      then s'\<lparr>b_location_revision := b_location_revision s' + 1, b_location_updated := Some now\<rparr>
      else s')"

definition get_location_revision :: "bridge_state \<Rightarrow> nat" where
  "get_location_revision s = b_location_revision s"

definition expired :: "secs \<Rightarrow> secs option \<Rightarrow> real \<Rightarrow> bool" where
  "expired now updated ttl =
     (case updated of None \<Rightarrow> False | Some t \<Rightarrow> ttl > 0 \<and> now - t > ttl)"

definition expire_stale_location :: "real \<Rightarrow> secs \<Rightarrow> bridge_state \<Rightarrow> bool \<times> bridge_state" where
  "expire_stale_location ttl now s =
     (if b_location s \<noteq> JNull \<and> expired now (b_location_updated s) ttl
      then (True, s\<lparr>b_location := JNull\<rparr>) else (False, s))"

definition apply_status :: "dict \<Rightarrow> bridge_state \<Rightarrow> bridge_state" where
  "apply_status fs s =
     (let s1 = (if jhas fs ''mode'' then s\<lparr>b_mode := jget fs ''mode''\<rparr> else s);
          s2 = (if jhas fs ''estop_active''
                then s1\<lparr>b_estop_active := jget fs ''estop_active''\<rparr> else s1)
      in if jhas fs ''active_task_id''
         then s2\<lparr>b_reported_task := jget fs ''active_task_id''\<rparr> else s2)"

definition clear_ros_telemetry :: "bridge_state \<Rightarrow> bridge_state" where
  "clear_ros_telemetry s =
     s\<lparr>b_battery := JNull, b_smoke := JNull, b_bottom_ir := JNull, b_top_ir_max := JNull,
       b_location := JNull, b_location_updated := None, b_battery_updated := None,
       b_smoke_updated := None, b_battery_was_stale := False, b_smoke_was_stale := False,
       b_mode := JNull, b_estop_active := JNull, b_reported_task := JNull\<rparr>"

definition expire_stale_telemetry ::
    "real \<Rightarrow> real \<Rightarrow> secs \<Rightarrow> bridge_state \<Rightarrow> (bool \<times> bool) \<times> bridge_state" where
  "expire_stale_telemetry battery_ttl smoke_ttl now s =
     (let bs = (b_battery s \<noteq> JNull \<and> expired now (b_battery_updated s) battery_ttl);
          s1 = (if bs then s\<lparr>b_battery := JNull, b_battery_was_stale := True\<rparr> else s);
          ss = (b_smoke s1 \<noteq> JNull \<and> expired now (b_smoke_updated s1) smoke_ttl);
          s2 = (if ss then s1\<lparr>b_smoke := JNull, b_smoke_was_stale := True\<rparr> else s1)
      in ((bs, ss), s2))"

definition snapshot_telemetry :: "bridge_state \<Rightarrow> dict" where
  "snapshot_telemetry s =
     [(''mode'', b_mode s), (''estop_active'', b_estop_active s),
      (''active_task_id'', b_reported_task s), (''battery'', b_battery s),
      (''smoke'', b_smoke s), (''bottom_ir'', b_bottom_ir s),
      (''top_ir_max'', b_top_ir_max s), (''location'', b_location s)]"

section \<open>Contracts\<close>

text \<open>
  The task lock, as the command processor uses it: \<open>holder\<close> is the lock word, acquisition
  succeeds exactly on a free lock with a non-empty id, and release frees it.
\<close>

locale task_lock =
  fixes holder :: "'s \<Rightarrow> json"
    and acquire :: "json \<Rightarrow> 's \<Rightarrow> bool \<times> 's"
    and release :: "'s \<Rightarrow> 's"
  assumes acquire_ok: "fst (acquire t s) \<longleftrightarrow> truthy t \<and> holder s = JNull"
    and acquire_holder: "holder (snd (acquire t s)) = (if fst (acquire t s) then t else holder s)"
    and release_holder: "holder (release s) = JNull"
begin

lemma acquired_held: "fst (acquire t s) \<Longrightarrow> holder (snd (acquire t s)) = t \<and> t \<noteq> JNull"
  by (cases t) (auto simp: acquire_ok acquire_holder)

text \<open>While one task holds the lock, no second acquisition succeeds and the holder is kept.\<close>

lemma held_excludes:
  assumes "fst (acquire t s)"
  shows "\<not> fst (acquire u (snd (acquire t s))) \<and>
         holder (snd (acquire u (snd (acquire t s)))) = t"
  using acquired_held [OF assms] by (auto simp: acquire_ok acquire_holder)

lemma release_reopens: "truthy t \<Longrightarrow> fst (acquire t (release s))"
  by (simp add: acquire_ok release_holder)

end

interpretation tl: task_lock b_task_lock acquire_task release_task
  by unfold_locales (auto simp: acquire_task_def release_task_def)

text \<open>
  The idempotency cache: a lookup sees exactly the records that have not outlived the time to
  live, registration starts a fresh record, updates touch existing records only.
\<close>

locale dedup_cache =
  fixes live :: "secs \<Rightarrow> 's \<Rightarrow> json \<Rightarrow> cmd_rec option"
    and register :: "secs \<Rightarrow> json \<Rightarrow> dict \<Rightarrow> 's \<Rightarrow> 's"
    and modify :: "json \<Rightarrow> (cmd_rec \<Rightarrow> cmd_rec) \<Rightarrow> 's \<Rightarrow> 's"
    and ttl :: secs
  assumes live_fresh: "live now s k = Some r \<Longrightarrow> now - cr_ts r \<le> ttl"
    and live_register:
      "0 \<le> ttl \<Longrightarrow> live now (register now k c s) k' =
         (if k' = k then Some \<lparr>cr_ts = now, cr_command = c, cr_ack = None,
                               cr_task_status = None, cr_terminal = False\<rparr>
          else live now s k')"
    and live_modify:
      "live now s k = Some r \<Longrightarrow> now - cr_ts (f r) \<le> ttl \<Longrightarrow> live now (modify k f s) k = Some (f r)"
    and live_modify_other: "k' \<noteq> k \<Longrightarrow> live now (modify k f s) k' = live now s k'"
    and live_mono: "live now s k = Some r \<Longrightarrow> now' - cr_ts r \<le> ttl \<Longrightarrow> live now' s k = Some r"
begin

lemma register_then_live:
  assumes "0 \<le> ttl" and "now' - now \<le> ttl"
  shows "\<exists>r. live now' (register now k c s) k = Some r \<and> cr_command r = c \<and> cr_ack r = None"
proof -
  have "live now (register now k c s) k =
      Some \<lparr>cr_ts = now, cr_command = c, cr_ack = None, cr_task_status = None, cr_terminal = False\<rparr>"
    using assms(1) by (simp add: live_register)
  from live_mono [OF this, of now'] assms(2) show ?thesis by simp
qed

lemma modify_keeps_live:
  assumes "live now s k = Some r" and "cr_ts (f r) = now" and "now' - now \<le> ttl" and "0 \<le> ttl"
  shows "live now' (modify k f s) k = Some (f r)"
proof (rule live_mono)
  show "live now (modify k f s) k = Some (f r)"
    using assms by (intro live_modify) auto
  show "now' - cr_ts (f r) \<le> ttl" using assms by simp
qed

end

definition live_record :: "secs \<Rightarrow> bridge_state \<Rightarrow> json \<Rightarrow> cmd_rec option" where
  "live_record now s k = fst (get_command_record now k s)"

lemma live_record_iff:
  "live_record now s k = Some r \<longleftrightarrow>
     b_processed s k = Some r \<and> now - cr_ts r \<le> DEDUP_TTL_SECONDS"
  by (auto simp: live_record_def get_command_record_def cleanup_locked_def Let_def
      split: option.splits)

interpretation dc: dedup_cache live_record register_command update_record DEDUP_TTL_SECONDS
proof unfold_locales
  fix now now' :: secs and s :: bridge_state and k k' :: json and r :: cmd_rec and c :: dict
    and f :: "cmd_rec \<Rightarrow> cmd_rec"
  show "live_record now s k = Some r \<Longrightarrow> now - cr_ts r \<le> DEDUP_TTL_SECONDS"
    by (simp add: live_record_iff)
  show "0 \<le> DEDUP_TTL_SECONDS \<Longrightarrow> live_record now (register_command now k c s) k' =
      (if k' = k then Some \<lparr>cr_ts = now, cr_command = c, cr_ack = None,
                            cr_task_status = None, cr_terminal = False\<rparr>
       else live_record now s k')"
    by (auto simp: live_record_def get_command_record_def cleanup_locked_def register_command_def
        Let_def split: option.splits)
  show "live_record now s k = Some r \<Longrightarrow> now - cr_ts (f r) \<le> DEDUP_TTL_SECONDS \<Longrightarrow>
      live_record now (update_record k f s) k = Some (f r)"
    by (auto simp: live_record_iff update_record_def)
  show "k' \<noteq> k \<Longrightarrow> live_record now (update_record k f s) k' = live_record now s k'"
    by (auto simp: live_record_def get_command_record_def cleanup_locked_def update_record_def
        Let_def split: option.splits)
  show "live_record now s k = Some r \<Longrightarrow> now' - cr_ts r \<le> DEDUP_TTL_SECONDS \<Longrightarrow>
      live_record now' s k = Some r"
    by (simp add: live_record_iff)
qed

section \<open>Frame facts\<close>

text \<open>Which operations write which part: the processor's proofs need only these.\<close>

named_theorems bstate_frame \<open>fields an operation leaves alone\<close>

lemma lock_frame [bstate_frame]:
  "b_task_lock (cleanup_locked now s) = b_task_lock s"
  "b_task_lock (register_command now k c s) = b_task_lock s"
  "b_task_lock (update_record k f s) = b_task_lock s"
  "b_task_lock (remember_ack now k a s) = b_task_lock s"
  "b_task_lock (remember_task_status now k a s) = b_task_lock s"
  "b_task_lock (mark_terminal now k s) = b_task_lock s"
  "b_task_lock (snd (set_battery now v s)) = b_task_lock s"
  "b_task_lock (snd (set_smoke now v s)) = b_task_lock s"
  "b_task_lock (set_location now v s) = b_task_lock s"
  "b_task_lock (snd (expire_stale_location t now s)) = b_task_lock s"
  "b_task_lock (apply_status d s) = b_task_lock s"
  "b_task_lock (clear_ros_telemetry s) = b_task_lock s"
  "b_task_lock (snd (expire_stale_telemetry t u now s)) = b_task_lock s"
  by (auto simp: cleanup_locked_def register_command_def update_record_def remember_ack_def
      remember_task_status_def mark_terminal_def set_battery_def set_smoke_def set_location_def
      expire_stale_location_def apply_status_def clear_ros_telemetry_def
      expire_stale_telemetry_def Let_def split: option.splits)

lemma processed_frame [bstate_frame]:
  "b_processed (snd (acquire_task t s)) = b_processed s"
  "b_processed (release_task s) = b_processed s"
  "b_processed (clear_ros_telemetry s) = b_processed s"
  "b_processed (apply_status d s) = b_processed s"
  "b_processed (snd (set_battery now v s)) = b_processed s"
  "b_processed (snd (set_smoke now v s)) = b_processed s"
  "b_processed (set_location now v s) = b_processed s"
  by (auto simp: acquire_task_def release_task_def clear_ros_telemetry_def apply_status_def
      set_battery_def set_smoke_def set_location_def Let_def)

end
