(* ===== verification/Ros_Lifecycle.thy ===== *)
theory Ros_Lifecycle
  imports Bridge_State
begin

text \<open>
  \<open>firebot_bridge/ros/lifecycle.py\<close>: the supervisor of the ROS adapter child process. The Popen
  objects are numbered handles; the outcome of operating-system calls (is the ROS master
  reachable, did \<open>Popen\<close> succeed, is the child alive, did the pipe write go through) is an input of
  the step. \<open>m_sent\<close> records the commands written to the child's stdin, \<open>m_status\<close> the fields the
  supervisor puts into \<open>RuntimeStatus\<close>. Tracing and logging are not modelled.
\<close>

section \<open>State\<close>

definition READY_TIMEOUT_S :: secs where "READY_TIMEOUT_S = 8"
definition SPAWN_BACKOFF_MIN_S :: secs where "SPAWN_BACKOFF_MIN_S = 1"
definition SPAWN_BACKOFF_MAX_S :: secs where "SPAWN_BACKOFF_MAX_S = 30"

record ros_mgr =
  m_proc :: "nat option"
  m_stdin :: bool
  m_generation :: nat
  m_spawn_time :: secs
  m_backoff :: secs
  m_next_allowed :: secs
  m_master :: bool
  m_node_ready :: bool
  m_cmd_ready :: bool
  m_fb_ready :: bool
  m_provider_ready :: bool
  m_battery_seen :: bool
  m_battery_last :: "secs option"
  m_smoke_seen :: bool
  m_smoke_last :: "secs option"
  m_cmd_by_id :: "(json \<times> json) list"
  m_stopped :: bool
  m_sent :: "dict list"
  m_status :: dict

type_synonym ros_world = "ros_mgr \<times> bridge_state"

definition RosChildManager_init :: ros_mgr where
  "RosChildManager_init =
     \<lparr>m_proc = None, m_stdin = False, m_generation = 0, m_spawn_time = 0,
      m_backoff = SPAWN_BACKOFF_MIN_S, m_next_allowed = 0, m_master = False,
      m_node_ready = False, m_cmd_ready = False, m_fb_ready = False, m_provider_ready = False,
      m_battery_seen = False, m_battery_last = None, m_smoke_seen = False, m_smoke_last = None,
      m_cmd_by_id = [], m_stopped = False, m_sent = [], m_status = []\<rparr>"

definition compute_adapter_ready :: "bool \<Rightarrow> bool \<Rightarrow> bool" where
  "compute_adapter_ready command_publisher feedback \<longleftrightarrow> command_publisher \<and> feedback"

definition adapter_ready :: "ros_mgr \<Rightarrow> bool" where
  "adapter_ready m = compute_adapter_ready (m_cmd_ready m) (m_fb_ready m)"

section \<open>Status and readiness\<close>

definition jsecs :: "secs option \<Rightarrow> json" where
  "jsecs t = (case t of None \<Rightarrow> JNull | Some r \<Rightarrow> JFloat r)"

definition status_set :: "dict \<Rightarrow> ros_mgr \<Rightarrow> ros_mgr" where
  "status_set fs m = m\<lparr>m_status := jupdate (m_status m) fs\<rparr>"

definition refresh_status :: "ros_mgr \<Rightarrow> ros_mgr" where
  "refresh_status m = status_set
     [(''ros_master_available'', JBool (m_master m)),
      (''ros_node_ready'', JBool (m_node_ready m)),
      (''ros_command_publisher_ready'', JBool (m_cmd_ready m)),
      (''ros_feedback_ready'', JBool (m_fb_ready m)),
      (''ros_provider_ready'', JBool (m_provider_ready m)),
      (''ros_adapter_ready'', JBool (adapter_ready m)),
      (''battery_provider_seen'', JBool (m_battery_seen m)),
      (''battery_last_update'', jsecs (m_battery_last m)),
      (''smoke_provider_seen'', JBool (m_smoke_seen m)),
      (''smoke_last_update'', jsecs (m_smoke_last m))] m"

definition reset_ready :: "ros_mgr \<Rightarrow> ros_mgr" where
  "reset_ready m = m\<lparr>m_node_ready := False, m_cmd_ready := False, m_fb_ready := False,
                     m_provider_ready := False\<rparr>"

definition clear_telemetry :: "ros_world \<Rightarrow> ros_world" where
  "clear_telemetry w = (case w of (m, s) \<Rightarrow>
     (status_set [(''battery_fresh'', JBool False), (''smoke_fresh'', JBool False),
                  (''battery_last_update'', JNull), (''smoke_last_update'', JNull)]
        (m\<lparr>m_battery_seen := False, m_battery_last := None,
           m_smoke_seen := False, m_smoke_last := None\<rparr>),
      clear_ros_telemetry s))"

section \<open>Forwarding a command to the child\<close>

function trim_oldest :: "nat \<Rightarrow> 'a list \<Rightarrow> 'a list" where
  "trim_oldest n xs = (if length xs > n then trim_oldest n (tl xs) else xs)"
  by pat_completeness auto
termination by (relation "measure (\<lambda>(n, xs). length xs)") auto

declare trim_oldest.simps [simp del]

definition remember_cmd :: "dict \<Rightarrow> ros_mgr \<Rightarrow> ros_mgr" where
  "remember_cmd command m =
     (let cid = jget command ''command_id'' in
      if truthy cid
      then m\<lparr>m_cmd_by_id := trim_oldest 256 (AList.update cid (jget command ''cmd'') (m_cmd_by_id m))\<rparr>
      else m)"

definition publish_command :: "bool \<Rightarrow> bool \<Rightarrow> dict \<Rightarrow> ros_mgr \<Rightarrow> bool \<times> ros_mgr" where
  "publish_command child_alive write_ok command m =
     (if \<not> adapter_ready m \<or> m_proc m = None \<or> \<not> child_alive then (False, m)
      else if \<not> m_stdin m then (False, m)
      else if write_ok then (True, remember_cmd command (m\<lparr>m_sent := m_sent m @ [command]\<rparr>))
      else (False, m))"

section \<open>Child life cycle\<close>

definition ready_timed_out :: "secs \<Rightarrow> ros_mgr \<Rightarrow> bool" where
  "ready_timed_out now m \<longleftrightarrow>
     m_proc m \<noteq> None \<and> \<not> adapter_ready m \<and> now - m_spawn_time m > READY_TIMEOUT_S"

definition is_current :: "nat \<Rightarrow> nat \<Rightarrow> ros_mgr \<Rightarrow> bool" where
  "is_current h generation m \<longleftrightarrow> m_generation m = generation \<and> m_proc m = Some h"

definition bump_backoff :: "secs \<Rightarrow> ros_mgr \<Rightarrow> ros_mgr" where
  "bump_backoff now m =
     (let b = min (m_backoff m * 2) SPAWN_BACKOFF_MAX_S in
      m\<lparr>m_backoff := b, m_next_allowed := now + b\<rparr>)"

definition spawn :: "secs \<Rightarrow> nat option \<Rightarrow> ros_mgr \<Rightarrow> ros_mgr" where
  "spawn now popen m =
     (case popen of
        None \<Rightarrow> bump_backoff now m
      | Some h \<Rightarrow> reset_ready
          (m\<lparr>m_generation := m_generation m + 1, m_proc := Some h, m_stdin := True,
             m_spawn_time := now, m_next_allowed := now\<rparr>))"

definition terminate_child :: "ros_world \<Rightarrow> ros_world" where
  "terminate_child w = (case w of (m, s) \<Rightarrow>
     (let m' = m\<lparr>m_proc := None, m_stdin := False\<rparr> in
      if m_proc m = None then (m', s)
      else (case clear_telemetry (reset_ready m', s) of (m2, s2) \<Rightarrow> (refresh_status m2, s2))))"

definition on_child_exit :: "secs \<Rightarrow> nat \<Rightarrow> ros_world \<Rightarrow> ros_world" where
  "on_child_exit now h w = (case w of (m, s) \<Rightarrow>
     (let m1 = (if m_proc m = Some h then m\<lparr>m_proc := None, m_stdin := False\<rparr> else m) in
      case clear_telemetry (reset_ready m1, s) of
        (m2, s2) \<Rightarrow> (refresh_status (bump_backoff now m2), s2)))"

text \<open>One iteration of \<open>_run\<close>, with one reading of the clock.\<close>

definition run_iteration :: "bool \<Rightarrow> secs \<Rightarrow> nat option \<Rightarrow> ros_world \<Rightarrow> ros_world" where
  "run_iteration reachable now popen w = (case w of (m, s) \<Rightarrow>
     (let m1 = m\<lparr>m_master := reachable\<rparr>;
          w2 = (if \<not> reachable
                then (if m_proc m1 \<noteq> None then terminate_child (m1, s) else (m1, s))
                else if m_proc m1 = None
                then (if now \<ge> m_next_allowed m1 then (spawn now popen m1, s) else (m1, s))
                else if ready_timed_out now m1
                then terminate_child (bump_backoff now m1, s)
                else (m1, s))
      in (refresh_status (fst w2), snd w2)))"

definition stop_manager :: "ros_world \<Rightarrow> ros_world" where
  "stop_manager w = terminate_child ((fst w)\<lparr>m_stopped := True\<rparr>, snd w)"

section \<open>Events from the child\<close>

text \<open>
  \<open>_handle_event\<close>: the third component is the feedback handed to \<open>_on_feedback\<close>, if any.
  \<open>providers\<close> is the object the child builds in \<open>ros_adapter.py\<close>.
\<close>

definition handle_ready :: "dict \<Rightarrow> ros_mgr \<Rightarrow> ros_mgr" where
  "handle_ready payload m =
     (let providers = as_dict (py_or (jget payload ''providers'') (JObj []));
          m1 = m\<lparr>m_node_ready := truthy (jget payload ''ok''),
                 m_cmd_ready := truthy (jget payload ''command_publisher''),
                 m_fb_ready := truthy (jget payload ''feedback''),
                 m_provider_ready := (providers \<noteq> [] \<and> (\<forall>kv \<in> set providers. truthy (snd kv)))\<rparr>
      in if adapter_ready m1 then m1\<lparr>m_backoff := SPAWN_BACKOFF_MIN_S\<rparr> else m1)"

definition handle_provider :: "secs \<Rightarrow> secs \<Rightarrow> dict \<Rightarrow> ros_world \<Rightarrow> ros_world" where
  "handle_provider wall_now mono_now payload w = (case w of (m, s) \<Rightarrow>
     (if jget payload ''channel'' = JStr ''battery'' then
        (status_set [(''battery_fresh'', JBool True), (''battery_last_update'', JFloat wall_now)]
           (m\<lparr>m_battery_seen := True, m_battery_last := Some wall_now\<rparr>),
         snd (set_battery mono_now (jget payload ''value'') s))
      else if jget payload ''channel'' = JStr ''smoke'' then
        (status_set [(''smoke_fresh'', JBool True), (''smoke_last_update'', JFloat wall_now)]
           (m\<lparr>m_smoke_seen := True, m_smoke_last := Some wall_now\<rparr>),
         snd (set_smoke mono_now (jget payload ''value'') s))
      else (m, s)))"

definition handle_event ::
    "secs \<Rightarrow> secs \<Rightarrow> dict \<Rightarrow> ros_world \<Rightarrow> ros_world \<times> dict option" where
  "handle_event wall_now mono_now payload w = (case w of (m, s) \<Rightarrow>
     (let t = jget payload ''type'';
          r = (if t = JStr ''ready'' then ((handle_ready payload m, s), None)
               else if t = JStr ''feedback''
               then ((m, s), Some (as_dict (py_or (jget payload ''feedback'') (JObj []))))
               else if t = JStr ''provider'' then (handle_provider wall_now mono_now payload (m, s), None)
               else if t = JStr ''status'' then ((m, apply_status payload s), None)
               else if t = JStr ''location''
               then ((m, set_location mono_now (py_or (jget payload ''location'') (JObj [])) s), None)
               else ((m, s), None))
      in ((refresh_status (fst (fst r)), snd (fst r)), snd r)))"

text \<open>\<open>_reader_loop\<close>, per line and at the end of the stream, for the reader of handle \<open>h\<close>.\<close>

definition reader_event ::
    "nat \<Rightarrow> nat \<Rightarrow> secs \<Rightarrow> secs \<Rightarrow> dict \<Rightarrow> ros_world \<Rightarrow> ros_world \<times> dict option" where
  "reader_event h generation wall_now mono_now payload w =
     (if m_stopped (fst w) \<or> \<not> is_current h generation (fst w) then (w, None)
      else handle_event wall_now mono_now payload w)"

definition reader_end :: "nat \<Rightarrow> nat \<Rightarrow> secs \<Rightarrow> ros_world \<Rightarrow> ros_world" where
  "reader_end h generation now w =
     (if is_current h generation (fst w) then on_child_exit now h w else w)"

datatype ros_event =
    Poll bool secs "nat option"
  | ReaderLine nat nat secs secs dict
  | ReaderEnd nat nat secs
  | SendCommand bool bool dict
  | StopManager

fun ros_step :: "ros_world \<Rightarrow> ros_event \<Rightarrow> ros_world" where
  "ros_step w (Poll reachable now popen) = run_iteration reachable now popen w"
| "ros_step w (ReaderLine h g wl mn payload) = fst (reader_event h g wl mn payload w)"
| "ros_step w (ReaderEnd h g now) = reader_end h g now w"
| "ros_step (m, s) (SendCommand alive ok c) = (snd (publish_command alive ok c m), s)"
| "ros_step w StopManager = stop_manager w"

fun ros_run :: "ros_world \<Rightarrow> ros_event list \<Rightarrow> ros_world" where
  "ros_run w [] = w"
| "ros_run w (e # es) = ros_run (ros_step w e) es"

section \<open>Facts\<close>

lemmas ros_defs =
  run_iteration_def terminate_child_def on_child_exit_def clear_telemetry_def reset_ready_def
  refresh_status_def status_set_def bump_backoff_def spawn_def reader_event_def reader_end_def
  handle_event_def handle_ready_def handle_provider_def publish_command_def remember_cmd_def
  stop_manager_def Let_def

lemma length_trim_oldest: "length (trim_oldest n xs) = min n (length xs)"
proof (induction n xs rule: trim_oldest.induct)
  case (1 n xs)
  then show ?case by (auto simp: trim_oldest.simps [of n xs])
qed

lemma trim_oldest_id: "length xs \<le> n \<Longrightarrow> trim_oldest n xs = xs"
  by (simp add: trim_oldest.simps)

text \<open>
  What the supervisor keeps between its fields: the backoff stays within its two bounds, no
  child means no stdin and no readiness, and the correlation table is bounded.
\<close>

definition ros_inv :: "ros_mgr \<Rightarrow> bool" where
  "ros_inv m \<longleftrightarrow>
     SPAWN_BACKOFF_MIN_S \<le> m_backoff m \<and> m_backoff m \<le> SPAWN_BACKOFF_MAX_S \<and>
     (m_proc m = None \<longrightarrow> \<not> m_stdin m \<and> \<not> adapter_ready m) \<and>
     length (m_cmd_by_id m) \<le> 256"

lemma ros_inv_init: "ros_inv RosChildManager_init"
  by (simp add: ros_inv_def RosChildManager_init_def SPAWN_BACKOFF_MIN_S_def
      SPAWN_BACKOFF_MAX_S_def adapter_ready_def compute_adapter_ready_def)

lemma backoff_const: "SPAWN_BACKOFF_MIN_S \<le> SPAWN_BACKOFF_MAX_S" "0 < SPAWN_BACKOFF_MIN_S"
  by (simp_all add: SPAWN_BACKOFF_MIN_S_def SPAWN_BACKOFF_MAX_S_def)

lemma bump_in_bounds:
  "SPAWN_BACKOFF_MIN_S \<le> b \<Longrightarrow>
   SPAWN_BACKOFF_MIN_S \<le> min (b * 2) SPAWN_BACKOFF_MAX_S \<and>
   min (b * 2) SPAWN_BACKOFF_MAX_S \<le> SPAWN_BACKOFF_MAX_S"
  by (simp add: SPAWN_BACKOFF_MIN_S_def SPAWN_BACKOFF_MAX_S_def)

lemma ros_inv_publish: "ros_inv m \<Longrightarrow> ros_inv (snd (publish_command a b c m))"
  by (auto simp: ros_inv_def publish_command_def remember_cmd_def adapter_ready_def
      compute_adapter_ready_def Let_def length_trim_oldest)

lemma ros_inv_terminate: "ros_inv m \<Longrightarrow> ros_inv (fst (terminate_child (m, s)))"
  by (auto simp: ros_inv_def ros_defs adapter_ready_def compute_adapter_ready_def)

lemma ros_inv_bump: "ros_inv m \<Longrightarrow> ros_inv (bump_backoff now m)"
  using bump_in_bounds [of "m_backoff m"]
  by (auto simp: ros_inv_def bump_backoff_def Let_def adapter_ready_def compute_adapter_ready_def)

lemma ros_inv_refresh [simp]: "ros_inv (refresh_status m) = ros_inv m"
  by (simp add: ros_inv_def refresh_status_def status_set_def adapter_ready_def
      compute_adapter_ready_def)

lemma ros_inv_status [simp]: "ros_inv (status_set fs m) = ros_inv m"
  by (simp add: ros_inv_def status_set_def adapter_ready_def compute_adapter_ready_def)

lemma ros_inv_exit: "ros_inv m \<Longrightarrow> ros_inv (fst (on_child_exit now h (m, s)))"
proof -
  assume inv: "ros_inv m"
  define m1 where "m1 = (if m_proc m = Some h then m\<lparr>m_proc := None, m_stdin := False\<rparr> else m)"
  have "ros_inv (reset_ready m1)"
    using inv by (auto simp: m1_def ros_inv_def reset_ready_def adapter_ready_def
        compute_adapter_ready_def)
  then have "ros_inv (fst (clear_telemetry (reset_ready m1, s)))"
    by (simp add: clear_telemetry_def)
       (simp add: ros_inv_def adapter_ready_def compute_adapter_ready_def)
  then show ?thesis
    by (auto simp: on_child_exit_def m1_def Let_def split_beta intro!: ros_inv_bump split: if_splits)
qed

lemma ros_inv_handle_ready: "ros_inv m \<Longrightarrow> m_proc m \<noteq> None \<Longrightarrow> ros_inv (handle_ready p m)"
  using backoff_const
  by (auto simp: ros_inv_def handle_ready_def Let_def adapter_ready_def compute_adapter_ready_def)

lemma ros_inv_handle_event:
  assumes "ros_inv m" and "m_proc m \<noteq> None"
  shows "ros_inv (fst (fst (handle_event wl mn p (m, s))))"
proof -
  have prov: "ros_inv (fst (handle_provider wl mn p (m, s)))"
    using assms
    by (auto simp: handle_provider_def)
       (auto simp: ros_inv_def adapter_ready_def compute_adapter_ready_def)
  show ?thesis
    using assms prov by (simp add: handle_event_def Let_def ros_inv_handle_ready)
qed

lemma ros_inv_master [simp]: "ros_inv (m\<lparr>m_master := r\<rparr>) = ros_inv m"
  by (simp add: ros_inv_def adapter_ready_def compute_adapter_ready_def)

lemma ros_inv_spawn: "ros_inv m \<Longrightarrow> ros_inv (spawn now p m)"
  using ros_inv_bump [of m now]
  by (cases p) (auto simp: spawn_def reset_ready_def ros_inv_def adapter_ready_def
      compute_adapter_ready_def)

lemma ros_inv_run_iteration: "ros_inv m \<Longrightarrow> ros_inv (fst (run_iteration r now p (m, s)))"
  by (cases r) (auto simp: run_iteration_def Let_def ros_inv_terminate ros_inv_bump ros_inv_spawn)

lemma ros_inv_step: "ros_inv (fst w) \<Longrightarrow> ros_inv (fst (ros_step w e))"
proof (cases e)
  case (Poll r now p)
  assume "ros_inv (fst w)"
  with Poll show ?thesis by (cases w) (simp add: ros_inv_run_iteration)
next
  case (ReaderLine h g wl mn p)
  assume "ros_inv (fst w)"
  with ReaderLine show ?thesis
    by (cases w) (auto simp: reader_event_def is_current_def intro!: ros_inv_handle_event)
next
  case (ReaderEnd h g now)
  assume "ros_inv (fst w)"
  with ReaderEnd show ?thesis by (cases w) (simp add: reader_end_def ros_inv_exit)
next
  case (SendCommand a b c)
  assume "ros_inv (fst w)"
  with SendCommand show ?thesis by (cases w) (simp add: ros_inv_publish)
next
  case StopManager
  assume "ros_inv (fst w)"
  then have "ros_inv ((fst w)\<lparr>m_stopped := True\<rparr>)"
    by (simp add: ros_inv_def adapter_ready_def compute_adapter_ready_def)
  with StopManager show ?thesis by (simp add: stop_manager_def ros_inv_terminate)
qed

lemma ros_inv_run: "ros_inv (fst w) \<Longrightarrow> ros_inv (fst (ros_run w es))"
  by (induction es arbitrary: w) (auto simp: ros_inv_step)

lemma ros_lock_step: "b_task_lock (snd (ros_step w e)) = b_task_lock (snd w)"
  by (cases e; cases w)
     (auto simp: ros_defs bstate_frame split: option.splits prod.splits)

lemma ros_lock_run: "b_task_lock (snd (ros_run w es)) = b_task_lock (snd w)"
  by (induction es arbitrary: w) (auto simp: ros_lock_step)

lemma publish_sent:
  "fst (publish_command a b c m) \<Longrightarrow>
   adapter_ready m \<and> m_proc m \<noteq> None \<and> a \<and> b \<and>
   m_sent (snd (publish_command a b c m)) = m_sent m @ [c]"
  by (auto simp: publish_command_def remember_cmd_def Let_def split: if_splits)

lemma publish_not_sent:
  "\<not> fst (publish_command a b c m) \<Longrightarrow> snd (publish_command a b c m) = m"
  by (auto simp: publish_command_def split: if_splits)

end
