(* ===== verification/Command_Processor.thy ===== *)
theory Command_Processor
  imports Ros_Lifecycle
begin

text \<open>
  \<open>downlink/command_receiver.py\<close> (with \<open>command_dedup.py\<close>) and the message filter of
  \<open>mqtt_client.py\<close>: from an MQTT command to the ROS child and back to \<open>command_ack\<close> and
  \<open>task_status\<close>. \<open>pr_out\<close> is the sequence of MQTT publications (topic and payload).

  \<open>on_command\<close> runs on the MQTT thread, \<open>on_feedback\<close> on the child's reader thread, \<open>on_timeout\<close>
  on a timer thread. \<open>on_command\<close> hands the command to ROS \<^emph>\<open>before\<close> it enters it into the
  pending table; the two halves are \<open>admit\<close> and \<open>register_pending\<close>, so that the interleaving
  theory can put other threads between them.
\<close>

section \<open>State\<close>

record pending =
  pd_command :: dict
  pd_timer :: bool
  pd_acked :: bool

record processor =
  pr_state :: bridge_state
  pr_proto :: protocol
  pr_pending :: "json \<rightharpoonup> pending"
  pr_ros :: ros_mgr
  pr_out :: "(string \<times> dict) list"

definition topic :: "string \<Rightarrow> protocol \<Rightarrow> string" where
  "topic name p = ''robot/'' @ p_vehicle_id p @ ''/'' @ name"

definition publish :: "string \<Rightarrow> dict \<Rightarrow> processor \<Rightarrow> processor" where
  "publish name payload pr = pr\<lparr>pr_out := pr_out pr @ [(topic name (pr_proto pr), payload)]\<rparr>"

section \<open>Receipts\<close>

definition ack_message :: "dict \<Rightarrow> dict \<Rightarrow> string \<Rightarrow> json \<Rightarrow> dict" where
  "ack_message msg command status reason_code = jupdate msg
     [(''command_id'', jget command ''command_id''),
      (''task_id'', jget command ''task_id''),
      (''status'', JStr status),
      (''reason_code'', reason_code),
      (''reason'', JNull)]"

text \<open>\<open>remember_ack\<close> raises on an id that cannot be a dictionary key, before anything is published.\<close>

definition ack :: "pyenv \<Rightarrow> dict \<Rightarrow> string \<Rightarrow> json \<Rightarrow> processor \<Rightarrow> processor" where
  "ack env command status reason_code pr =
     (let (msg0, p') = base env ''command_ack'' (pr_proto pr);
          cid = jget command ''command_id'';
          msg = ack_message msg0 command status reason_code;
          pr1 = pr\<lparr>pr_proto := p'\<rparr>
      in if \<not> hashable cid then pr1
         else publish ''command_ack'' msg
                (pr1\<lparr>pr_state := remember_ack (wall env) cid msg (pr_state pr1)\<rparr>))"

definition task_message :: "dict \<Rightarrow> json \<Rightarrow> string \<Rightarrow> json \<Rightarrow> json \<Rightarrow> dict \<Rightarrow> dict" where
  "task_message msg task_id status phase progress feedback = jupdate msg
     [(''task_id'', task_id),
      (''status'', JStr status),
      (''phase'', phase),
      (''progress'', progress),
      (''failure_code'', jget feedback ''reason_code''),
      (''failure_message'', jget feedback ''message'')]"

definition report_task ::
    "pyenv \<Rightarrow> json \<Rightarrow> json \<Rightarrow> string \<Rightarrow> json \<Rightarrow> json \<Rightarrow> dict \<Rightarrow> processor \<Rightarrow> processor" where
  "report_task env cid task_id status phase progress feedback pr =
     (let (msg0, p') = base env ''task_status'' (pr_proto pr);
          msg = task_message msg0 task_id status phase progress feedback;
          pr1 = pr\<lparr>pr_proto := p'\<rparr>
      in publish ''task_status'' msg
           (pr1\<lparr>pr_state := remember_task_status (wall env) cid msg (pr_state pr1)\<rparr>))"

definition release_if_needed :: "json \<Rightarrow> processor \<Rightarrow> processor" where
  "release_if_needed cmd pr =
     (if is_task_cmd cmd then pr\<lparr>pr_state := release_task (pr_state pr)\<rparr> else pr)"

definition finalize :: "pyenv \<Rightarrow> json \<Rightarrow> processor \<Rightarrow> processor" where
  "finalize env cid pr =
     pr\<lparr>pr_pending := (pr_pending pr)(cid := None),
        pr_state := mark_terminal (wall env) cid (pr_state pr)\<rparr>"

section \<open>Feedback and time-out\<close>

definition feedback_terminal :: "json \<Rightarrow> bool" where
  "feedback_terminal st \<longleftrightarrow> st \<in> {JStr ''COMPLETED'', JStr ''FAILED'', JStr ''CANCELLED''}"

definition on_accepted ::
    "pyenv \<Rightarrow> json \<Rightarrow> pending \<Rightarrow> json \<Rightarrow> dict \<Rightarrow> processor \<Rightarrow> processor" where
  "on_accepted env cid p task_id feedback pr =
     (let command = pd_command p;
          pr1 = pr\<lparr>pr_pending := (pr_pending pr)(cid \<mapsto> p\<lparr>pd_timer := False, pd_acked := True\<rparr>)\<rparr>;
          pr2 = ack env command ''accepted'' JNull pr1
      in if is_task_cmd (jget command ''cmd'')
         then report_task env cid task_id ''accepted'' (JStr ''ACCEPTED'') (JInt 0) feedback pr2
         else finalize env cid pr2)"

definition on_feedback :: "pyenv \<Rightarrow> dict \<Rightarrow> processor \<Rightarrow> processor" where
  "on_feedback env feedback pr =
     (let cid = jget feedback ''command_id'' in
      if \<not> hashable cid then pr
      else case pr_pending pr cid of
        None \<Rightarrow> pr
      | Some p \<Rightarrow>
          (let command = pd_command p;
               cmd = jget command ''cmd'';
               st = jget feedback ''state'';
               task_id = py_or (jget feedback ''task_id'') (jget command ''task_id'');
               is_task = is_task_cmd cmd
           in if st = JStr ''ACCEPTED'' then on_accepted env cid p task_id feedback pr
              else if st = JStr ''REJECTED'' then
                finalize env cid
                  (ack env command ''rejected''
                     (py_or (jget feedback ''reason_code'') (JStr ''COMMAND_REJECTED''))
                     (release_if_needed cmd pr))
              else if \<not> is_task then pr
              else if st = JStr ''EXECUTING'' then
                report_task env cid task_id ''executing''
                  (py_or (jget feedback ''phase'') (JStr ''NAVIGATING''))
                  (py_or (jget feedback ''progress'') (JInt 0)) feedback pr
              else if feedback_terminal st then
                finalize env cid
                  (report_task env cid task_id
                     (if st = JStr ''COMPLETED'' then ''completed''
                      else if st = JStr ''FAILED'' then ''failed'' else ''cancelled'')
                     (py_or (jget feedback ''phase'') st)
                     (py_or (jget feedback ''progress'')
                        (JInt (if st = JStr ''COMPLETED'' then 100 else 0)))
                     feedback (release_if_needed cmd pr))
              else pr))"

definition on_timeout :: "pyenv \<Rightarrow> json \<Rightarrow> processor \<Rightarrow> processor" where
  "on_timeout env cid pr =
     (case pr_pending pr cid of
        None \<Rightarrow> pr
      | Some p \<Rightarrow>
          (if pd_acked p then pr
           else finalize env cid
                  (ack env (pd_command p) ''rejected'' (JStr ''BRIDGE_ADAPTER_NOT_CONNECTED'')
                     (release_if_needed (jget (pd_command p) ''cmd'') pr))))"

section \<open>Commands\<close>

text \<open>A duplicate delivery publishes the remembered receipts again.\<close>

definition replay :: "cmd_rec \<Rightarrow> processor \<Rightarrow> processor" where
  "replay r pr =
     (let pr1 = (case cr_ack r of None \<Rightarrow> pr | Some a \<Rightarrow> publish ''command_ack'' a pr)
      in case cr_task_status r of None \<Rightarrow> pr1 | Some t \<Rightarrow> publish ''task_status'' t pr1)"

text \<open>
  The first half of \<open>on_command\<close>, up to the hand-over to the ROS child; the flag says that the
  command went out and still has to be registered. The outcomes of the pipe write are inputs.
\<close>

definition deliver ::
    "pyenv \<Rightarrow> bool \<Rightarrow> bool \<Rightarrow> dict \<Rightarrow> processor \<Rightarrow> processor \<times> bool" where
  "deliver env alive write_ok command pr =
     (let cmd = jget command ''cmd'';
          (delivered, ros') = publish_command alive write_ok command (pr_ros pr);
          pr1 = pr\<lparr>pr_ros := ros'\<rparr>
      in if \<not> delivered
         then (ack env command ''rejected'' (JStr ''BRIDGE_ADAPTER_NOT_CONNECTED'')
                 (release_if_needed cmd pr1), False)
         else (pr1, True))"

definition admit ::
    "pyenv \<Rightarrow> bridge_config \<Rightarrow> bool \<Rightarrow> bool \<Rightarrow> dict \<Rightarrow> processor \<Rightarrow> processor \<times> bool" where
  "admit env cfg alive write_ok command pr =
     (case validate_received_command env cfg (JObj command) (p_boot_id (pr_proto pr)) of
        Inl exn \<Rightarrow> (pr, False)
      | Inr (ok, reason) \<Rightarrow>
          (if \<not> ok then (ack env command ''rejected'' (jopt reason) pr, False)
           else let cid = jget command ''command_id'';
                    (existing, s1) = get_command_record (wall env) cid (pr_state pr);
                    pr1 = pr\<lparr>pr_state := s1\<rparr>
             in if \<not> hashable cid then (pr1, False)
             else case existing of
               Some r \<Rightarrow> (replay r pr1, False)
             | None \<Rightarrow>
                 (let pr2 = pr1\<lparr>pr_state := register_command (wall env) cid command s1\<rparr>
                  in if is_task_cmd (jget command ''cmd'') then
                       (let (got, s3) = acquire_task (jget command ''task_id'') (pr_state pr2)
                        in if got then deliver env alive write_ok command (pr2\<lparr>pr_state := s3\<rparr>)
                           else (ack env command ''rejected'' (JStr ''ACTIVE_TASK_CONFLICT'')
                                   (pr2\<lparr>pr_state := s3\<rparr>), False))
                     else deliver env alive write_ok command pr2)))"

definition stub_feedback :: "bridge_config \<Rightarrow> dict \<Rightarrow> dict" where
  "stub_feedback cfg command =
     (if c_stub_feedback_simulation cfg = ''accepted''
      then [(''command_id'', jget command ''command_id''), (''task_id'', jget command ''task_id''),
            (''state'', JStr ''ACCEPTED'')]
      else [(''command_id'', jget command ''command_id''), (''task_id'', jget command ''task_id''),
            (''state'', JStr ''REJECTED''),
            (''reason_code'', JStr ''BRIDGE_ADAPTER_NOT_CONNECTED'')])"

definition register_pending :: "pyenv \<Rightarrow> bridge_config \<Rightarrow> dict \<Rightarrow> processor \<Rightarrow> processor" where
  "register_pending env cfg command pr =
     (let pr1 = pr\<lparr>pr_pending := (pr_pending pr)(jget command ''command_id'' \<mapsto>
                    \<lparr>pd_command = command, pd_timer = True, pd_acked = False\<rparr>)\<rparr>
      in if c_stub_mode cfg \<and> c_stub_simulate_feedback cfg
         then on_feedback env (stub_feedback cfg command) pr1 else pr1)"

definition on_command ::
    "pyenv \<Rightarrow> bridge_config \<Rightarrow> bool \<Rightarrow> bool \<Rightarrow> dict \<Rightarrow> processor \<Rightarrow> processor" where
  "on_command env cfg alive write_ok command pr =
     (case admit env cfg alive write_ok command pr of
        (pr1, registering) \<Rightarrow> if registering then register_pending env cfg command pr1 else pr1)"

text \<open>\<open>MqttClient._on_message\<close>: \<open>None\<close> is a payload that is not UTF-8 JSON.\<close>

definition accepts_message :: "string \<Rightarrow> json option \<Rightarrow> bool" where
  "accepts_message vid payload =
     (case payload of
        Some (JObj d) \<Rightarrow> jget d ''type'' = JStr ''command'' \<and> jget d ''vehicle_id'' = JStr vid
      | _ \<Rightarrow> False)"

definition on_message ::
    "pyenv \<Rightarrow> bridge_config \<Rightarrow> bool \<Rightarrow> bool \<Rightarrow> json option \<Rightarrow> processor \<Rightarrow> processor" where
  "on_message env cfg alive write_ok payload pr =
     (if accepts_message (p_vehicle_id (pr_proto pr)) payload
      then on_command env cfg alive write_ok (as_dict (the payload)) pr else pr)"

end
