(* ===== verification/Bridge_Interleaving.thy ===== *)
theory Bridge_Interleaving
  imports Command_Processor
begin

text \<open>
  The bridge process as a set of threads over one shared state: the MQTT thread receives a
  command and later registers it, the reader thread of the ROS child delivers events, timers
  fire, the supervisor polls and reaps, the telemetry loops expire stale values. One step is one
  handler (one half of \<open>on_command\<close>); any interleaving of steps is allowed. The theory proves the
  invariants that hold in every reachable state: mutual exclusion of task commands, and the
  origin of every acknowledgement.
\<close>

section \<open>What each operation leaves alone\<close>

named_theorems proc_frame \<open>projections of the processor operations\<close>

lemma publish_frame [proc_frame]:
  "pr_state (publish n m pr) = pr_state pr" "pr_proto (publish n m pr) = pr_proto pr"
  "pr_pending (publish n m pr) = pr_pending pr" "pr_ros (publish n m pr) = pr_ros pr"
  by (simp_all add: publish_def)

lemma ack_frame [proc_frame]:
  "pr_pending (ack env c st rc pr) = pr_pending pr" "pr_ros (ack env c st rc pr) = pr_ros pr"
  "b_task_lock (pr_state (ack env c st rc pr)) = b_task_lock (pr_state pr)"
  by (simp_all add: ack_def Let_def split_beta proc_frame bstate_frame)

lemma report_frame [proc_frame]:
  "pr_pending (report_task env cid t st ph pg fb pr) = pr_pending pr"
  "pr_ros (report_task env cid t st ph pg fb pr) = pr_ros pr"
  "b_task_lock (pr_state (report_task env cid t st ph pg fb pr)) = b_task_lock (pr_state pr)"
  by (simp_all add: report_task_def Let_def split_beta proc_frame bstate_frame)

lemma release_frame [proc_frame]:
  "pr_pending (release_if_needed c pr) = pr_pending pr"
  "pr_out (release_if_needed c pr) = pr_out pr"
  "pr_proto (release_if_needed c pr) = pr_proto pr"
  "pr_ros (release_if_needed c pr) = pr_ros pr"
  "b_processed (pr_state (release_if_needed c pr)) = b_processed (pr_state pr)"
  "b_task_lock (pr_state (release_if_needed c pr)) =
     (if is_task_cmd c then JNull else b_task_lock (pr_state pr))"
  by (simp_all add: release_if_needed_def bstate_frame tl.release_holder)

lemma finalize_frame [proc_frame]:
  "pr_pending (finalize env cid pr) = (pr_pending pr)(cid := None)"
  "pr_out (finalize env cid pr) = pr_out pr" "pr_ros (finalize env cid pr) = pr_ros pr"
  "b_task_lock (pr_state (finalize env cid pr)) = b_task_lock (pr_state pr)"
  by (simp_all add: finalize_def bstate_frame)

lemma replay_frame [proc_frame]:
  "pr_pending (replay r pr) = pr_pending pr" "pr_state (replay r pr) = pr_state pr"
  "pr_proto (replay r pr) = pr_proto pr" "pr_ros (replay r pr) = pr_ros pr"
  by (auto simp: replay_def Let_def proc_frame split: option.splits)

section \<open>Threads and steps\<close>

record bridge_sys =
  sy_proc :: processor
  sy_inflight :: "dict option"

definition bridge_init :: "string \<Rightarrow> string \<Rightarrow> bridge_sys" where
  "bridge_init vid boot =
     \<lparr>sy_proc = \<lparr>pr_state = BridgeState_init, pr_proto = Protocol_init vid boot,
                 pr_pending = Map.empty, pr_ros = RosChildManager_init, pr_out = []\<rparr>,
      sy_inflight = None\<rparr>"

text \<open>A line of the child: the supervisor handles it and calls the processor for feedback.\<close>

definition payload_feedback :: "dict \<Rightarrow> dict" where
  "payload_feedback payload = as_dict (py_or (jget payload ''feedback'') (JObj []))"

definition child_line :: "pyenv \<Rightarrow> nat \<Rightarrow> nat \<Rightarrow> dict \<Rightarrow> processor \<Rightarrow> processor" where
  "child_line env h g payload pr =
     (case reader_event h g (wall env) (mono env) payload (pr_ros pr, pr_state pr) of
        ((m, s), fb) \<Rightarrow>
          (let pr1 = pr\<lparr>pr_ros := m, pr_state := s\<rparr> in
           case fb of None \<Rightarrow> pr1 | Some f \<Rightarrow> on_feedback env f pr1))"

definition supervise :: "ros_event \<Rightarrow> processor \<Rightarrow> processor" where
  "supervise e pr =
     (case ros_step (pr_ros pr, pr_state pr) e of
        (m, s) \<Rightarrow> pr\<lparr>pr_ros := m, pr_state := s\<rparr>)"

definition expire_telemetry :: "real \<Rightarrow> real \<Rightarrow> real \<Rightarrow> secs \<Rightarrow> processor \<Rightarrow> processor" where
  "expire_telemetry bt st lt now pr =
     pr\<lparr>pr_state := snd (expire_stale_location lt now
                          (snd (expire_stale_telemetry bt st now (pr_state pr))))\<rparr>"

datatype bridge_event =
    Recv pyenv bool bool "json option"
  | Register pyenv
  | ChildLine pyenv nat nat dict
  | Timeout pyenv json
  | Supervise ros_event
  | Expire real real real secs

inductive bridge_step ::
    "bridge_config \<Rightarrow> bridge_sys \<Rightarrow> bridge_event \<Rightarrow> bridge_sys \<Rightarrow> bool" for cfg where
  recv: "sy_inflight s = None \<Longrightarrow>
      accepts_message (p_vehicle_id (pr_proto (sy_proc s))) payload \<Longrightarrow>
      admit env cfg alive write_ok (as_dict (the payload)) (sy_proc s) = (pr', registering) \<Longrightarrow>
      bridge_step cfg s (Recv env alive write_ok payload)
        \<lparr>sy_proc = pr', sy_inflight = (if registering then Some (as_dict (the payload)) else None)\<rparr>"
| register: "sy_inflight s = Some c \<Longrightarrow>
      bridge_step cfg s (Register env)
        \<lparr>sy_proc = register_pending env cfg c (sy_proc s), sy_inflight = None\<rparr>"
| child: "bridge_step cfg s (ChildLine env h g payload)
        (s\<lparr>sy_proc := child_line env h g payload (sy_proc s)\<rparr>)"
| timeout: "bridge_step cfg s (Timeout env cid)
        (s\<lparr>sy_proc := on_timeout env cid (sy_proc s)\<rparr>)"
| supervisor: "(case e of Poll _ _ _ \<Rightarrow> True | ReaderEnd _ _ _ \<Rightarrow> True | StopManager \<Rightarrow> True | _ \<Rightarrow> False) \<Longrightarrow>
      bridge_step cfg s (Supervise e) (s\<lparr>sy_proc := supervise e (sy_proc s)\<rparr>)"
| expiry: "bridge_step cfg s (Expire bt st lt now)
        (s\<lparr>sy_proc := expire_telemetry bt st lt now (sy_proc s)\<rparr>)"

inductive_cases recvE: "bridge_step cfg s (Recv env alive ok payload) t"
inductive_cases registerE: "bridge_step cfg s (Register env) t"

inductive bridge_reach ::
    "bridge_config \<Rightarrow> bridge_sys \<Rightarrow> bridge_event list \<Rightarrow> bridge_sys \<Rightarrow> bool" for cfg s0 where
  start: "bridge_reach cfg s0 [] s0"
| step: "bridge_reach cfg s0 hist s \<Longrightarrow> bridge_step cfg s e t \<Longrightarrow> bridge_reach cfg s0 (e # hist) t"

section \<open>Mutual exclusion of task commands\<close>

definition live_task :: "processor \<Rightarrow> json \<Rightarrow> bool" where
  "live_task pr cid \<longleftrightarrow>
     (case pr_pending pr cid of None \<Rightarrow> False | Some p \<Rightarrow> is_task_cmd (jget (pd_command p) ''cmd''))"

text \<open>\<open>excl pr infl\<close>: \<open>infl\<close> says that a task command is between delivery and registration.\<close>

definition excl :: "processor \<Rightarrow> bool \<Rightarrow> bool" where
  "excl pr infl \<longleftrightarrow>
     (\<forall>i j. live_task pr i \<longrightarrow> live_task pr j \<longrightarrow> i = j) \<and>
     (\<forall>i. live_task pr i \<longrightarrow> b_task_lock (pr_state pr) \<noteq> JNull) \<and>
     (infl \<longrightarrow> b_task_lock (pr_state pr) \<noteq> JNull \<and> (\<forall>i. \<not> live_task pr i))"

definition inflight_task :: "bridge_sys \<Rightarrow> bool" where
  "inflight_task s =
     (case sy_inflight s of None \<Rightarrow> False | Some c \<Rightarrow> is_task_cmd (jget c ''cmd''))"

lemma live_task_cong:
  "pr_pending pr = pr_pending pr' \<Longrightarrow> live_task pr = live_task pr'"
  by (simp add: live_task_def fun_eq_iff)

lemma excl_cong:
  assumes "pr_pending pr = pr_pending pr'"
    and "b_task_lock (pr_state pr) = b_task_lock (pr_state pr')"
  shows "excl pr infl = excl pr' infl"
  using assms live_task_cong [OF assms(1)] by (simp add: excl_def)

lemma live_task_fresh_pending:
  "live_task (pr\<lparr>pr_pending := (pr_pending pr)(cid \<mapsto> p)\<rparr>) i \<longleftrightarrow>
     (if i = cid then is_task_cmd (jget (pd_command p) ''cmd'') else live_task pr i)"
  by (simp add: live_task_def)

lemma live_task_finalize:
  "live_task (finalize env cid pr) i \<longleftrightarrow> i \<noteq> cid \<and> live_task pr i"
  by (simp add: live_task_def proc_frame)

text \<open>
  The common shape of the terminal branches: the command \<open>cid\<close> of pending entry \<open>p\<close> releases the
  lock if it is a task command, a receipt is published, the entry is dropped.
\<close>

lemma excl_finish:
  assumes ex: "excl pr infl" and p: "pr_pending pr cid = Some p"
    and pend: "pr_pending pr' = pr_pending pr"
    and lock: "b_task_lock (pr_state pr') =
      (if is_task_cmd (jget (pd_command p) ''cmd'') then JNull else b_task_lock (pr_state pr))"
  shows "excl (finalize env cid pr') infl"
proof -
  have live: "live_task pr' = live_task pr" using pend by (rule live_task_cong)
  show ?thesis
  proof (cases "is_task_cmd (jget (pd_command p) ''cmd'')")
    case True
    then have "live_task pr cid" using p by (simp add: live_task_def)
    with ex have "\<forall>i. live_task pr i \<longrightarrow> i = cid" and "\<not> infl" by (auto simp: excl_def)
    then show ?thesis by (auto simp: excl_def live_task_finalize live)
  next
    case False
    then show ?thesis using ex lock
      by (auto simp: excl_def live_task_finalize live proc_frame)
  qed
qed

lemma excl_on_accepted:
  assumes ex: "excl pr infl" and p: "pr_pending pr cid = Some p"
  shows "excl (on_accepted env cid p t fb pr) infl"
proof -
  let ?pr1 = "pr\<lparr>pr_pending := (pr_pending pr)(cid \<mapsto> p\<lparr>pd_timer := False, pd_acked := True\<rparr>)\<rparr>"
  have "live_task ?pr1 = live_task pr" using p by (auto simp: live_task_def fun_eq_iff)
  then have ex1: "excl ?pr1 infl" using ex by (simp add: excl_def)
  let ?pr2 = "ack env (pd_command p) ''accepted'' JNull ?pr1"
  have ex2: "excl ?pr2 infl"
    using ex1 by (subst excl_cong [of _ ?pr1]) (simp_all add: proc_frame)
  show ?thesis
  proof (cases "is_task_cmd (jget (pd_command p) ''cmd'')")
    case True
    then show ?thesis
      using ex2
      by (simp add: on_accepted_def Let_def)
         (subst excl_cong [of _ ?pr2], simp_all add: proc_frame)
  next
    case False
    have "excl (finalize env cid ?pr2) infl"
      by (rule excl_finish [OF ex1, of cid "p\<lparr>pd_timer := False, pd_acked := True\<rparr>"])
         (simp_all add: proc_frame False)
    with False show ?thesis by (simp add: on_accepted_def Let_def)
  qed
qed

lemma excl_on_feedback: "excl pr infl \<Longrightarrow> excl (on_feedback env fb pr) infl"
proof -
  assume ex: "excl pr infl"
  let ?cid = "jget fb ''command_id''"
  show ?thesis
  proof (cases "hashable ?cid \<and> (\<exists>p. pr_pending pr ?cid = Some p)")
    case False
    then show ?thesis using ex by (auto simp: on_feedback_def Let_def split: option.splits)
  next
    case True
    then obtain p where h: "hashable ?cid" and p: "pr_pending pr ?cid = Some p" by auto
    note fin = excl_finish [OF ex p]
    have keep: "excl (report_task env ?cid t st ph pg fb pr) infl" for t st ph pg
      using ex by (subst excl_cong [of _ pr]) (simp_all add: proc_frame)
    show ?thesis
      using h p ex
      by (simp add: on_feedback_def Let_def)
         (auto intro!: excl_on_accepted fin keep simp: proc_frame)
  qed
qed

lemma excl_on_timeout: "excl pr infl \<Longrightarrow> excl (on_timeout env cid pr) infl"
  by (cases "pr_pending pr cid")
     (auto simp: on_timeout_def proc_frame intro!: excl_finish)

lemma excl_register:
  assumes "excl pr (is_task_cmd (jget c ''cmd''))"
  shows "excl (register_pending env cfg c pr) False"
proof -
  let ?pr1 = "pr\<lparr>pr_pending := (pr_pending pr)(jget c ''command_id'' \<mapsto>
      \<lparr>pd_command = c, pd_timer = True, pd_acked = False\<rparr>)\<rparr>"
  have "excl ?pr1 False"
    using assms by (auto simp: excl_def live_task_fresh_pending split: if_splits)
  then show ?thesis by (simp add: register_pending_def Let_def excl_on_feedback)
qed

lemma excl_deliver:
  assumes "excl pr False" and "\<not> is_task_cmd (jget c ''cmd'')" and "deliver env a w c pr = (pr', reg)"
  shows "excl pr' False"
  using assms
  by (auto simp: deliver_def Let_def split_beta release_if_needed_def proc_frame split: if_splits)
     (auto simp: excl_def live_task_def proc_frame)

lemma excl_deliver_task:
  assumes nolive: "\<forall>i. \<not> live_task pr i" and lock: "b_task_lock (pr_state pr) \<noteq> JNull"
    and task: "is_task_cmd (jget c ''cmd'')" and d: "deliver env a w c pr = (pr', reg)"
  shows "excl pr' reg"
proof -
  have "\<forall>i. \<not> live_task pr' i"
    using nolive d
    by (auto simp: deliver_def Let_def split_beta proc_frame live_task_def split: if_splits)
  moreover have "reg \<Longrightarrow> b_task_lock (pr_state pr') \<noteq> JNull"
    using d lock by (auto simp: deliver_def Let_def split_beta split: if_splits)
  ultimately show ?thesis by (simp add: excl_def)
qed

lemma excl_cleanup:
  "excl (pr\<lparr>pr_state := cleanup_locked now (pr_state pr)\<rparr>) infl = excl pr infl"
  by (rule excl_cong) (simp_all add: bstate_frame)

lemma excl_admit:
  assumes ex: "excl pr False" and adm: "admit env cfg a w c pr = (pr', reg)"
  shows "excl pr' (reg \<and> is_task_cmd (jget c ''cmd''))"
proof -
  have ackx: "excl q False \<Longrightarrow> excl (ack env c st rc q) False" for q st rc
    by (subst excl_cong [of _ q]) (simp_all add: proc_frame)
  let ?s1 = "cleanup_locked (wall env) (pr_state pr)"
  let ?pr1 = "pr\<lparr>pr_state := ?s1\<rparr>"
  let ?pr2 = "pr\<lparr>pr_state := register_command (wall env) (jget c ''command_id'') c ?s1\<rparr>"
  have ex1: "excl ?pr1 False" using ex by (simp add: excl_cleanup)
  have ex2: "excl ?pr2 False"
    using ex by (subst excl_cong [of _ pr]) (simp_all add: bstate_frame)
  have rep: "excl (replay r ?pr1) False" for r
    using ex1 by (subst excl_cong [of _ ?pr1]) (simp_all add: proc_frame)
  have nonew: "excl (?pr2\<lparr>pr_state := snd (acquire_task t (pr_state ?pr2))\<rparr>) False"
    if "\<not> fst (acquire_task t (pr_state ?pr2))" for t
    using ex2 that by (subst excl_cong [of _ ?pr2]) (auto simp: acquire_task_def)
  show ?thesis
  proof (cases "reg")
    case False
    show ?thesis
    proof (cases "is_task_cmd (jget c ''cmd'')")
      case task: True
      have "excl q False" if "fst (acquire_task (jget c ''task_id'') (pr_state ?pr2))"
          "deliver env a w c (?pr2\<lparr>pr_state := snd (acquire_task (jget c ''task_id'') (pr_state ?pr2))\<rparr>) = (q, r)"
        for q r
      proof -
        have free: "b_task_lock (pr_state ?pr2) = JNull" using that(1) by (simp add: tl.acquire_ok)
        then have "\<forall>i. \<not> live_task ?pr2 i" using ex2 by (auto simp: excl_def)
        then have "\<forall>i. \<not> live_task (?pr2\<lparr>pr_state := snd (acquire_task (jget c ''task_id'') (pr_state ?pr2))\<rparr>) i"
          by (simp add: live_task_def)
        from excl_deliver_task [OF this _ task that(2)] tl.acquired_held [OF that(1)]
        show ?thesis by (auto simp: excl_def)
      qed
      then show ?thesis
        using adm ex ex1 ex2 rep nonew False task
        by (auto simp: admit_def get_command_record_def Let_def split_beta intro!: ackx
            split: sum.splits if_splits option.splits)
    next
      case False
      then show ?thesis
        using adm ex ex1 ex2 rep excl_deliver [OF ex2]
        by (auto simp: admit_def get_command_record_def Let_def split_beta intro!: ackx
            split: sum.splits if_splits option.splits)
    qed
  next
    case True
    show ?thesis
    proof (cases "is_task_cmd (jget c ''cmd'')")
      case task: True
      with adm True have got: "fst (acquire_task (jget c ''task_id'') (pr_state ?pr2))"
        and dl: "deliver env a w c
          (?pr2\<lparr>pr_state := snd (acquire_task (jget c ''task_id'') (pr_state ?pr2))\<rparr>) = (pr', True)"
        by (auto simp: admit_def get_command_record_def Let_def split_beta
            split: sum.splits if_splits option.splits)
      have "b_task_lock (pr_state ?pr2) = JNull" using got by (simp add: tl.acquire_ok)
      then have "\<forall>i. \<not> live_task (?pr2\<lparr>pr_state := snd (acquire_task (jget c ''task_id'') (pr_state ?pr2))\<rparr>) i"
        using ex2 by (auto simp: excl_def live_task_def)
      from excl_deliver_task [OF this _ task dl] tl.acquired_held [OF got] True task
      show ?thesis by auto
    next
      case False
      with adm True have "deliver env a w c ?pr2 = (pr', True)"
        by (auto simp: admit_def get_command_record_def Let_def split_beta
            split: sum.splits if_splits option.splits)
      from excl_deliver [OF ex2 False this] False show ?thesis by simp
    qed
  qed
qed


lemma excl_child_line: "excl pr infl \<Longrightarrow> excl (child_line env h g payload pr) infl"
proof -
  assume ex: "excl pr infl"
  obtain m s fb where r: "reader_event h g (wall env) (mono env) payload (pr_ros pr, pr_state pr)
      = ((m, s), fb)" by (metis prod.collapse)
  have "b_task_lock s = b_task_lock (pr_state pr)"
    using ros_lock_step [of "(pr_ros pr, pr_state pr)" "ReaderLine h g (wall env) (mono env) payload"] r
    by simp
  then have "excl (pr\<lparr>pr_ros := m, pr_state := s\<rparr>) infl"
    using ex by (subst excl_cong [of _ pr]) simp_all
  then show ?thesis using r
    by (auto simp: child_line_def Let_def excl_on_feedback split: option.splits)
qed

lemma excl_supervise: "excl pr infl \<Longrightarrow> excl (supervise e pr) infl"
  using ros_lock_step [of "(pr_ros pr, pr_state pr)" e]
  by (subst excl_cong [of _ pr]) (auto simp: supervise_def split: prod.splits)

lemma excl_expire: "excl pr infl \<Longrightarrow> excl (expire_telemetry bt st lt now pr) infl"
  by (subst excl_cong [of _ pr]) (simp_all add: expire_telemetry_def bstate_frame)

lemma excl_init: "excl (sy_proc (bridge_init vid boot)) False"
  by (simp add: excl_def live_task_def bridge_init_def)

lemma excl_step:
  "bridge_step cfg s e t \<Longrightarrow> excl (sy_proc s) (inflight_task s) \<Longrightarrow>
   excl (sy_proc t) (inflight_task t)"
proof (induction rule: bridge_step.induct)
  case (recv s payload env alive write_ok pr' registering)
  then have "excl (sy_proc s) False" by (simp add: inflight_task_def)
  from excl_admit [OF this recv.hyps(3)] show ?case
    by (cases registering) (simp_all add: inflight_task_def)
next
  case (register s c env)
  then show ?case by (simp add: inflight_task_def excl_register)
next
  case (child s env h g payload)
  then show ?case by (simp add: inflight_task_def excl_child_line)
next
  case (timeout s env cid)
  then show ?case by (simp add: inflight_task_def excl_on_timeout)
next
  case (supervisor e s)
  then show ?case by (simp add: inflight_task_def excl_supervise)
next
  case (expiry s bt st lt now)
  then show ?case by (simp add: inflight_task_def excl_expire)
qed

lemma excl_reach:
  "bridge_reach cfg (bridge_init vid boot) hist s \<Longrightarrow> excl (sy_proc s) (inflight_task s)"
proof (induction rule: bridge_reach.induct)
  case start
  then show ?case
    using excl_init by (simp add: inflight_task_def bridge_init_def)
next
  case (step hist s e t)
  then show ?case by (blast intro: excl_step)
qed

section \<open>Origin of receipts\<close>

text \<open>
  \<open>all_msgs P pr\<close>: every published message and every receipt kept for replay satisfies \<open>P\<close>.
\<close>

definition rec_msgs :: "(dict \<Rightarrow> bool) \<Rightarrow> (json \<rightharpoonup> cmd_rec) \<Rightarrow> bool" where
  "rec_msgs P recs \<longleftrightarrow> (\<forall>cid r. recs cid = Some r \<longrightarrow>
     (\<forall>a. cr_ack r = Some a \<longrightarrow> P a) \<and> (\<forall>t. cr_task_status r = Some t \<longrightarrow> P t))"

definition all_msgs :: "(dict \<Rightarrow> bool) \<Rightarrow> processor \<Rightarrow> bool" where
  "all_msgs P pr \<longleftrightarrow> (\<forall>m \<in> snd ` set (pr_out pr). P m) \<and> rec_msgs P (b_processed (pr_state pr))"

lemma rec_msgs_update:
  "rec_msgs P (b_processed s) \<Longrightarrow>
   (\<And>r. b_processed s cid = Some r \<Longrightarrow>
        (\<forall>a. cr_ack (f r) = Some a \<longrightarrow> P a) \<and> (\<forall>t. cr_task_status (f r) = Some t \<longrightarrow> P t)) \<Longrightarrow>
   rec_msgs P (b_processed (update_record cid f s))"
  by (auto simp: rec_msgs_def update_record_def split: option.splits)

lemma rec_msgs_cleanup:
  "rec_msgs P (b_processed s) \<Longrightarrow> rec_msgs P (b_processed (cleanup_locked now s))"
  by (auto simp: rec_msgs_def cleanup_locked_def split: option.splits if_splits)

lemma rec_msgs_register:
  "rec_msgs P (b_processed s) \<Longrightarrow> rec_msgs P (b_processed (register_command now k c s))"
  using rec_msgs_cleanup [of P s now]
  by (auto simp: rec_msgs_def register_command_def Let_def)

lemma all_msgs_ack:
  assumes "all_msgs P pr"
    and "P (ack_message (fst (base env ''command_ack'' (pr_proto pr))) c st rc)"
  shows "all_msgs P (ack env c st rc pr)"
proof -
  have "rec_msgs P (b_processed (remember_ack now cid m (pr_state pr)))" if "P m" for now cid m
    using assms(1) that unfolding all_msgs_def remember_ack_def
    by (intro rec_msgs_update) (auto simp: rec_msgs_def)
  then show ?thesis using assms
    by (auto simp: ack_def Let_def split_beta all_msgs_def publish_def)
qed

lemma all_msgs_report:
  assumes "all_msgs P pr"
    and "P (task_message (fst (base env ''task_status'' (pr_proto pr))) t st ph pg fb)"
  shows "all_msgs P (report_task env cid t st ph pg fb pr)"
proof -
  have "rec_msgs P (b_processed (remember_task_status now cid m (pr_state pr)))" if "P m" for now m
    using assms(1) that unfolding all_msgs_def remember_task_status_def
    by (intro rec_msgs_update) (auto simp: rec_msgs_def)
  then show ?thesis using assms
    by (auto simp: report_task_def Let_def split_beta all_msgs_def publish_def)
qed

lemma all_msgs_finalize: "all_msgs P pr \<Longrightarrow> all_msgs P (finalize env cid pr)"
proof -
  assume all: "all_msgs P pr"
  then have "rec_msgs P (b_processed (mark_terminal (wall env) cid (pr_state pr)))"
    unfolding all_msgs_def mark_terminal_def
    by (intro rec_msgs_update) (auto simp: rec_msgs_def)
  with all show ?thesis by (simp add: all_msgs_def finalize_def)
qed

lemma all_msgs_release: "all_msgs P (release_if_needed c pr) = all_msgs P pr"
  by (simp add: all_msgs_def proc_frame)

lemma all_msgs_pending [simp]: "all_msgs P (pr\<lparr>pr_pending := x\<rparr>) = all_msgs P pr"
  and all_msgs_ros [simp]: "all_msgs P (pr\<lparr>pr_ros := y\<rparr>) = all_msgs P pr"
  by (simp_all add: all_msgs_def)

lemma all_msgs_replay:
  "all_msgs P pr \<Longrightarrow> (\<forall>a. cr_ack r = Some a \<longrightarrow> P a) \<Longrightarrow> (\<forall>t. cr_task_status r = Some t \<longrightarrow> P t) \<Longrightarrow>
   all_msgs P (replay r pr)"
  by (auto simp: replay_def Let_def all_msgs_def publish_def split: option.splits)

lemmas all_msgs_intros =
  all_msgs_ack all_msgs_report all_msgs_finalize all_msgs_replay

text \<open>
  What \<open>P\<close> must accept so that \<open>admit\<close>, the time-out and the feedback handler keep it: the
  receipts they build.
\<close>

lemma all_msgs_on_feedback:
  assumes all: "all_msgs P pr"
    and acc: "\<And>p q. pr_pending pr (jget fb ''command_id'') = Some p \<Longrightarrow>
        jget fb ''state'' = JStr ''ACCEPTED'' \<Longrightarrow>
        P (ack_message (fst (base env ''command_ack'' q)) (pd_command p) ''accepted'' JNull)"
    and rej: "\<And>c q. P (ack_message (fst (base env ''command_ack'' q)) c ''rejected''
        (py_or (jget fb ''reason_code'') (JStr ''COMMAND_REJECTED'')))"
    and rep: "\<And>q t st ph pg. P (task_message (fst (base env ''task_status'' q)) t st ph pg fb)"
  shows "all_msgs P (on_feedback env fb pr)"
proof -
  have accd: "all_msgs P (on_accepted env (jget fb ''command_id'') p t fb pr)"
    if "pr_pending pr (jget fb ''command_id'') = Some p" "jget fb ''state'' = JStr ''ACCEPTED''" for p t
    using that all
    by (auto simp: on_accepted_def Let_def intro!: all_msgs_intros acc rep)
  show ?thesis
    using all
    by (auto simp: on_feedback_def Let_def all_msgs_release
        intro!: accd all_msgs_intros rej rep split: option.splits)
qed

lemma all_msgs_on_timeout:
  assumes "all_msgs P pr"
    and "\<And>c q. P (ack_message (fst (base env ''command_ack'' q)) c ''rejected''
        (JStr ''BRIDGE_ADAPTER_NOT_CONNECTED''))"
  shows "all_msgs P (on_timeout env cid pr)"
  using assms
  by (auto simp: on_timeout_def all_msgs_release intro!: all_msgs_intros split: option.splits)

lemma reason_codes [simp]:
  "JNull \<in> set ACK_REASON_CODES"
  "JStr ''PROTOCOL_VERSION_UNSUPPORTED'' \<in> set ACK_REASON_CODES"
  "JStr ''INVALID_PROTOCOL_MESSAGE'' \<in> set ACK_REASON_CODES"
  "JStr ''COMMAND_UNSUPPORTED'' \<in> set ACK_REASON_CODES"
  "JStr ''COMMAND_EXPIRED'' \<in> set ACK_REASON_CODES"
  "JStr ''COMMAND_REJECTED'' \<in> set ACK_REASON_CODES"
  "JStr ''ROBOT_BOOT_SESSION_UNKNOWN'' \<in> set ACK_REASON_CODES"
  "JStr ''BRIDGE_ADAPTER_NOT_CONNECTED'' \<in> set ACK_REASON_CODES"
  "JStr ''ACTIVE_TASK_CONFLICT'' \<in> set ACK_REASON_CODES"
  by (simp_all add: ACK_REASON_CODES_def)

lemma expiry_reasons: "jopt (expiry_check env v) \<in> set ACK_REASON_CODES"
  by (cases v) (auto split: iso_result.splits if_splits)

lemma command_reasons:
  "validate_command env c boot = Inr (ok, reason) \<Longrightarrow> jopt reason \<in> set ACK_REASON_CODES"
  using expiry_reasons [of env "jget (as_dict c) ''expires_at''"]
  by (cases c; cases "expiry_check env (jget (as_dict c) ''expires_at'')")
     (auto simp: expiry_reasons split: if_splits)

lemma validation_reasons:
  "validate_received_command env cfg c boot = Inr (ok, reason) \<Longrightarrow> jopt reason \<in> set ACK_REASON_CODES"
  by (auto simp: validate_received_command_def Let_def dest: command_reasons
      split: if_splits sum.splits prod.splits)

lemma all_msgs_admit:
  assumes all: "all_msgs P pr" and adm: "admit env cfg a w c pr = (pr', reg)"
    and rej: "\<And>c q rc. rc \<in> set ACK_REASON_CODES \<Longrightarrow>
        P (ack_message (fst (base env ''command_ack'' q)) c ''rejected'' rc)"
  shows "all_msgs P pr'"
proof -
  have st: "all_msgs P (pr\<lparr>pr_state := s'\<rparr>)" if "rec_msgs P (b_processed s')" for s'
    using all that by (simp add: all_msgs_def)
  have recs: "rec_msgs P (b_processed (pr_state pr))" using all by (simp add: all_msgs_def)
  let ?s1 = "cleanup_locked (wall env) (pr_state pr)"
  let ?s2 = "register_command (wall env) (jget c ''command_id'') c ?s1"
  have r1: "rec_msgs P (b_processed ?s1)" using recs by (rule rec_msgs_cleanup)
  have r2: "rec_msgs P (b_processed ?s2)" using r1 by (rule rec_msgs_register)
  have r3: "rec_msgs P (b_processed (snd (acquire_task t ?s2)))" for t
    using r2 by (simp add: bstate_frame)
  have del: "all_msgs P q'" if "all_msgs P q" "deliver env a w c q = (q', r)" for q q' r
    using that
    by (auto simp: deliver_def Let_def split_beta all_msgs_release intro!: all_msgs_ack rej split: if_splits)
  have rep: "all_msgs P (replay r (pr\<lparr>pr_state := ?s1\<rparr>))"
    if "b_processed ?s1 (jget c ''command_id'') = Some r" for r
    using that r1 st [OF r1] by (intro all_msgs_replay) (auto simp: rec_msgs_def)
  show ?thesis
    using adm st [OF r1] st [OF r2] st [OF r3] all
    by (auto simp: admit_def get_command_record_def Let_def split_beta
        intro!: all_msgs_ack rej rep dest: validation_reasons
        dest!: del [OF st [OF r2]] del [OF st [OF r3]] split: sum.splits if_splits option.splits)
qed

end
