(* ===== verification/Bridge_Safety.thy ===== *)
theory Bridge_Safety
  imports Bridge_Interleaving
begin

text \<open>
  The properties of the vehicle bridge: mutual exclusion of task commands, the origin of
  acknowledgements and their reason codes, idempotent redelivery and its limits, the window
  between hand-over and registration, time-out, and the supervisor's backoff and generation
  isolation.
\<close>

section \<open>Receipts as predicates on messages\<close>

definition is_accept :: "dict \<Rightarrow> bool" where
  "is_accept m \<longleftrightarrow> jget m ''type'' = JStr ''command_ack'' \<and> jget m ''status'' = JStr ''accepted''"

definition reason_ok :: "dict \<Rightarrow> bool" where
  "reason_ok m \<longleftrightarrow> (jget m ''type'' = JStr ''command_ack'' \<longrightarrow> jget m ''reason_code'' \<in> set ACK_REASON_CODES)"

lemma ack_message_fields [simp]:
  "jget (ack_message msg c st rc) ''type'' = jget msg ''type''"
  "jget (ack_message msg c st rc) ''status'' = JStr st"
  "jget (ack_message msg c st rc) ''command_id'' = jget c ''command_id''"
  "jget (ack_message msg c st rc) ''reason_code'' = rc"
  by (simp_all add: ack_message_def)

lemma task_message_fields [simp]:
  "jget (task_message msg t st ph pg fb) ''type'' = jget msg ''type''"
  "jget (task_message msg t st ph pg fb) ''status'' = JStr st"
  "jget (task_message msg t st ph pg fb) ''task_id'' = t"
  by (simp_all add: task_message_def)

lemma is_accept_ack [simp]:
  "is_accept (ack_message (fst (base env ''command_ack'' q)) c st rc) \<longleftrightarrow> st = ''accepted''"
  by (simp add: is_accept_def)

lemma is_accept_task [simp]:
  "\<not> is_accept (task_message (fst (base env ''task_status'' q)) t st ph pg fb)"
  by (simp add: is_accept_def)

section \<open>History of ROS feedback\<close>

definition feedback_event :: "bridge_event \<Rightarrow> dict option" where
  "feedback_event e =
     (case e of
        ChildLine env h g payload \<Rightarrow>
          (if jget payload ''type'' = JStr ''feedback'' then Some (payload_feedback payload) else None)
      | _ \<Rightarrow> None)"

definition ros_accepted :: "bridge_event list \<Rightarrow> json \<Rightarrow> bool" where
  "ros_accepted hist cid \<longleftrightarrow>
     (\<exists>e \<in> set hist. \<exists>f. feedback_event e = Some f \<and> jget f ''state'' = JStr ''ACCEPTED'' \<and>
        jget f ''command_id'' = cid)"

definition feedback_codes_ok :: "bridge_event list \<Rightarrow> bool" where
  "feedback_codes_ok hist \<longleftrightarrow>
     (\<forall>e \<in> set hist. \<forall>f. feedback_event e = Some f \<longrightarrow>
        jget f ''reason_code'' \<in> set ACK_REASON_CODES \<or> \<not> truthy (jget f ''reason_code''))"

lemma reader_event_feedback:
  "reader_event h g wl mn payload w = (w', Some f) \<Longrightarrow>
   jget payload ''type'' = JStr ''feedback'' \<and> f = payload_feedback payload"
  by (auto simp: reader_event_def handle_event_def Let_def payload_feedback_def
      split: if_splits prod.splits)

lemma reader_event_processed:
  "b_processed (snd (fst (reader_event h g wl mn payload w))) = b_processed (snd w)"
  by (cases w)
     (auto simp: reader_event_def handle_event_def handle_provider_def Let_def bstate_frame)

lemma supervise_processed:
  "b_processed (pr_state (supervise e pr)) = b_processed (pr_state pr)"
proof (cases e)
  case (ReaderLine h g wl mn p)
  then show ?thesis
    using reader_event_processed [of h g wl mn p "(pr_ros pr, pr_state pr)"]
    by (auto simp: supervise_def split: prod.splits)
qed (auto simp: supervise_def ros_defs bstate_frame split: option.splits prod.splits)

lemma supervise_frame [proc_frame]:
  "pr_pending (supervise e pr) = pr_pending pr" "pr_out (supervise e pr) = pr_out pr"
  by (simp_all add: supervise_def split: prod.splits)

lemma expire_frame [proc_frame]:
  "pr_pending (expire_telemetry bt st lt now pr) = pr_pending pr"
  "pr_out (expire_telemetry bt st lt now pr) = pr_out pr"
  "b_processed (pr_state (expire_telemetry bt st lt now pr)) = b_processed (pr_state pr)"
  by (auto simp: expire_telemetry_def expire_stale_location_def expire_stale_telemetry_def Let_def)

text \<open>The entries of the pending table are filed under their own command id.\<close>

definition keyed :: "processor \<Rightarrow> bool" where
  "keyed pr \<longleftrightarrow> (\<forall>cid p. pr_pending pr cid = Some p \<longrightarrow> jget (pd_command p) ''command_id'' = cid)"

lemma keyed_on_feedback: "keyed pr \<Longrightarrow> keyed (on_feedback env fb pr)"
  by (auto simp: keyed_def on_feedback_def on_accepted_def Let_def proc_frame split: option.splits)

lemma keyed_on_timeout: "keyed pr \<Longrightarrow> keyed (on_timeout env cid pr)"
  by (auto simp: keyed_def on_timeout_def proc_frame split: option.splits)

lemma admit_pending: "admit env cfg a w c pr = (pr', reg) \<Longrightarrow> pr_pending pr' = pr_pending pr"
  by (auto simp: admit_def deliver_def get_command_record_def Let_def split_beta proc_frame
      split: sum.splits if_splits option.splits)

section \<open>One invariant for all message properties\<close>

text \<open>
  A message property \<open>P hist\<close> that may depend on the history, grows with it, holds of every
  rejection with a whitelisted code, and holds of what the feedback handler builds, holds of
  every receipt of every reachable state.
\<close>

lemma all_msgs_weaken:
  assumes "all_msgs P pr" and "\<And>m. P m \<Longrightarrow> Q m"
  shows "all_msgs Q pr"
  using assms(1) by (auto simp: all_msgs_def rec_msgs_def intro: assms(2))

lemma reach_all_msgs:
  assumes reach: "bridge_reach cfg (bridge_init vid boot) hist s"
    and nostub: "\<not> (c_stub_mode cfg \<and> c_stub_simulate_feedback cfg)"
    and mono: "\<And>hist e m. P hist m \<Longrightarrow> P (e # hist) m"
    and rej: "\<And>hist env q c rc. rc \<in> set ACK_REASON_CODES \<Longrightarrow>
        P hist (ack_message (fst (base env ''command_ack'' q)) c ''rejected'' rc)"
    and acc: "\<And>hist e f env q c. feedback_event e = Some f \<Longrightarrow>
        jget f ''state'' = JStr ''ACCEPTED'' \<Longrightarrow> jget c ''command_id'' = jget f ''command_id'' \<Longrightarrow>
        P (e # hist) (ack_message (fst (base env ''command_ack'' q)) c ''accepted'' JNull)"
    and frej: "\<And>hist e f env q c. feedback_event e = Some f \<Longrightarrow>
        P (e # hist) (ack_message (fst (base env ''command_ack'' q)) c ''rejected''
          (py_or (jget f ''reason_code'') (JStr ''COMMAND_REJECTED'')))"
    and rep: "\<And>hist env q t st ph pg fb.
        P hist (task_message (fst (base env ''task_status'' q)) t st ph pg fb)"
  shows "all_msgs (P hist) (sy_proc s) \<and> keyed (sy_proc s)"
  using reach
proof (induction rule: bridge_reach.induct)
  case start
  show ?case
    by (simp add: all_msgs_def rec_msgs_def keyed_def bridge_init_def BridgeState_init_def)
next
  case (step hist s e t)
  have grow: "all_msgs (P (e # hist)) pr" if "all_msgs (P hist) pr" for pr
    using that by (rule all_msgs_weaken) (rule mono)
  have old: "all_msgs (P (e # hist)) (sy_proc s)" and key: "keyed (sy_proc s)"
    using step.IH grow by auto
  from step.hyps(2) show ?case
  proof cases
    case (recv payload env alive ok pr' registering)
    from all_msgs_admit [OF old recv(5) rej] admit_pending [OF recv(5)] key
    show ?thesis by (simp add: recv(2) keyed_def)
  next
    case (register c env)
    have "register_pending env cfg c (sy_proc s) =
        (sy_proc s)\<lparr>pr_pending := (pr_pending (sy_proc s))(jget c ''command_id'' \<mapsto>
           \<lparr>pd_command = c, pd_timer = True, pd_acked = False\<rparr>)\<rparr>"
      using nostub by (auto simp: register_pending_def Let_def)
    with old key show ?thesis by (simp add: register(2) keyed_def)
  next
    case (child env h g payload)
    obtain m b fb where r:
      "reader_event h g (wall env) (mono env) payload (pr_ros (sy_proc s), pr_state (sy_proc s)) = ((m, b), fb)"
      by (metis prod.collapse)
    let ?pr1 = "(sy_proc s)\<lparr>pr_ros := m, pr_state := b\<rparr>"
    have "b_processed b = b_processed (pr_state (sy_proc s))"
      using reader_event_processed [of h g "wall env" "mono env" payload] r by (metis fst_conv snd_conv)
    with old key have old1: "all_msgs (P (e # hist)) ?pr1" and key1: "keyed ?pr1"
      by (simp_all add: all_msgs_def keyed_def)
    show ?thesis
    proof (cases fb)
      case None
      with old1 key1 r show ?thesis by (simp add: child(2) child_line_def)
    next
      case (Some f)
      with reader_event_feedback [of h g "wall env" "mono env" payload] r
      have fe: "feedback_event e = Some f"
        by (simp add: child(1) feedback_event_def)
      have "all_msgs (P (e # hist)) (on_feedback env f ?pr1)"
        using key1 by (intro all_msgs_on_feedback old1 acc [OF fe] frej [OF fe] rep) (auto simp: keyed_def)
      with keyed_on_feedback [OF key1] Some r show ?thesis
        by (simp add: child(2) child_line_def)
    qed
  next
    case (timeout env cid)
    have "all_msgs (P (e # hist)) (on_timeout env cid (sy_proc s))"
      by (intro all_msgs_on_timeout old rej) simp
    with keyed_on_timeout [OF key] show ?thesis by (simp add: timeout(2))
  next
    case (supervisor e)
    with old key show ?thesis
      by (simp add: supervisor(2) all_msgs_def keyed_def proc_frame supervise_processed)
  next
    case (expiry bt st lt now)
    with old key show ?thesis
      by (simp add: expiry(2) all_msgs_def keyed_def proc_frame)
  qed
qed


section \<open>Demonstration environment\<close>

text \<open>
  The environment, configuration and messages the witnesses run: one valid patrol command whose
  expiry lies at 100 microseconds, and the lines of a child that is ready and reports feedback.
\<close>

definition demo_env :: "secs \<Rightarrow> micros \<Rightarrow> pyenv" where
  "demo_env t n = \<lparr>wall = t, mono = t, utc_now = n,
     iso_parse = (\<lambda>s. if s = ''E'' then Iso_Aware 100 else Iso_Error),
     iso_format = (\<lambda>_. ''T''), uuid = (\<lambda>_. ''U''), str_repr = (\<lambda>_. []),
     stamp = (\<lambda>_. []), float_of = (\<lambda>_. None), int_parse = (\<lambda>_. None)\<rparr>"

definition demo_cfg :: bridge_config where
  "demo_cfg = \<lparr>c_stub_mode = False, c_stub_simulate_feedback = False,
     c_stub_feedback_simulation = ''rejected'', c_supported_commands = [''patrol'', ''stop_motion'']\<rparr>"

definition demo_command :: "string \<Rightarrow> string \<Rightarrow> dict" where
  "demo_command cid cmd =
     [(''schema_version'', JStr ''1.3''), (''message_id'', JStr ''M''), (''type'', JStr ''command''),
      (''vehicle_id'', JStr ''R1''), (''target_boot_id'', JStr ''B''), (''command_id'', JStr cid),
      (''correlation_id'', JStr ''K''), (''issued_at'', JStr ''I''), (''expires_at'', JStr ''E''),
      (''ttl_ms'', JInt 30000), (''priority'', JInt 50), (''source'', JStr ''WEB''),
      (''operator_id'', JStr ''O''), (''cmd'', JStr cmd), (''params'', JObj []),
      (''task_id'', JStr ''T1'')]"

definition demo_ready :: dict where
  "demo_ready = [(''type'', JStr ''ready''), (''ok'', JBool True),
     (''command_publisher'', JBool True), (''feedback'', JBool True)]"

definition demo_feedback :: "string \<Rightarrow> string \<Rightarrow> dict" where
  "demo_feedback cid st = [(''type'', JStr ''feedback''),
     (''feedback'', JObj [(''command_id'', JStr cid), (''state'', JStr st)])]"

lemma demo_env_simps [simp]:
  "wall (demo_env t n) = t" "mono (demo_env t n) = t" "utc_now (demo_env t n) = n"
  "iso_parse (demo_env t n) s = (if s = ''E'' then Iso_Aware 100 else Iso_Error)"
  "iso_format (demo_env t n) k = ''T''" "uuid (demo_env t n) i = ''U''"
  by (simp_all add: demo_env_def)

lemma demo_cfg_simps [simp]:
  "\<not> c_stub_mode demo_cfg" "c_supported_commands demo_cfg = [''patrol'', ''stop_motion'']"
  by (simp_all add: demo_cfg_def)

text \<open>A bridge whose child is up and ready, after a given list of events handled in sequence.\<close>

definition demo_ready_proc :: processor where
  "demo_ready_proc =
     child_line (demo_env 1 1) 7 1 demo_ready
       (supervise (Poll True 1 (Some 7)) (sy_proc (bridge_init ''R1'' ''B'')))"

definition demo_pending :: processor where
  "demo_pending = on_command (demo_env 2 2) demo_cfg True True (demo_command ''C1'' ''patrol'') demo_ready_proc"

lemma demo_validate:
  "n < 100 \<Longrightarrow> cmd \<in> {''patrol'', ''stop_motion''} \<Longrightarrow>
   validate_received_command (demo_env t n) demo_cfg (JObj (demo_command cid cmd)) ''B'' = Inr (True, None)"
  by (auto simp: validate_received_command_def demo_command_def SUPPORTED_SCHEMA_VERSIONS_def
      COMMAND_REQUIRED_FIELDS_def known_cmd_def COMMAND_ENUM_def replace_Z_def Let_def)


definition demo_sys :: bridge_sys where
  "demo_sys = \<lparr>sy_proc = demo_pending, sy_inflight = None\<rparr>"

definition demo_hist :: "bridge_event list" where
  "demo_hist =
     [Register (demo_env 2 2),
      Recv (demo_env 2 2) True True (Some (JObj (demo_command ''C1'' ''patrol''))),
      ChildLine (demo_env 1 1) 7 1 demo_ready,
      Supervise (Poll True 1 (Some 7))]"

lemma demo_admitted:
  "snd (admit (demo_env 2 2) demo_cfg True True (demo_command ''C1'' ''patrol'') demo_ready_proc)"
  by code_simp

lemma demo_accepts:
  "accepts_message (p_vehicle_id (pr_proto demo_ready_proc)) (Some (JObj (demo_command ''C1'' ''patrol'')))"
  by code_simp

lemma demo_reach: "bridge_reach demo_cfg (bridge_init ''R1'' ''B'') demo_hist demo_sys"
proof -
  let ?s0 = "bridge_init ''R1'' ''B''"
  let ?c = "demo_command ''C1'' ''patrol''"
  let ?s1 = "?s0\<lparr>sy_proc := supervise (Poll True 1 (Some 7)) (sy_proc ?s0)\<rparr>"
  let ?a = "admit (demo_env 2 2) demo_cfg True True ?c demo_ready_proc"
  let ?s2 = "\<lparr>sy_proc = demo_ready_proc, sy_inflight = None\<rparr>"
  let ?s3 = "\<lparr>sy_proc = fst ?a, sy_inflight = Some ?c\<rparr>"
  have st1: "bridge_step demo_cfg ?s0 (Supervise (Poll True 1 (Some 7))) ?s1"
    by (rule bridge_step.supervisor) simp
  have s2: "?s2 = ?s1\<lparr>sy_proc := child_line (demo_env 1 1) 7 1 demo_ready (sy_proc ?s1)\<rparr>"
    by (simp add: demo_ready_proc_def bridge_init_def)
  have st2: "bridge_step demo_cfg ?s1 (ChildLine (demo_env 1 1) 7 1 demo_ready) ?s2"
    unfolding s2 by (rule bridge_step.child)
  have a: "?a = (fst ?a, True)" using demo_admitted by (metis prod.collapse)
  have "bridge_step demo_cfg ?s2 (Recv (demo_env 2 2) True True (Some (JObj ?c)))
      \<lparr>sy_proc = fst ?a, sy_inflight = (if True then Some (as_dict (the (Some (JObj ?c)))) else None)\<rparr>"
    by (rule bridge_step.recv) (simp_all add: demo_accepts a [symmetric])
  then have st3: "bridge_step demo_cfg ?s2 (Recv (demo_env 2 2) True True (Some (JObj ?c))) ?s3"
    by simp
  have fin: "register_pending (demo_env 2 2) demo_cfg ?c (fst ?a) = demo_pending"
    using demo_admitted by (simp add: demo_pending_def on_command_def split_beta)
  have st4: "bridge_step demo_cfg ?s3 (Register (demo_env 2 2)) demo_sys"
    using bridge_step.register [of ?s3 ?c demo_cfg "demo_env 2 2"]
    by (simp add: demo_sys_def fin)
  show ?thesis
    unfolding demo_hist_def
    by (intro bridge_reach.step [OF _ st4] bridge_reach.step [OF _ st3]
        bridge_reach.step [OF _ st2] bridge_reach.step [OF _ st1] bridge_reach.start)
qed

section \<open>Properties\<close>


lemma demo_live: "live_task (sy_proc demo_sys) (JStr ''C1'')"
  by code_simp


text \<open>
  Property C2. The bridge never invents an acceptance: outside stub mode, every
  \<open>command_ack\<close> with status accepted that was published (or is kept for replay) belongs to a
  command id for which the ROS side reported ACCEPTED earlier in the run.
\<close>

theorem accepted_only_after_ros:
  assumes "bridge_reach cfg (bridge_init vid boot) hist s"
    and "\<not> (c_stub_mode cfg \<and> c_stub_simulate_feedback cfg)"
    and "(t, m) \<in> set (pr_out (sy_proc s))" and "is_accept m"
  shows "ros_accepted hist (jget m ''command_id'')"
proof -
  have "all_msgs (\<lambda>m. is_accept m \<longrightarrow> ros_accepted hist (jget m ''command_id'')) (sy_proc s)
      \<and> keyed (sy_proc s)"
    by (rule reach_all_msgs [OF assms(1,2)]) (auto simp: ros_accepted_def)
  then show ?thesis using assms(3,4) by (force simp: all_msgs_def)
qed

definition demo_accepted_sys :: bridge_sys where
  "demo_accepted_sys = demo_sys\<lparr>sy_proc :=
     child_line (demo_env 3 3) 7 1 (demo_feedback ''C1'' ''ACCEPTED'') (sy_proc demo_sys)\<rparr>"

lemma demo_accepted_reach:
  "bridge_reach demo_cfg (bridge_init ''R1'' ''B'')
     (ChildLine (demo_env 3 3) 7 1 (demo_feedback ''C1'' ''ACCEPTED'') # demo_hist) demo_accepted_sys"
  unfolding demo_accepted_sys_def by (rule bridge_reach.step [OF demo_reach bridge_step.child])

lemma demo_accepted_ack:
  "case pr_out (sy_proc demo_accepted_sys) of
     (t, m) # _ \<Rightarrow> is_accept m \<and> jget m ''command_id'' = JStr ''C1'' | [] \<Rightarrow> False"
  by code_simp

theorem accepted_only_after_ros_witness:
  "ros_accepted (ChildLine (demo_env 3 3) 7 1 (demo_feedback ''C1'' ''ACCEPTED'') # demo_hist) (JStr ''C1'')"
proof -
  obtain t m where m: "(t, m) \<in> set (pr_out (sy_proc demo_accepted_sys))" "is_accept m"
      "jget m ''command_id'' = JStr ''C1''"
    using demo_accepted_ack by (auto split: list.splits prod.splits)
  from accepted_only_after_ros [OF demo_accepted_reach _ m(1,2)] m(3) show ?thesis by simp
qed

text \<open>
  Reason codes: outside stub mode, if every feedback from ROS carries either no
  reason code or one of the schema's codes, then so does every acknowledgement the bridge
  publishes. The bridge's own rejections never leave the whitelist.
\<close>

lemma ack_reason_whitelisted:
  assumes "bridge_reach cfg (bridge_init vid boot) hist s"
    and "\<not> (c_stub_mode cfg \<and> c_stub_simulate_feedback cfg)"
    and "feedback_codes_ok hist"
    and "(t, m) \<in> set (pr_out (sy_proc s))"
  shows "reason_ok m"
proof -
  have "all_msgs (\<lambda>m. feedback_codes_ok hist \<longrightarrow> reason_ok m) (sy_proc s) \<and> keyed (sy_proc s)"
    by (rule reach_all_msgs [OF assms(1,2)])
       (auto simp: reason_ok_def feedback_codes_ok_def py_or_def)
  then show ?thesis using assms(3,4) by (force simp: all_msgs_def)
qed

lemma ack_reason_whitelisted_witness:
  "reason_ok (snd (last (pr_out (sy_proc demo_accepted_sys)))) \<and> pr_out (sy_proc demo_accepted_sys) \<noteq> []"
proof -
  have codes: "feedback_codes_ok (ChildLine (demo_env 3 3) 7 1 (demo_feedback ''C1'' ''ACCEPTED'') # demo_hist)"
    by (simp add: feedback_codes_ok_def feedback_event_def demo_hist_def demo_feedback_def
        payload_feedback_def demo_ready_def)
  have ne: "pr_out (sy_proc demo_accepted_sys) \<noteq> []" by code_simp
  then have mem: "(fst (last (pr_out (sy_proc demo_accepted_sys))),
      snd (last (pr_out (sy_proc demo_accepted_sys)))) \<in> set (pr_out (sy_proc demo_accepted_sys))"
    by simp
  show ?thesis using ne ack_reason_whitelisted [OF demo_accepted_reach _ codes mem] by simp
qed

text \<open>
  Idempotent redelivery: a command that is still valid and whose id has a live
  record is not handed to ROS again, takes no lock and enters nothing into the pending table;
  the bridge publishes the remembered receipts and nothing else.
\<close>

lemma redelivery_replays:
  assumes "validate_received_command env cfg (JObj c) (p_boot_id (pr_proto pr)) = Inr (True, None)"
    and "hashable (jget c ''command_id'')"
    and "live_record (wall env) (pr_state pr) (jget c ''command_id'') = Some r"
  shows "let pr' = on_command env cfg alive write_ok c pr in
     pr_out pr' = pr_out pr
       @ (case cr_ack r of None \<Rightarrow> [] | Some a \<Rightarrow> [(topic ''command_ack'' (pr_proto pr), a)])
       @ (case cr_task_status r of None \<Rightarrow> [] | Some t \<Rightarrow> [(topic ''task_status'' (pr_proto pr), t)])
     \<and> pr_ros pr' = pr_ros pr \<and> pr_pending pr' = pr_pending pr \<and> pr_proto pr' = pr_proto pr
     \<and> b_task_lock (pr_state pr') = b_task_lock (pr_state pr)"
  using assms
  by (auto simp: on_command_def admit_def live_record_def get_command_record_def Let_def
      replay_def publish_def bstate_frame split: option.splits)

lemma demo_pending_record:
  "live_record 3 (pr_state demo_pending) (JStr ''C1'') \<noteq> None \<and> p_boot_id (pr_proto demo_pending) = ''B''"
  by code_simp

lemma redelivery_replays_witness:
  "m_sent (pr_ros (on_command (demo_env 3 3) demo_cfg True True (demo_command ''C1'' ''patrol'') demo_pending))
     = m_sent (pr_ros demo_pending)"
proof -
  have id: "jget (demo_command ''C1'' ''patrol'') ''command_id'' = JStr ''C1''"
    by (simp add: demo_command_def)
  obtain r where "live_record (wall (demo_env 3 3)) (pr_state demo_pending) (JStr ''C1'') = Some r"
    using demo_pending_record by auto
  with redelivery_replays [of "demo_env 3 3" demo_cfg "demo_command ''C1'' ''patrol''" demo_pending r True True]
    demo_validate [of 3 "''patrol''" 3 "''C1''"] demo_pending_record
  show ?thesis by (simp add: id Let_def)
qed


text \<open>
  The limit of idempotency: the expiry check runs before the idempotency cache is
  consulted, so a redelivery of a command that was already answered, arriving after its expiry,
  is answered with a rejection COMMAND_EXPIRED, and this rejection replaces the remembered
  receipt, whatever it was.
\<close>

lemma expired_redelivery_overwrites:
  assumes "validate_command env (JObj c) (p_boot_id (pr_proto pr)) = Inr (False, Some ''COMMAND_EXPIRED'')"
    and "hashable (jget c ''command_id'')"
    and "b_processed (pr_state pr) (jget c ''command_id'') = Some r"
  shows "let pr' = on_command env cfg alive write_ok c pr in
     \<exists>m. pr_out pr' = pr_out pr @ [(topic ''command_ack'' (pr_proto pr), m)]
       \<and> jget m ''status'' = JStr ''rejected'' \<and> jget m ''reason_code'' = JStr ''COMMAND_EXPIRED''
       \<and> map_option cr_ack (b_processed (pr_state pr') (jget c ''command_id'')) = Some (Some m)"
  using assms
  by (simp add: on_command_def admit_def validate_received_command_def ack_def publish_def
      Let_def split_beta remember_ack_def update_record_def topic_def)

definition demo_accepted :: processor where
  "demo_accepted = sy_proc demo_accepted_sys"

lemma demo_accepted_record:
  "case b_processed (pr_state demo_accepted) (JStr ''C1'') of
     None \<Rightarrow> False
   | Some r \<Rightarrow> (case cr_ack r of None \<Rightarrow> False | Some a \<Rightarrow> is_accept a)"
  by code_simp

lemma demo_expired:
  "validate_command (demo_env 4 100) (JObj (demo_command ''C1'' ''patrol'')) (p_boot_id (pr_proto demo_accepted))
     = Inr (False, Some ''COMMAND_EXPIRED'')"
  by code_simp

lemma expired_redelivery_overwrites_witness:
  "\<exists>a m. map_option cr_ack (b_processed (pr_state demo_accepted) (JStr ''C1'')) = Some (Some a)
     \<and> is_accept a
     \<and> map_option cr_ack (b_processed (pr_state (on_command (demo_env 4 100) demo_cfg True True
          (demo_command ''C1'' ''patrol'') demo_accepted)) (JStr ''C1'')) = Some (Some m)
     \<and> jget m ''reason_code'' = JStr ''COMMAND_EXPIRED''"
proof -
  have id: "jget (demo_command ''C1'' ''patrol'') ''command_id'' = JStr ''C1''"
    by (simp add: demo_command_def)
  obtain r a where r: "b_processed (pr_state demo_accepted) (JStr ''C1'') = Some r"
    and a: "cr_ack r = Some a" "is_accept a"
    using demo_accepted_record by (auto split: option.splits)
  have "hashable (jget (demo_command ''C1'' ''patrol'') ''command_id'')" by (simp add: id)
  from expired_redelivery_overwrites [OF demo_expired this, of r demo_cfg True True] r a
  show ?thesis by (auto simp: id Let_def)
qed

text \<open>
  A feedback that overtakes registration is lost: \<open>on_command\<close> hands the command to
  the ROS child before it enters it into the pending table. If the ACCEPTED feedback of that
  command is handled in between, it changes nothing, and the command is later timed out: the
  bridge publishes a rejection BRIDGE_ADAPTER_NOT_CONNECTED and frees the task lock, although
  the command was written to the child and accepted by it.
\<close>

lemma early_feedback_lost:
  assumes "admit env cfg alive write_ok c pr = (pr1, True)"
    and "pr_pending pr (jget c ''command_id'') = None" and "hashable (jget c ''command_id'')"
    and "is_task_cmd (jget c ''cmd'')"
    and "\<not> (c_stub_mode cfg \<and> c_stub_simulate_feedback cfg)"
    and "jget fb ''command_id'' = jget c ''command_id''"
  shows "let pr2 = on_feedback env1 fb pr1;
             pr3 = on_timeout env3 (jget c ''command_id'') (register_pending env2 cfg c pr2)
         in pr2 = pr1 \<and> m_sent (pr_ros pr3) = m_sent (pr_ros pr) @ [c]
            \<and> b_task_lock (pr_state pr3) = JNull
            \<and> (\<exists>m. pr_out pr3 = pr_out pr1 @ [(topic ''command_ack'' (pr_proto pr1), m)]
                  \<and> jget m ''status'' = JStr ''rejected''
                  \<and> jget m ''reason_code'' = JStr ''BRIDGE_ADAPTER_NOT_CONNECTED'')"
proof -
  have pend: "pr_pending pr1 (jget c ''command_id'') = None"
    using assms(2) admit_pending [OF assms(1)] by simp
  have sent: "m_sent (pr_ros pr1) = m_sent (pr_ros pr) @ [c]"
    using assms(1)
    by (auto simp: admit_def deliver_def get_command_record_def Let_def split_beta publish_sent
        split: sum.splits if_splits option.splits)
  have noop: "on_feedback env1 fb pr1 = pr1"
    using pend assms(6) by (simp add: on_feedback_def Let_def)
  let ?pr2 = "pr1\<lparr>pr_pending := (pr_pending pr1)(jget c ''command_id'' \<mapsto>
      \<lparr>pd_command = c, pd_timer = True, pd_acked = False\<rparr>)\<rparr>"
  have reg: "register_pending env2 cfg c pr1 = ?pr2"
    using assms(5) by (auto simp: register_pending_def Let_def)
  let ?pr3 = "on_timeout env3 (jget c ''command_id'') ?pr2"
  have "m_sent (pr_ros ?pr3) = m_sent (pr_ros pr) @ [c] \<and> b_task_lock (pr_state ?pr3) = JNull"
    using sent assms(4) by (simp add: on_timeout_def proc_frame)
  moreover have "\<exists>m. pr_out ?pr3 = pr_out pr1 @ [(topic ''command_ack'' (pr_proto pr1), m)]
      \<and> jget m ''status'' = JStr ''rejected''
      \<and> jget m ''reason_code'' = JStr ''BRIDGE_ADAPTER_NOT_CONNECTED''"
    using assms(3)
    by (simp add: on_timeout_def ack_def publish_def finalize_def Let_def split_beta topic_def
        release_if_needed_def)
  ultimately show ?thesis by (simp add: noop reg Let_def)
qed

lemma early_feedback_lost_witness:
  "let pr1 = fst (admit (demo_env 2 2) demo_cfg True True (demo_command ''C1'' ''patrol'') demo_ready_proc);
       pr3 = on_timeout (demo_env 9 9) (JStr ''C1'')
               (register_pending (demo_env 2 2) demo_cfg (demo_command ''C1'' ''patrol'')
                  (on_feedback (demo_env 2 2) [(''command_id'', JStr ''C1''), (''state'', JStr ''ACCEPTED'')] pr1))
   in b_task_lock (pr_state pr3) = JNull \<and> m_sent (pr_ros pr3) = [demo_command ''C1'' ''patrol'']"
proof -
  let ?c = "demo_command ''C1'' ''patrol''"
  let ?a = "admit (demo_env 2 2) demo_cfg True True ?c demo_ready_proc"
  let ?fb = "[(''command_id'', JStr ''C1''), (''state'', JStr ''ACCEPTED'')]"
  have id: "jget ?c ''command_id'' = JStr ''C1''" and cmd: "jget ?c ''cmd'' = JStr ''patrol''"
    by (simp_all add: demo_command_def)
  have a: "?a = (fst ?a, True)" using demo_admitted by (metis prod.collapse)
  have none: "pr_pending demo_ready_proc (JStr ''C1'') = None" by code_simp
  have sent: "m_sent (pr_ros demo_ready_proc) = []" by code_simp
  have h: "hashable (jget ?c ''command_id'')" "is_task_cmd (jget ?c ''cmd'')"
    "\<not> (c_stub_mode demo_cfg \<and> c_stub_simulate_feedback demo_cfg)"
    "jget ?fb ''command_id'' = jget ?c ''command_id''"
    by (simp_all add: id cmd)
  have "pr_pending demo_ready_proc (jget ?c ''command_id'') = None" using none by (simp add: id)
  from early_feedback_lost [OF a this h, of "demo_env 2 2" "demo_env 9 9" "demo_env 2 2"]
  show ?thesis unfolding Let_def id sent append_Nil by blast
qed

text \<open>
  Non-task commands (stop, emergency stop, reset, cancel, manual) never produce a
  \<open>task_status\<close>: whatever feedback arrives for one, every message it causes is a
  \<open>command_ack\<close>, at most one is published, and the task lock is untouched.
\<close>

lemma nontask_feedback_only_acks:
  assumes "pr_pending pr (jget fb ''command_id'') = Some p"
    and "\<not> is_task_cmd (jget (pd_command p) ''cmd'')"
  shows "\<exists>ms. pr_out (on_feedback env fb pr) = pr_out pr @ ms \<and> length ms \<le> 1
      \<and> (\<forall>m \<in> set ms. jget (snd m) ''type'' = JStr ''command_ack'')
      \<and> b_task_lock (pr_state (on_feedback env fb pr)) = b_task_lock (pr_state pr)"
proof -
  have ackout: "\<exists>ms. pr_out (ack env c st rc q) = pr_out q @ ms \<and> length ms \<le> 1
      \<and> (\<forall>m \<in> set ms. jget (snd m) ''type'' = JStr ''command_ack'')" for c st rc q
    by (auto simp: ack_def publish_def Let_def split_beta)
  show ?thesis
    using assms ackout [of "pd_command p" "''accepted''" JNull
          "pr\<lparr>pr_pending := (pr_pending pr)(jget fb ''command_id'' \<mapsto> p\<lparr>pd_timer := False, pd_acked := True\<rparr>)\<rparr>"]
      ackout [of "pd_command p" "''rejected''" _ pr]
    by (auto simp: on_feedback_def on_accepted_def Let_def proc_frame release_if_needed_def)
qed

definition demo_stop_pending :: processor where
  "demo_stop_pending =
     on_command (demo_env 2 2) demo_cfg True True (demo_command ''S1'' ''stop_motion'') demo_ready_proc"

lemma demo_stop_pending_entry:
  "case pr_pending demo_stop_pending (JStr ''S1'') of None \<Rightarrow> False
   | Some p \<Rightarrow> jget (pd_command p) ''cmd'' = JStr ''stop_motion''"
  by code_simp

lemma nontask_feedback_only_acks_witness:
  "\<exists>ms. pr_out (on_feedback (demo_env 3 3) [(''command_id'', JStr ''S1''), (''state'', JStr ''EXECUTING'')]
          demo_stop_pending) = pr_out demo_stop_pending @ ms \<and> length ms \<le> 1"
proof -
  obtain p where p: "pr_pending demo_stop_pending (JStr ''S1'') = Some p"
      "jget (pd_command p) ''cmd'' = JStr ''stop_motion''"
    using demo_stop_pending_entry by (auto split: option.splits)
  with nontask_feedback_only_acks [of demo_stop_pending
      "[(''command_id'', JStr ''S1''), (''state'', JStr ''EXECUTING'')]" p "demo_env 3 3"]
  show ?thesis by auto
qed


text \<open>
  Property C3. The feedback time-out always settles a command: a pending command that was not
  acknowledged is dropped from the pending table, rejected once with
  BRIDGE_ADAPTER_NOT_CONNECTED, and a task command gives the task lock back, so that the next
  task can be accepted.
\<close>

theorem timeout_settles:
  assumes "pr_pending pr cid = Some p" and "\<not> pd_acked p"
    and "hashable (jget (pd_command p) ''command_id'')"
  shows "let pr' = on_timeout env cid pr in
     pr_pending pr' cid = None
     \<and> (\<exists>m. pr_out pr' = pr_out pr @ [(topic ''command_ack'' (pr_proto pr), m)]
           \<and> jget m ''status'' = JStr ''rejected''
           \<and> jget m ''reason_code'' = JStr ''BRIDGE_ADAPTER_NOT_CONNECTED'')
     \<and> (is_task_cmd (jget (pd_command p) ''cmd'') \<longrightarrow>
          (\<forall>t. truthy t \<longrightarrow> fst (acquire_task t (pr_state pr'))))"
  using assms
  by (simp add: on_timeout_def Let_def proc_frame tl.acquire_ok)
     (simp add: ack_def publish_def Let_def split_beta proc_frame topic_def release_if_needed_def)

theorem timeout_settles_witness:
  "pr_pending (on_timeout (demo_env 9 9) (JStr ''C1'') demo_pending) (JStr ''C1'') = None"
proof -
  have "case pr_pending demo_pending (JStr ''C1'') of None \<Rightarrow> False
      | Some p \<Rightarrow> \<not> pd_acked p \<and> hashable (jget (pd_command p) ''command_id'')"
    by code_simp
  then obtain p where "pr_pending demo_pending (JStr ''C1'') = Some p" "\<not> pd_acked p"
      "hashable (jget (pd_command p) ''command_id'')"
    by (auto split: option.splits)
  from timeout_settles [OF this, of "demo_env 9 9"] show ?thesis by (simp add: Let_def)
qed

text \<open>
  Fail-closed without ROS: while the adapter is not ready (no child, child dead, or
  publisher or feedback subscription missing), a valid new command is never written to the child;
  it is rejected with BRIDGE_ADAPTER_NOT_CONNECTED, stays out of the pending table, and leaves
  no task lock behind.
\<close>

lemma not_ready_rejects:
  assumes "validate_received_command env cfg (JObj c) (p_boot_id (pr_proto pr)) = Inr (True, None)"
    and "hashable (jget c ''command_id'')"
    and "live_record (wall env) (pr_state pr) (jget c ''command_id'') = None"
    and "\<not> adapter_ready (pr_ros pr) \<or> m_proc (pr_ros pr) = None \<or> \<not> alive"
    and "b_task_lock (pr_state pr) = JNull"
  shows "let pr' = on_command env cfg alive write_ok c pr in
     m_sent (pr_ros pr') = m_sent (pr_ros pr) \<and> pr_pending pr' = pr_pending pr
     \<and> b_task_lock (pr_state pr') = JNull
     \<and> (\<exists>m. pr_out pr' = pr_out pr @ [(topic ''command_ack'' (pr_proto pr), m)]
           \<and> jget m ''status'' = JStr ''rejected''
           \<and> jget m ''reason_code'' = JStr ''BRIDGE_ADAPTER_NOT_CONNECTED'')"
proof -
  have nopub: "publish_command alive write_ok c (pr_ros pr) = (False, pr_ros pr)"
    using assms(4) by (auto simp: publish_command_def)
  have ackout: "\<exists>m. pr_out (ack env c ''rejected'' rc q) = out @ [(topic ''command_ack'' p, m)]
      \<and> jget m ''status'' = JStr ''rejected'' \<and> jget m ''reason_code'' = rc"
    if "pr_out q = out" "pr_proto q = p" for rc q out p
    using assms(2) that by (auto simp: ack_def publish_def Let_def split_beta topic_def)
  have tid: "is_task_cmd (jget c ''cmd'') \<Longrightarrow> truthy (jget c ''task_id'')"
    using assms(1) by (auto simp: validate_received_command_def Let_def split: sum.splits if_splits prod.splits)
  show ?thesis
  proof (cases "is_task_cmd (jget c ''cmd'')")
    case True
    with tid show ?thesis using assms(1-3,5)
      by (simp add: on_command_def admit_def deliver_def live_record_def get_command_record_def Let_def
          split_beta nopub proc_frame acquire_task_def bstate_frame)
         (rule ackout, simp_all add: proc_frame)
  next
    case False
    with assms(1-3,5) show ?thesis
      by (simp add: on_command_def admit_def deliver_def live_record_def get_command_record_def Let_def
          split_beta nopub proc_frame bstate_frame)
         (rule ackout, simp_all add: proc_frame)
  qed
qed

lemma not_ready_rejects_witness:
  "m_sent (pr_ros (on_command (demo_env 2 2) demo_cfg True True (demo_command ''C1'' ''patrol'')
      (sy_proc (bridge_init ''R1'' ''B'')))) = []"
proof -
  let ?pr = "sy_proc (bridge_init ''R1'' ''B'')"
  have "validate_received_command (demo_env 2 2) demo_cfg (JObj (demo_command ''C1'' ''patrol''))
      (p_boot_id (pr_proto ?pr)) = Inr (True, None)"
    by code_simp
  moreover have "hashable (jget (demo_command ''C1'' ''patrol'') ''command_id'')"
    "live_record (wall (demo_env 2 2)) (pr_state ?pr) (jget (demo_command ''C1'' ''patrol'') ''command_id'') = None"
    "\<not> adapter_ready (pr_ros ?pr) \<or> m_proc (pr_ros ?pr) = None \<or> \<not> True"
    "b_task_lock (pr_state ?pr) = JNull" "m_sent (pr_ros ?pr) = []"
    by code_simp+
  ultimately show ?thesis
    using not_ready_rejects [of "demo_env 2 2" demo_cfg "demo_command ''C1'' ''patrol''" ?pr True True]
    by (simp add: Let_def)
qed

section \<open>The supervisor of the ROS child\<close>

text \<open>
  Whatever the ROS master and the child do, in every run of the supervisor from its
  initial state the respawn backoff stays between 1 and 30 seconds, no child means that neither
  the pipe nor the adapter counts as ready, the id table is bounded by 256, and the task lock of
  the bridge is never touched.
\<close>

lemma supervisor_invariant:
  "ros_inv (fst (ros_run (RosChildManager_init, s) es)) \<and>
   b_task_lock (snd (ros_run (RosChildManager_init, s) es)) = b_task_lock s"
  using ros_inv_run [of "(RosChildManager_init, s)" es] ros_lock_run [of "(RosChildManager_init, s)" es]
    ros_inv_init by simp

lemma fold_bump_backoff:
  "0 < m_backoff m \<Longrightarrow> m_backoff m \<le> SPAWN_BACKOFF_MAX_S \<Longrightarrow>
   m_backoff (fold bump_backoff ts m) = min (m_backoff m * 2 ^ length ts) SPAWN_BACKOFF_MAX_S"
proof (induction ts arbitrary: m)
  case Nil
  then show ?case by (simp add: min_def)
next
  case (Cons t ts)
  have step: "m_backoff (bump_backoff t m) = min (m_backoff m * 2) SPAWN_BACKOFF_MAX_S"
    by (simp add: bump_backoff_def Let_def)
  have pos: "0 < m_backoff (bump_backoff t m)" and le: "m_backoff (bump_backoff t m) \<le> SPAWN_BACKOFF_MAX_S"
    using Cons.prems by (simp_all add: step SPAWN_BACKOFF_MAX_S_def)
  have one: "(1::real) \<le> 2 ^ length ts" by simp
  have "min (min (m_backoff m * 2) SPAWN_BACKOFF_MAX_S * 2 ^ length ts) SPAWN_BACKOFF_MAX_S
      = min (m_backoff m * 2 * 2 ^ length ts) SPAWN_BACKOFF_MAX_S"
  proof (cases "m_backoff m * 2 \<le> SPAWN_BACKOFF_MAX_S")
    case False
    then have ge: "SPAWN_BACKOFF_MAX_S \<le> m_backoff m * 2" by simp
    have "SPAWN_BACKOFF_MAX_S * 1 \<le> SPAWN_BACKOFF_MAX_S * 2 ^ length ts"
      by (rule mult_left_mono [OF one]) (simp add: SPAWN_BACKOFF_MAX_S_def)
    moreover have "SPAWN_BACKOFF_MAX_S * 1 \<le> (m_backoff m * 2) * 2 ^ length ts"
      by (rule mult_mono [OF ge one]) (use Cons.prems in simp_all)
    ultimately show ?thesis using ge by (simp add: min_def)
  qed (simp add: min_def)
  with Cons.IH [OF pos le] show ?case by (simp add: step mult.assoc)
qed

text \<open>
  Exponential backoff: after any number of consecutive failures to spawn, the delay
  is the initial one doubled as often, capped at 30 seconds, and no spawn is attempted before it
  has passed.
\<close>

lemma backoff_after_failures:
  "m_backoff (fold (\<lambda>t. spawn t None) ts RosChildManager_init)
     = min (2 ^ length ts) SPAWN_BACKOFF_MAX_S \<and>
   (now < m_next_allowed m \<and> m_proc m = None \<longrightarrow>
      m_proc (fst (run_iteration True now (Some h) (m, s))) = None)"
proof -
  have "(\<lambda>t. spawn t None) = bump_backoff" by (simp add: fun_eq_iff spawn_def)
  then show ?thesis
    using fold_bump_backoff [of RosChildManager_init ts]
    by (simp add: RosChildManager_init_def SPAWN_BACKOFF_MIN_S_def SPAWN_BACKOFF_MAX_S_def
        run_iteration_def refresh_status_def status_set_def Let_def)
qed

lemma backoff_after_failures_witness:
  "m_proc (fst (run_iteration True 3 (Some 9) (spawn 2 None RosChildManager_init, BridgeState_init))) = None"
  using backoff_after_failures [of "[]" 3 "spawn 2 None RosChildManager_init" 9 BridgeState_init]
  by (simp add: spawn_def bump_backoff_def RosChildManager_init_def SPAWN_BACKOFF_MIN_S_def
      SPAWN_BACKOFF_MAX_S_def Let_def)

lemma generation_step: "m_generation (fst w) \<le> m_generation (fst (ros_step w e))"
  by (cases e; cases w) (auto simp: ros_defs split: option.splits)

lemma generation_run: "m_generation (fst w) \<le> m_generation (fst (ros_run w es))"
proof (induction es arbitrary: w)
  case (Cons e es)
  show ?case using order_trans [OF generation_step Cons.IH] by simp
qed simp

text \<open>
  Generation isolation: once a newer child has been spawned, no event or end of
  stream that the reader of an older child still delivers has any effect, in whatever state the
  supervisor is by then.
\<close>

lemma stale_generation_ignored:
  assumes "g < m_generation (fst w)"
  shows "ros_step (ros_run w es) (ReaderLine h g wl mn payload) = ros_run w es \<and>
         ros_step (ros_run w es) (ReaderEnd h g now) = ros_run w es"
  using generation_run [of w es] assms
  by (auto simp: reader_event_def reader_end_def is_current_def)

lemma stale_generation_ignored_witness:
  "let w = (spawn 9 (Some 8) (spawn 1 (Some 7) RosChildManager_init), BridgeState_init)
   in ros_step w (ReaderEnd 7 1 10) = w"
  using stale_generation_ignored [of 1 "(spawn 9 (Some 8) (spawn 1 (Some 7) RosChildManager_init), BridgeState_init)" "[]"]
  by (simp add: spawn_def reset_ready_def RosChildManager_init_def Let_def)

section \<open>Freshness of telemetry\<close>

text \<open>
  After the expiry pass of the telemetry loop with enabled guards, a battery or
  smoke value that is still present was refreshed within its time to live; a value is reported
  stale exactly once, because the next pass at the same time reports nothing; and the first new
  value after that is reported as a recovery.
\<close>

lemma telemetry_freshness:
  assumes "battery_ttl > 0" and "b_battery s \<noteq> JNull \<longrightarrow> b_battery_updated s \<noteq> None"
  shows "let ((bs, ss), s') = expire_stale_telemetry battery_ttl smoke_ttl now s in
     (b_battery s' \<noteq> JNull \<longrightarrow> (\<exists>t. b_battery_updated s' = Some t \<and> now - t \<le> battery_ttl))
     \<and> \<not> fst (fst (expire_stale_telemetry battery_ttl smoke_ttl now s'))
     \<and> (bs \<longrightarrow> b_battery s' = JNull \<and> fst (set_battery now' v s'))"
  using assms
  by (auto simp: expire_stale_telemetry_def set_battery_def expired_def Let_def split: option.splits)

lemma telemetry_freshness_witness:
  "fst (set_battery 50 (JFloat 80) (snd (expire_stale_telemetry 10 10 40 (snd (set_battery 1 (JFloat 90) BridgeState_init)))))"
  using telemetry_freshness [of 10 "snd (set_battery 1 (JFloat 90) BridgeState_init)" 10 40 50 "JFloat 80"]
  by (simp add: set_battery_def expire_stale_telemetry_def expired_def BridgeState_init_def Let_def)

end
