(* ===== verification/Platform_Db.thy ===== *)
theory Platform_Db
  imports Protocol
begin

text \<open>
  The state of the server platform: the tables of \<open>app/db/models.py\<close> the modelled services read
  and write, one record per table with the columns they use; the Redis key space with its time to
  live; and the transaction discipline of \<open>app/core/events.py\<close>, in which realtime events and
  Redis writes are queued in the session and applied only after the commit.

  A column that is nullable is an \<open>option\<close>, a JSON column a \<open>dict\<close> (or a list), a timestamp
  \<open>micros\<close>, a float a real. Display columns and the \<open>created_at\<close>/\<open>updated_at\<close> columns no modelled
  operation reads are left out. A realtime event carries \<open>serialize_model(row)\<close>; the model keeps
  the row itself.
\<close>

section \<open>Tables\<close>

record robot =
  rb_id :: ident
  rb_vehicle_id :: ident
  rb_site_id :: ident
  rb_enabled :: bool
  rb_online_state :: string
  rb_last_seen_at :: "micros option"
  rb_map_id :: "ident option"
  rb_map_version :: "string option"
  rb_mode :: string
  rb_task_id :: "ident option"
  rb_battery :: "real option"
  rb_estop :: "bool option"
  rb_boot_id :: "ident option"

record integration =
  ip_robot_id :: ident
  ip_source_kind :: string
  ip_bridge_boot_id :: "ident option"
  ip_availability :: "string option"
  ip_control_verified :: bool
  ip_ack_verified :: bool
  ip_map_verified :: bool
  ip_bidirectional_verified :: bool
  ip_path_verified :: bool
  ip_arbitration_verified :: bool
  ip_ros_control_mode :: "int option"
  ip_stale_seconds :: int
  ip_offline_seconds :: int
  ip_last_source :: "micros option"
  ip_last_received :: "micros option"
  ip_compat_sequence :: dict
  ip_forward_only :: bool
  ip_reverse_precision :: bool
  ip_verified_at :: "micros option"

record capability =
  cp_robot_id :: ident
  cp_protocol_version :: string
  cp_commands :: "string list"
  cp_sensors :: "json list"
  cp_media :: "json list"
  cp_received_at :: micros

record motion_profile =
  mp_robot_id :: ident
  mp_forward :: "real option"
  mp_reverse :: "real option"
  mp_angular :: "real option"
  mp_watchdog_verified :: bool
  mp_reverse_allowed :: bool
  mp_reverse_precision :: bool

record task =
  tk_id :: ident
  tk_code :: string
  tk_robot_id :: ident
  tk_fire_id :: "ident option"
  tk_type :: string
  tk_status :: string
  tk_phase :: string
  tk_progress :: json
  tk_slot_id :: "ident option"
  tk_pose :: dict
  tk_map_id :: ident
  tk_map_version :: string
  tk_revision :: int
  tk_trajectory :: json
  tk_parameters :: dict
  tk_created_by :: ident
  tk_created_at :: micros
  tk_accepted_at :: "micros option"
  tk_started_at :: "micros option"
  tk_completed_at :: "micros option"
  tk_failure_code :: json
  tk_failure_message :: json

record task_event =
  te_task_id :: ident
  te_status :: string
  te_phase :: string
  te_progress :: json
  te_payload :: dict

record command =
  cm_command_id :: ident
  cm_correlation_id :: ident
  cm_robot_id :: ident
  cm_task_id :: "ident option"
  cm_cmd :: string
  cm_priority :: int
  cm_payload :: dict
  cm_lifecycle :: string
  cm_issued_by :: ident
  cm_issued_at :: micros
  cm_expires_at :: micros
  cm_published_at :: "micros option"
  cm_ack_at :: "micros option"
  cm_ack_status :: json
  cm_ack_reason :: json
  cm_terminal_at :: "micros option"

record stop_operation =
  so_id :: ident
  so_robot_id :: ident
  so_boot :: "ident option"
  so_task_id :: "ident option"
  so_cancel_id :: "ident option"
  so_stop_id :: ident
  so_state :: string
  so_motion :: string
  so_mission :: string
  so_frames :: int
  so_last_observation :: "micros option"
  so_linear :: real
  so_angular :: real
  so_freshness_ms :: int
  so_requested_by :: ident
  so_ack_deadline :: micros
  so_cancel_deadline :: "micros option"
  so_verify_deadline :: micros
  so_terminal_at :: "micros option"
  so_failure :: "string option"

record operation_event =
  oe_robot_id :: ident
  oe_task_id :: "ident option"
  oe_type :: string
  oe_state :: string
  oe_payload :: dict

record manual_session =
  ms_lease_id :: ident
  ms_robot_id :: ident
  ms_user_id :: ident
  ms_state :: string
  ms_acquired_at :: micros
  ms_expires_at :: micros
  ms_last_seq :: int
  ms_ended_at :: "micros option"
  ms_end_reason :: "string option"

record outbox_event =
  ob_id :: ident
  ob_aggregate_id :: ident
  ob_event_type :: string
  ob_payload :: dict
  ob_status :: string
  ob_attempts :: int
  ob_available_at :: micros
  ob_created_at :: micros
  ob_published_at :: "micros option"
  ob_last_error :: "string option"

record idempotency_record =
  id_actor :: ident
  id_endpoint :: string
  id_key :: string
  id_hash :: string
  id_status :: int
  id_response :: dict

record boot_session =
  bs_robot_id :: ident
  bs_boot_id :: ident
  bs_first_seen :: micros
  bs_last_seen :: micros
  bs_ended_at :: "micros option"

record fire_event =
  fe_id :: ident
  fe_code :: string
  fe_robot_id :: "ident option"
  fe_slot_id :: ident
  fe_method :: string
  fe_type :: string
  fe_confidence :: json
  fe_severity :: string
  fe_fingerprint :: string
  fe_source_message_id :: json
  fe_source_event_id :: json
  fe_state :: string
  fe_first_seen :: micros
  fe_last_seen :: micros
  fe_count :: int
  fe_ack_by :: "ident option"
  fe_ack_at :: "micros option"
  fe_confirmed_at :: "micros option"
  fe_assigned_task :: "ident option"
  fe_resolved_at :: "micros option"
  fe_closed_at :: "micros option"
  fe_position :: json
  fe_media :: json
  fe_note :: "string option"

record data_channel =
  dc_robot_id :: ident
  dc_channel :: string
  dc_support :: string
  dc_quality :: string
  dc_source_kind :: string
  dc_last_source :: "micros option"
  dc_last_received :: "micros option"
  dc_metadata :: dict

record connection_log =
  cl_robot_id :: ident
  cl_state :: string
  cl_boot_id :: json
  cl_reason :: json

record site =
  st_id :: ident
  st_code :: string
  st_name :: string
  st_timezone :: string

record map_row =
  mr_id :: ident
  mr_site_id :: ident
  mr_code :: string
  mr_name :: string
  mr_active_version :: "ident option"

record map_version =
  mv_id :: ident
  mv_map_id :: ident
  mv_version :: string
  mv_status :: string
  mv_checksum :: string
  mv_revision :: int
  mv_published_at :: "micros option"

record parking_slot =
  ps_id :: ident
  ps_map_version_id :: ident
  ps_code :: string
  ps_polygon :: json
  ps_pose :: dict
  ps_enabled :: bool

record inspection_point =
  in_id :: ident
  in_map_version_id :: ident
  in_slot_id :: ident
  in_pose :: dict
  in_orientation :: dict
  in_priority :: int

record extinguish_point =
  xp_id :: ident
  xp_map_version_id :: ident
  xp_slot_id :: ident
  xp_pose :: dict
  xp_approach :: dict
  xp_nozzle :: dict

record trajectory =
  tj_id :: ident
  tj_map_version_id :: ident
  tj_code :: string
  tj_version :: string
  tj_path :: "json list"
  tj_enabled :: bool

record navigation_preset =
  np_id :: ident
  np_map_version_id :: ident
  np_slot_id :: "ident option"
  np_code :: string
  np_name :: string
  np_category :: string
  np_pose :: dict
  np_position_tolerance :: real
  np_yaw_tolerance :: real
  np_approach :: dict
  np_requires_reverse :: bool
  np_is_default :: bool
  np_enabled :: bool
  np_revision :: int

record patrol_plan =
  pp_id :: ident
  pp_code :: string
  pp_name :: string
  pp_robot_id :: ident
  pp_map_version_id :: ident
  pp_trajectory_id :: "ident option"
  pp_enabled :: bool
  pp_created_by :: ident

record patrol_point =
  pt_plan_id :: ident
  pt_preset_id :: ident
  pt_sequence :: int
  pt_dwell :: int
  pt_observations :: json

record patrol_schedule =
  sc_id :: ident
  sc_plan_id :: ident
  sc_cron :: string
  sc_timezone :: string
  sc_enabled :: bool
  sc_misfire_policy :: string
  sc_misfire_grace :: int
  sc_overlap_policy :: string
  sc_queue_expiry :: int
  sc_require_online :: bool
  sc_require_control :: bool
  sc_require_map :: bool
  sc_next_run :: "micros option"
  sc_last_run :: "micros option"
  sc_created_by :: ident

record schedule_occurrence =
  oc_id :: ident
  oc_schedule_id :: ident
  oc_scheduled_for :: micros
  oc_state :: string
  oc_reason :: "string option"
  oc_task_id :: "ident option"

record sensor_profile =
  sp_robot_id :: ident
  sp_channel :: string
  sp_support :: string
  sp_nominal_side :: string
  sp_mount_x :: real
  sp_mount_y :: real
  sp_mount_yaw :: real
  sp_range :: real
  sp_fov :: real
  sp_source :: string

record external_alias =
  ea_robot_id :: ident
  ea_external_id :: string
  ea_state :: string
  ea_confirmed_by :: "ident option"
  ea_confirmed_at :: "micros option"

record fleet_assignment =
  fa_robot_id :: ident
  fa_profile_id :: string
  fa_location_enabled :: bool
  fa_commands :: "string list"
  fa_token_hash :: "string option"
  fa_revision :: int

record enrollment =
  en_device_id :: string
  en_token_hash :: string
  en_credential :: dict
  en_issued_at :: micros
  en_expires_at :: micros
  en_consumed_at :: "micros option"

record telemetry_sample =
  ts_robot_id :: ident
  ts_source :: micros
  ts_received :: micros
  ts_x :: json
  ts_y :: json
  ts_theta :: json
  ts_linear :: json
  ts_angular :: json
  ts_battery :: json
  ts_localization :: json
  ts_map_version :: json
  ts_boot_id :: json
  ts_seq :: json

record sensor_sample =
  ss_robot_id :: ident
  ss_source :: micros
  ss_received :: micros
  ss_smoke :: json
  ss_bottom_ir :: json
  ss_top_ir_max :: json
  ss_payload :: json
  ss_boot_id :: json
  ss_seq :: json

record navigation_diagnostic =
  nd_robot_id :: ident
  nd_goal_id :: json
  nd_type :: string
  nd_status :: string
  nd_payload :: json
  nd_source :: micros
  nd_received :: micros

section \<open>Sessions\<close>

datatype event_payload =
    Ev_Json dict
  | Ev_Robot robot
  | Ev_Task task
  | Ev_Task_Created task ident
  | Ev_Command command
  | Ev_Stop stop_operation
  | Ev_Fire fire_event

datatype redis_op = Redis_Set string json "int option" | Redis_Delete string

record database =
  d_robots :: "robot list"
  d_integrations :: "integration list"
  d_capabilities :: "capability list"
  d_motion :: "motion_profile list"
  d_tasks :: "task list"
  d_task_events :: "task_event list"
  d_commands :: "command list"
  d_stops :: "stop_operation list"
  d_op_events :: "operation_event list"
  d_manual :: "manual_session list"
  d_outbox :: "outbox_event list"
  d_idempotency :: "idempotency_record list"
  d_boots :: "boot_session list"
  d_fires :: "fire_event list"
  d_channels :: "data_channel list"
  d_connections :: "connection_log list"
  d_maps :: "map_row list"
  d_map_versions :: "map_version list"
  d_slots :: "parking_slot list"
  d_telemetry :: "telemetry_sample list"
  d_sensors :: "sensor_sample list"
  d_diagnostics :: "navigation_diagnostic list"
  d_extinguish_points :: "extinguish_point list"
  d_trajectories :: "trajectory list"
  d_presets :: "navigation_preset list"
  d_plans :: "patrol_plan list"
  d_plan_points :: "patrol_point list"
  d_sites :: "site list"
  d_inspection_points :: "inspection_point list"
  d_schedules :: "patrol_schedule list"
  d_sensor_profiles :: "sensor_profile list"
  d_aliases :: "external_alias list"
  d_assignments :: "fleet_assignment list"
  d_occurrences :: "schedule_occurrence list"
  d_enrollments :: "enrollment list"

text \<open>
  A session (\<open>tx\<close>) is the database as the open transaction sees it, with the queues in
  \<open>session.info\<close>. Commit publishes; rollback or closing the session drops everything.
\<close>

record tx = database +
  tx_events :: "(string \<times> event_payload) list"
  tx_ops :: "redis_op list"

definition empty_db :: database where
  "empty_db = \<lparr>d_robots = [], d_integrations = [], d_capabilities = [], d_motion = [], d_tasks = [],
     d_task_events = [], d_commands = [], d_stops = [], d_op_events = [], d_manual = [],
     d_outbox = [], d_idempotency = [], d_boots = [], d_fires = [],
     d_channels = [], d_connections = [], d_maps = [], d_map_versions = [], d_slots = [],
     d_telemetry = [], d_sensors = [], d_diagnostics = [],
     d_extinguish_points = [], d_trajectories = [], d_presets = [], d_plans = [], d_plan_points = [],
     d_sites = [], d_inspection_points = [], d_schedules = [], d_sensor_profiles = [], d_aliases = [],
     d_assignments = [], d_occurrences = [], d_enrollments = []\<rparr>"

definition begin_tx :: "database \<Rightarrow> tx" where
  "begin_tx d = database.extend d \<lparr>tx_events = [], tx_ops = []\<rparr>"

definition queue_event :: "string \<Rightarrow> event_payload \<Rightarrow> tx \<Rightarrow> tx" where
  "queue_event ty payload s = s\<lparr>tx_events := tx_events s @ [(ty, payload)]\<rparr>"

definition queue_redis_set :: "string \<Rightarrow> json \<Rightarrow> int option \<Rightarrow> tx \<Rightarrow> tx" where
  "queue_redis_set key v ttl s = s\<lparr>tx_ops := tx_ops s @ [Redis_Set key v ttl]\<rparr>"

definition queue_redis_delete :: "string \<Rightarrow> tx \<Rightarrow> tx" where
  "queue_redis_delete key s = s\<lparr>tx_ops := tx_ops s @ [Redis_Delete key]\<rparr>"

text \<open>\<open>db.get\<close> and the lookups by a unique column.\<close>

definition get_integration :: "ident \<Rightarrow> 'a database_scheme \<Rightarrow> integration option" where
  "get_integration rid d = first_row (\<lambda>p. ip_robot_id p = rid) (d_integrations d)"

definition get_capability :: "ident \<Rightarrow> 'a database_scheme \<Rightarrow> capability option" where
  "get_capability rid d = first_row (\<lambda>c. cp_robot_id c = rid) (d_capabilities d)"

definition get_motion :: "ident \<Rightarrow> 'a database_scheme \<Rightarrow> motion_profile option" where
  "get_motion rid d = first_row (\<lambda>m. mp_robot_id m = rid) (d_motion d)"

definition get_robot :: "ident \<Rightarrow> 'a database_scheme \<Rightarrow> robot option" where
  "get_robot rid d = first_row (\<lambda>r. rb_id r = rid) (d_robots d)"

definition get_task :: "ident \<Rightarrow> 'a database_scheme \<Rightarrow> task option" where
  "get_task tid d = first_row (\<lambda>t. tk_id t = tid) (d_tasks d)"

definition get_command :: "ident \<Rightarrow> 'a database_scheme \<Rightarrow> command option" where
  "get_command cid d = first_row (\<lambda>c. cm_command_id c = cid) (d_commands d)"

definition find_robot :: "string \<Rightarrow> 'a database_scheme \<Rightarrow> robot option" where
  "find_robot key d = first_row (\<lambda>r. rb_id r = key \<or> rb_vehicle_id r = key) (d_robots d)"

definition get_slot :: "ident \<Rightarrow> 'a database_scheme \<Rightarrow> parking_slot option" where
  "get_slot sid d = first_row (\<lambda>s. ps_id s = sid) (d_slots d)"

definition get_map_version :: "ident \<Rightarrow> 'a database_scheme \<Rightarrow> map_version option" where
  "get_map_version vid d = first_row (\<lambda>v. mv_id v = vid) (d_map_versions d)"

definition get_trajectory :: "ident option \<Rightarrow> 'a database_scheme \<Rightarrow> trajectory option" where
  "get_trajectory tid d =
     (case tid of None \<Rightarrow> None | Some i \<Rightarrow> if i = [] then None else first_row (\<lambda>t. tj_id t = i) (d_trajectories d))"

definition get_preset :: "ident \<Rightarrow> 'a database_scheme \<Rightarrow> navigation_preset option" where
  "get_preset pid d = first_row (\<lambda>p. np_id p = pid) (d_presets d)"

definition get_plan :: "ident \<Rightarrow> 'a database_scheme \<Rightarrow> patrol_plan option" where
  "get_plan pid d = first_row (\<lambda>p. pp_id p = pid) (d_plans d)"

definition get_fire :: "ident \<Rightarrow> 'a database_scheme \<Rightarrow> fire_event option" where
  "get_fire fid d = first_row (\<lambda>f. fe_id f = fid) (d_fires d)"

definition put_robot :: "robot \<Rightarrow> tx \<Rightarrow> tx" where
  "put_robot r s = s\<lparr>d_robots := upd_rows (\<lambda>x. rb_id x = rb_id r) (\<lambda>_. r) (d_robots s)\<rparr>"

definition put_task :: "task \<Rightarrow> tx \<Rightarrow> tx" where
  "put_task t s = s\<lparr>d_tasks := upd_rows (\<lambda>x. tk_id x = tk_id t) (\<lambda>_. t) (d_tasks s)\<rparr>"

definition put_command :: "command \<Rightarrow> tx \<Rightarrow> tx" where
  "put_command c s =
     s\<lparr>d_commands := upd_rows (\<lambda>x. cm_command_id x = cm_command_id c) (\<lambda>_. c) (d_commands s)\<rparr>"

definition put_fire :: "fire_event \<Rightarrow> tx \<Rightarrow> tx" where
  "put_fire f s = s\<lparr>d_fires := upd_rows (\<lambda>x. fe_id x = fe_id f) (\<lambda>_. f) (d_fires s)\<rparr>"

definition put_stop :: "stop_operation \<Rightarrow> tx \<Rightarrow> tx" where
  "put_stop p s = s\<lparr>d_stops := upd_rows (\<lambda>x. so_id x = so_id p) (\<lambda>_. p) (d_stops s)\<rparr>"

definition ACTIVE_TASK_STATES :: "string list" where
  "ACTIVE_TASK_STATES = [''CREATED'', ''QUEUED'', ''ACCEPTED'', ''EXECUTING'']"

definition active_task :: "task \<Rightarrow> bool" where
  "active_task t \<longleftrightarrow> tk_status t \<in> set ACTIVE_TASK_STATES"

section \<open>Redis\<close>

text \<open>A key holds a value and possibly the time it expires at; values are kept as the JSON they
  serialise.\<close>

type_synonym redis = "string \<Rightarrow> (json \<times> micros option) option"

definition redis_get :: "micros \<Rightarrow> redis \<Rightarrow> string \<Rightarrow> json option" where
  "redis_get now r k =
     (case r k of
        None \<Rightarrow> None
      | Some (v, None) \<Rightarrow> Some v
      | Some (v, Some t) \<Rightarrow> if now < t then Some v else None)"

definition redis_exists :: "micros \<Rightarrow> redis \<Rightarrow> string \<Rightarrow> bool" where
  "redis_exists now r k \<longleftrightarrow> redis_get now r k \<noteq> None"

definition redis_set :: "string \<Rightarrow> json \<Rightarrow> redis \<Rightarrow> redis" where
  "redis_set k v r = r(k \<mapsto> (v, None))"

definition redis_delete :: "string \<Rightarrow> redis \<Rightarrow> redis" where
  "redis_delete k r = r(k := None)"

definition redis_setex :: "micros \<Rightarrow> string \<Rightarrow> int \<Rightarrow> json \<Rightarrow> redis \<Rightarrow> redis" where
  "redis_setex now k ttl v r = r(k \<mapsto> (v, Some (now + ttl * 1000000)))"

definition redis_set_nx :: "micros \<Rightarrow> string \<Rightarrow> int \<Rightarrow> json \<Rightarrow> redis \<Rightarrow> bool \<times> redis" where
  "redis_set_nx now k ttl v r =
     (if redis_exists now r k then (False, r) else (True, redis_setex now k ttl v r))"

definition redis_expire :: "micros \<Rightarrow> string \<Rightarrow> int \<Rightarrow> redis \<Rightarrow> redis" where
  "redis_expire now k ttl r =
     (case redis_get now r k of
        None \<Rightarrow> r
      | Some v \<Rightarrow> r(k \<mapsto> (v, Some (now + ttl * 1000000))))"

interpretation rds: kv_store "redis_get now" redis_set redis_delete for now
  by unfold_locales (auto simp: redis_get_def redis_set_def redis_delete_def)

definition lease_key :: "ident \<Rightarrow> string" where
  "lease_key rid = ''manual:lease:'' @ rid"

definition latest_key :: "ident \<Rightarrow> string" where
  "latest_key vid = ''robot:'' @ vid @ '':latest''"

definition lastseq_key :: "ident \<Rightarrow> string" where
  "lastseq_key lid = ''manual:lastseq:'' @ lid"

section \<open>Commit\<close>

record platform =
  pf_db :: database
  pf_redis :: redis
  pf_events :: "(string \<times> event_payload) list"
  pf_safety :: "dict list"
  pf_manual :: "dict list"

fun redis_apply :: "micros \<Rightarrow> redis_op \<Rightarrow> redis \<Rightarrow> redis" where
  "redis_apply now (Redis_Set k v (Some ttl)) r =
     (if ttl \<noteq> 0 then redis_setex now k ttl v r else redis_set k v r)"
| "redis_apply now (Redis_Set k v None) r = redis_set k v r"
| "redis_apply now (Redis_Delete k) r = redis_delete k r"

text \<open>
  \<open>commit\<close> is \<open>db.commit()\<close> with the \<open>after_commit\<close> listener, Redis being up. The session goes on
  with empty queues.
\<close>

definition commit :: "micros \<Rightarrow> tx \<Rightarrow> platform \<Rightarrow> platform" where
  "commit now s p =
     p\<lparr>pf_db := database.truncate s,
       pf_redis := fold (redis_apply now) (tx_ops s) (pf_redis p),
       pf_events := pf_events p @ tx_events s\<rparr>"

datatype api_error = PlatformError string | HTTPException nat | PyError py_exn

named_theorems tx_frame \<open>what the session operations leave alone\<close>

lemma queue_frame [tx_frame]:
  "database.truncate (queue_event ty pl s) = database.truncate s"
  "database.truncate (queue_redis_set k v ttl s) = database.truncate s"
  "database.truncate (queue_redis_delete k s) = database.truncate s"
  by (simp_all add: queue_event_def queue_redis_set_def queue_redis_delete_def database.truncate_def)

lemma queue_tables [simp, tx_frame]:
  "d_robots (queue_event ty pl s) = d_robots s" "d_commands (queue_event ty pl s) = d_commands s"
  "d_tasks (queue_event ty pl s) = d_tasks s" "d_stops (queue_event ty pl s) = d_stops s"
  "d_manual (queue_event ty pl s) = d_manual s" "d_outbox (queue_event ty pl s) = d_outbox s"
  "d_op_events (queue_event ty pl s) = d_op_events s" "tx_ops (queue_event ty pl s) = tx_ops s"
  "d_integrations (queue_event ty pl s) = d_integrations s"
  "d_capabilities (queue_event ty pl s) = d_capabilities s" "d_motion (queue_event ty pl s) = d_motion s"
  "tx_events (queue_event ty pl s) = tx_events s @ [(ty, pl)]"
  by (simp_all add: queue_event_def)

lemma begin_truncate [simp]: "database.truncate (begin_tx d) = d"
  by (simp add: begin_tx_def database.truncate_def database.extend_def)

lemma truncate_tables [simp]:
  "d_robots (database.truncate s) = d_robots s" "d_commands (database.truncate s) = d_commands s"
  "d_tasks (database.truncate s) = d_tasks s" "d_stops (database.truncate s) = d_stops s"
  "d_manual (database.truncate s) = d_manual s" "d_outbox (database.truncate s) = d_outbox s"
  "d_integrations (database.truncate s) = d_integrations s" "d_fires (database.truncate s) = d_fires s"
  "d_idempotency (database.truncate s) = d_idempotency s" "d_boots (database.truncate s) = d_boots s"
  "d_capabilities (database.truncate s) = d_capabilities s" "d_motion (database.truncate s) = d_motion s"
  by (simp_all add: database.truncate_def)

lemma begin_tables [simp]:
  "d_robots (begin_tx d) = d_robots d" "d_commands (begin_tx d) = d_commands d"
  "d_tasks (begin_tx d) = d_tasks d" "d_stops (begin_tx d) = d_stops d"
  "d_manual (begin_tx d) = d_manual d" "d_outbox (begin_tx d) = d_outbox d"
  "d_integrations (begin_tx d) = d_integrations d" "d_fires (begin_tx d) = d_fires d"
  "d_idempotency (begin_tx d) = d_idempotency d" "d_boots (begin_tx d) = d_boots d"
  "d_capabilities (begin_tx d) = d_capabilities d" "d_motion (begin_tx d) = d_motion d"
  "tx_events (begin_tx d) = []" "tx_ops (begin_tx d) = []"
  by (simp_all add: begin_tx_def database.extend_def)

lemma commit_simps [simp]:
  "pf_db (commit now s p) = database.truncate s"
  "pf_safety (commit now s p) = pf_safety p" "pf_manual (commit now s p) = pf_manual p"
  by (simp_all add: commit_def)

end
