(* ===== verification/Readiness.thy ===== *)
theory Readiness
  imports Platform_Db
begin

text \<open>
  The command gate of the platform: \<open>commands/readiness.py\<close> computes from server facts which
  commands a robot may be given, \<open>commands/service.py\<close> refuses or builds the command. The error
  messages and details of \<open>PlatformError\<close> are left out, its code is kept. The lemmas at the end
  characterise, per kind of action, exactly when the gate opens.
\<close>

section \<open>Readiness facts\<close>

definition SAFETY_COMMANDS :: "string list" where
  "SAFETY_COMMANDS = [''stop_motion'', ''emergency_stop'', ''reset_estop'']"

definition AUTONOMOUS_COMMANDS :: "string list" where
  "AUTONOMOUS_COMMANDS = [''patrol'', ''extinguish'', ''return_dock'', ''cancel_task'']"

definition ROS_COMPAT_DOWNLINK_IMPLEMENTED :: bool where
  "ROS_COMPAT_DOWNLINK_IMPLEMENTED = False"

definition ros_motion_path_verified :: "integration \<Rightarrow> bool" where
  "ros_motion_path_verified i \<longleftrightarrow>
     ip_bidirectional_verified i \<and> ip_path_verified i \<and> ip_arbitration_verified i
     \<and> ip_ros_control_mode i = Some 3"

definition supports :: "capability option \<Rightarrow> string \<Rightarrow> bool" where
  "supports c cmd \<longleftrightarrow> (case c of None \<Rightarrow> False | Some x \<Rightarrow> cmd \<in> set (cp_commands x))"

definition opt_holds :: "('a \<Rightarrow> bool) \<Rightarrow> 'a option \<Rightarrow> bool" where
  "opt_holds P x \<longleftrightarrow> (case x of None \<Rightarrow> False | Some a \<Rightarrow> P a)"

lemma opt_holds_simps [simp]: "\<not> opt_holds P None" "opt_holds P (Some a) \<longleftrightarrow> P a"
  by (simp_all add: opt_holds_def)

record readiness =
  rd_monitor :: bool
  rd_safety :: "(string \<times> bool) list"
  rd_manual :: bool
  rd_autonomous :: "(string \<times> bool) list"
  rd_reasons :: "string list"
  rd_motion :: "motion_profile option"

definition flag :: "(string \<times> bool) list \<Rightarrow> string \<Rightarrow> bool" where
  "flag fs k \<longleftrightarrow> map_of fs k = Some True"

definition join_comma :: "string list \<Rightarrow> string" where
  "join_comma xs = (case xs of [] \<Rightarrow> [] | y # ys \<Rightarrow> y @ concat (map (\<lambda>s. '','' @ s) ys))"

definition bridge_ready :: "integration option \<Rightarrow> bool" where
  "bridge_ready i = opt_holds (\<lambda>p. ip_source_kind p \<noteq> ''ROS_COMPAT''
     \<or> (ROS_COMPAT_DOWNLINK_IMPLEMENTED \<and> ip_bidirectional_verified p)) i"

definition ros_command_path_ready :: "integration option \<Rightarrow> bool" where
  "ros_command_path_ready i = opt_holds (\<lambda>p.
     (ip_source_kind p \<noteq> ''ROS_COMPAT''
        \<or> (ROS_COMPAT_DOWNLINK_IMPLEMENTED \<and> ros_motion_path_verified p))
     \<and> (ip_source_kind p \<noteq> ''CANONICAL_MQTT'' \<or> ros_motion_path_verified p)) i"

definition motion_envelope_ready :: "motion_profile option \<Rightarrow> bool" where
  "motion_envelope_ready m = opt_holds (\<lambda>p.
     mp_watchdog_verified p \<and> mp_forward p \<noteq> None \<and> mp_angular p \<noteq> None) m"

definition readiness_reasons ::
    "robot \<Rightarrow> integration option \<Rightarrow> capability option \<Rightarrow> motion_profile option \<Rightarrow> bool \<Rightarrow> string list" where
  "readiness_reasons robot i c m stop_ready =
     (if rb_enabled robot then [] else [''ROBOT_DISABLED''])
     @ (if rb_online_state robot = ''ONLINE'' then [] else [''ROBOT_'' @ rb_online_state robot])
     @ (case i of None \<Rightarrow> [''INTEGRATION_PROFILE_MISSING'']
        | Some p \<Rightarrow>
            (if ip_source_kind p = ''ROS_COMPAT'' \<and> \<not> bridge_ready i
             then [''ROS_COMPAT_READ_ONLY''] else [])
            @ (if ip_control_verified p then [] else [''CONTROL_CONTRACT_NOT_VERIFIED''])
            @ (if ip_ack_verified p then [] else [''ACK_CONTRACT_NOT_VERIFIED''])
            @ (if ip_map_verified p then [] else [''MAP_CONTRACT_NOT_VERIFIED''])
            @ (if ip_source_kind p \<in> {''ROS_COMPAT'', ''CANONICAL_MQTT''} then
                 (if ip_bidirectional_verified p then [] else [''BIDIRECTIONAL_BRIDGE_NOT_VERIFIED''])
                 @ (if ip_path_verified p then [] else [''COMMAND_PATH_NOT_VERIFIED''])
                 @ (if ip_arbitration_verified p then [] else [''CMD_VEL_ARBITRATION_NOT_VERIFIED''])
                 @ (if ip_ros_control_mode p = Some 3 then [] else [''CONTROL_MODE_NOT_ROS''])
               else []))
     @ (if motion_envelope_ready m then [] else [''MANUAL_MOTION_PROFILE_NOT_VERIFIED''])
     @ (if c = None then [''CAPABILITY_DECLARATION_MISSING''] else [])
     @ (if stop_ready then [] else [''STOP_MOTION_NOT_READY''])
     @ (if rb_estop robot = Some True then [''ROBOT_ESTOP_ACTIVE''] else [])
     @ (let unsupported = filter (\<lambda>cmd. \<not> supports c cmd)
              (SAFETY_COMMANDS @ [''manual_control''] @ AUTONOMOUS_COMMANDS)
        in if unsupported = [] then [] else [''UNSUPPORTED_COMMANDS:'' @ join_comma unsupported])"

definition robot_readiness :: "'a database_scheme \<Rightarrow> robot \<Rightarrow> readiness" where
  "robot_readiness db robot =
     (let i = get_integration (rb_id robot) db;
          c = get_capability (rb_id robot) db;
          m = get_motion (rb_id robot) db;
          online = (rb_enabled robot \<and> rb_online_state robot = ''ONLINE'');
          control = (opt_holds ip_control_verified i \<and> bridge_ready i);
          ackc = opt_holds ip_ack_verified i;
          path = ros_command_path_ready i;
          safety = map (\<lambda>cmd. (cmd, online \<and> control \<and> ackc \<and> path \<and> supports c cmd)) SAFETY_COMMANDS;
          manual = (online \<and> control \<and> ackc \<and> path \<and> motion_envelope_ready m
                    \<and> supports c ''manual_control'' \<and> flag safety ''stop_motion''
                    \<and> rb_estop robot = Some False);
          autonomous = map (\<lambda>cmd. (cmd, online \<and> control \<and> ackc \<and> path
                    \<and> opt_holds ip_map_verified i \<and> supports c cmd
                    \<and> rb_estop robot = Some False)) AUTONOMOUS_COMMANDS
      in \<lparr>rd_monitor = online, rd_safety = safety, rd_manual = manual, rd_autonomous = autonomous,
          rd_reasons = readiness_reasons robot i c m (flag safety ''stop_motion''), rd_motion = m\<rparr>)"

section \<open>The gate\<close>

definition ros_compat_read_only :: "integration \<Rightarrow> bool" where
  "ros_compat_read_only i \<longleftrightarrow> ip_source_kind i = ''ROS_COMPAT'' \<and>
     \<not> (ROS_COMPAT_DOWNLINK_IMPLEMENTED \<and> ip_bidirectional_verified i \<and> ip_path_verified i
        \<and> ip_arbitration_verified i \<and> ip_ros_control_mode i = Some 3)"

definition conflicts :: "string \<Rightarrow> task \<Rightarrow> bool" where
  "conflicts action t \<longleftrightarrow>
     action \<in> {''manual_control'', ''patrol'', ''extinguish''}
     \<or> (action = ''return_dock'' \<and> tk_type t = ''EXTINGUISH'')"

definition other_active_task ::
    "'a database_scheme \<Rightarrow> robot \<Rightarrow> ident option \<Rightarrow> task option" where
  "other_active_task db robot ignore =
     first_row (\<lambda>t. tk_robot_id t = rb_id robot \<and> active_task t
        \<and> (case ignore of None \<Rightarrow> True | Some i \<Rightarrow> i = [] \<or> tk_id t \<noteq> i)) (d_tasks db)"

text \<open>The result is the error raised, or \<open>None\<close> when the action may go ahead.\<close>

definition assert_robot_can_execute ::
    "micros \<Rightarrow> redis \<Rightarrow> 'a database_scheme \<Rightarrow> robot \<Rightarrow> string \<Rightarrow> ident option \<Rightarrow> api_error option" where
  "assert_robot_can_execute now redis db robot action ignore =
     (if \<not> rb_enabled robot then Some (PlatformError ''ROBOT_DISABLED'')
      else if rb_online_state robot \<in> {''STALE'', ''OFFLINE''}
              \<and> action \<notin> {''emergency_stop'', ''stop_motion''}
      then Some (PlatformError (''ROBOT_'' @ rb_online_state robot))
      else if rb_estop robot = Some True \<and> action \<notin> {''emergency_stop'', ''reset_estop''}
      then Some (PlatformError ''ROBOT_ESTOP_ACTIVE'')
      else case get_integration (rb_id robot) db of
        None \<Rightarrow> Some (PlatformError ''INTEGRATION_PROFILE_MISSING'')
      | Some i \<Rightarrow>
          (if ros_compat_read_only i then Some (PlatformError ''ROS_COMPAT_READ_ONLY'')
           else case get_capability (rb_id robot) db of
             None \<Rightarrow> Some (PlatformError ''CAPABILITY_DECLARATION_MISSING'')
           | Some c \<Rightarrow>
               (let rd = robot_readiness db robot in
                if \<not> ip_control_verified i
                then Some (PlatformError ''CONTROL_CONTRACT_NOT_VERIFIED'')
                else if action \<in> set AUTONOMOUS_COMMANDS \<and> \<not> (ip_ack_verified i \<and> ip_map_verified i)
                then Some (PlatformError ''INTEGRATION_CONTRACT_INCOMPLETE'')
                else if action \<in> set SAFETY_COMMANDS \<and> rb_online_state robot = ''ONLINE''
                        \<and> \<not> flag (rd_safety rd) action
                then Some (PlatformError ''SAFETY_COMMAND_NOT_READY'')
                else if action = ''manual_control'' \<and> \<not> rd_manual rd
                then Some (PlatformError ''MANUAL_CONTROL_NOT_READY'')
                else if action \<in> set AUTONOMOUS_COMMANDS \<and> \<not> flag (rd_autonomous rd) action
                then Some (PlatformError ''AUTONOMOUS_TASK_NOT_READY'')
                else if action \<in> {''patrol'', ''extinguish'', ''return_dock''}
                        \<and> redis_exists now redis (lease_key (rb_id robot))
                then Some (PlatformError ''MANUAL_LEASE_CONFLICT'')
                else if action \<notin> set (cp_commands c)
                then Some (PlatformError ''ROBOT_CAPABILITY_UNSUPPORTED'')
                else case other_active_task db robot ignore of
                  None \<Rightarrow> None
                | Some t \<Rightarrow> if conflicts action t then Some (PlatformError ''ACTIVE_TASK_CONFLICT'')
                            else None)))"

section \<open>Building and storing commands\<close>

definition command_code :: "pyenv \<Rightarrow> nat \<Rightarrow> ident" where
  "command_code env n = ''C'' @ stamp env (utc_now env) @ ''-'' @ take 8 (uuid env n)"

definition task_code :: "pyenv \<Rightarrow> nat \<Rightarrow> string \<Rightarrow> ident" where
  "task_code env n prefix = prefix @ stamp env (utc_now env) @ ''-'' @ take 8 (uuid env n)"

text \<open>\<open>n\<close> is the index of the next UUID; a payload takes three.\<close>

definition build_command_payload ::
    "pyenv \<Rightarrow> nat \<Rightarrow> robot \<Rightarrow> ident \<Rightarrow> string \<Rightarrow> dict \<Rightarrow> int \<Rightarrow> int \<Rightarrow> ident option \<Rightarrow>
     ident option \<Rightarrow> ident option \<Rightarrow> int \<Rightarrow> api_error + dict" where
  "build_command_payload env n robot operator cmd params ttl_ms priority task_id lease_id session seq =
     (if (rb_boot_id robot = None \<or> rb_boot_id robot = Some []) \<and> cmd \<noteq> ''emergency_stop''
      then Inl (PlatformError ''ROBOT_BOOT_SESSION_UNKNOWN'')
      else Inr
        ([(''schema_version'', JStr ''1.2''),
          (''message_id'', JStr (uuid env n)),
          (''type'', JStr ''command''),
          (''vehicle_id'', JStr (rb_vehicle_id robot)),
          (''target_boot_id'', jopt (rb_boot_id robot)),
          (''command_id'', JStr (command_code env (n + 1))),
          (''correlation_id'', JStr (uuid env (n + 2))),
          (''task_id'', jopt task_id),
          (''lease_id'', jopt lease_id),
          (''control_session_id'', jopt session),
          (''issued_at'', JStr (iso_format env (utc_now env))),
          (''expires_at'', JStr (iso_format env (utc_now env + ttl_ms * 1000))),
          (''ttl_ms'', JInt ttl_ms),
          (''priority'', JInt priority),
          (''source'', JStr ''WEB''),
          (''operator_id'', JStr operator),
          (''cmd'', JStr cmd),
          (''params'', JObj params)]
         @ (if cmd = ''manual_control'' then [(''seq'', JInt seq)] else [])))"

fun jstr_of :: "json \<Rightarrow> string" where
  "jstr_of (JStr s) = s"
| "jstr_of v = []"

text \<open>\<open>datetime.fromisoformat\<close> of a payload field; it raises \<open>ValueError\<close> on text it cannot read.\<close>

definition fromiso :: "pyenv \<Rightarrow> json \<Rightarrow> api_error + micros" where
  "fromiso env v =
     (case iso_parse env (jstr_of v) of
        Iso_Aware t \<Rightarrow> Inr t | Iso_Naive t \<Rightarrow> Inr t | Iso_Error \<Rightarrow> Inl (PyError ValueError))"

definition command_row ::
    "pyenv \<Rightarrow> robot \<Rightarrow> ident \<Rightarrow> string \<Rightarrow> int \<Rightarrow> ident option \<Rightarrow> dict \<Rightarrow> string \<Rightarrow> json \<Rightarrow>
     api_error + command" where
  "command_row env robot operator cmd priority task_id payload lifecycle reason =
     (case (fromiso env (jget payload ''issued_at''), fromiso env (jget payload ''expires_at'')) of
        (Inr issued, Inr expires) \<Rightarrow> Inr
          \<lparr>cm_command_id = jstr_of (jget payload ''command_id''),
           cm_correlation_id = jstr_of (jget payload ''correlation_id''),
           cm_robot_id = rb_id robot, cm_task_id = task_id, cm_cmd = cmd, cm_priority = priority,
           cm_payload = payload, cm_lifecycle = lifecycle, cm_issued_by = operator,
           cm_issued_at = issued, cm_expires_at = expires, cm_published_at = None,
           cm_ack_at = None, cm_ack_status = JNull, cm_ack_reason = reason, cm_terminal_at = None\<rparr>
      | (Inl e, _) \<Rightarrow> Inl e
      | (_, Inl e) \<Rightarrow> Inl e)"

definition outbox_row :: "pyenv \<Rightarrow> nat \<Rightarrow> command \<Rightarrow> dict \<Rightarrow> outbox_event" where
  "outbox_row env n c payload =
     \<lparr>ob_id = uuid env n, ob_aggregate_id = cm_command_id c, ob_event_type = ''COMMAND_PUBLISH'',
      ob_payload = payload, ob_status = ''PENDING'', ob_attempts = 0, ob_available_at = utc_now env,
      ob_created_at = utc_now env, ob_published_at = None, ob_last_error = None\<rparr>"

definition create_durable_command ::
    "pyenv \<Rightarrow> nat \<Rightarrow> redis \<Rightarrow> robot \<Rightarrow> ident \<Rightarrow> string \<Rightarrow> dict \<Rightarrow> ident option \<Rightarrow> int \<Rightarrow> int \<Rightarrow> tx \<Rightarrow>
     api_error + (command \<times> tx)" where
  "create_durable_command env n redis robot operator cmd params task_id ttl_ms priority db =
     (case assert_robot_can_execute (utc_now env) redis db robot cmd task_id of
        Some e \<Rightarrow> Inl e
      | None \<Rightarrow>
        (case build_command_payload env n robot operator cmd params ttl_ms priority task_id None None 0 of
           Inl e \<Rightarrow> Inl e
         | Inr payload \<Rightarrow>
           (case command_row env robot operator cmd priority task_id payload ''QUEUED'' JNull of
              Inl e \<Rightarrow> Inl e
            | Inr c \<Rightarrow> Inr (c, db\<lparr>d_commands := d_commands db @ [c],
                d_outbox := d_outbox db @
[outbox_row env (n + 3) c payload]\<rparr>))))"

definition deliverable :: "robot \<Rightarrow> bool" where
  "deliverable robot \<longleftrightarrow> rb_online_state robot \<notin> {''STALE'', ''OFFLINE''}"

definition create_safety_command ::
    "pyenv \<Rightarrow> nat \<Rightarrow> redis \<Rightarrow> robot \<Rightarrow> ident \<Rightarrow> string \<Rightarrow> dict \<Rightarrow> ident option \<Rightarrow> int \<Rightarrow> int \<Rightarrow> tx \<Rightarrow>
     api_error + (command \<times> dict \<times> tx)" where
  "create_safety_command env n redis robot operator cmd params task_id ttl_ms priority db =
     (case assert_robot_can_execute (utc_now env) redis db robot cmd task_id of
        Some e \<Rightarrow> Inl e
      | None \<Rightarrow>
        (case build_command_payload env n robot operator cmd params ttl_ms priority task_id None None 0 of
           Inl e \<Rightarrow> Inl e
         | Inr payload \<Rightarrow>
           (case command_row env robot operator cmd priority task_id payload
                   (if deliverable robot then ''CREATED'' else ''PUBLISHED_UNCONFIRMED'')
                   (if deliverable robot then JNull else JStr ''OFFLINE_NOT_DELIVERED'') of
              Inl e \<Rightarrow> Inl e
            | Inr c \<Rightarrow> Inr (c, payload, db\<lparr>d_commands := d_commands db @ [c]\<rparr>))))"

section \<open>The fields of a payload\<close>

lemma payload_cases:
  assumes "build_command_payload env n r op cmd params ttl prio tid lid sid seq = Inr m"
  obtains tail where "m = [(''schema_version'', JStr ''1.2''),
          (''message_id'', JStr (uuid env n)),
          (''type'', JStr ''command''),
          (''vehicle_id'', JStr (rb_vehicle_id r)),
          (''target_boot_id'', jopt (rb_boot_id r)),
          (''command_id'', JStr (command_code env (n + 1))),
          (''correlation_id'', JStr (uuid env (n + 2))),
          (''task_id'', jopt tid),
          (''lease_id'', jopt lid),
          (''control_session_id'', jopt sid),
          (''issued_at'', JStr (iso_format env (utc_now env))),
          (''expires_at'', JStr (iso_format env (utc_now env + ttl * 1000))),
          (''ttl_ms'', JInt ttl),
          (''priority'', JInt prio),
          (''source'', JStr ''WEB''),
          (''operator_id'', JStr op),
          (''cmd'', JStr cmd),
          (''params'', JObj params)] @ tail"
  using assms unfolding build_command_payload_def by (metis Inl_Inr_False Inr_inject)

lemma payload_fields:
  assumes "build_command_payload env n r op cmd params ttl prio tid lid sid seq = Inr m"
  shows "jget m ''cmd'' = JStr cmd" "jget m ''type'' = JStr ''command''" "jget m ''task_id'' = jopt tid"
    "jget m ''target_boot_id'' = jopt (rb_boot_id r)" "jget_or m ''schema_version'' d = JStr ''1.2''"
    "jget m ''expires_at'' = JStr (iso_format env (utc_now env + ttl * 1000))"
    "jget m ''issued_at'' = JStr (iso_format env (utc_now env))"
    "\<forall>f \<in> set COMMAND_REQUIRED_FIELDS. jhas m f"
    "jget m ''command_id'' = JStr (command_code env (n + 1))"
  by (rule payload_cases [OF assms]; simp add: COMMAND_REQUIRED_FIELDS_def)+

section \<open>When the gate opens\<close>

lemma flag_map [simp]: "flag (map (\<lambda>k. (k, P k)) ks) k \<longleftrightarrow> k \<in> set ks \<and> P k"
  by (induction ks) (auto simp: flag_def)

lemma stop_motion_safety [simp]: "''stop_motion'' \<in> set SAFETY_COMMANDS"
  by (simp add: SAFETY_COMMANDS_def)

lemmas vocabulary = SAFETY_COMMANDS_def AUTONOMOUS_COMMANDS_def ROS_COMPAT_DOWNLINK_IMPLEMENTED_def

lemma rd_autonomous_iff:
  "flag (rd_autonomous (robot_readiness db r)) a \<longleftrightarrow>
     a \<in> set AUTONOMOUS_COMMANDS \<and> rb_enabled r \<and> rb_online_state r = ''ONLINE''
     \<and> rb_estop r = Some False \<and> supports (get_capability (rb_id r) db) a
     \<and> opt_holds (\<lambda>i. ip_source_kind i \<noteq> ''ROS_COMPAT'' \<and> ip_control_verified i
          \<and> ip_ack_verified i \<and> ip_map_verified i
          \<and> (ip_source_kind i \<noteq> ''CANONICAL_MQTT'' \<or> ros_motion_path_verified i))
         (get_integration (rb_id r) db)"
  by (cases "get_integration (rb_id r) db")
    (auto simp: robot_readiness_def Let_def bridge_ready_def ros_command_path_ready_def
      ROS_COMPAT_DOWNLINK_IMPLEMENTED_def)

lemma rd_safety_iff:
  "flag (rd_safety (robot_readiness db r)) a \<longleftrightarrow>
     a \<in> set SAFETY_COMMANDS \<and> rb_enabled r \<and> rb_online_state r = ''ONLINE''
     \<and> supports (get_capability (rb_id r) db) a
     \<and> opt_holds (\<lambda>i. ip_source_kind i \<noteq> ''ROS_COMPAT'' \<and> ip_control_verified i \<and> ip_ack_verified i
          \<and> (ip_source_kind i \<noteq> ''CANONICAL_MQTT'' \<or> ros_motion_path_verified i))
         (get_integration (rb_id r) db)"
  by (cases "get_integration (rb_id r) db")
    (auto simp: robot_readiness_def Let_def bridge_ready_def ros_command_path_ready_def
      ROS_COMPAT_DOWNLINK_IMPLEMENTED_def)

lemma rd_manual_iff:
  "rd_manual (robot_readiness db r) \<longleftrightarrow>
     flag (rd_safety (robot_readiness db r)) ''stop_motion'' \<and> rb_estop r = Some False
     \<and> supports (get_capability (rb_id r) db) ''manual_control''
     \<and> motion_envelope_ready (get_motion (rb_id r) db)"
  unfolding rd_safety_iff
  by (cases "get_integration (rb_id r) db")
    (auto simp: robot_readiness_def Let_def bridge_ready_def ros_command_path_ready_def
      ROS_COMPAT_DOWNLINK_IMPLEMENTED_def)

text \<open>The three openings of the gate.\<close>

definition no_conflict :: "'a database_scheme \<Rightarrow> robot \<Rightarrow> ident option \<Rightarrow> string \<Rightarrow> bool" where
  "no_conflict db robot ignore action \<longleftrightarrow>
     (case other_active_task db robot ignore of None \<Rightarrow> True | Some t \<Rightarrow> \<not> conflicts action t)"

text \<open>A chain of checks passes when every check passes.\<close>

lemma check_None: "(if b then Some e else x) = None \<longleftrightarrow> \<not> b \<and> x = None"
  by simp

lemma lookup_None:
  "(case y of None \<Rightarrow> Some e | Some v \<Rightarrow> f v) = None \<longleftrightarrow> (\<exists>v. y = Some v \<and> f v = None)"
  by (cases y) simp_all

lemma conflict_None:
  "(case y of None \<Rightarrow> None | Some t \<Rightarrow> if C t then Some e else None) = None
     \<longleftrightarrow> (case y of None \<Rightarrow> True | Some t \<Rightarrow> \<not> C t)"
  by (cases y) simp_all

lemma gate_iff:
  "assert_robot_can_execute now redis db r a ignore = None \<longleftrightarrow>
     rb_enabled r
     \<and> \<not> (rb_online_state r \<in> {''STALE'', ''OFFLINE''} \<and> a \<notin> {''emergency_stop'', ''stop_motion''})
     \<and> \<not> (rb_estop r = Some True \<and> a \<notin> {''emergency_stop'', ''reset_estop''})
     \<and> (\<exists>i. get_integration (rb_id r) db = Some i \<and> \<not> ros_compat_read_only i
       \<and> (\<exists>c. get_capability (rb_id r) db = Some c \<and> ip_control_verified i
          \<and> \<not> (a \<in> set AUTONOMOUS_COMMANDS \<and> \<not> (ip_ack_verified i \<and> ip_map_verified i))
          \<and> \<not> (a \<in> set SAFETY_COMMANDS \<and> rb_online_state r = ''ONLINE''
               \<and> \<not> flag (rd_safety (robot_readiness db r)) a)
          \<and> \<not> (a = ''manual_control'' \<and> \<not> rd_manual (robot_readiness db r))
          \<and> \<not> (a \<in> set AUTONOMOUS_COMMANDS \<and> \<not> flag (rd_autonomous (robot_readiness db r)) a)
          \<and> \<not> (a \<in> {''patrol'', ''extinguish'', ''return_dock''}
               \<and> redis_exists now redis (lease_key (rb_id r)))
          \<and> \<not> a \<notin> set (cp_commands c)
          \<and> no_conflict db r ignore a))"
  unfolding assert_robot_can_execute_def Let_def no_conflict_def check_None lookup_None conflict_None
    not_not ..

lemma action_classes:
  "a \<in> set AUTONOMOUS_COMMANDS \<Longrightarrow> a \<notin> set SAFETY_COMMANDS"
  "a \<in> set AUTONOMOUS_COMMANDS \<Longrightarrow> a \<noteq> ''manual_control''"
  "''manual_control'' \<notin> set AUTONOMOUS_COMMANDS" "''manual_control'' \<notin> set SAFETY_COMMANDS"
  "a \<in> set AUTONOMOUS_COMMANDS \<Longrightarrow>
     a \<in> {''patrol'', ''extinguish'', ''return_dock''} \<longleftrightarrow> a \<noteq> ''cancel_task''"
  "a \<in> set SAFETY_COMMANDS \<Longrightarrow> a \<notin> set AUTONOMOUS_COMMANDS"
  "a \<in> set SAFETY_COMMANDS \<Longrightarrow> a \<noteq> ''manual_control''"
  "a \<in> set SAFETY_COMMANDS \<Longrightarrow> \<not> conflicts a t"
  "a \<in> set SAFETY_COMMANDS \<Longrightarrow> a \<notin> {''patrol'', ''extinguish'', ''return_dock''}"
  "a \<in> set SAFETY_COMMANDS \<Longrightarrow> a \<notin> {''emergency_stop'', ''stop_motion''} \<longleftrightarrow> a = ''reset_estop''"
  "a \<in> set SAFETY_COMMANDS \<Longrightarrow> a \<notin> {''emergency_stop'', ''reset_estop''} \<longleftrightarrow> a = ''stop_motion''"
  by (auto simp: vocabulary conflicts_def)

lemma rd_autonomousD:
  assumes "flag (rd_autonomous (robot_readiness db r)) a"
  obtains i c where "get_integration (rb_id r) db = Some i" "get_capability (rb_id r) db = Some c"
    "a \<in> set (cp_commands c)" "\<not> ros_compat_read_only i" "ip_control_verified i"
    "ip_ack_verified i" "ip_map_verified i" "rb_enabled r" "rb_online_state r = ''ONLINE''"
    "rb_estop r = Some False"
  using assms unfolding rd_autonomous_iff
  by (auto simp: supports_def opt_holds_def ros_compat_read_only_def split: option.splits)

lemma gate_autonomous:
  assumes "a \<in> set AUTONOMOUS_COMMANDS"
  shows "assert_robot_can_execute now redis db r a ignore = None \<longleftrightarrow>
     flag (rd_autonomous (robot_readiness db r)) a
     \<and> (a \<noteq> ''cancel_task'' \<longrightarrow> \<not> redis_exists now redis (lease_key (rb_id r)))
     \<and> no_conflict db r ignore a"
proof (cases "flag (rd_autonomous (robot_readiness db r)) a")
  case True
  from rd_autonomousD [OF True] obtain i c where "get_integration (rb_id r) db = Some i"
    "get_capability (rb_id r) db = Some c" "a \<in> set (cp_commands c)" "\<not> ros_compat_read_only i"
    "ip_control_verified i" "ip_ack_verified i" "ip_map_verified i" "rb_enabled r"
    "rb_online_state r = ''ONLINE''" "rb_estop r = Some False" by metis
  then show ?thesis
    unfolding gate_iff action_classes(5) [OF assms] using True assms action_classes(1,2) [OF assms] by auto
next
  case False
  then show ?thesis unfolding gate_iff using assms by blast
qed

lemma gate_safety:
  assumes "a \<in> set SAFETY_COMMANDS"
  shows "assert_robot_can_execute now redis db r a ignore = None \<longleftrightarrow>
     rb_enabled r
     \<and> (rb_online_state r \<in> {''STALE'', ''OFFLINE''} \<longrightarrow> a \<noteq> ''reset_estop'')
     \<and> (rb_estop r = Some True \<longrightarrow> a \<noteq> ''stop_motion'')
     \<and> opt_holds (\<lambda>i. ip_source_kind i \<noteq> ''ROS_COMPAT'' \<and> ip_control_verified i)
         (get_integration (rb_id r) db)
     \<and> supports (get_capability (rb_id r) db) a
     \<and> (rb_online_state r = ''ONLINE'' \<longrightarrow> flag (rd_safety (robot_readiness db r)) a)"
proof -
  have nc: "no_conflict db r ignore a"
    using action_classes(8) [OF assms] by (simp add: no_conflict_def split: option.split)
  show ?thesis
    unfolding gate_iff action_classes(9-11) [OF assms] opt_holds_def supports_def
    using action_classes(6,7,9) [OF assms] assms nc
    by (auto simp: ros_compat_read_only_def ROS_COMPAT_DOWNLINK_IMPLEMENTED_def split: option.splits)
qed

lemma gate_manual:
  "assert_robot_can_execute now redis db r ''manual_control'' ignore = None \<longleftrightarrow>
     rd_manual (robot_readiness db r) \<and> other_active_task db r ignore = None"
proof -
  have nc: "no_conflict db r ignore ''manual_control'' \<longleftrightarrow> other_active_task db r ignore = None"
    by (simp add: no_conflict_def conflicts_def split: option.split)
  show ?thesis
    unfolding gate_iff nc rd_manual_iff rd_safety_iff
    using action_classes(3,4)
    by (auto simp: ros_compat_read_only_def ROS_COMPAT_DOWNLINK_IMPLEMENTED_def supports_def
        opt_holds_def split: option.splits)
qed

end
