(* ===== verification/Safety_Commands.thy ===== *)
theory Safety_Commands
  imports Readiness
begin

text \<open>
  The command endpoints of the platform (\<open>commands/router.py\<close>, \<open>core/idempotency.py\<close>, and the
  compound stop of \<open>operations/router.py\<close>) and the manual-control lease they consult
  (\<open>robots/router.py\<close>). An endpoint maps the platform and the request to the new platform and
  either the response or the error raised; an error rolls the open session back. Audit rows are
  not modelled. Redis can be down: the record \<open>redis_health\<close> says which accesses succeed, and an
  access that fails outside a handler of the code raises \<open>RedisError\<close>.
\<close>

datatype failure = Api api_error | RedisError

record redis_health =
  rh_read :: bool
  rh_queue :: bool
  rh_event :: bool

definition redis_ok :: redis_health where
  "redis_ok = \<lparr>rh_read = True, rh_queue = True, rh_event = True\<rparr>"

section \<open>Idempotency records\<close>

text \<open>\<open>H\<close> is the SHA-256 of the canonical JSON of a request body (\<open>request_hash\<close>).\<close>

definition lookup ::
    "(dict \<Rightarrow> string) \<Rightarrow> ident \<Rightarrow> string \<Rightarrow> string \<Rightarrow> dict \<Rightarrow> 'a database_scheme \<Rightarrow>
     api_error + idempotency_record option" where
  "lookup H actor endpoint key body db =
     (case first_row (\<lambda>r. id_actor r = actor \<and> id_endpoint r = endpoint \<and> id_key r = key)
             (d_idempotency db) of
        None \<Rightarrow> Inr None
      | Some r \<Rightarrow> if id_hash r \<noteq> H body then Inl (PlatformError ''IDEMPOTENCY_KEY_CONFLICT'')
                  else Inr (Some r))"

definition store ::
    "(dict \<Rightarrow> string) \<Rightarrow> ident \<Rightarrow> string \<Rightarrow> string \<Rightarrow> dict \<Rightarrow> dict \<Rightarrow> int \<Rightarrow> tx \<Rightarrow> tx" where
  "store H actor endpoint key body response status db =
     db\<lparr>d_idempotency := d_idempotency db @
       [\<lparr>id_actor = actor, id_endpoint = endpoint, id_key = key, id_hash = H body,
         id_status = status, id_response = response\<rparr>]\<rparr>"

text \<open>
  The contract the endpoints rely on: what a store makes later lookups return, for the same key
  with the same or another body, and for every other key. The unique constraint of the table
  makes the first lookup's \<open>None\<close> a precondition of a store.
\<close>

locale idempotency =
  fixes look :: "'k \<Rightarrow> 'b \<Rightarrow> 's \<Rightarrow> 'e + 'r option"
    and put :: "'k \<Rightarrow> 'b \<Rightarrow> 'r \<Rightarrow> 's \<Rightarrow> 's"
    and same :: "'b \<Rightarrow> 'b \<Rightarrow> bool"
  assumes look_put_same: "look k b s = Inr None \<Longrightarrow> same b b' \<Longrightarrow> look k b' (put k b r s) = Inr (Some r)"
    and look_put_conflict: "look k b s = Inr None \<Longrightarrow> \<not> same b b' \<Longrightarrow> \<exists>e. look k b' (put k b r s) = Inl e"
    and look_put_other: "k' \<noteq> k \<Longrightarrow> look k' b' (put k b r s) = look k' b' s"
    and same_refl: "same b b"
begin

lemma replay_stable:
  assumes "look k b s = Inr None"
  shows "look k b (put k' b'' r'' (put k b r s)) = Inr (Some r) \<or> k' = k"
  using look_put_same [OF assms same_refl] look_put_other by metis

end

definition response_of :: "api_error + idempotency_record option \<Rightarrow> api_error + dict option" where
  "response_of x = (case x of Inl e \<Rightarrow> Inl e | Inr None \<Rightarrow> Inr None | Inr (Some r) \<Rightarrow> Inr (Some (id_response r)))"

lemma first_row_append:
  "first_row P (xs @ ys) = (case first_row P xs of None \<Rightarrow> first_row P ys | Some r \<Rightarrow> Some r)"
  by (induction xs) auto

interpretation idem: idempotency
  "\<lambda>(actor, endpoint, key) body db. response_of (lookup H actor endpoint key body (db :: tx))"
  "\<lambda>(actor, endpoint, key) body response. store H actor endpoint key body response status"
  "\<lambda>b b'. H b = H b'"
  for H status
  by unfold_locales
    (auto simp: response_of_def lookup_def store_def first_row_append
      split: sum.splits option.splits if_splits prod.splits)

section \<open>Serialised rows\<close>

definition iso_opt :: "pyenv \<Rightarrow> micros option \<Rightarrow> json" where
  "iso_opt env t = (case t of None \<Rightarrow> JNull | Some x \<Rightarrow> JStr (iso_format env x))"

definition serialize_command :: "pyenv \<Rightarrow> command \<Rightarrow> dict" where
  "serialize_command env c =
     [(''command_id'', JStr (cm_command_id c)), (''correlation_id'', JStr (cm_correlation_id c)),
      (''robot_id'', JStr (cm_robot_id c)), (''task_id'', jopt (cm_task_id c)),
      (''cmd'', JStr (cm_cmd c)), (''priority'', JInt (cm_priority c)),
      (''payload_json'', JObj (cm_payload c)), (''lifecycle_status'', JStr (cm_lifecycle c)),
      (''issued_by'', JStr (cm_issued_by c)), (''issued_at'', iso_opt env (Some (cm_issued_at c))),
      (''expires_at'', iso_opt env (Some (cm_expires_at c))),
      (''published_at'', iso_opt env (cm_published_at c)), (''ack_at'', iso_opt env (cm_ack_at c)),
      (''ack_status'', cm_ack_status c), (''ack_reason'', cm_ack_reason c),
      (''terminal_at'', iso_opt env (cm_terminal_at c))]"

definition serialize_stop :: "pyenv \<Rightarrow> stop_operation \<Rightarrow> dict" where
  "serialize_stop env p =
     [(''id'', JStr (so_id p)), (''robot_id'', JStr (so_robot_id p)),
      (''boot_id_snapshot'', jopt (so_boot p)), (''task_id'', jopt (so_task_id p)),
      (''cancel_command_id'', jopt (so_cancel_id p)), (''stop_command_id'', JStr (so_stop_id p)),
      (''state'', JStr (so_state p)), (''motion_stop_state'', JStr (so_motion p)),
      (''mission_cancel_state'', JStr (so_mission p)), (''stationary_frames'', JInt (so_frames p)),
      (''last_stationary_observation_at'', iso_opt env (so_last_observation p)),
      (''linear_threshold'', JFloat (so_linear p)), (''angular_threshold'', JFloat (so_angular p)),
      (''telemetry_freshness_ms'', JInt (so_freshness_ms p)),
      (''requested_by'', JStr (so_requested_by p)),
      (''stop_ack_deadline_at'', iso_opt env (Some (so_ack_deadline p))),
      (''cancel_deadline_at'', iso_opt env (so_cancel_deadline p)),
      (''stationary_verify_deadline_at'', iso_opt env (Some (so_verify_deadline p))),
      (''terminal_at'', iso_opt env (so_terminal_at p)), (''failure_reason'', jopt (so_failure p))]"

section \<open>Leases\<close>

definition active_lease :: "micros \<Rightarrow> redis \<Rightarrow> robot \<Rightarrow> dict option" where
  "active_lease now redis robot =
     (case redis_get now redis (lease_key (rb_id robot)) of None \<Rightarrow> None | Some v \<Rightarrow> Some (as_dict v))"

fun int_of :: "json \<Rightarrow> int" where
  "int_of (JInt i) = i"
| "int_of v = 0"

text \<open>\<open>int(get_redis().get(f"manual:lastseq:{lease['lease_id']}") or dflt)\<close>\<close>

definition last_seq :: "micros \<Rightarrow> redis \<Rightarrow> ident \<Rightarrow> int \<Rightarrow> int" where
  "last_seq now redis lid dflt =
     (case redis_get now redis (lastseq_key lid) of None \<Rightarrow> dflt | Some v \<Rightarrow> int_of v)"

definition end_lease :: "micros \<Rightarrow> redis \<Rightarrow> dict \<Rightarrow> string \<Rightarrow> string \<Rightarrow> tx \<Rightarrow> tx" where
  "end_lease now redis lease reason state db =
     (let lid = jstr_of (jget lease ''lease_id'') in
      db\<lparr>d_manual := upd_rows (\<lambda>m. ms_lease_id m = lid \<and> ms_state m = ''HELD'')
           (\<lambda>m. m\<lparr>ms_state := state, ms_ended_at := Some now, ms_end_reason := Some reason,
                  ms_last_seq := last_seq now redis lid 0\<rparr>) (d_manual db)\<rparr>)"

section \<open>Single safety commands\<close>

definition set_response :: "ident \<Rightarrow> string \<Rightarrow> string \<Rightarrow> dict \<Rightarrow> tx \<Rightarrow> tx" where
  "set_response actor endpoint key response db =
     db\<lparr>d_idempotency := upd_rows
          (\<lambda>r. id_actor r = actor \<and> id_endpoint r = endpoint \<and> id_key r = key)
          (\<lambda>r. r\<lparr>id_response := response\<rparr>) (d_idempotency db)\<rparr>"

definition unconfirmed :: "command \<Rightarrow> command" where
  "unconfirmed c = c\<lparr>cm_lifecycle := ''PUBLISHED_UNCONFIRMED'',
                     cm_ack_reason := JStr ''SAFETY_QUEUE_UNAVAILABLE''\<rparr>"

definition drop_lease_for_estop :: "micros \<Rightarrow> redis \<Rightarrow> robot \<Rightarrow> tx \<Rightarrow> tx" where
  "drop_lease_for_estop now redis robot db =
     (case active_lease now redis robot of
        None \<Rightarrow> db
      | Some lease \<Rightarrow> end_lease now redis lease ''EMERGENCY_STOP'' ''FORCE_RELEASED''
                        (queue_redis_delete (lease_key (rb_id robot)) db))"

text \<open>What follows the first commit: enqueue, downgrade the row if the queue is unavailable,
  publish the event.\<close>

definition enqueue_and_report ::
    "pyenv \<Rightarrow> redis_health \<Rightarrow> robot \<Rightarrow> ident \<Rightarrow> string \<Rightarrow> string \<Rightarrow> command \<Rightarrow> dict \<Rightarrow> tx \<Rightarrow> platform \<Rightarrow>
     (failure + dict) \<times> platform" where
  "enqueue_and_report env rh robot actor endpoint key c payload db p =
     (let (c', p') =
        (if \<not> deliverable robot then (c, p)
         else if rh_queue rh then (c, p\<lparr>pf_safety := pf_safety p @ [payload]\<rparr>)
         else (let c2 = unconfirmed c in
               (c2, commit (utc_now env)
                      (set_response actor endpoint key (serialize_command env c2)
                        (put_command c2 (db\<lparr>tx_events := [], tx_ops := []\<rparr>))) p)));
          response = serialize_command env c'
      in if rh_event rh
         then (Inr response, p'\<lparr>pf_events := pf_events p' @ [(''command.updated'', Ev_Json response)]\<rparr>)
         else (Inl RedisError, p'))"

definition safety_command ::
    "pyenv \<Rightarrow> nat \<Rightarrow> (dict \<Rightarrow> string) \<Rightarrow> redis_health \<Rightarrow> robot \<Rightarrow> string \<Rightarrow> ident \<Rightarrow> int \<Rightarrow> int \<Rightarrow>
     string \<Rightarrow> string \<Rightarrow> platform \<Rightarrow> (failure + dict) \<times> platform" where
  "safety_command env n H rh robot cmd actor ttl_ms priority key endpoint p =
     (let db = begin_tx (pf_db p); now = utc_now env in
      case assert_robot_can_execute now (pf_redis p) db robot cmd None of
        Some e \<Rightarrow> (Inl (Api e), p)
      | None \<Rightarrow>
        (case lookup H actor endpoint key [] db of
           Inl e \<Rightarrow> (Inl (Api e), p)
         | Inr (Some row) \<Rightarrow> (Inr (id_response row), p)
         | Inr None \<Rightarrow>
           (case create_safety_command env n (pf_redis p) robot actor cmd [] None ttl_ms priority db of
              Inl e \<Rightarrow> (Inl (Api e), p)
            | Inr (c, payload, db1) \<Rightarrow>
              (if cmd = ''emergency_stop'' \<and> \<not> rh_read rh then (Inl RedisError, p)
               else
                 let db2 = (if cmd = ''emergency_stop''
                            then drop_lease_for_estop now (pf_redis p) robot db1 else db1);
                     db3 = store H actor endpoint key [] (serialize_command env c) 202 db2
                 in enqueue_and_report env rh robot actor endpoint key c payload db3
                      (commit now db3 p)))))"

definition not_found :: failure where
  "not_found = Api (HTTPException 404)"

definition robot_endpoint :: "robot \<Rightarrow> string \<Rightarrow> string" where
  "robot_endpoint r suffix = ''/robots/'' @ rb_id r @ suffix"

definition with_robot ::
    "string \<Rightarrow> platform \<Rightarrow> (robot \<Rightarrow> (failure + dict) \<times> platform) \<Rightarrow> (failure + dict) \<times> platform" where
  "with_robot rid p f = (case find_robot rid (pf_db p) of None \<Rightarrow> (Inl not_found, p) | Some r \<Rightarrow> f r)"

definition stop_motion ::
    "pyenv \<Rightarrow> nat \<Rightarrow> (dict \<Rightarrow> string) \<Rightarrow> redis_health \<Rightarrow> string \<Rightarrow> ident \<Rightarrow> string \<Rightarrow> platform \<Rightarrow>
     (failure + dict) \<times> platform" where
  "stop_motion env n H rh rid actor key p = with_robot rid p (\<lambda>r.
     safety_command env n H rh r ''stop_motion'' actor 3000 95 key
       (robot_endpoint r ''/commands/stop-motion'') p)"

definition emergency_stop ::
    "pyenv \<Rightarrow> nat \<Rightarrow> (dict \<Rightarrow> string) \<Rightarrow> redis_health \<Rightarrow> string \<Rightarrow> ident \<Rightarrow> string \<Rightarrow> platform \<Rightarrow>
     (failure + dict) \<times> platform" where
  "emergency_stop env n H rh rid actor key p = with_robot rid p (\<lambda>r.
     safety_command env n H rh r ''emergency_stop'' actor 5000 100 key
       (robot_endpoint r ''/commands/emergency-stop'') p)"

definition reset_estop ::
    "pyenv \<Rightarrow> nat \<Rightarrow> (dict \<Rightarrow> string) \<Rightarrow> redis_health \<Rightarrow> string \<Rightarrow> ident \<Rightarrow> string \<Rightarrow> platform \<Rightarrow>
     (failure + dict) \<times> platform" where
  "reset_estop env n H rh rid actor key p = with_robot rid p (\<lambda>r.
     if \<not> deliverable r then (Inl (Api (PlatformError (''ROBOT_'' @ rb_online_state r))), p)
     else safety_command env n H rh r ''reset_estop'' actor 5000 90 key
       (robot_endpoint r ''/commands/reset-estop'') p)"

text \<open>\<open>params\<close> is the request body; Redis is taken to be up.\<close>

definition return_dock ::
    "pyenv \<Rightarrow> nat \<Rightarrow> (dict \<Rightarrow> string) \<Rightarrow> string \<Rightarrow> ident \<Rightarrow> string \<Rightarrow> dict \<Rightarrow> platform \<Rightarrow>
     (failure + dict) \<times> platform" where
  "return_dock env n H rid actor key params p = with_robot rid p (\<lambda>r.
     let endpoint = robot_endpoint r ''/commands/return-dock'';
         body = [(''params'', JObj params)];
         db = begin_tx (pf_db p)
     in case lookup H actor endpoint key body db of
          Inl e \<Rightarrow> (Inl (Api e), p)
        | Inr (Some row) \<Rightarrow> (Inr (id_response row), p)
        | Inr None \<Rightarrow>
          (case create_durable_command env n (pf_redis p) r actor ''return_dock'' params None 30000 60 db of
             Inl e \<Rightarrow> (Inl (Api e), p)
           | Inr (c, db1) \<Rightarrow>
             (let response = serialize_command env c in
              (Inr response, commit (utc_now env) (store H actor endpoint key body response 202 db1) p))))"

section \<open>Manual control\<close>

record manual_request =
  mr_lease_id :: ident
  mr_session_id :: ident
  mr_seq :: int
  mr_linear :: real
  mr_angular :: real

definition valid_manual_request :: "manual_request \<Rightarrow> bool" where
  "valid_manual_request q \<longleftrightarrow> 0 \<le> mr_seq q \<and> \<bar>mr_linear q\<bar> \<le> 4 / 10 \<and> \<bar>mr_angular q\<bar> \<le> 1"

definition clamp_linear :: "motion_profile \<Rightarrow> real \<Rightarrow> real \<Rightarrow> real" where
  "clamp_linear m fwd v =
     (let rev = (if mp_reverse_allowed m then mp_reverse m else Some 0) in
      min fwd (max (- (case rev of None \<Rightarrow> 0 | Some x \<Rightarrow> x)) v))"

definition clamp_angular :: "real \<Rightarrow> real \<Rightarrow> real" where
  "clamp_angular bnd v = max (- bnd) (min bnd v)"

definition manual ::
    "pyenv \<Rightarrow> nat \<Rightarrow> int \<Rightarrow> string \<Rightarrow> ident \<Rightarrow> manual_request \<Rightarrow> platform \<Rightarrow> (failure + dict) \<times> platform" where
  "manual env n lease_ttl rid actor q p = with_robot rid p (\<lambda>r.
     let now = utc_now env; redis = pf_redis p; db = begin_tx (pf_db p) in
     case assert_robot_can_execute now redis db r ''manual_control'' None of
       Some e \<Rightarrow> (Inl (Api e), p)
     | None \<Rightarrow>
       (case get_motion (rb_id r) db of
          None \<Rightarrow> (Inl (Api (PlatformError ''MANUAL_MOTION_PROFILE_NOT_VERIFIED'')), p)
        | Some m \<Rightarrow>
          (case (mp_forward m, mp_angular m) of
             (Some fwd, Some ang) \<Rightarrow>
               (if \<not> mp_watchdog_verified m
                then (Inl (Api (PlatformError ''MANUAL_MOTION_PROFILE_NOT_VERIFIED'')), p)
                else
                  let lin = clamp_linear m fwd (mr_linear q); rot = clamp_angular ang (mr_angular q) in
                  case active_lease now redis r of
                    None \<Rightarrow> (Inl (Api (PlatformError ''MANUAL_LEASE_INVALID'')), p)
                  | Some lease \<Rightarrow>
                    (if jget lease ''lease_id'' \<noteq> JStr (mr_lease_id q) \<or> jget lease ''user_id'' \<noteq> JStr actor
                        \<or> jget lease ''control_session_id'' \<noteq> JStr (mr_session_id q)
                     then (Inl (Api (PlatformError ''MANUAL_LEASE_INVALID'')), p)
                     else let last = last_seq now redis (mr_lease_id q) (- 1) in
                     if mr_seq q \<le> last
                     then (Inr [(''accepted'', JBool False), (''reason'', JStr ''DUPLICATE_OR_OUT_OF_ORDER''),
                                (''last_seq'', JInt last)], p)
                     else
                       (case build_command_payload env n r actor ''manual_control''
                               [(''linear_x'', JFloat lin), (''angular_z'', JFloat rot)] 500 80 None
                               (Some (mr_lease_id q)) (Some (mr_session_id q)) (mr_seq q) of
                          Inl e \<Rightarrow> (Inl (Api e), p)
                        | Inr payload \<Rightarrow>
                          (Inr [(''accepted'', JBool True), (''expires_at'', jget payload ''expires_at''),
                                (''seq'', JInt (mr_seq q)),
                                (''applied'', JObj [(''linear'', JFloat lin), (''angular'', JFloat rot)]),
                                (''clamped'', JBool (lin \<noteq> mr_linear q \<or> rot \<noteq> mr_angular q))],
                           p\<lparr>pf_redis := redis_expire now (lease_key (rb_id r)) lease_ttl
                                (redis_setex now (lastseq_key (mr_lease_id q)) 30 (JInt (mr_seq q)) redis),
                             pf_manual := pf_manual p @ [payload]\<rparr>))))
           | _ \<Rightarrow> (Inl (Api (PlatformError ''MANUAL_MOTION_PROFILE_NOT_VERIFIED'')), p))))"

section \<open>The lease endpoints\<close>

definition lease_value :: "pyenv \<Rightarrow> ident \<Rightarrow> ident \<Rightarrow> robot \<Rightarrow> ident \<Rightarrow> micros \<Rightarrow> dict" where
  "lease_value env lid sid r actor expires =
     [(''lease_id'', JStr lid), (''control_session_id'', JStr sid), (''robot_id'', JStr (rb_id r)),
      (''vehicle_id'', JStr (rb_vehicle_id r)), (''user_id'', JStr actor),
      (''expires_at'', JStr (iso_format env expires))]"

text \<open>\<open>commit_ok\<close> says whether the database commit succeeds; if not, the key is deleted again.\<close>

definition acquire_lease ::
    "pyenv \<Rightarrow> nat \<Rightarrow> int \<Rightarrow> bool \<Rightarrow> string \<Rightarrow> ident \<Rightarrow> ident option \<Rightarrow> platform \<Rightarrow>
     (failure + dict) \<times> platform" where
  "acquire_lease env n ttl commit_ok rid actor session p = with_robot rid p (\<lambda>r.
     let now = utc_now env; db = begin_tx (pf_db p) in
     case assert_robot_can_execute now (pf_redis p) db r ''manual_control'' None of
       Some e \<Rightarrow> (Inl (Api e), p)
     | None \<Rightarrow>
       (let lid = uuid env n;
            sid = (case session of None \<Rightarrow> uuid env (n + 1) | Some s \<Rightarrow> if s = [] then uuid env (n + 1) else s);
            expires = now + ttl * 1000000;
            value = JObj (lease_value env lid sid r actor expires);
            (ok, redis1) = redis_set_nx now (lease_key (rb_id r)) ttl value (pf_redis p)
        in if \<not> ok then (Inl (Api (PlatformError ''MANUAL_LEASE_CONFLICT'')), p)
           else if \<not> commit_ok
           then (Inl (Api (PyError ValueError)), p\<lparr>pf_redis := redis_delete (lease_key (rb_id r)) redis1\<rparr>)
           else
             (Inr [(''lease_id'', JStr lid), (''control_session_id'', JStr sid),
                   (''expires_at'', JStr (iso_format env expires)), (''ttl_seconds'', JInt ttl)],
              commit now (db\<lparr>d_manual := d_manual db @
                 [\<lparr>ms_lease_id = lid, ms_robot_id = rb_id r, ms_user_id = actor, ms_state = ''HELD'',
                   ms_acquired_at = now, ms_expires_at = expires, ms_last_seq = 0,
                   ms_ended_at = None, ms_end_reason = None\<rparr>]\<rparr>) (p\<lparr>pf_redis := redis1\<rparr>))))"

text \<open>
  Releasing is a read of the lease (\<open>release_check\<close>) and, later, the commit whose listener
  deletes the key (\<open>release_commit\<close>); the two are separate because other requests run in between.
\<close>

definition release_check :: "micros \<Rightarrow> redis \<Rightarrow> robot \<Rightarrow> ident \<Rightarrow> failure + dict option" where
  "release_check now redis r actor =
     (case active_lease now redis r of
        None \<Rightarrow> Inr None
      | Some lease \<Rightarrow> if jget lease ''user_id'' \<noteq> JStr actor
                      then Inl (Api (PlatformError ''PERMISSION_DENIED'')) else Inr (Some lease))"

definition release_commit ::
    "micros \<Rightarrow> robot \<Rightarrow> dict \<Rightarrow> string \<Rightarrow> string \<Rightarrow> platform \<Rightarrow> platform" where
  "release_commit now r lease reason state p =
     commit now (end_lease now (pf_redis p) lease reason state
                  (queue_redis_delete (lease_key (rb_id r)) (begin_tx (pf_db p)))) p"

definition release_lease ::
    "pyenv \<Rightarrow> string \<Rightarrow> ident \<Rightarrow> platform \<Rightarrow> (failure + dict) \<times> platform" where
  "release_lease env rid actor p = with_robot rid p (\<lambda>r.
     case release_check (utc_now env) (pf_redis p) r actor of
       Inl e \<Rightarrow> (Inl e, p)
     | Inr None \<Rightarrow> (Inr [], p)
     | Inr (Some lease) \<Rightarrow> (Inr [], release_commit (utc_now env) r lease ''USER_RELEASE'' ''RELEASED'' p))"

definition force_release_lease :: "pyenv \<Rightarrow> string \<Rightarrow> platform \<Rightarrow> (failure + dict) \<times> platform" where
  "force_release_lease env rid p = with_robot rid p (\<lambda>r.
     case active_lease (utc_now env) (pf_redis p) r of
       None \<Rightarrow> (Inr [(''released'', JBool False), (''reason'', JStr ''NO_ACTIVE_LEASE'')], p)
     | Some lease \<Rightarrow> (Inr [(''released'', JBool True), (''lease_id'', jget lease ''lease_id'')],
         release_commit (utc_now env) r lease ''ADMIN_FORCE_RELEASE'' ''FORCE_RELEASED'' p))"

section \<open>The compound stop\<close>

definition stoppable_task :: "robot \<Rightarrow> task \<Rightarrow> bool" where
  "stoppable_task r t \<longleftrightarrow> tk_robot_id t = rb_id r
     \<and> tk_type t \<in> {''PATROL'', ''RETURN_DOCK'', ''NAVIGATE_TO_PRESET'', ''EXTINGUISH''}
     \<and> active_task t"

definition new_stop_operation ::
    "pyenv \<Rightarrow> ident \<Rightarrow> robot \<Rightarrow> ident \<Rightarrow> task option \<Rightarrow> command option \<Rightarrow> command \<Rightarrow> string \<Rightarrow> stop_operation" where
  "new_stop_operation env oid r actor active cancel stop mission =
     \<lparr>so_id = oid, so_robot_id = rb_id r, so_boot = rb_boot_id r,
      so_task_id = map_option tk_id active, so_cancel_id = map_option cm_command_id cancel,
      so_stop_id = cm_command_id stop, so_state = ''STOP_REQUESTED'', so_motion = ''WAITING_ACK'',
      so_mission = mission, so_frames = 0, so_last_observation = None, so_linear = 2 / 100,
      so_angular = 3 / 100, so_freshness_ms = 1000, so_requested_by = actor,
      so_ack_deadline = utc_now env + 5000000,
      so_cancel_deadline = (case cancel of None \<Rightarrow> None | Some c \<Rightarrow> Some (utc_now env + 10000000)),
      so_verify_deadline = utc_now env + 15000000, so_terminal_at = None, so_failure = None\<rparr>"

text \<open>The mission part: cancel the task if the gate lets it, otherwise record \<open>UNAVAILABLE\<close>.\<close>

definition cancel_mission ::
    "pyenv \<Rightarrow> nat \<Rightarrow> redis \<Rightarrow> robot \<Rightarrow> ident \<Rightarrow> task option \<Rightarrow> tx \<Rightarrow> api_error + (command option \<times> string \<times> tx)" where
  "cancel_mission env n redis r actor active db =
     (case active of
        None \<Rightarrow> Inr (None, ''NOT_REQUIRED'', db)
      | Some t \<Rightarrow>
        (case create_durable_command env n redis r actor ''cancel_task''
                [(''task_id'', JStr (tk_id t)), (''reason'', JStr ''OPERATOR_STOP'')]
                (Some (tk_id t)) 30000 96 db of
           Inl (PlatformError e) \<Rightarrow> Inr (None, ''UNAVAILABLE'', db)
         | Inl e \<Rightarrow> Inl e
         | Inr (c, db1) \<Rightarrow> Inr (Some c, ''WAITING_ACK'', put_task (t\<lparr>tk_phase := ''STOP_REQUESTED''\<rparr>) db1)))"

definition stop_current_operation ::
    "pyenv \<Rightarrow> nat \<Rightarrow> (dict \<Rightarrow> string) \<Rightarrow> redis_health \<Rightarrow> string \<Rightarrow> ident \<Rightarrow> string \<Rightarrow> platform \<Rightarrow>
     (failure + dict) \<times> platform" where
  "stop_current_operation env n H rh rid actor key p = with_robot rid p (\<lambda>r.
     let endpoint = robot_endpoint r ''/stop-operation''; db = begin_tx (pf_db p) in
     case lookup H actor endpoint key [] db of
       Inl e \<Rightarrow> (Inl (Api e), p)
     | Inr (Some row) \<Rightarrow> (Inr (id_response row), p)
     | Inr None \<Rightarrow>
       (let active = latest_row tk_created_at (filter (stoppable_task r) (d_tasks db)) in
        case create_safety_command env n (pf_redis p) r actor ''stop_motion''
               [(''reason'', JStr ''OPERATOR_STOP'')] (map_option tk_id active) 3000 99 db of
          Inl e \<Rightarrow> (Inl (Api e), p)
        | Inr (stop, payload, db1) \<Rightarrow>
          (case cancel_mission env (n + 3) (pf_redis p) r actor active db1 of
             Inl e \<Rightarrow> (Inl (Api e), p)
           | Inr (cancel, mission, db2) \<Rightarrow>
             (let op = new_stop_operation env (uuid env (n + 7)) r actor active cancel stop mission;
                  db3 = db2\<lparr>d_stops := d_stops db2 @ [op],
                            d_op_events := d_op_events db2 @
                              [\<lparr>oe_robot_id = rb_id r, oe_task_id = map_option tk_id active,
                                oe_type = ''STOP_OPERATION'', oe_state = ''STOP_REQUESTED'',
                                oe_payload = [(''cancel_command_id'', jopt (map_option cm_command_id cancel)),
                                              (''stop_command_id'', JStr (cm_command_id stop))]\<rparr>]\<rparr>;
                  result = serialize_stop env op;
                  db4 = store H actor endpoint key [] result 202 db3;
                  p1 = commit (utc_now env) db4 p;
                  p2 = (if rb_online_state r \<noteq> ''ONLINE'' then p1
                        else if rh_queue rh then p1\<lparr>pf_safety := pf_safety p1 @ [payload]\<rparr>
                        else commit (utc_now env)
                               (put_command (unconfirmed stop) (db4\<lparr>tx_events := [], tx_ops := []\<rparr>)) p1)
              in if rh_event rh
                 then (Inr result, p2\<lparr>pf_events := pf_events p2 @
                                        [(''operation.stop.updated'', Ev_Json result)]\<rparr>)
                 else (Inl RedisError, p2)))))"

end
