(* ===== verification/Demo.thy ===== *)
theory Demo
  imports Readiness
begin

text \<open>
  A concrete platform for the witnesses: a real vehicle, online, with every contract verified, and
  one task of it.
\<close>

definition demo_robot :: robot where
  "demo_robot = \<lparr>rb_id = ''r'', rb_vehicle_id = ''v'', rb_site_id = ''s'', rb_enabled = True,
     rb_online_state = ''ONLINE'', rb_last_seen_at = Some 0, rb_map_id = Some ''m'',
     rb_map_version = Some ''1'', rb_mode = ''IDLE'', rb_task_id = None, rb_battery = None,
     rb_estop = Some False, rb_boot_id = Some ''b''\<rparr>"

definition demo_integration :: integration where
  "demo_integration = \<lparr>ip_robot_id = ''r'', ip_source_kind = ''CANONICAL_MQTT'', ip_bridge_boot_id = None,
     ip_availability = None, ip_control_verified = True, ip_ack_verified = True, ip_map_verified = True,
     ip_bidirectional_verified = True, ip_path_verified = True, ip_arbitration_verified = True,
     ip_ros_control_mode = Some 3, ip_stale_seconds = 3, ip_offline_seconds = 10,
     ip_last_source = None, ip_last_received = None, ip_compat_sequence = [],
     ip_forward_only = True, ip_reverse_precision = False,
     ip_verified_at = None\<rparr>"

definition demo_capability :: capability where
  "demo_capability = \<lparr>cp_robot_id = ''r'', cp_protocol_version = ''1.3'',
     cp_commands = SAFETY_COMMANDS @ [''manual_control''] @ AUTONOMOUS_COMMANDS,
     cp_sensors = [], cp_media = [], cp_received_at = 0\<rparr>"

definition demo_motion :: motion_profile where
  "demo_motion = \<lparr>mp_robot_id = ''r'', mp_forward = Some (1 / 4), mp_reverse = Some (1 / 10),
     mp_angular = Some (1 / 2), mp_watchdog_verified = True, mp_reverse_allowed = False,
     mp_reverse_precision = False\<rparr>"

definition demo_task :: task where
  "demo_task = \<lparr>tk_id = ''t'', tk_code = ''T'', tk_robot_id = ''r'', tk_fire_id = None,
     tk_type = ''PATROL'', tk_status = ''EXECUTING'', tk_phase = ''NAVIGATING'', tk_progress = JInt 0,
     tk_slot_id = None, tk_pose = [], tk_map_id = ''m'', tk_map_version = ''1'', tk_revision = 1,
     tk_trajectory = JNull, tk_parameters = [], tk_created_by = ''u'', tk_created_at = 0,
     tk_accepted_at = None, tk_started_at = None, tk_completed_at = None,
     tk_failure_code = JNull, tk_failure_message = JNull\<rparr>"

definition demo_db :: database where
  "demo_db = empty_db\<lparr>d_robots := [demo_robot], d_integrations := [demo_integration],
     d_capabilities := [demo_capability], d_motion := [demo_motion]\<rparr>"

definition demo_platform :: platform where
  "demo_platform = \<lparr>pf_db = demo_db, pf_redis = (\<lambda>_. None), pf_events = [], pf_safety = [], pf_manual = []\<rparr>"

definition demo_hash :: "dict \<Rightarrow> string" where
  "demo_hash d = replicate (length d) CHR ''h''"

end
