(* ===== verification/Command_Safety.thy ===== *)
theory Command_Safety
  imports Safety_Commands Demo
begin

text \<open>
  Properties of the command gate and the command endpoints, and of the path of a command from
  the platform to the validator of the vehicle bridge.
\<close>

section \<open>The gate opens exactly on the computed readiness\<close>

text \<open>
  Property C4. For an autonomous action (patrol, extinguish, return to dock, cancel) the gate in
  front of every command opens if and only if the readiness computed for the operator says the
  action is ready, no manual lease is held (cancelling excepted) and no conflicting task is
  active. What the operator is shown and what the platform enforces never diverge.
\<close>

theorem gate_equals_readiness:
  assumes "a \<in> set AUTONOMOUS_COMMANDS"
  shows "assert_robot_can_execute now redis db r a ignore = None \<longleftrightarrow>
     flag (rd_autonomous (robot_readiness db r)) a
     \<and> (a \<noteq> ''cancel_task'' \<longrightarrow> \<not> redis_exists now redis (lease_key (rb_id r)))
     \<and> no_conflict db r ignore a"
  using assms by (rule gate_autonomous)

lemma demo_lookups [simp]:
  "get_integration ''r'' demo_db = Some demo_integration" "get_capability ''r'' demo_db = Some demo_capability"
  "get_motion ''r'' demo_db = Some demo_motion" "find_robot ''r'' demo_db = Some demo_robot"
  "get_integration ''r'' (begin_tx demo_db) = Some demo_integration"
  "get_capability ''r'' (begin_tx demo_db) = Some demo_capability"
  "get_motion ''r'' (begin_tx demo_db) = Some demo_motion"
  "other_active_task demo_db r i = None" "other_active_task (begin_tx demo_db) r i = None"
  by (simp_all add: get_integration_def get_capability_def get_motion_def find_robot_def demo_db_def
      empty_db_def demo_integration_def demo_capability_def demo_motion_def demo_robot_def
      other_active_task_def begin_tx_def database.extend_def)

lemma demo_robot_simps [simp]:
  "rb_id demo_robot = ''r''" "rb_enabled demo_robot" "rb_online_state demo_robot = ''ONLINE''"
  "rb_estop demo_robot = Some False" "rb_boot_id demo_robot = Some ''b''"
  "rb_vehicle_id demo_robot = ''v''"
  by (simp_all add: demo_robot_def)

lemma demo_contracts [simp]:
  "ip_source_kind demo_integration = ''CANONICAL_MQTT''" "ip_control_verified demo_integration"
  "ip_ack_verified demo_integration" "ip_map_verified demo_integration"
  "ros_motion_path_verified demo_integration"
  "a \<in> set SAFETY_COMMANDS \<union> set AUTONOMOUS_COMMANDS \<union> {''manual_control''} \<Longrightarrow>
     supports (Some demo_capability) a"
  by (auto simp: demo_integration_def ros_motion_path_verified_def supports_def demo_capability_def)

lemma demo_gate:
  "assert_robot_can_execute 0 (\<lambda>_. None) demo_db demo_robot ''patrol'' None = None"
  using gate_autonomous [of "''patrol''" 0 "\<lambda>_. None" demo_db demo_robot None]
  by (simp add: rd_autonomous_iff AUTONOMOUS_COMMANDS_def redis_exists_def redis_get_def no_conflict_def)

theorem gate_equals_readiness_witness:
  "flag (rd_autonomous (robot_readiness demo_db demo_robot)) ''patrol''"
  using gate_equals_readiness [of "''patrol''" 0 "\<lambda>_. None" demo_db demo_robot None] demo_gate
  by (simp add: AUTONOMOUS_COMMANDS_def)

text \<open>
  Property C5. Contract discipline: whatever motion-producing command the gate lets through
  (manual driving or an autonomous action), the robot is enabled, online and its emergency stop
  is known to be released, it declared the command, its control and acknowledgement contracts
  are verified, it is not a read-only ROS-compat vehicle, and a real vehicle on the canonical
  transport has its whole ROS command path verified with control mode 3.
\<close>

theorem motion_needs_contracts:
  assumes "assert_robot_can_execute now redis db r a ignore = None"
    and "a \<in> set AUTONOMOUS_COMMANDS \<or> a = ''manual_control''"
  shows "rb_enabled r \<and> rb_online_state r = ''ONLINE'' \<and> rb_estop r = Some False
     \<and> supports (get_capability (rb_id r) db) a
     \<and> opt_holds (\<lambda>i. ip_control_verified i \<and> ip_ack_verified i \<and> ip_source_kind i \<noteq> ''ROS_COMPAT''
          \<and> (ip_source_kind i = ''CANONICAL_MQTT'' \<longrightarrow> ros_motion_path_verified i)
          \<and> (a \<noteq> ''manual_control'' \<longrightarrow> ip_map_verified i)) (get_integration (rb_id r) db)"
proof (cases "a = ''manual_control''")
  case True
  then have "rd_manual (robot_readiness db r)" using assms(1) gate_manual by blast
  then show ?thesis using True unfolding rd_manual_iff rd_safety_iff
    by (auto simp: opt_holds_def split: option.splits)
next
  case False
  then have a: "a \<in> set AUTONOMOUS_COMMANDS" using assms(2) by simp
  then have "flag (rd_autonomous (robot_readiness db r)) a"
    using assms(1) gate_autonomous by blast
  then show ?thesis unfolding rd_autonomous_iff
    by (auto simp: opt_holds_def split: option.splits)
qed

theorem motion_needs_contracts_witness:
  "opt_holds (\<lambda>i. ip_control_verified i \<and> ip_ack_verified i) (get_integration ''r'' demo_db)"
  using motion_needs_contracts [OF demo_gate]
  by (cases "get_integration ''r'' demo_db")
    (simp_all add: AUTONOMOUS_COMMANDS_def demo_robot_def)

section \<open>From the platform to the vehicle\<close>


definition demo_bridge :: bridge_config where
  "demo_bridge = \<lparr>c_stub_mode = False, c_stub_simulate_feedback = False,
     c_stub_feedback_simulation = [], c_supported_commands = [''patrol'', ''return_dock'']\<rparr>"


lemma command_rowE:
  assumes "command_row env r op cmd prio tid m st reason = Inr c"
  shows "cm_payload c = m" "cm_cmd c = cmd" "cm_task_id c = tid" "cm_lifecycle c = st"
    "cm_ack_reason c = reason" "cm_ack_status c = JNull" "cm_robot_id c = rb_id r"
    "cm_command_id c = jstr_of (jget m ''command_id'')"
  using assms by (auto simp: command_row_def split: sum.splits)

lemma create_durableE:
  assumes "create_durable_command env n redis r actor cmd params tid ttl prio db = Inr (c, db')"
  obtains m where "build_command_payload env n r actor cmd params ttl prio tid None None 0 = Inr m"
    "assert_robot_can_execute (utc_now env) redis db r cmd tid = None"
    "command_row env r actor cmd prio tid m ''QUEUED'' JNull = Inr c"
    "db' = db\<lparr>d_commands := d_commands db @ [c],
               d_outbox := d_outbox db @ [outbox_row env (n + 3) c m]\<rparr>"
proof -
  have gate: "assert_robot_can_execute (utc_now env) redis db r cmd tid = None"
    using assms by (cases "assert_robot_can_execute (utc_now env) redis db r cmd tid")
      (simp_all add: create_durable_command_def)
  obtain m where m: "build_command_payload env n r actor cmd params ttl prio tid None None 0 = Inr m"
    using assms gate by (cases "build_command_payload env n r actor cmd params ttl prio tid None None 0")
      (simp_all add: create_durable_command_def)
  have row: "command_row env r actor cmd prio tid m ''QUEUED'' JNull = Inr c"
    using assms gate m by (cases "command_row env r actor cmd prio tid m ''QUEUED'' JNull")
      (simp_all add: create_durable_command_def)
  show thesis
    by (rule that [OF m gate row]) (use assms in \<open>simp add: create_durable_command_def gate m row\<close>)
qed

lemma create_safetyE:
  assumes "create_safety_command env n redis r actor cmd params tid ttl prio db = Inr (c, m, db')"
  shows "build_command_payload env n r actor cmd params ttl prio tid None None 0 = Inr m"
    and "assert_robot_can_execute (utc_now env) redis db r cmd tid = None"
    and "command_row env r actor cmd prio tid m
           (if deliverable r then ''CREATED'' else ''PUBLISHED_UNCONFIRMED'')
           (if deliverable r then JNull else JStr ''OFFLINE_NOT_DELIVERED'') = Inr c"
    and "db' = db\<lparr>d_commands := d_commands db @ [c]\<rparr>"
proof -
  show gate: "assert_robot_can_execute (utc_now env) redis db r cmd tid = None"
    using assms by (cases "assert_robot_can_execute (utc_now env) redis db r cmd tid")
      (simp_all add: create_safety_command_def)
  obtain m' where m': "build_command_payload env n r actor cmd params ttl prio tid None None 0 = Inr m'"
    using assms gate by (cases "build_command_payload env n r actor cmd params ttl prio tid None None 0")
      (simp_all add: create_safety_command_def)
  obtain c' where row: "command_row env r actor cmd prio tid m'
           (if deliverable r then ''CREATED'' else ''PUBLISHED_UNCONFIRMED'')
           (if deliverable r then JNull else JStr ''OFFLINE_NOT_DELIVERED'') = Inr c'"
    using assms gate m' by (cases "command_row env r actor cmd prio tid m'
           (if deliverable r then ''CREATED'' else ''PUBLISHED_UNCONFIRMED'')
           (if deliverable r then JNull else JStr ''OFFLINE_NOT_DELIVERED'')")
      (simp_all add: create_safety_command_def)
  have all: "c' = c \<and> m' = m \<and> db\<lparr>d_commands := d_commands db @ [c']\<rparr> = db'"
    using assms by (auto simp: create_safety_command_def gate m' row)
  then have eqs: "c' = c" "m' = m" by simp_all
  from all have db: "db\<lparr>d_commands := d_commands db @ [c']\<rparr> = db'" by (elim conjE)
  show "build_command_payload env n r actor cmd params ttl prio tid None None 0 = Inr m"
    using m' eqs by simp
  show "command_row env r actor cmd prio tid m
           (if deliverable r then ''CREATED'' else ''PUBLISHED_UNCONFIRMED'')
           (if deliverable r then JNull else JStr ''OFFLINE_NOT_DELIVERED'') = Inr c"
    using row eqs by simp
  show "db' = db\<lparr>d_commands := d_commands db @ [c]\<rparr>" using db unfolding eqs by (rule sym)
qed

lemma validate_command_cases:
  assumes "hashable (jget c ''cmd'')"
  shows "validate_command env (JObj c) b = Inr (True, None)
    \<or> (\<exists>reason. validate_command env (JObj c) b = Inr (False, Some reason))"
  using assms by (simp split: option.split)

lemma taskless_refused:
  assumes "hashable (jget c ''cmd'')" "is_task_cmd (jget c ''cmd'')" "\<not> truthy (jget c ''task_id'')"
  shows "\<exists>reason. validate_received_command env cfg (JObj c) b = Inr (False, Some reason)"
  using validate_command_cases [OF assms(1), of env b] assms(2,3)
  unfolding validate_received_command_def by (elim disjE exE) (simp_all add: Let_def)

text \<open>
  The bare return-to-dock endpoint cannot work: it stores a command without a task,
  and whatever command it adds to the outbox is refused by every bridge, at any time, under any
  configuration and boot session, because task commands must carry a task.
\<close>

lemma bare_return_dock_refused:
  assumes "return_dock env n H rid actor key params p = (Inr resp, p')"
    and "ob \<in> set (d_outbox (pf_db p'))" and "ob \<notin> set (d_outbox (pf_db p))"
  shows "\<exists>reason. validate_received_command benv cfg (JObj (ob_payload ob)) b = Inr (False, Some reason)"
proof -
  obtain r where r: "find_robot rid (pf_db p) = Some r"
    using assms(1) by (auto simp: return_dock_def with_robot_def split: option.splits)
  let ?ep = "robot_endpoint r ''/commands/return-dock''"
  let ?made = "create_durable_command env n (pf_redis p) r actor ''return_dock'' params None 30000 60
    (begin_tx (pf_db p))"
  have new: "lookup H actor ?ep key [(''params'', JObj params)] (begin_tx (pf_db p)) = Inr None"
    using assms unfolding return_dock_def with_robot_def r
    by (cases "lookup H actor ?ep key [(''params'', JObj params)] (begin_tx (pf_db p))")
      (auto split: option.splits)
  obtain c db1 where made: "?made = Inr (c, db1)"
    using assms(1) new unfolding return_dock_def with_robot_def r by (cases ?made) auto
  have p': "d_outbox (pf_db p') = d_outbox db1"
    using assms(1) unfolding return_dock_def with_robot_def r by (auto simp: new made store_def Let_def)
  from made obtain m where
    built: "build_command_payload env n r actor ''return_dock'' params 30000 60 None None None 0 = Inr m"
    and db1: "d_outbox db1 = d_outbox (begin_tx (pf_db p)) @ [outbox_row env (n + 3) c m]"
    by (rule create_durableE) simp
  have m: "ob_payload ob = m" using assms(2,3) by (auto simp: p' db1 outbox_row_def)
  show ?thesis unfolding m
    by (rule taskless_refused) (simp_all add: payload_fields [OF built] is_task_cmd_def TASK_CMDS_def)
qed

definition dock_result :: platform where
  "dock_result = snd (return_dock (plain_env 0) 0 demo_hash ''r'' ''u'' ''k'' [] demo_platform)"

lemma bare_return_dock_refused_witness:
  "d_outbox (pf_db dock_result) \<noteq> [] \<and>
   (case validate_received_command (plain_env 0) demo_bridge
           (JObj (ob_payload (hd (d_outbox (pf_db dock_result))))) ''b'' of
      Inr (ok, _) \<Rightarrow> \<not> ok | Inl _ \<Rightarrow> False)"
proof -
  have ne: "d_outbox (pf_db dock_result) \<noteq> []" by code_simp
  have run: "case return_dock (plain_env 0) 0 demo_hash ''r'' ''u'' ''k'' [] demo_platform of
      (Inr _, _) \<Rightarrow> True | _ \<Rightarrow> False" by code_simp
  obtain resp where "return_dock (plain_env 0) 0 demo_hash ''r'' ''u'' ''k'' [] demo_platform = (Inr resp, dock_result)"
    using run unfolding dock_result_def by (auto split: prod.splits sum.splits)
  moreover have "hd (d_outbox (pf_db dock_result)) \<in> set (d_outbox (pf_db dock_result))" using ne by simp
  moreover have "hd (d_outbox (pf_db dock_result)) \<notin> set (d_outbox (pf_db demo_platform))"
    by (simp add: demo_platform_def demo_db_def empty_db_def)
  ultimately have "\<exists>reason. validate_received_command (plain_env 0) demo_bridge
           (JObj (ob_payload (hd (d_outbox (pf_db dock_result))))) ''b'' = Inr (False, Some reason)"
    by (rule bare_return_dock_refused)
  then show ?thesis using ne by auto
qed

section \<open>Safety commands\<close>

lemma put_command_last:
  assumes "\<forall>x \<in> set cs. cm_command_id x \<noteq> cm_command_id c"
  shows "upd_rows (\<lambda>x. cm_command_id x = cm_command_id c) (\<lambda>_. c') (cs @ [c]) = cs @ [c']"
  using assms by (induction cs) simp_all

lemma unconfirmed_simps [simp]:
  "cm_command_id (unconfirmed c) = cm_command_id c"
  "cm_lifecycle (unconfirmed c) = ''PUBLISHED_UNCONFIRMED''"
  "cm_payload (unconfirmed c) = cm_payload c" "cm_cmd (unconfirmed c) = cm_cmd c"
  by (simp_all add: unconfirmed_def)

lemma estop_lease_frame [simp]:
  "d_commands (drop_lease_for_estop now redis r db) = d_commands db"
  "d_commands (store H actor ep key b resp st db) = d_commands db"
  "d_commands (set_response actor ep key resp db) = d_commands db"
  by (simp_all add: drop_lease_for_estop_def end_lease_def Let_def store_def set_response_def
      queue_redis_delete_def split: option.split)

lemma enqueue_outcome:
  assumes "\<forall>x \<in> set cs. cm_command_id x \<noteq> cm_command_id c" and "d_commands db = cs @ [c]"
    and "d_commands (pf_db p) = cs @ [c]"
  shows "let p' = snd (enqueue_and_report env rh r actor ep key c m db p) in
    (deliverable r \<and> rh_queue rh \<and> pf_safety p' = pf_safety p @ [m] \<and> d_commands (pf_db p') = cs @ [c])
    \<or> (deliverable r \<and> \<not> rh_queue rh \<and> pf_safety p' = pf_safety p \<and> d_commands (pf_db p') = cs @ [unconfirmed c])
    \<or> (\<not> deliverable r \<and> pf_safety p' = pf_safety p \<and> d_commands (pf_db p') = cs @ [c])"
  using assms
  by (simp add: enqueue_and_report_def Let_def put_command_def put_command_last)

lemma safety_command_new:
  assumes "create_safety_command env n (pf_redis p) r actor cmd [] None ttl prio (begin_tx (pf_db p)) = Inr (c, m, db1)"
    and "lookup H actor ep key [] (begin_tx (pf_db p)) = Inr None"
    and "cmd = ''emergency_stop'' \<longrightarrow> rh_read rh"
  shows "\<exists>db3. d_commands db3 = d_commands (pf_db p) @ [c] \<and>
     safety_command env n H rh r cmd actor ttl prio key ep p
       = enqueue_and_report env rh r actor ep key c m db3 (commit (utc_now env) db3 p)"
  using assms create_safetyE(2,4) [OF assms(1)] unfolding safety_command_def Let_def by force

text \<open>
  Property C7. A safety command is never lost silently: a new request to the stop, emergency-stop
  or reset endpoint either fails before anything is stored, or adds exactly one command row, and
  then the row tells the truth: it is CREATED and its payload is in the safety queue, or it is
  PUBLISHED_UNCONFIRMED and nothing was queued (robot stale or offline, or queue unavailable).
\<close>

theorem safety_never_silently_lost:
  assumes run: "safety_command env n H rh r cmd actor ttl prio key ep p = (res, p')"
    and fresh: "\<forall>x \<in> set (d_commands (pf_db p)). cm_command_id x \<noteq> command_code env (n + 1)"
    and new: "lookup H actor ep key [] (begin_tx (pf_db p)) = Inr None"
  shows "(p' = p \<and> (\<exists>e. res = Inl e)) \<or>
    (\<exists>c. d_commands (pf_db p') = d_commands (pf_db p) @ [c] \<and> cm_cmd c = cmd \<and>
       (if deliverable r \<and> rh_queue rh
        then cm_lifecycle c = ''CREATED'' \<and> pf_safety p' = pf_safety p @ [cm_payload c]
        else cm_lifecycle c = ''PUBLISHED_UNCONFIRMED'' \<and> pf_safety p' = pf_safety p))"
proof (cases "create_safety_command env n (pf_redis p) r actor cmd [] None ttl prio (begin_tx (pf_db p))")
  case (Inl e)
  then have "p' = p \<and> (\<exists>e. res = Inl e)"
    using run new unfolding safety_command_def Let_def by (auto split: option.splits)
  then show ?thesis ..
next
  case (Inr cm)
  obtain c m db1 where made: "create_safety_command env n (pf_redis p) r actor cmd [] None ttl prio
      (begin_tx (pf_db p)) = Inr (c, m, db1)" using Inr by (cases cm) auto
  note mk = create_safetyE [OF made]
  show ?thesis
  proof (cases "cmd = ''emergency_stop'' \<longrightarrow> rh_read rh")
    case False
    then have "p' = p \<and> (\<exists>e. res = Inl e)"
      using run new made mk(2) unfolding safety_command_def Let_def by auto
    then show ?thesis ..
  next
    case True
    from safety_command_new [OF made new True] obtain db3 where
      db3: "d_commands db3 = d_commands (pf_db p) @ [c]" and
      eq: "safety_command env n H rh r cmd actor ttl prio key ep p
        = enqueue_and_report env rh r actor ep key c m db3 (commit (utc_now env) db3 p)" by blast
    have p': "p' = snd (enqueue_and_report env rh r actor ep key c m db3 (commit (utc_now env) db3 p))"
      using run by (simp add: eq [symmetric])
    note row = command_rowE [OF mk(3)]
    have "cm_command_id c = command_code env (n + 1)" using row(8) payload_fields(9) [OF mk(1)] by simp
    then have "\<forall>x \<in> set (d_commands (pf_db p)). cm_command_id x \<noteq> cm_command_id c" using fresh by simp
    from enqueue_outcome [OF this db3, of "commit (utc_now env) db3 p" env rh r actor ep key m]
    show ?thesis using db3 row by (auto simp: p' Let_def)
  qed
qed

definition demo_stop :: "(failure + dict) \<times> platform" where
  "demo_stop = stop_motion (plain_env 0) 0 demo_hash (redis_ok\<lparr>rh_queue := False\<rparr>) ''r'' ''u'' ''k'' demo_platform"

theorem safety_never_silently_lost_witness:
  "pf_safety (snd demo_stop) = [] \<and> map cm_lifecycle (d_commands (pf_db (snd demo_stop))) = [''PUBLISHED_UNCONFIRMED'']"
proof -
  have p: "pf_safety demo_platform = []" "d_commands (pf_db demo_platform) = []"
    by (simp_all add: demo_platform_def demo_db_def empty_db_def)
  have new: "lookup demo_hash ''u'' (robot_endpoint demo_robot ''/commands/stop-motion'') ''k'' []
      (begin_tx (pf_db demo_platform)) = Inr None"
    by (simp add: lookup_def demo_platform_def demo_db_def empty_db_def)
  have run: "demo_stop = safety_command (plain_env 0) 0 demo_hash (redis_ok\<lparr>rh_queue := False\<rparr>) demo_robot
      ''stop_motion'' ''u'' 3000 95 ''k'' (robot_endpoint demo_robot ''/commands/stop-motion'') demo_platform"
    by (simp add: demo_stop_def stop_motion_def with_robot_def) (simp add: demo_platform_def)
  have stored: "d_commands (pf_db (snd demo_stop)) \<noteq> []" by code_simp
  show ?thesis
    using safety_never_silently_lost [of "plain_env 0" 0 demo_hash "redis_ok\<lparr>rh_queue := False\<rparr>" demo_robot
        "''stop_motion''" "''u''" 3000 95 "''k''" "robot_endpoint demo_robot ''/commands/stop-motion''"
        demo_platform "fst demo_stop" "snd demo_stop", OF _ _ new] stored
    by (auto simp: p run redis_ok_def)
qed

text \<open>
  The emergency stop depends on Redis where the plain stop does not: with Redis
  unreachable, a robot online and both commands ready, the stop endpoint still stores its
  command, as unconfirmed, while the emergency-stop endpoint raises on reading the manual lease
  and leaves no trace at all.
\<close>

lemma estop_lost_without_redis:
  assumes down: "\<not> rh_read rh" "\<not> rh_queue rh"
    and gates: "assert_robot_can_execute (utc_now env) (pf_redis p) (begin_tx (pf_db p)) r ''stop_motion'' None = None"
      "assert_robot_can_execute (utc_now env) (pf_redis p) (begin_tx (pf_db p)) r ''emergency_stop'' None = None"
    and online: "deliverable r" "rb_boot_id r = Some b" "b \<noteq> []" and iso: "iso_roundtrip env"
    and fresh: "\<forall>x \<in> set (d_commands (pf_db p)). cm_command_id x \<noteq> command_code env (n + 1)"
    and new: "lookup H actor ep1 key [] (begin_tx (pf_db p)) = Inr None"
      "lookup H actor ep2 key [] (begin_tx (pf_db p)) = Inr None"
  shows "safety_command env n H rh r ''emergency_stop'' actor 5000 100 key ep2 p = (Inl RedisError, p)
    \<and> (\<exists>c. d_commands (pf_db (snd (safety_command env n H rh r ''stop_motion'' actor 3000 95 key ep1 p)))
           = d_commands (pf_db p) @ [c] \<and> cm_lifecycle c = ''PUBLISHED_UNCONFIRMED'')"
proof -
  have made: "\<exists>x. create_safety_command env n (pf_redis p) r actor cmd [] None ttl prio (begin_tx (pf_db p)) = Inr x"
    if "assert_robot_can_execute (utc_now env) (pf_redis p) (begin_tx (pf_db p)) r cmd None = None" for cmd ttl prio
  proof -
    obtain m where m: "build_command_payload env n r actor cmd [] ttl prio None None None 0 = Inr m"
      using online by (simp add: build_command_payload_def)
    show ?thesis
      by (simp add: create_safety_command_def that m command_row_def payload_fields [OF m]
          fromiso_def iso_roundtripD [OF iso])
  qed
  obtain c m db1 where e: "create_safety_command env n (pf_redis p) r actor ''emergency_stop'' [] None
      5000 100 (begin_tx (pf_db p)) = Inr (c, m, db1)" using made [OF gates(2), of 5000 100] by auto
  obtain c2 m2 db2 where s: "create_safety_command env n (pf_redis p) r actor ''stop_motion'' [] None
      3000 95 (begin_tx (pf_db p)) = Inr (c2, m2, db2)" using made [OF gates(1), of 3000 95] by auto
  note mk = create_safetyE [OF s]
  obtain db3 where db3: "d_commands db3 = d_commands (pf_db p) @ [c2]" and
    p': "safety_command env n H rh r ''stop_motion'' actor 3000 95 key ep1 p
          = enqueue_and_report env rh r actor ep1 key c2 m2 db3 (commit (utc_now env) db3 p)"
    using safety_command_new [OF s new(1)] by auto
  have "cm_command_id c2 = command_code env (n + 1)"
    using command_rowE(8) [OF mk(3)] payload_fields(9) [OF mk(1)] by simp
  then have "\<forall>x \<in> set (d_commands (pf_db p)). cm_command_id x \<noteq> cm_command_id c2" using fresh by simp
  from enqueue_outcome [OF this db3, of "commit (utc_now env) db3 p" env rh r actor ep1 key m2]
  have "\<exists>c. d_commands (pf_db (snd (safety_command env n H rh r ''stop_motion'' actor 3000 95 key ep1 p)))
           = d_commands (pf_db p) @ [c] \<and> cm_lifecycle c = ''PUBLISHED_UNCONFIRMED''"
    using down online(1) db3 unfolding p' by (auto simp: Let_def)
  moreover have "safety_command env n H rh r ''emergency_stop'' actor 5000 100 key ep2 p = (Inl RedisError, p)"
    using down by (simp add: safety_command_def gates(2) new(2) e)
  ultimately show ?thesis by simp
qed

lemma demo_safety_gate:
  assumes "a \<in> set SAFETY_COMMANDS"
  shows "assert_robot_can_execute now redis (begin_tx demo_db) demo_robot a None = None"
  unfolding gate_safety [OF assms] using assms by (auto simp: rd_safety_iff SAFETY_COMMANDS_def)

lemma estop_lost_without_redis_witness:
  "safety_command (plain_env 0) 0 demo_hash (redis_ok\<lparr>rh_read := False, rh_queue := False\<rparr>) demo_robot
     ''emergency_stop'' ''u'' 5000 100 ''k'' ''e'' demo_platform = (Inl RedisError, demo_platform)"
  using estop_lost_without_redis [of "redis_ok\<lparr>rh_read := False, rh_queue := False\<rparr>" "plain_env 0"
      demo_platform demo_robot "''b''" 0 demo_hash "''u''" "''s''" "''k''" "''e''"]
  by (simp add: demo_safety_gate SAFETY_COMMANDS_def demo_platform_def deliverable_def lookup_def)
    (simp add: demo_db_def empty_db_def)

section \<open>The compound stop\<close>

lemma payload_built:
  assumes "rb_boot_id r = Some b" "b \<noteq> []"
  shows "\<exists>m. build_command_payload env k r actor cmd ps ttl prio tid None None 0 = Inr m"
  using assms by (simp add: build_command_payload_def)

lemma row_built:
  assumes "iso_roundtrip env" "build_command_payload env k r actor cmd ps ttl prio tid None None 0 = Inr m"
  shows "\<exists>c. command_row env r actor cmd prio tid m st reason = Inr c"
  by (simp add: command_row_def payload_fields [OF assms(2)] fromiso_def iso_roundtripD [OF assms(1)])

text \<open>The gate raises nothing but \<open>PlatformError\<close>.\<close>

definition refusals :: "api_error option set" where
  "refusals = insert None (range (\<lambda>code. Some (PlatformError code)))"

lemma refusals_intros:
  "None \<in> refusals" "Some (PlatformError code) \<in> refusals"
  "x \<in> refusals \<Longrightarrow> y \<in> refusals \<Longrightarrow> (if b then x else y) \<in> refusals"
  "x \<in> refusals \<Longrightarrow> (\<And>v. f v \<in> refusals) \<Longrightarrow> (case z of None \<Rightarrow> x | Some v \<Rightarrow> f v) \<in> refusals"
  by (auto simp: refusals_def split: option.split)

lemma gate_error: "assert_robot_can_execute now redis db r a ignore = Some e \<Longrightarrow> \<exists>code. e = PlatformError code"
proof -
  have "assert_robot_can_execute now redis db r a ignore \<in> refusals"
    unfolding assert_robot_can_execute_def Let_def by (intro refusals_intros)
  then show "assert_robot_can_execute now redis db r a ignore = Some e \<Longrightarrow> ?thesis"
    by (auto simp: refusals_def)
qed

lemma durable_total:
  assumes "rb_boot_id r = Some b" "b \<noteq> []" "iso_roundtrip env"
    and "assert_robot_can_execute (utc_now env) redis db r cmd tid = None"
  shows "\<exists>c m. create_durable_command env n redis r actor cmd ps tid ttl prio db
     = Inr (c, db\<lparr>d_commands := d_commands db @ [c], d_outbox := d_outbox db @ [outbox_row env (n + 3) c m]\<rparr>)"
proof -
  obtain m where m: "build_command_payload env n r actor cmd ps ttl prio tid None None 0 = Inr m"
    using payload_built [OF assms(1,2)] by blast
  obtain c where "command_row env r actor cmd prio tid m ''QUEUED'' JNull = Inr c"
    using row_built [OF assms(3) m] by blast
  then show ?thesis using assms(4) m by (auto simp: create_durable_command_def)
qed

lemma cancel_mission_total:
  assumes "rb_boot_id r = Some b" "b \<noteq> []" "iso_roundtrip env"
  shows "\<exists>cancel mission db2. cancel_mission env n redis r actor active db = Inr (cancel, mission, db2)
     \<and> d_stops db2 = d_stops db
     \<and> (case active of None \<Rightarrow> mission = ''NOT_REQUIRED'' \<and> cancel = None
        | Some t \<Rightarrow> (mission = ''WAITING_ACK'' \<and> cancel \<noteq> None)
                   \<or> (mission = ''UNAVAILABLE'' \<and> cancel = None))"
proof (cases active)
  case None
  then show ?thesis by (simp add: cancel_mission_def)
next
  case (Some t)
  show ?thesis
  proof (cases "assert_robot_can_execute (utc_now env) redis db r ''cancel_task'' (Some (tk_id t))")
    case None
    from durable_total [OF assms None] obtain c m where "create_durable_command env n redis r actor ''cancel_task''
        [(''task_id'', JStr (tk_id t)), (''reason'', JStr ''OPERATOR_STOP'')] (Some (tk_id t)) 30000 96 db
        = Inr (c, db\<lparr>d_commands := d_commands db @ [c], d_outbox := d_outbox db @ [outbox_row env (n + 3) c m]\<rparr>)"
      by blast
    then show ?thesis using Some by (simp add: cancel_mission_def put_task_def)
  next
    case err: (Some e)
    then obtain code where "e = PlatformError code" using gate_error by blast
    then have "create_durable_command env n redis r actor ''cancel_task''
        [(''task_id'', JStr (tk_id t)), (''reason'', JStr ''OPERATOR_STOP'')] (Some (tk_id t)) 30000 96 db
        = Inl (PlatformError code)"
      using err by (simp add: create_durable_command_def)
    then show ?thesis using Some by (simp add: cancel_mission_def)
  qed
qed

text \<open>
  Stopping never waits for the mission: whenever the stop path of an online robot is
  authorised, the compound stop queues a \<open>stop_motion\<close> command for it and opens a stop operation,
  whatever becomes of the mission. The mission part is recorded as NOT_REQUIRED without an active
  task, WAITING_ACK when the task cancellation was stored as well, and UNAVAILABLE exactly when
  the gate refused the cancellation.
\<close>

lemma stop_independent_of_mission:
  assumes robot: "find_robot rid (pf_db p) = Some r" "rb_online_state r = ''ONLINE''"
      "rb_boot_id r = Some b" "b \<noteq> []" and iso: "iso_roundtrip env" and ok: "rh_queue rh" "rh_event rh"
    and new: "lookup H actor (robot_endpoint r ''/stop-operation'') key [] (begin_tx (pf_db p)) = Inr None"
    and active: "active = latest_row tk_created_at (filter (stoppable_task r) (d_tasks (pf_db p)))"
    and gate: "assert_robot_can_execute (utc_now env) (pf_redis p) (begin_tx (pf_db p)) r ''stop_motion''
                 (map_option tk_id active) = None"
  shows "\<exists>m op resp p'. stop_current_operation env n H rh rid actor key p = (Inr resp, p')
     \<and> pf_safety p' = pf_safety p @ [m] \<and> jget m ''cmd'' = JStr ''stop_motion''
     \<and> d_stops (pf_db p') = d_stops (pf_db p) @ [op] \<and> so_motion op = ''WAITING_ACK''
     \<and> (case active of
          None \<Rightarrow> so_mission op = ''NOT_REQUIRED'' \<and> so_cancel_id op = None
        | Some t \<Rightarrow> (so_mission op = ''WAITING_ACK'' \<and> so_cancel_id op \<noteq> None \<and> so_cancel_deadline op \<noteq> None)
                  \<or> (so_mission op = ''UNAVAILABLE'' \<and> so_cancel_id op = None))"
proof -
  let ?db = "begin_tx (pf_db p)"
  obtain m where m: "build_command_payload env n r actor ''stop_motion'' [(''reason'', JStr ''OPERATOR_STOP'')]
      3000 99 (map_option tk_id active) None None 0 = Inr m" using payload_built [OF robot(3,4)] by blast
  obtain c where c: "command_row env r actor ''stop_motion'' 99 (map_option tk_id active) m ''CREATED'' JNull = Inr c"
    using row_built [OF iso m] by blast
  have "deliverable r" using robot(2) by (simp add: deliverable_def)
  then obtain db1 where stop: "create_safety_command env n (pf_redis p) r actor ''stop_motion''
      [(''reason'', JStr ''OPERATOR_STOP'')] (map_option tk_id active) 3000 99 ?db = Inr (c, m, db1)"
      and db1: "d_stops db1 = d_stops (pf_db p)"
    by (simp add: create_safety_command_def gate m c)
  obtain cancel mission db2 where mission: "cancel_mission env (n + 3) (pf_redis p) r actor active db1
       = Inr (cancel, mission, db2)" and same: "d_stops db2 = d_stops (pf_db p)"
    and verdict: "case active of None \<Rightarrow> mission = ''NOT_REQUIRED'' \<and> cancel = None
        | Some t \<Rightarrow> (mission = ''WAITING_ACK'' \<and> cancel \<noteq> None) \<or> (mission = ''UNAVAILABLE'' \<and> cancel = None)"
    using cancel_mission_total [OF robot(3,4) iso, of "n + 3" "pf_redis p" actor active db1]
    by (auto simp: db1)
  let ?op = "new_stop_operation env (uuid env (n + 7)) r actor active cancel c mission"
  obtain p' where run: "stop_current_operation env n H rh rid actor key p = (Inr (serialize_stop env ?op), p')"
    "pf_safety p' = pf_safety p @ [m]" "d_stops (pf_db p') = d_stops (pf_db p) @ [?op]"
    using robot ok by (simp add: stop_current_operation_def with_robot_def new Let_def active [symmetric]
        stop mission store_def same)
  show ?thesis
    using run verdict payload_fields(1) [OF m]
    by (intro exI [of _ m] exI [of _ ?op] exI [of _ "serialize_stop env ?op"] exI [of _ p'])
      (auto simp: new_stop_operation_def split: option.splits)
qed

definition demo_mission_platform :: platform where
  "demo_mission_platform = demo_platform\<lparr>pf_db := demo_db\<lparr>d_tasks := [demo_task],
     d_integrations := [demo_integration\<lparr>ip_map_verified := False\<rparr>]\<rparr>\<rparr>"

definition demo_compound_stop :: "(failure + dict) \<times> platform" where
  "demo_compound_stop =
     stop_current_operation (plain_env 0) 0 demo_hash redis_ok ''r'' ''u'' ''k'' demo_mission_platform"

lemma stop_independent_of_mission_witness:
  "length (pf_safety (snd demo_compound_stop)) = 1
   \<and> map so_mission (d_stops (pf_db (snd demo_compound_stop))) = [''UNAVAILABLE'']"
proof -
  let ?p = demo_mission_platform
  have facts: "find_robot ''r'' (pf_db ?p) = Some demo_robot"
      "lookup demo_hash ''u'' (robot_endpoint demo_robot ''/stop-operation'') ''k'' [] (begin_tx (pf_db ?p)) = Inr None"
      "latest_row tk_created_at (filter (stoppable_task demo_robot) (d_tasks (pf_db ?p))) = Some demo_task"
      "pf_safety ?p = []" "d_stops (pf_db ?p) = []"
    by code_simp+
  have gate: "assert_robot_can_execute (utc_now (plain_env 0)) (pf_redis ?p) (begin_tx (pf_db ?p)) demo_robot
      ''stop_motion'' (map_option tk_id (Some demo_task)) = None"
    by code_simp
  obtain m op resp p' where run: "demo_compound_stop = (Inr resp, p')" "pf_safety p' = [m]" "d_stops (pf_db p') = [op]"
    using stop_independent_of_mission [where b = "''b''" and rh = redis_ok and n = 0,
        OF facts(1) _ _ _ plain_env_roundtrip _ _ facts(2) facts(3) [symmetric] gate]
    by (auto simp: facts redis_ok_def demo_compound_stop_def)
  have "map so_mission (d_stops (pf_db (snd demo_compound_stop))) = [''UNAVAILABLE'']" by code_simp
  then show ?thesis by (simp add: run)
qed

section \<open>Manual driving\<close>

text \<open>
  Every manual pulse the platform publishes stays inside the motion envelope of the
  robot: the linear speed is at most the forward limit and at least minus the reverse limit (zero
  when reversing is not allowed), the angular speed at most its limit in absolute value, and the
  pulse names the lease, the operator session and the sequence number of the request.
\<close>

lemma manual_pulse_in_envelope:
  assumes "manual env n ttl rid actor q p = (res, p')" and "find_robot rid (pf_db p) = Some r"
    and "get_motion (rb_id r) (begin_tx (pf_db p)) = Some m" "mp_forward m = Some fwd" "mp_angular m = Some ang"
    and "0 \<le> fwd" "0 \<le> ang" and "case mp_reverse m of None \<Rightarrow> True | Some x \<Rightarrow> 0 \<le> x"
  shows "pf_manual p' = pf_manual p \<or>
    (\<exists>pulse lin rot. pf_manual p' = pf_manual p @ [pulse]
       \<and> jget (as_dict (jget pulse ''params'')) ''linear_x'' = JFloat lin
       \<and> jget (as_dict (jget pulse ''params'')) ''angular_z'' = JFloat rot
       \<and> lin \<le> fwd \<and> - (if mp_reverse_allowed m then (case mp_reverse m of None \<Rightarrow> 0 | Some x \<Rightarrow> x) else 0) \<le> lin
       \<and> \<bar>rot\<bar> \<le> ang
       \<and> jget pulse ''lease_id'' = JStr (mr_lease_id q) \<and> jget pulse ''operator_id'' = JStr actor
       \<and> jget pulse ''seq'' = JInt (mr_seq q))"
proof -
  have lin: "clamp_linear m fwd v \<le> fwd"
    "- (if mp_reverse_allowed m then (case mp_reverse m of None \<Rightarrow> 0 | Some x \<Rightarrow> x) else 0) \<le> clamp_linear m fwd v" for v
    using assms(6,8) by (auto simp: clamp_linear_def Let_def split: option.splits)
  have rot: "\<bar>clamp_angular ang v\<bar> \<le> ang" for v
    using assms(7) by (auto simp: clamp_angular_def)
  let ?lin = "clamp_linear m fwd (mr_linear q)" and ?rot = "clamp_angular ang (mr_angular q)"
  let ?pulse = "build_command_payload env n r actor ''manual_control'' [(''linear_x'', JFloat ?lin), (''angular_z'', JFloat ?rot)]
    500 80 None (Some (mr_lease_id q)) (Some (mr_session_id q)) (mr_seq q)"
  have pulse: "jget x ''params'' = JObj [(''linear_x'', JFloat ?lin), (''angular_z'', JFloat ?rot)]"
      "jget x ''lease_id'' = JStr (mr_lease_id q)" "jget x ''operator_id'' = JStr actor"
      "jget x ''seq'' = JInt (mr_seq q)" if "?pulse = Inr x" for x
    using that by (auto simp: build_command_payload_def split: if_split_asm)
  have "pf_manual p' = pf_manual p \<or> (\<exists>x. ?pulse = Inr x \<and> pf_manual p' = pf_manual p @ [x])"
    using assms(1) unfolding manual_def with_robot_def assms(2-5) Let_def
    by (auto simp: assms(3-5) split: option.split_asm if_split_asm sum.split_asm)
  then show ?thesis
  proof (elim disjE exE conjE)
    fix x assume x: "?pulse = Inr x" "pf_manual p' = pf_manual p @ [x]"
    show ?thesis
      by (rule disjI2, intro exI [of _ x] exI [of _ ?lin] exI [of _ ?rot])
        (simp add: x(2) pulse [OF x(1)] lin rot)
  qed simp
qed

lemma manual_pulse_in_envelope_witness:
  "clamp_linear demo_motion (1 / 4) (4 / 10) \<le> 1 / 4 \<and>
   pf_manual (snd (manual (plain_env 0) 0 5 ''r'' ''u'' \<lparr>mr_lease_id = [], mr_session_id = [],
     mr_seq = 0, mr_linear = 4 / 10, mr_angular = 0\<rparr> demo_platform)) = []"
proof -
  let ?q = "\<lparr>mr_lease_id = [], mr_session_id = [], mr_seq = 0, mr_linear = 4 / 10, mr_angular = 0\<rparr>"
  let ?run = "manual (plain_env 0) 0 5 ''r'' ''u'' ?q demo_platform"
  have "pf_manual (snd ?run) = pf_manual demo_platform \<or> length (pf_manual (snd ?run)) = 1"
    using manual_pulse_in_envelope [of "plain_env 0" 0 5 "''r''" "''u''" ?q demo_platform "fst ?run" "snd ?run"
        demo_robot demo_motion "1 / 4" "1 / 2"]
    by (auto simp: demo_platform_def) (auto simp: demo_motion_def)
  moreover have "length (pf_manual (snd ?run)) = 0" by code_simp
  moreover have "clamp_linear demo_motion (1 / 4) (4 / 10) \<le> 1 / 4" by (simp add: clamp_linear_def Let_def)
  ultimately show ?thesis by auto
qed

text \<open>
  Manual pulses are strictly ordered per lease: once a pulse with sequence number s
  was accepted, a later request under the same lease with a number not above s is answered as a
  duplicate and publishes nothing, as long as the lease lives, for a lease time to live of at
  most the thirty seconds the last number is remembered.
\<close>

lemma manual_sequence_strict:
  assumes first: "manual env n ttl rid actor q p = (Inr ok, p1)" "jget ok ''accepted'' = JBool True"
    and later: "manual env' n' ttl' rid actor' q' p1 = (Inr resp, p2)"
    and same: "mr_lease_id q' = mr_lease_id q" "mr_seq q' \<le> mr_seq q"
    and ttl: "0 < ttl" "ttl \<le> 30" "utc_now env \<le> utc_now env'"
      "utc_now env' < utc_now env + ttl * 1000000"
  shows "jget resp ''accepted'' = JBool False \<and> p2 = p1"
proof -
  obtain r where r: "find_robot rid (pf_db p) = Some r"
    using first(1) by (auto simp: manual_def with_robot_def split: option.splits)
  have p1: "pf_db p1 = pf_db p \<and> pf_redis p1 = redis_expire (utc_now env) (lease_key (rb_id r)) ttl
      (redis_setex (utc_now env) (lastseq_key (mr_lease_id q)) 30 (JInt (mr_seq q)) (pf_redis p))"
    using first unfolding manual_def with_robot_def r Let_def
    by (auto split: option.split_asm if_split_asm sum.split_asm)
  have ne: "lastseq_key l \<noteq> lease_key k" for l k
    by (simp add: lastseq_key_def lease_key_def)
  have r1: "find_robot rid (pf_db p1) = Some r" using p1 r by simp
  have "last_seq (utc_now env') (pf_redis p1) (mr_lease_id q') (- 1) = mr_seq q"
    using p1 ttl same(1) ne
    by (simp add: last_seq_def redis_expire_def redis_setex_def redis_get_def split: option.split)
  then show ?thesis
    using later same(2) unfolding manual_def with_robot_def r1 Let_def
    by (auto split: option.split_asm if_split_asm sum.split_asm)
qed

definition demo_lease_platform :: platform where
  "demo_lease_platform = snd (acquire_lease (plain_env 0) 0 5 True ''r'' ''u'' (Some ''c'') demo_platform)"

definition demo_pulse :: manual_request where
  "demo_pulse = \<lparr>mr_lease_id = ''u'', mr_session_id = ''c'', mr_seq = 7, mr_linear = 0, mr_angular = 0\<rparr>"

definition demo_driving :: "(failure + dict) \<times> platform" where
  "demo_driving = manual (plain_env 1000) 0 5 ''r'' ''u'' demo_pulse demo_lease_platform"

lemma manual_sequence_strict_witness:
  "case manual (plain_env 2000) 0 5 ''r'' ''u'' demo_pulse (snd demo_driving) of
     (Inr resp, _) \<Rightarrow> jget resp ''accepted'' = JBool False | _ \<Rightarrow> False"
proof -
  have a: "case demo_driving of (Inr ok, _) \<Rightarrow> jget ok ''accepted'' = JBool True | _ \<Rightarrow> False" by code_simp
  have b: "case manual (plain_env 2000) 0 5 ''r'' ''u'' demo_pulse (snd demo_driving) of
     (Inr _, _) \<Rightarrow> True | _ \<Rightarrow> False" by code_simp
  obtain ok p1 where ok: "demo_driving = (Inr ok, p1)" "jget ok ''accepted'' = JBool True"
    using a by (auto split: prod.splits sum.splits)
  have p1: "snd demo_driving = p1" by (simp only: ok(1) snd_conv)
  obtain resp p2 where resp: "manual (plain_env 2000) 0 5 ''r'' ''u'' demo_pulse p1 = (Inr resp, p2)"
    using b unfolding p1 by (auto split: prod.splits sum.splits)
  show ?thesis
    unfolding p1 using manual_sequence_strict [OF ok(1) [unfolded demo_driving_def] ok(2) resp] resp by simp
qed

section \<open>Leases\<close>

lemma acquire_leaseE:
  assumes "acquire_lease env n ttl ok rid actor s p = (Inr resp, p')"
  obtains r sid where "find_robot rid (pf_db p) = Some r"
    "redis_get (utc_now env) (pf_redis p) (lease_key (rb_id r)) = None"
    "pf_redis p' = redis_setex (utc_now env) (lease_key (rb_id r)) ttl
       (JObj (lease_value env (uuid env n) sid r actor (utc_now env + ttl * 1000000))) (pf_redis p)"
    "d_robots (pf_db p') = d_robots (pf_db p)"
    "\<exists>m. d_manual (pf_db p') = d_manual (pf_db p) @ [m] \<and> ms_lease_id m = uuid env n
       \<and> ms_state m = ''HELD'' \<and> ms_user_id m = actor"
proof -
  obtain r where r: "find_robot rid (pf_db p) = Some r"
    using assms by (auto simp: acquire_lease_def with_robot_def split: option.splits)
  show thesis
    using assms unfolding acquire_lease_def with_robot_def r Let_def redis_set_nx_def redis_exists_def
    by (auto simp: commit_def intro: that [OF r] split: option.split_asm if_split_asm)
qed

lemma lease_fields [simp]:
  "jget (lease_value env lid sid r actor t) ''user_id'' = JStr actor"
  "jget (lease_value env lid sid r actor t) ''lease_id'' = JStr lid"
  by (simp_all add: lease_value_def)

text \<open>
  Property C8. The manual lease is exclusive: it is granted only when no lease of the robot is
  live, the grant names its holder, and until it runs out every further request for a lease of
  that robot, by whomever, fails and changes nothing.
\<close>

theorem lease_exclusive:
  assumes "acquire_lease env n ttl True rid actor s p = (Inr resp, p')" and "find_robot rid (pf_db p) = Some r"
    and "utc_now env \<le> utc_now env'" "utc_now env' < utc_now env + ttl * 1000000"
  shows "active_lease (utc_now env) (pf_redis p) r = None
     \<and> (\<exists>lease. active_lease (utc_now env') (pf_redis p') r = Some lease \<and> jget lease ''user_id'' = JStr actor)
     \<and> (\<exists>e. acquire_lease env' n' ttl' ok' rid actor' s' p' = (Inl e, p'))"
proof -
  from assms(1) obtain r' sid where "find_robot rid (pf_db p) = Some r'"
    and free: "redis_get (utc_now env) (pf_redis p) (lease_key (rb_id r')) = None"
    and redis: "pf_redis p' = redis_setex (utc_now env) (lease_key (rb_id r')) ttl
       (JObj (lease_value env (uuid env n) sid r' actor (utc_now env + ttl * 1000000))) (pf_redis p)"
    and robots: "d_robots (pf_db p') = d_robots (pf_db p)"
    by (rule acquire_leaseE)
  then have [simp]: "r' = r" using assms(2) by simp
  have live: "redis_get (utc_now env') (pf_redis p') (lease_key (rb_id r))
      = Some (JObj (lease_value env (uuid env n) sid r actor (utc_now env + ttl * 1000000)))"
    using assms(4) by (simp add: redis redis_setex_def redis_get_def)
  have r': "find_robot rid (pf_db p') = Some r" using assms(2) robots by (simp add: find_robot_def)
  have "\<exists>e. acquire_lease env' n' ttl' ok' rid actor' s' p' = (Inl e, p')"
    by (simp add: acquire_lease_def with_robot_def r' Let_def redis_set_nx_def redis_exists_def live
        split: option.split)
  then show ?thesis using free live by (simp add: active_lease_def)
qed

theorem lease_exclusive_witness:
  "case acquire_lease (plain_env 1000) 0 5 True ''r'' ''w'' None demo_lease_platform of
     (Inl _, _) \<Rightarrow> True | _ \<Rightarrow> False"
proof -
  have "case acquire_lease (plain_env 0) 0 5 True ''r'' ''u'' (Some ''c'') demo_platform of
     (Inr _, _) \<Rightarrow> True | _ \<Rightarrow> False" by code_simp
  then obtain resp where got: "acquire_lease (plain_env 0) 0 5 True ''r'' ''u'' (Some ''c'') demo_platform
      = (Inr resp, demo_lease_platform)"
    unfolding demo_lease_platform_def by (auto split: prod.splits sum.splits)
  show ?thesis
    using lease_exclusive [OF got, of demo_robot "plain_env 1000" 0 5 True "''w''" None]
    by (auto simp: demo_platform_def)
qed

text \<open>
  A release can take away somebody else's lease: releasing checks the holder first and
  deletes the key of the robot at commit, without looking again. If the lease runs out and another
  user acquires a new one in between, the commit deletes the new lease, while the session row of
  its holder stays HELD.
\<close>

lemma stale_release_drops_other_lease:
  assumes check: "release_check (utc_now env0) (pf_redis p0) r actor = Inr (Some old)"
    and taken: "acquire_lease env n ttl True rid other s p = (Inr resp, p')"
    and robot: "find_robot rid (pf_db p) = Some r"
    and ids: "jget old ''lease_id'' = JStr lid" "lid \<noteq> uuid env n"
  shows "active_lease now (pf_redis (release_commit now r old ''USER_RELEASE'' ''RELEASED'' p')) r = None
    \<and> (\<exists>m \<in> set (d_manual (pf_db (release_commit now r old ''USER_RELEASE'' ''RELEASED'' p'))).
         ms_user_id m = other \<and> ms_state m = ''HELD'' \<and> ms_lease_id m = uuid env n)"
proof -
  from taken obtain r' m where m: "d_manual (pf_db p') = d_manual (pf_db p) @ [m]" "ms_lease_id m = uuid env n"
    "ms_state m = ''HELD''" "ms_user_id m = other"
    by (rule acquire_leaseE) auto
  have "m \<in> set (upd_rows (\<lambda>x. ms_lease_id x = lid \<and> ms_state x = ''HELD'') f (d_manual (pf_db p')))" for f
    using m ids by (intro upd_rows_other) auto
  then show ?thesis
    using m ids
    by (auto simp: release_commit_def commit_def active_lease_def end_lease_def Let_def queue_redis_delete_def
        redis_delete_def redis_get_def)
qed

lemma stale_release_drops_other_lease_witness:
  "active_lease 6000001 (pf_redis (release_commit 6000001 demo_robot
      [(''lease_id'', JStr ''old''), (''user_id'', JStr ''a'')] ''USER_RELEASE'' ''RELEASED'' demo_lease_platform))
    demo_robot = None"
proof -
  let ?old = "[(''lease_id'', JStr ''old''), (''user_id'', JStr ''a'')]"
  let ?redis = "(\<lambda>_. None)(lease_key ''r'' \<mapsto> (JObj ?old, None)) :: redis"
  have "case acquire_lease (plain_env 0) 0 5 True ''r'' ''u'' (Some ''c'') demo_platform of
     (Inr _, _) \<Rightarrow> True | _ \<Rightarrow> False" by code_simp
  then obtain resp where got: "acquire_lease (plain_env 0) 0 5 True ''r'' ''u'' (Some ''c'') demo_platform
      = (Inr resp, demo_lease_platform)"
    unfolding demo_lease_platform_def by (auto split: prod.splits sum.splits)
  have "release_check (utc_now (plain_env 0)) (pf_redis (demo_platform\<lparr>pf_redis := ?redis\<rparr>)) demo_robot ''a'' = Inr (Some ?old)"
    by (simp add: release_check_def active_lease_def redis_get_def)
  from stale_release_drops_other_lease [OF this got, of "''old''" 6000001]
  show ?thesis by (simp add: demo_platform_def plain_env_def)
qed

end
