(* ===== verification/Stop_Worker.thy ===== *)
theory Stop_Worker
  imports Platform_Db "HOL-Library.Sublist"
begin

text \<open>
  The stop reconciliation of the task worker (\<open>services/task-worker/main.py\<close>): from the command
  acknowledgement, the task state and the latest telemetry it settles every open stop operation.
  A pass of the worker reads the operations that are not terminal and moves each by one step; an
  exception of a step aborts the pass and rolls it back. The lemmas lift the step to whole
  histories of passes over one operation, with arbitrary telemetry, command and task rows at
  each pass.
\<close>

section \<open>Numbers and times in telemetry\<close>

definition elapsed_seconds :: "micros \<Rightarrow> micros \<Rightarrow> real" where
  "elapsed_seconds now t = real_of_int (now - t) / 1000000"

text \<open>
  The freshness test runs inside \<open>try ... except (TypeError, ValueError)\<close>: a time stamp that is
  missing, is not a string, does not parse or is naive makes the sample not fresh.
\<close>

definition iso_aware :: "pyenv \<Rightarrow> json \<Rightarrow> micros option" where
  "iso_aware env v =
     (case v of
        JStr s \<Rightarrow> if s = [] then None
                  else (case iso_parse env s of Iso_Aware t \<Rightarrow> Some t | _ \<Rightarrow> None)
      | _ \<Rightarrow> None)"

definition fresh_sample :: "pyenv \<Rightarrow> dict \<Rightarrow> micros \<Rightarrow> int \<Rightarrow> bool" where
  "fresh_sample env latest now freshness_ms =
     (case (iso_aware env (jget latest ''server_received_at''), iso_aware env (jget latest ''source_timestamp'')) of
        (Some received, Some source) \<Rightarrow>
          elapsed_seconds now received * 1000 \<le> real_of_int freshness_ms
          \<and> elapsed_seconds now source * 1000 \<le> real_of_int freshness_ms
      | _ \<Rightarrow> False)"

text \<open>
  The planar speed is a value of the sample or \<open>hypot\<close> of its two components. The comparison with
  the threshold is kept executable: \<open>hypot x y < c\<close> is decided on squares.
\<close>

datatype speed = Reported json | Components real real

definition hypot_less :: "real \<Rightarrow> real \<Rightarrow> real \<Rightarrow> bool" where
  "hypot_less x y c \<longleftrightarrow> 0 < c \<and> x * x + y * y < c * c"

lemma hypot_less_iff: "hypot_less x y c \<longleftrightarrow> sqrt (x * x + y * y) < c"
proof (cases "0 < c")
  case True
  then have "sqrt (x * x + y * y) < c \<longleftrightarrow> sqrt (x * x + y * y) < sqrt (c * c)" by simp
  then show ?thesis using True by (simp only: hypot_less_def real_sqrt_less_iff simp_thms)
next
  case False
  have "0 \<le> sqrt (x * x + y * y)" by simp
  with False show ?thesis unfolding hypot_less_def by linarith
qed

definition planar_speed :: "pyenv \<Rightarrow> dict \<Rightarrow> py_exn + speed" where
  "planar_speed env latest =
     (if jget latest ''planar_speed'' \<noteq> JNull then Inr (Reported (jget latest ''planar_speed''))
      else if jget latest ''linear_x'' \<noteq> JNull then
        (case (py_float env (jget latest ''linear_x''), py_float env (py_or (jget latest ''linear_y'') (JInt 0))) of
           (Inr x, Inr y) \<Rightarrow> Inr (Components x y)
         | (Inl e, _) \<Rightarrow> Inl e
         | (_, Inl e) \<Rightarrow> Inl e)
      else Inr (Reported (jget latest ''linear'')))"

fun slower :: "pyenv \<Rightarrow> speed \<Rightarrow> real \<Rightarrow> py_exn + bool" where
  "slower env (Components x y) c = Inr (hypot_less x y c)"
| "slower env (Reported v) c = (case py_float env v of Inl e \<Rightarrow> Inl e | Inr s \<Rightarrow> Inr (\<bar>s\<bar> < c))"

definition stationary_observation ::
    "pyenv \<Rightarrow> dict \<Rightarrow> micros \<Rightarrow> int \<Rightarrow> real \<Rightarrow> real \<Rightarrow> py_exn + (bool \<times> bool)" where
  "stationary_observation env latest now freshness_ms linear_threshold angular_threshold =
     (let fresh = fresh_sample env latest now freshness_ms;
          angular = jget_or latest ''angular_z'' (jget latest ''angular'')
      in case planar_speed env latest of
           Inl e \<Rightarrow> Inl e
         | Inr speed \<Rightarrow>
           (if \<not> fresh \<or> speed = Reported JNull \<or> angular = JNull then Inr (fresh, False)
            else case slower env speed linear_threshold of
              Inl e \<Rightarrow> Inl e
            | Inr slow \<Rightarrow>
              (if \<not> slow then Inr (fresh, False)
               else case py_float env angular of
                 Inl e \<Rightarrow> Inl e
               | Inr w \<Rightarrow> Inr (fresh, \<bar>w\<bar> < angular_threshold))))"

definition token_of :: "pyenv \<Rightarrow> json \<Rightarrow> micros option" where
  "token_of env raw =
     (if \<not> truthy raw then None
      else case iso_parse env (replace_Z (py_str env raw)) of
        Iso_Aware t \<Rightarrow> Some t | Iso_Naive t \<Rightarrow> Some t | Iso_Error \<Rightarrow> None)"

definition observation_token :: "pyenv \<Rightarrow> dict \<Rightarrow> micros option" where
  "observation_token env latest =
     (case token_of env (jget latest ''server_received_at'') of
        Some t \<Rightarrow> Some t
      | None \<Rightarrow> token_of env (jget latest ''source_timestamp''))"

definition advance_stationary_frames ::
    "bool \<Rightarrow> bool \<Rightarrow> micros option \<Rightarrow> micros option \<Rightarrow> int \<Rightarrow> int \<times> micros option" where
  "advance_stationary_frames fresh stationary token prev frames =
     (if \<not> fresh then (0, prev)
      else case token of
        None \<Rightarrow> (frames, prev)
      | Some t \<Rightarrow>
          (if (case prev of None \<Rightarrow> True | Some l \<Rightarrow> l < t)
           then (if stationary then frames + 1 else 0, Some t)
           else (frames, prev)))"

section \<open>One step of one operation\<close>

definition STOP_TERMINAL :: "string list" where
  "STOP_TERMINAL = [''VEHICLE_STATIONARY_CONFIRMED'', ''PARTIAL_UNCONFIRMED'', ''FAILED'', ''UNCONFIRMED'']"

definition MISSION_SETTLED :: "string list" where
  "MISSION_SETTLED = [''NOT_REQUIRED'', ''CANCELLED_CONFIRMED'', ''UNCONFIRMED'', ''UNAVAILABLE'']"

definition mission_update ::
    "micros \<Rightarrow> task option \<Rightarrow> command option \<Rightarrow> stop_operation \<Rightarrow> stop_operation" where
  "mission_update now task cancel op =
     (if so_mission op \<in> set MISSION_SETTLED then op
      else
        let op1 =
          (if (case task of None \<Rightarrow> False | Some t \<Rightarrow> tk_status t = ''CANCELLED'')
           then op\<lparr>so_mission := ''CANCELLED_CONFIRMED''\<rparr>
           else if (case cancel of None \<Rightarrow> False | Some c \<Rightarrow> cm_ack_status c = JStr ''accepted'')
           then op\<lparr>so_mission := ''ACK_ACCEPTED''\<rparr> else op)
        in if so_mission op1 \<notin> {''CANCELLED_CONFIRMED'', ''UNCONFIRMED'', ''UNAVAILABLE''}
              \<and> (case so_cancel_deadline op1 of None \<Rightarrow> False | Some d \<Rightarrow> d \<le> now)
           then op1\<lparr>so_mission := ''UNCONFIRMED'', so_failure := Some ''TASK_CANCEL_TIMEOUT''\<rparr>
           else op1)"

definition stop_acked :: "command option \<Rightarrow> bool" where
  "stop_acked stop \<longleftrightarrow> (case stop of None \<Rightarrow> False | Some c \<Rightarrow> cm_ack_status c = JStr ''accepted'')"

definition stop_ack_unconfirmed :: "micros \<Rightarrow> command option \<Rightarrow> stop_operation \<Rightarrow> bool" where
  "stop_ack_unconfirmed now stop op \<longleftrightarrow>
     (case stop of None \<Rightarrow> False
      | Some c \<Rightarrow> cm_lifecycle c \<in> {''PUBLISHED_UNCONFIRMED'', ''FAILED'', ''EXPIRED''})
     \<or> (so_ack_deadline op \<le> now \<and> \<not> stop_acked stop)"

definition terminate_stop ::
    "micros \<Rightarrow> string \<Rightarrow> string \<Rightarrow> string option \<Rightarrow> stop_operation \<Rightarrow> stop_operation" where
  "terminate_stop now state motion reason op =
     op\<lparr>so_state := state, so_motion := motion, so_terminal_at := Some now,
        so_failure := (case reason of None \<Rightarrow> so_failure op | Some r \<Rightarrow> Some r)\<rparr>"

text \<open>Observation: (physically stationary, sample fresh, operation with the frame count).\<close>

definition observe_motion ::
    "pyenv \<Rightarrow> micros \<Rightarrow> dict \<Rightarrow> stop_operation \<Rightarrow> py_exn + (bool \<times> bool \<times> stop_operation)" where
  "observe_motion env now latest op =
     (if so_motion op = ''STATIONARY_CONFIRMED'' then Inr (True, True, op)
      else case stationary_observation env latest now (so_freshness_ms op) (so_linear op) (so_angular op) of
        Inl e \<Rightarrow> Inl e
      | Inr (fresh, stationary) \<Rightarrow>
        (case advance_stationary_frames fresh stationary (observation_token env latest)
                (so_last_observation op) (so_frames op) of
           (frames, seen) \<Rightarrow>
             Inr (5 \<le> frames, fresh, op\<lparr>so_frames := frames, so_last_observation := seen\<rparr>)))"

definition settle_stationary :: "micros \<Rightarrow> bool \<Rightarrow> stop_operation \<Rightarrow> stop_operation" where
  "settle_stationary now acked op =
     (if so_mission op \<in> {''NOT_REQUIRED'', ''CANCELLED_CONFIRMED''} then
        (if acked
         then terminate_stop now ''VEHICLE_STATIONARY_CONFIRMED'' ''STATIONARY_CONFIRMED'' None op
         else terminate_stop now ''PARTIAL_UNCONFIRMED'' ''STATIONARY_CONFIRMED''
                (Some ''STOP_ACK_UNCONFIRMED'') op)
      else if so_mission op \<in> {''UNAVAILABLE'', ''UNCONFIRMED''} then
        terminate_stop now ''PARTIAL_UNCONFIRMED'' ''STATIONARY_CONFIRMED''
          (Some (case so_failure op of
                   Some r \<Rightarrow> if r = [] then ''TASK_CANCEL_UNCONFIRMED'' else r
                 | None \<Rightarrow> ''TASK_CANCEL_UNCONFIRMED'')) op
      else op\<lparr>so_motion := ''STATIONARY_CONFIRMED'', so_state := ''STATIONARY_CONFIRMED_CANCEL_PENDING''\<rparr>)"

definition settle_moving :: "micros \<Rightarrow> bool \<Rightarrow> bool \<Rightarrow> bool \<Rightarrow> stop_operation \<Rightarrow> stop_operation" where
  "settle_moving now acked unconf fresh op =
     (if \<not> fresh \<and> (unconf \<or> so_verify_deadline op \<le> now)
      then terminate_stop now ''UNCONFIRMED'' ''UNCONFIRMED'' (Some ''TELEMETRY_STALE'') op
      else if so_verify_deadline op \<le> now
      then terminate_stop now ''UNCONFIRMED'' ''UNCONFIRMED'' (Some ''VELOCITY_NOT_ZERO'') op
      else op\<lparr>so_motion := (if acked then ''VERIFYING_STATIONARY''
                            else if unconf then ''UNCONFIRMED'' else ''WAITING_ACK''),
              so_state := ''VERIFYING_STATIONARY''\<rparr>)"

definition reconcile_stop ::
    "pyenv \<Rightarrow> micros \<Rightarrow> task option \<Rightarrow> command option \<Rightarrow> command option \<Rightarrow> dict \<Rightarrow> stop_operation \<Rightarrow>
     py_exn + stop_operation" where
  "reconcile_stop env now task cancel stop latest op =
     (let op1 = mission_update now task cancel op;
          acked = stop_acked stop;
          unconf = stop_ack_unconfirmed now stop op1
      in case observe_motion env now latest op1 of
           Inl e \<Rightarrow> Inl e
         | Inr (stationary, fresh, op2) \<Rightarrow>
             Inr (if stationary then settle_stationary now acked op2
                  else settle_moving now acked unconf fresh op2))"

section \<open>A pass of the worker\<close>

definition latest_of :: "micros \<Rightarrow> redis \<Rightarrow> robot option \<Rightarrow> dict" where
  "latest_of now redis robot =
     (case robot of None \<Rightarrow> []
      | Some r \<Rightarrow> (case redis_get now redis (latest_key (rb_vehicle_id r)) of
                     None \<Rightarrow> [] | Some v \<Rightarrow> as_dict v))"

definition stop_inputs ::
    "micros \<Rightarrow> redis \<Rightarrow> 'a database_scheme \<Rightarrow> stop_operation \<Rightarrow>
     task option \<times> command option \<times> command option \<times> dict" where
  "stop_inputs now redis db op =
     (case so_task_id op of None \<Rightarrow> None | Some t \<Rightarrow> if t = [] then None else get_task t db,
      case so_cancel_id op of None \<Rightarrow> None | Some c \<Rightarrow> if c = [] then None else get_command c db,
      get_command (so_stop_id op) db,
      latest_of now redis (get_robot (so_robot_id op) db))"

definition stop_event :: "stop_operation \<Rightarrow> operation_event" where
  "stop_event op =
     \<lparr>oe_robot_id = so_robot_id op, oe_task_id = so_task_id op, oe_type = ''STOP_PATROL'',
      oe_state = so_motion op,
      oe_payload = [(''stationary_frames'', JInt (so_frames op)),
                    (''mission_cancel_state'', JStr (so_mission op))]\<rparr>"

definition store_stop :: "stop_operation \<Rightarrow> tx \<Rightarrow> tx" where
  "store_stop op db =
     queue_event ''operation.stop.updated'' (Ev_Stop op)
       ((put_stop op db)\<lparr>d_op_events := d_op_events db
           @ (if so_state op \<in> set STOP_TERMINAL then [stop_event op] else [])\<rparr>)"

fun reconcile_stops :: "pyenv \<Rightarrow> micros \<Rightarrow> redis \<Rightarrow> stop_operation list \<Rightarrow> tx \<Rightarrow> py_exn + tx" where
  "reconcile_stops env now redis [] db = Inr db"
| "reconcile_stops env now redis (op # ops) db =
     (case stop_inputs now redis db op of
        (task, cancel, stop, latest) \<Rightarrow>
          (case reconcile_stop env now task cancel stop latest op of
             Inl e \<Rightarrow> Inl e
           | Inr op' \<Rightarrow> reconcile_stops env now redis ops (store_stop op' db)))"

definition reconcile_stop_operations :: "pyenv \<Rightarrow> micros \<Rightarrow> redis \<Rightarrow> tx \<Rightarrow> py_exn + tx" where
  "reconcile_stop_operations env now redis db =
     reconcile_stops env now redis (filter (\<lambda>op. so_state op \<notin> set STOP_TERMINAL) (d_stops db)) db"

end
