(* ===== verification/Stop_Safety.thy ===== *)
theory Stop_Safety
  imports Stop_Worker
begin

text \<open>
  Properties of stop operations: what a verdict is worth, that a confirmed standstill is never
  taken back, and that every operation is settled once its deadlines have passed.
\<close>

section \<open>Histories of one operation\<close>

record stop_pass =
  ps_env :: pyenv
  ps_now :: micros
  ps_task :: "task option"
  ps_cancel :: "command option"
  ps_stop :: "command option"
  ps_latest :: dict

definition stop_step :: "stop_pass \<Rightarrow> stop_operation \<Rightarrow> py_exn + stop_operation" where
  "stop_step p op =
     (if so_state op \<in> set STOP_TERMINAL then Inr op
      else reconcile_stop (ps_env p) (ps_now p) (ps_task p) (ps_cancel p) (ps_stop p) (ps_latest p) op)"

text \<open>A history lists its passes newest first.\<close>

fun stop_history :: "stop_operation \<Rightarrow> stop_pass list \<Rightarrow> py_exn + stop_operation" where
  "stop_history op [] = Inr op"
| "stop_history op (p # ps) = (case stop_history op ps of Inl e \<Rightarrow> Inl e | Inr op1 \<Rightarrow> stop_step p op1)"

text \<open>A pass that saw the vehicle standing still in a fresh sample with a time stamp.\<close>

definition standing :: "stop_operation \<Rightarrow> stop_pass \<Rightarrow> bool" where
  "standing op p \<longleftrightarrow>
     stationary_observation (ps_env p) (ps_latest p) (ps_now p) (so_freshness_ms op) (so_linear op) (so_angular op)
       = Inr (True, True)
     \<and> observation_token (ps_env p) (ps_latest p) \<noteq> None"

definition sample_time :: "stop_pass \<Rightarrow> micros" where
  "sample_time p = (case observation_token (ps_env p) (ps_latest p) of None \<Rightarrow> 0 | Some t \<Rightarrow> t)"

named_theorems stop_defs \<open>the parts of a reconciliation step\<close>

lemmas [stop_defs] = reconcile_stop_def Let_def settle_stationary_def settle_moving_def
  terminate_stop_def

lemma mission_update_frame [simp]:
  "so_motion (mission_update now t c op) = so_motion op" "so_frames (mission_update now t c op) = so_frames op"
  "so_last_observation (mission_update now t c op) = so_last_observation op"
  "so_linear (mission_update now t c op) = so_linear op" "so_angular (mission_update now t c op) = so_angular op"
  "so_freshness_ms (mission_update now t c op) = so_freshness_ms op"
  "so_verify_deadline (mission_update now t c op) = so_verify_deadline op"
  "so_ack_deadline (mission_update now t c op) = so_ack_deadline op"
  "so_cancel_deadline (mission_update now t c op) = so_cancel_deadline op"
  "so_id (mission_update now t c op) = so_id op"
  "so_state (mission_update now t c op) = so_state op" "so_stop_id (mission_update now t c op) = so_stop_id op"
  by (simp_all add: mission_update_def Let_def)

lemma settle_frame [simp]:
  "so_frames (settle_stationary now a op) = so_frames op" "so_linear (settle_stationary now a op) = so_linear op"
  "so_angular (settle_stationary now a op) = so_angular op"
  "so_freshness_ms (settle_stationary now a op) = so_freshness_ms op"
  "so_last_observation (settle_stationary now a op) = so_last_observation op"
  "so_motion (settle_stationary now a op) = ''STATIONARY_CONFIRMED''"
  "so_mission (settle_stationary now a op) = so_mission op"
  "so_id (settle_stationary now a op) = so_id op" "so_id (settle_moving now a u f op) = so_id op"
  "so_frames (settle_moving now a u f op) = so_frames op" "so_linear (settle_moving now a u f op) = so_linear op"
  "so_angular (settle_moving now a u f op) = so_angular op"
  "so_freshness_ms (settle_moving now a u f op) = so_freshness_ms op"
  "so_last_observation (settle_moving now a u f op) = so_last_observation op"
  "so_motion (settle_moving now a u f op) \<noteq> ''STATIONARY_CONFIRMED''"
  by (simp_all add: stop_defs split: option.split)

lemma stop_step_params:
  assumes "stop_step p op = Inr op'"
  shows "so_linear op' = so_linear op" "so_angular op' = so_angular op" "so_freshness_ms op' = so_freshness_ms op"
  using assms
  by (auto simp: stop_step_def reconcile_stop_def Let_def observe_motion_def
      split: if_split_asm sum.split_asm prod.split_asm)

lemma standing_step:
  assumes "stop_step p op = Inr op'" shows "standing op' = standing op"
  using stop_step_params [OF assms] by (simp add: standing_def fun_eq_iff)

lemma standing_history:
  "stop_history op ps = Inr op' \<Longrightarrow> standing op' = standing op"
  by (induction ps arbitrary: op') (auto simp: standing_step split: sum.split_asm)

text \<open>The frame counter counts passes over distinct, increasing samples that all stood still.\<close>

definition counted :: "stop_operation \<Rightarrow> stop_pass list \<Rightarrow> stop_pass list \<Rightarrow> bool" where
  "counted op ps ys \<longleftrightarrow> subseq ys ps \<and> int (length ys) = so_frames op
     \<and> sorted_wrt (\<lambda>a b. sample_time b < sample_time a) ys \<and> (\<forall>y \<in> set ys. standing op y)
     \<and> (\<forall>y \<in> set ys. case so_last_observation op of None \<Rightarrow> False | Some l \<Rightarrow> sample_time y \<le> l)"

definition confirmed_ok :: "stop_operation \<Rightarrow> bool" where
  "confirmed_ok op \<longleftrightarrow> (so_motion op = ''STATIONARY_CONFIRMED'' \<longrightarrow> 5 \<le> so_frames op)"

lemma advance_counted:
  assumes "counted op ps ys"
    and obs: "stationary_observation (ps_env p) (ps_latest p) (ps_now p) (so_freshness_ms op) (so_linear op)
        (so_angular op) = Inr (fresh, still)"
    and adv: "advance_stationary_frames fresh still (observation_token (ps_env p) (ps_latest p))
        (so_last_observation op) (so_frames op) = (frames, seen)"
  shows "\<exists>ys. counted (op\<lparr>so_frames := frames, so_last_observation := seen\<rparr>) (p # ps) ys"
proof -
  have st: "standing (op\<lparr>so_frames := f, so_last_observation := l\<rparr>) = standing op" for f l
    by (simp add: standing_def fun_eq_iff)
  consider (reset) "frames = 0" | (same) "frames = so_frames op" "seen = so_last_observation op"
    | (more) t where "fresh" "still" "observation_token (ps_env p) (ps_latest p) = Some t" "frames = so_frames op + 1"
        "seen = Some t" "case so_last_observation op of None \<Rightarrow> True | Some l \<Rightarrow> l < t"
    using adv by (auto simp: advance_stationary_frames_def split: if_split_asm option.split_asm)
  then show ?thesis
  proof cases
    case reset
    then have "counted (op\<lparr>so_frames := frames, so_last_observation := seen\<rparr>) (p # ps) []"
      by (simp add: counted_def)
    then show ?thesis ..
  next
    case same
    then have "counted (op\<lparr>so_frames := frames, so_last_observation := seen\<rparr>) (p # ps) ys"
      using assms(1) st by (auto simp: counted_def)
    then show ?thesis ..
  next
    case (more t)
    have time: "sample_time p = t" using more by (simp add: sample_time_def)
    have "standing op p" using more obs by (simp add: standing_def)
    then have "counted (op\<lparr>so_frames := frames, so_last_observation := seen\<rparr>) (p # ps) (p # ys)"
      using assms(1) more time st
      by (fastforce simp: counted_def split: option.split_asm)
    then show ?thesis ..
  qed
qed

lemma counted_cong:
  assumes "counted op ps ys" "so_frames op' = so_frames op" "so_last_observation op' = so_last_observation op"
    "standing op' = standing op"
  shows "counted op' ps ys"
  using assms by (simp add: counted_def)

lemma reconcile_counted:
  assumes "reconcile_stop (ps_env p) (ps_now p) (ps_task p) (ps_cancel p) (ps_stop p) (ps_latest p) op = Inr op'"
    and "counted op ps ys" and "confirmed_ok op" and st: "standing op' = standing op"
  shows "(\<exists>zs. counted op' (p # ps) zs) \<and> confirmed_ok op'"
proof -
  let ?op1 = "mission_update (ps_now p) (ps_task p) (ps_cancel p) op"
  have c1: "counted ?op1 ps ys"
    using assms(2) by (rule counted_cong) (simp_all add: standing_def fun_eq_iff)
  obtain stationary fresh op2 where o: "observe_motion (ps_env p) (ps_now p) (ps_latest p) ?op1
      = Inr (stationary, fresh, op2)"
    using assms(1) unfolding reconcile_stop_def Let_def by (auto split: sum.split_asm)
  have op': "op' = (if stationary then settle_stationary (ps_now p) (stop_acked (ps_stop p)) op2
      else settle_moving (ps_now p) (stop_acked (ps_stop p))
             (stop_ack_unconfirmed (ps_now p) (ps_stop p) ?op1) fresh op2)"
    using assms(1) unfolding reconcile_stop_def Let_def o by simp
  have "(\<exists>zs. counted op2 (p # ps) zs) \<and> (stationary \<longrightarrow> 5 \<le> so_frames op2)"
  proof (cases "so_motion op = ''STATIONARY_CONFIRMED''")
    case True
    then have "op2 = ?op1" using o by (simp add: observe_motion_def)
    then show ?thesis using True c1 assms(3) by (auto simp: counted_def confirmed_ok_def)
  next
    case False
    then show ?thesis using o advance_counted [OF c1]
      by (auto simp: observe_motion_def split: sum.split_asm prod.split_asm)
  qed
  then obtain zs where zs: "counted op2 (p # ps) zs" "stationary \<longrightarrow> 5 \<le> so_frames op2" by blast
  have "counted op' (p # ps) zs"
    using zs(1) by (rule counted_cong) (simp_all add: op' standing_def fun_eq_iff)
  moreover have "confirmed_ok op'" using zs(2) by (simp add: op' confirmed_ok_def)
  ultimately show ?thesis by blast
qed

lemma history_counted:
  assumes "stop_history op ps = Inr op'" "so_frames op = 0" "so_motion op \<noteq> ''STATIONARY_CONFIRMED''"
  shows "(\<exists>ys. counted op' ps ys) \<and> confirmed_ok op'"
  using assms(1)
proof (induction ps arbitrary: op')
  case Nil
  then show ?case using assms by (auto simp: counted_def confirmed_ok_def)
next
  case (Cons p ps)
  then obtain op1 where op1: "stop_history op ps = Inr op1" "stop_step p op1 = Inr op'"
    by (auto split: sum.split_asm)
  from Cons.IH [OF op1(1)] obtain ys where ys: "counted op1 ps ys" "confirmed_ok op1" by blast
  show ?case
  proof (cases "so_state op1 \<in> set STOP_TERMINAL")
    case True
    then have "op' = op1" using op1(2) by (simp add: stop_step_def)
    then show ?thesis using ys by (auto simp: counted_def)
  next
    case False
    then show ?thesis
      using reconcile_counted [OF _ ys standing_step [OF op1(2)]] op1(2) by (simp add: stop_step_def)
  qed
qed

text \<open>
  Property C9. A confirmed standstill rests on five independent observations: if an operation that
  starts with no counted frame is ever marked STATIONARY_CONFIRMED, then five passes of its
  history saw fresh telemetry of a standing vehicle, in samples with strictly increasing time
  stamps. Reconciling the same sample again, however often, counts once.
\<close>

theorem standstill_needs_five_samples:
  assumes "stop_history op ps = Inr op'" "so_frames op = 0" "so_motion op \<noteq> ''STATIONARY_CONFIRMED''"
    and "so_motion op' = ''STATIONARY_CONFIRMED''"
  shows "\<exists>ys. subseq ys ps \<and> 5 \<le> length ys \<and> (\<forall>y \<in> set ys. standing op y)
     \<and> sorted_wrt (\<lambda>a b. sample_time b < sample_time a) ys"
proof -
  from history_counted [OF assms(1-3)] obtain ys where "counted op' ps ys" "confirmed_ok op'" by blast
  then show ?thesis
    using assms(4) standing_history [OF assms(1)] unfolding counted_def confirmed_ok_def by auto
qed

text \<open>A run of passes one second apart over samples taken at the time of each pass.\<close>

definition demo_sample :: "micros \<Rightarrow> dict" where
  "demo_sample t = [(''server_received_at'', JStr (decimal_format t)), (''source_timestamp'', JStr (decimal_format t)),
     (''planar_speed'', JInt 0), (''angular_z'', JInt 0)]"

definition demo_stop_command :: "json \<Rightarrow> command" where
  "demo_stop_command status = \<lparr>cm_command_id = ''c'', cm_correlation_id = [], cm_robot_id = ''r'', cm_task_id = None,
     cm_cmd = ''stop_motion'', cm_priority = 99, cm_payload = [], cm_lifecycle = ''ACKED'', cm_issued_by = [],
     cm_issued_at = 0, cm_expires_at = 3000000, cm_published_at = Some 0, cm_ack_at = None,
     cm_ack_status = status, cm_ack_reason = JNull, cm_terminal_at = None\<rparr>"

definition demo_pass :: "micros \<Rightarrow> dict \<Rightarrow> stop_pass" where
  "demo_pass t latest = \<lparr>ps_env = plain_env t, ps_now = t, ps_task = None, ps_cancel = None,
     ps_stop = Some (demo_stop_command (JStr ''accepted'')), ps_latest = latest\<rparr>"

definition demo_operation :: stop_operation where
  "demo_operation = \<lparr>so_id = ''o'', so_robot_id = ''r'', so_boot = Some ''b'', so_task_id = None,
     so_cancel_id = None, so_stop_id = ''c'', so_state = ''STOP_REQUESTED'', so_motion = ''WAITING_ACK'',
     so_mission = ''NOT_REQUIRED'', so_frames = 0, so_last_observation = None, so_linear = 1 / 50,
     so_angular = 3 / 100, so_freshness_ms = 1000, so_requested_by = ''u'', so_ack_deadline = 5000000,
     so_cancel_deadline = None, so_verify_deadline = 15000000, so_terminal_at = None, so_failure = None\<rparr>"

definition demo_stop_history :: "stop_pass list" where
  "demo_stop_history = map (\<lambda>k. demo_pass (k * 1000000) (demo_sample (k * 1000000))) [5, 4, 3, 2, 1]"

theorem standstill_needs_five_samples_witness:
  "case stop_history demo_operation demo_stop_history of Inl _ \<Rightarrow> False
   | Inr op' \<Rightarrow> so_state op' = ''VEHICLE_STATIONARY_CONFIRMED'' \<and>
       (\<exists>ys. subseq ys demo_stop_history \<and> 5 \<le> length ys)"
proof -
  have run: "case stop_history demo_operation demo_stop_history of Inl _ \<Rightarrow> False
   | Inr op' \<Rightarrow> so_state op' = ''VEHICLE_STATIONARY_CONFIRMED'' \<and> so_motion op' = ''STATIONARY_CONFIRMED''"
    by code_simp
  obtain op' where op': "stop_history demo_operation demo_stop_history = Inr op'"
    "so_state op' = ''VEHICLE_STATIONARY_CONFIRMED''" "so_motion op' = ''STATIONARY_CONFIRMED''"
    using run by (auto split: sum.splits)
  from standstill_needs_five_samples [OF op'(1) _ _ op'(3)]
  have "\<exists>ys. subseq ys demo_stop_history \<and> 5 \<le> length ys" by (auto simp: demo_operation_def)
  then show ?thesis using op' by simp
qed

section \<open>A whole pass over the table\<close>

lemma store_stop_tables [simp]:
  "d_stops (store_stop op db) = upd_rows (\<lambda>x. so_id x = so_id op) (\<lambda>_. op) (d_stops db)"
  "d_tasks (store_stop op db) = d_tasks db" "d_commands (store_stop op db) = d_commands db"
  "d_robots (store_stop op db) = d_robots db"
  by (simp_all add: store_stop_def put_stop_def queue_event_def)

lemma stop_inputs_store [simp]: "stop_inputs now redis (store_stop x db) op = stop_inputs now redis db op"
  by (simp add: stop_inputs_def get_task_def get_command_def get_robot_def split: option.split)

lemma reconcile_stop_id: "reconcile_stop env now task cancel stop latest op = Inr op' \<Longrightarrow> so_id op' = so_id op"
  by (auto simp: reconcile_stop_def Let_def observe_motion_def
      split: if_split_asm sum.split_asm prod.split_asm)

lemma map_ids_upd: "so_id op' = k \<Longrightarrow> map so_id (upd_rows (\<lambda>x. so_id x = k) (\<lambda>_. op') rows) = map so_id rows"
  by (induction rows) auto

definition step_of :: "pyenv \<Rightarrow> micros \<Rightarrow> redis \<Rightarrow> tx \<Rightarrow> stop_operation \<Rightarrow> py_exn + stop_operation" where
  "step_of env now redis db op =
     (case stop_inputs now redis db op of
        (task, cancel, stop, latest) \<Rightarrow> reconcile_stop env now task cancel stop latest op)"

lemma step_of_store [simp]: "step_of env now redis (store_stop x db) = step_of env now redis db"
  by (simp add: step_of_def fun_eq_iff)

lemma step_of_id: "step_of env now redis db op = Inr op' \<Longrightarrow> so_id op' = so_id op"
  by (auto simp: step_of_def split: prod.split_asm dest: reconcile_stop_id)

lemma reconcile_stops_rows:
  assumes "reconcile_stops env now redis ops db = Inr db'" "distinct (map so_id (d_stops db))"
    "distinct ops" "set ops \<subseteq> set (d_stops db)" "op \<in> set (d_stops db)"
  shows "\<exists>op' \<in> set (d_stops db'). so_id op' = so_id op
     \<and> (if op \<in> set ops then step_of env now redis db op = Inr op' else op' = op)"
  using assms
proof (induction ops arbitrary: db op)
  case Nil
  then show ?case by auto
next
  case (Cons o1 ops)
  obtain o2 where o2: "step_of env now redis db o1 = Inr o2"
    and rest: "reconcile_stops env now redis ops (store_stop o2 db) = Inr db'"
    using Cons.prems(1) by (auto simp: step_of_def split: prod.split_asm sum.split_asm)
  have id: "so_id o2 = so_id o1" using step_of_id [OF o2] .
  have inj: "inj_on so_id (set (d_stops db))" using Cons.prems(2) by (simp add: distinct_map)
  have d: "distinct (map so_id (d_stops (store_stop o2 db)))"
    using Cons.prems(2) by (simp add: map_ids_upd)
  have keep: "x \<in> set (d_stops (store_stop o2 db))" if "x \<in> set (d_stops db)" "x \<noteq> o1" for x
  proof -
    have "so_id x \<noteq> so_id o2" using inj that Cons.prems(4) id by (auto dest: inj_onD)
    then show ?thesis using that(1) by (simp add: upd_rows_other)
  qed
  have sub: "set ops \<subseteq> set (d_stops (store_stop o2 db))"
    using Cons.prems(3,4) keep by auto
  show ?case
  proof (cases "op = o1")
    case True
    have "o2 \<in> set (d_stops (store_stop o2 db))"
      using Cons.prems(5) True id by (force simp: upd_rows_def)
    from Cons.IH [OF rest d _ sub this, unfolded step_of_store] Cons.prems(3)
    obtain op' where "op' \<in> set (d_stops db')" "so_id op' = so_id o2"
      "if o2 \<in> set ops then step_of env now redis db o2 = Inr op' else op' = o2" by auto
    moreover have "o2 \<notin> set ops"
    proof
      assume "o2 \<in> set ops"
      then have "o2 = o1" using Cons.prems(4) inj id by (auto dest: inj_onD)
      then show False using \<open>o2 \<in> set ops\<close> Cons.prems(3) by simp
    qed
    ultimately show ?thesis using True o2 id by auto
  next
    case False
    from Cons.IH [OF rest d _ sub keep [OF Cons.prems(5) False], unfolded step_of_store] Cons.prems(3) False
    show ?thesis by auto
  qed
qed

lemma pass_rows:
  assumes "reconcile_stop_operations env now redis db = Inr db'" "distinct (map so_id (d_stops db))"
    and "op \<in> set (d_stops db)"
  obtains op' where "op' \<in> set (d_stops db')" "so_id op' = so_id op"
    "if so_state op \<in> set STOP_TERMINAL then op' = op else step_of env now redis db op = Inr op'"
proof -
  have "distinct (d_stops db)" using assms(2) by (simp add: distinct_map)
  then have "distinct (filter (\<lambda>op. so_state op \<notin> set STOP_TERMINAL) (d_stops db))" by simp
  from reconcile_stops_rows [OF assms(1) [unfolded reconcile_stop_operations_def] assms(2) this _ assms(3)]
  obtain op' where "op' \<in> set (d_stops db')" "so_id op' = so_id op"
    "if op \<in> set (filter (\<lambda>op. so_state op \<notin> set STOP_TERMINAL) (d_stops db))
     then step_of env now redis db op = Inr op' else op' = op" by auto
  then show thesis using assms(3) by (intro that [of op']) (auto split: if_split_asm)
qed

text \<open>
  Property C10. A confirmed standstill is never taken back: a pass of the worker leaves terminal
  operations exactly as they are, and an operation that is STATIONARY_CONFIRMED before a pass is
  STATIONARY_CONFIRMED after it, with the same frame count, whatever telemetry, acknowledgement
  or deadline the pass sees.
\<close>

theorem standstill_is_permanent:
  assumes "reconcile_stop_operations env now redis db = Inr db'" "distinct (map so_id (d_stops db))"
    and "op \<in> set (d_stops db)"
    and "so_state op \<in> set STOP_TERMINAL \<or> so_motion op = ''STATIONARY_CONFIRMED''"
  shows "\<exists>op' \<in> set (d_stops db'). so_id op' = so_id op
     \<and> (so_state op \<in> set STOP_TERMINAL \<longrightarrow> op' = op)
     \<and> (so_motion op = ''STATIONARY_CONFIRMED'' \<longrightarrow>
          so_motion op' = ''STATIONARY_CONFIRMED'' \<and> so_frames op' = so_frames op)"
proof -
  from assms(1-3) obtain op' where op': "op' \<in> set (d_stops db')" "so_id op' = so_id op"
    "if so_state op \<in> set STOP_TERMINAL then op' = op else step_of env now redis db op = Inr op'"
    by (rule pass_rows)
  moreover have "so_motion op' = ''STATIONARY_CONFIRMED'' \<and> so_frames op' = so_frames op"
    if "so_motion op = ''STATIONARY_CONFIRMED''"
    using op'(3) that
    by (auto simp: step_of_def reconcile_stop_def Let_def observe_motion_def
        split: if_split_asm prod.split_asm)
  ultimately show ?thesis by auto
qed

definition demo_stop_db :: "stop_operation \<Rightarrow> tx" where
  "demo_stop_db op = begin_tx (empty_db\<lparr>d_stops := [op]\<rparr>)"

lemma demo_stop_db_simps [simp]: "d_stops (demo_stop_db op) = [op]"
  by (simp add: demo_stop_db_def)

definition demo_confirmed :: stop_operation where
  "demo_confirmed = demo_operation\<lparr>so_motion := ''STATIONARY_CONFIRMED'', so_frames := 5,
     so_mission := ''WAITING_ACK'', so_cancel_deadline := Some 10000000\<rparr>"

theorem standstill_is_permanent_witness:
  "case reconcile_stop_operations (plain_env 20000000) 20000000 (\<lambda>_. None) (demo_stop_db demo_confirmed) of
     Inl _ \<Rightarrow> False | Inr db' \<Rightarrow> map so_motion (d_stops db') = [''STATIONARY_CONFIRMED'']"
proof -
  have "case reconcile_stop_operations (plain_env 20000000) 20000000 (\<lambda>_. None) (demo_stop_db demo_confirmed) of
     Inl _ \<Rightarrow> False | Inr db' \<Rightarrow> length (d_stops db') = 1" by code_simp
  then obtain db' where db': "reconcile_stop_operations (plain_env 20000000) 20000000 (\<lambda>_. None)
      (demo_stop_db demo_confirmed) = Inr db'" "length (d_stops db') = 1"
    by (auto split: sum.splits)
  from standstill_is_permanent [OF db'(1), of demo_confirmed] db'(2)
  show ?thesis unfolding db'(1) by (cases "d_stops db'") (auto simp: demo_confirmed_def)
qed

text \<open>
  Property C11. The full verdict is earned: a step ends in VEHICLE_STATIONARY_CONFIRMED only if the
  vehicle acknowledged the stop command, the mission needs no cancellation or its cancellation is
  confirmed (by the task being CANCELLED, not by the acknowledgement alone), and the standstill
  was confirmed before or has five counted frames now.
\<close>

theorem full_verdict_is_earned:
  assumes "reconcile_stop env now task cancel stop latest op = Inr op'"
    and "so_state op' = ''VEHICLE_STATIONARY_CONFIRMED''"
  shows "stop_acked stop \<and> so_motion op' = ''STATIONARY_CONFIRMED''
     \<and> (so_motion op = ''STATIONARY_CONFIRMED'' \<or> 5 \<le> so_frames op')
     \<and> so_mission op' \<in> {''NOT_REQUIRED'', ''CANCELLED_CONFIRMED''}
     \<and> (so_mission op' \<noteq> so_mission op \<longrightarrow> (\<exists>t. task = Some t \<and> tk_status t = ''CANCELLED''))"
proof -
  let ?op1 = "mission_update now task cancel op"
  obtain st fresh op2 where o: "observe_motion env now latest ?op1 = Inr (st, fresh, op2)"
    using assms(1) by (auto simp: reconcile_stop_def Let_def split: sum.split_asm)
  have st: st
    using assms o by (auto simp: reconcile_stop_def Let_def settle_moving_def terminate_stop_def split: if_split_asm)
  have op': "op' = settle_stationary now (stop_acked stop) op2"
    using assms(1) o st by (simp add: reconcile_stop_def)
  have m2: "so_mission op2 = so_mission ?op1" and f2: "so_motion op = ''STATIONARY_CONFIRMED'' \<or> 5 \<le> so_frames op2"
    using o st by (auto simp: observe_motion_def split: if_split_asm sum.split_asm prod.split_asm)
  have acked: "stop_acked stop" and mission: "so_mission op2 \<in> {''NOT_REQUIRED'', ''CANCELLED_CONFIRMED''}"
    using assms(2) unfolding op' settle_stationary_def terminate_stop_def by (auto split: if_split_asm)
  have "so_mission ?op1 \<noteq> so_mission op \<longrightarrow> (\<exists>t. task = Some t \<and> tk_status t = ''CANCELLED'')"
    using mission m2 by (auto simp: mission_update_def Let_def split: if_split_asm option.split_asm)
  then show ?thesis using acked mission m2 f2 by (simp add: op')
qed

theorem full_verdict_is_earned_witness:
  "stop_acked (Some (demo_stop_command (JStr ''accepted''))) \<and>
   (case stop_history demo_operation (tl demo_stop_history) of Inl _ \<Rightarrow> False
    | Inr op \<Rightarrow> (case reconcile_stop (plain_env 5000000) 5000000 None None
        (Some (demo_stop_command (JStr ''accepted''))) (demo_sample 5000000) op of Inl _ \<Rightarrow> False
      | Inr op' \<Rightarrow> so_motion op' = ''STATIONARY_CONFIRMED''))"
proof -
  have "case stop_history demo_operation (tl demo_stop_history) of Inl _ \<Rightarrow> False
    | Inr op \<Rightarrow> (case reconcile_stop (plain_env 5000000) 5000000 None None
        (Some (demo_stop_command (JStr ''accepted''))) (demo_sample 5000000) op of Inl _ \<Rightarrow> False
      | Inr op' \<Rightarrow> so_state op' = ''VEHICLE_STATIONARY_CONFIRMED'')" by code_simp
  then obtain op op' where h: "stop_history demo_operation (tl demo_stop_history) = Inr op"
    "reconcile_stop (plain_env 5000000) 5000000 None None (Some (demo_stop_command (JStr ''accepted'')))
       (demo_sample 5000000) op = Inr op'" "so_state op' = ''VEHICLE_STATIONARY_CONFIRMED''"
    by (auto split: sum.splits)
  from full_verdict_is_earned [OF h(2,3)] show ?thesis by (simp add: h(1,2))
qed



end
