(* ===== verification/Worker.thy ===== *)
theory Worker
  imports Stop_Worker
begin

text \<open>
  The rest of the task worker's cycle (\<open>services/task-worker/main.py\<close>): deriving the online state of
  every robot from when it was last heard, dropping the manual lease of a robot that fell silent,
  expiring sessions and unacknowledged commands, and verifying that a vehicle that reported the
  end of a navigation really stands at its goal. The patrol scheduler has a theory of its own. The
  text of a failure message is abbreviated by its code.
\<close>

section \<open>Online state\<close>

record worker_settings =
  ws_stale_seconds :: int
  ws_offline_seconds :: int
  ws_ack_timeout_seconds :: int

definition silence_limits :: "worker_settings \<Rightarrow> integration option \<Rightarrow> int \<times> int" where
  "silence_limits ws i =
     (case i of None \<Rightarrow> (ws_stale_seconds ws, ws_offline_seconds ws)
      | Some p \<Rightarrow> (ip_stale_seconds p, ip_offline_seconds p))"

definition online_state_at :: "micros \<Rightarrow> int \<times> int \<Rightarrow> micros option \<Rightarrow> string" where
  "online_state_at now limits seen =
     (case seen of
        None \<Rightarrow> ''OFFLINE''
      | Some t \<Rightarrow>
          (if real_of_int (snd limits) \<le> elapsed_seconds now t then ''OFFLINE''
           else if real_of_int (fst limits) \<le> elapsed_seconds now t then ''STALE'' else ''ONLINE''))"

definition lower :: "string \<Rightarrow> string" where
  "lower s = map (\<lambda>c. let n = (of_char c :: nat) in if 65 \<le> n \<and> n \<le> 90 then char_of (n + 32) else c) s"

definition latest_snapshot :: "micros \<Rightarrow> redis \<Rightarrow> robot \<Rightarrow> dict" where
  "latest_snapshot now redis r =
     (case redis_get now redis (latest_key (rb_vehicle_id r)) of
        Some v \<Rightarrow> as_dict v
      | None \<Rightarrow> [(''vehicle_id'', JStr (rb_vehicle_id r)), (''robot_id'', JStr (rb_id r))])"

definition announce_state :: "micros \<Rightarrow> redis \<Rightarrow> string \<Rightarrow> robot \<Rightarrow> tx \<Rightarrow> tx" where
  "announce_state now redis state r db =
     (let latest = jset ''online_state'' (JStr state) (latest_snapshot now redis r) in
      queue_event (''vehicle.'' @ lower state) (Ev_Json latest)
        (queue_redis_set (latest_key (rb_vehicle_id r)) (JObj latest) None
          (put_robot (r\<lparr>rb_online_state := state\<rparr>) db)))"

definition expire_session :: "micros \<Rightarrow> ident \<Rightarrow> string \<Rightarrow> tx \<Rightarrow> tx" where
  "expire_session now lid reason db =
     db\<lparr>d_manual := upd_rows (\<lambda>m. ms_lease_id m = lid \<and> ms_state m = ''HELD'')
          (\<lambda>m. m\<lparr>ms_state := ''EXPIRED'', ms_ended_at := Some now, ms_end_reason := Some reason\<rparr>)
          (d_manual db)\<rparr>"

fun lease_id_of :: "json \<Rightarrow> ident" where
  "lease_id_of v = (case jget (as_dict v) ''lease_id'' of JStr s \<Rightarrow> s | _ \<Rightarrow> [])"

definition drop_lease :: "micros \<Rightarrow> redis \<Rightarrow> string \<Rightarrow> robot \<Rightarrow> tx \<Rightarrow> tx" where
  "drop_lease now redis state r db =
     (case redis_get now redis (lease_key (rb_id r)) of
        None \<Rightarrow> db
      | Some lease \<Rightarrow> expire_session now (lease_id_of lease) (''ROBOT_'' @ state)
                        (queue_redis_delete (lease_key (rb_id r)) db))"

definition reconcile_robot :: "worker_settings \<Rightarrow> micros \<Rightarrow> redis \<Rightarrow> robot \<Rightarrow> tx \<Rightarrow> tx" where
  "reconcile_robot ws now redis r db =
     (let state = online_state_at now (silence_limits ws (get_integration (rb_id r) db)) (rb_last_seen_at r);
          db1 = (if rb_online_state r \<noteq> state then announce_state now redis state r db else db)
      in if state \<in> {''STALE'', ''OFFLINE''} then drop_lease now redis state r db1 else db1)"

definition reconcile_robot_states :: "worker_settings \<Rightarrow> micros \<Rightarrow> redis \<Rightarrow> tx \<Rightarrow> tx" where
  "reconcile_robot_states ws now redis db = fold (reconcile_robot ws now redis) (d_robots db) db"

section \<open>Sessions and unacknowledged commands\<close>

definition expire_sessions :: "micros \<Rightarrow> redis \<Rightarrow> tx \<Rightarrow> tx" where
  "expire_sessions now redis db =
     db\<lparr>d_manual := upd_rows
          (\<lambda>m. ms_state m = ''HELD'' \<and> ms_expires_at m < now \<and> \<not> redis_exists now redis (lease_key (ms_robot_id m)))
          (\<lambda>m. m\<lparr>ms_state := ''EXPIRED'', ms_ended_at := Some now, ms_end_reason := Some ''LEASE_TTL''\<rparr>)
          (d_manual db)\<rparr>"

definition ack_overdue :: "worker_settings \<Rightarrow> micros \<Rightarrow> command \<Rightarrow> bool" where
  "ack_overdue ws now c \<longleftrightarrow> cm_lifecycle c = ''PUBLISHED''
     \<and> (case cm_published_at c of None \<Rightarrow> False | Some t \<Rightarrow> t < now - ws_ack_timeout_seconds ws * 1000000)"

definition ack_timed_out :: "command \<Rightarrow> command" where
  "ack_timed_out c = c\<lparr>cm_lifecycle := ''PUBLISHED_UNCONFIRMED'', cm_ack_reason := JStr ''ACK_TIMEOUT''\<rparr>"

definition expire_commands :: "worker_settings \<Rightarrow> micros \<Rightarrow> tx \<Rightarrow> tx" where
  "expire_commands ws now db =
     fold (\<lambda>c s. queue_event ''command.updated'' (Ev_Command (ack_timed_out c)) (put_command (ack_timed_out c) s))
       (filter (ack_overdue ws now) (d_commands db)) db"

definition expire_sessions_and_commands :: "worker_settings \<Rightarrow> micros \<Rightarrow> redis \<Rightarrow> tx \<Rightarrow> tx" where
  "expire_sessions_and_commands ws now redis db = expire_commands ws now (expire_sessions now redis db)"

section \<open>Final pose of a navigation\<close>

text \<open>\<open>abs(atan2(sin(a - e), cos(a - e)))\<close> is the distance of the two headings on the circle.\<close>

definition angle_error :: "real \<Rightarrow> real \<Rightarrow> real" where
  "angle_error actual expected = arccos (cos (actual - expected))"

text \<open>
  Reported completion time and freshness of the pose sample. An error of parsing or comparing is
  caught and leaves the creation time and a stale sample; a reported time without a zone parses,
  and only the later comparison with the clock raises.
\<close>

definition reported_time :: "pyenv \<Rightarrow> task \<Rightarrow> iso_result" where
  "reported_time env t =
     (case jget (tk_parameters t) ''vehicle_completed_reported_at'' of
        JStr s \<Rightarrow> if s = [] then Iso_Aware (tk_created_at t) else iso_parse env s
      | v \<Rightarrow> if truthy v then Iso_Error else Iso_Aware (tk_created_at t))"

definition pose_sample :: "pyenv \<Rightarrow> micros \<Rightarrow> task \<Rightarrow> dict \<Rightarrow> iso_result \<times> bool" where
  "pose_sample env now t latest =
     (let caught = (Iso_Aware (tk_created_at t), False);
          received_raw = jget latest ''server_received_at''
      in if reported_time env t = Iso_Error then caught
         else if \<not> truthy received_raw then (reported_time env t, False)
         else case iso_aware env received_raw of
           None \<Rightarrow> caught
         | Some received \<Rightarrow>
           (case py_int env (jget_or (tk_parameters t) ''pose_freshness_ms'' (JInt 1000)) of
              Inl e \<Rightarrow> caught
            | Inr ms \<Rightarrow> (reported_time env t, elapsed_seconds now received * 1000 \<le> real_of_int ms)))"

definition pose_within :: "pyenv \<Rightarrow> dict \<Rightarrow> dict \<Rightarrow> dict \<Rightarrow> py_exn + bool" where
  "pose_within env params pose latest =
     (if jget latest ''x'' = JNull \<or> jget latest ''y'' = JNull \<or> jget latest ''theta'' = JNull then Inr False
      else
        bind (py_float env (jget latest ''x'')) (\<lambda>x.
        bind (py_float env (jget_or pose ''x'' (JInt 0))) (\<lambda>px.
        bind (py_float env (jget latest ''y'')) (\<lambda>y.
        bind (py_float env (jget_or pose ''y'' (JInt 0))) (\<lambda>py.
        bind (py_float env (jget_or params ''position_tolerance_m'' (JFloat (2 / 10)))) (\<lambda>tol.
          if \<not> sqrt ((x - px) * (x - px) + (y - py) * (y - py)) \<le> tol then Inr False
          else
            bind (py_float env (jget latest ''theta'')) (\<lambda>a.
            bind (py_float env (jget_or pose ''theta'' (JInt 0))) (\<lambda>pa.
            bind (py_float env (jget_or params ''yaw_tolerance_rad'' (JFloat (15 / 100)))) (\<lambda>yaw.
              Inr (angle_error a pa \<le> yaw))))))))))"

definition localization_ok :: "dict \<Rightarrow> bool" where
  "localization_ok latest \<longleftrightarrow>
     jget latest ''localization_status'' \<in> JStr ` {''OK'', ''GOOD'', ''VALID'', ''VALID_SOURCE''}"

definition awaiting_pose :: "task \<Rightarrow> bool" where
  "awaiting_pose t \<longleftrightarrow> tk_type t = ''NAVIGATE_TO_PRESET'' \<and> tk_status t = ''EXECUTING''
     \<and> tk_phase t = ''VERIFYING_FINAL_POSE''"

definition pose_frames :: "bool \<Rightarrow> dict \<Rightarrow> bool \<Rightarrow> int \<Rightarrow> int" where
  "pose_frames fresh latest near frames =
     (if fresh \<and> localization_ok latest \<and> near then frames + 1 else 0)"

definition judge_pose :: "pyenv \<Rightarrow> micros \<Rightarrow> iso_result \<Rightarrow> int \<Rightarrow> task \<Rightarrow> py_exn + task" where
  "judge_pose env now reported frames t =
     bind (py_int env (jget_or (tk_parameters t) ''required_verification_frames'' (JInt 3))) (\<lambda>required.
       if required \<le> frames
       then Inr (t\<lparr>tk_status := ''SUCCEEDED'', tk_phase := ''FINAL_POSE_VERIFIED'',
                   tk_progress := JInt 100, tk_completed_at := Some now\<rparr>)
       else
         bind (case reported of Iso_Aware r \<Rightarrow> Inr r | _ \<Rightarrow> Inl TypeError) (\<lambda>since.
         bind (py_int env (jget_or (tk_parameters t) ''verification_timeout_seconds'' (JInt 30))) (\<lambda>timeout.
           if real_of_int timeout \<le> elapsed_seconds now since
           then Inr (t\<lparr>tk_status := ''FAILED'', tk_phase := ''FINAL_POSE_UNVERIFIED'',
                       tk_failure_code := JStr ''FINAL_POSE_UNVERIFIED'',
                       tk_failure_message := JStr ''FINAL_POSE_UNVERIFIED'',
                       tk_completed_at := Some now\<rparr>)
           else Inr t)))"

definition verify_pose :: "pyenv \<Rightarrow> micros \<Rightarrow> dict \<Rightarrow> task \<Rightarrow> py_exn + task" where
  "verify_pose env now latest t =
     bind (pose_within env (tk_parameters t) (tk_pose t) latest) (\<lambda>near.
     bind (py_int env (jget_or (tk_parameters t) ''pose_verification_frames'' (JInt 0))) (\<lambda>frames0.
       let frames = pose_frames (snd (pose_sample env now t latest)) latest near frames0 in
       judge_pose env now (fst (pose_sample env now t latest)) frames
         (t\<lparr>tk_parameters := jset ''pose_verification_frames'' (JInt frames) (tk_parameters t)\<rparr>)))"

definition pose_event :: "bool \<Rightarrow> dict \<Rightarrow> task \<Rightarrow> task_event" where
  "pose_event fresh latest t =
     \<lparr>te_task_id = tk_id t, te_status = tk_status t, te_phase = tk_phase t, te_progress = tk_progress t,
      te_payload = [(''fresh'', JBool fresh), (''localization_ok'', JBool (localization_ok latest)),
                    (''frames'', jget (tk_parameters t) ''pose_verification_frames'')]\<rparr>"

definition finish_command :: "micros \<Rightarrow> ident \<Rightarrow> tx \<Rightarrow> tx" where
  "finish_command now tid db =
     (case latest_row cm_issued_at (filter (\<lambda>c. cm_task_id c = Some tid) (d_commands db)) of
        None \<Rightarrow> db
      | Some c \<Rightarrow> put_command (c\<lparr>cm_lifecycle := ''SUCCEEDED'', cm_terminal_at := Some now\<rparr>) db)"

definition store_verified :: "pyenv \<Rightarrow> micros \<Rightarrow> dict \<Rightarrow> task \<Rightarrow> task \<Rightarrow> tx \<Rightarrow> tx" where
  "store_verified env now latest t t' db =
     (let db1 = put_task t' db;
          db2 = (if tk_status t' = ''EXECUTING'' then db1
                 else db1\<lparr>d_task_events := d_task_events db1 @ [pose_event (snd (pose_sample env now t latest)) latest t']\<rparr>);
          db3 = (if tk_status t' = ''SUCCEEDED'' then finish_command now (tk_id t) db2 else db2)
      in queue_event ''task.updated'' (Ev_Task t') db3)"

fun verify_poses :: "pyenv \<Rightarrow> micros \<Rightarrow> redis \<Rightarrow> task list \<Rightarrow> tx \<Rightarrow> py_exn + tx" where
  "verify_poses env now redis [] db = Inr db"
| "verify_poses env now redis (t # ts) db =
     (let latest = latest_of now redis (get_robot (tk_robot_id t) db) in
      bind (verify_pose env now latest t) (\<lambda>t'.
        verify_poses env now redis ts (store_verified env now latest t t' db)))"

definition reconcile_navigation_verification :: "pyenv \<Rightarrow> micros \<Rightarrow> redis \<Rightarrow> tx \<Rightarrow> py_exn + tx" where
  "reconcile_navigation_verification env now redis db =
     verify_poses env now redis (filter awaiting_pose (d_tasks db)) db"

text \<open>The calls of a cycle before the patrol scheduler (theory \<open>Scheduler\<close>), in one transaction.\<close>

definition worker_steps :: "worker_settings \<Rightarrow> pyenv \<Rightarrow> redis \<Rightarrow> tx \<Rightarrow> py_exn + tx" where
  "worker_steps ws env redis db =
     (let now = utc_now env in
      bind (reconcile_stop_operations env now redis
              (expire_sessions_and_commands ws now redis (reconcile_robot_states ws now redis db)))
        (reconcile_navigation_verification env now redis))"

end
