(* ===== verification/Worker_Safety.thy ===== *)
theory Worker_Safety
  imports Worker
begin

text \<open>
  Properties of the worker steps: the Redis operations they queue (a silent robot's lease is dropped),
  and an arrival is only believed after the required number of consecutive good poses.
\<close>

section \<open>Silent robots\<close>

lemma keys_differ [simp]: "lease_key a \<noteq> latest_key b" "latest_key b \<noteq> lease_key a"
  by (simp_all add: lease_key_def latest_key_def)

lemma lease_key_inj [simp]: "lease_key a = lease_key b \<longleftrightarrow> a = b"
  by (simp add: lease_key_def)

definition harmless :: "redis_op \<Rightarrow> bool" where
  "harmless op \<longleftrightarrow> (case op of Redis_Set k v ttl \<Rightarrow> (\<exists>b. k = latest_key b) | Redis_Delete k \<Rightarrow> True)"

lemma apply_harmless:
  assumes "list_all harmless ops" "r (lease_key a) = None \<or> Redis_Delete (lease_key a) \<in> set ops"
  shows "fold (redis_apply now) ops r (lease_key a) = None"
  using assms
proof (induction ops arbitrary: r)
  case (Cons op ops)
  have "redis_apply now op r (lease_key a) = None \<or> Redis_Delete (lease_key a) \<in> set ops"
    using Cons.prems
    by (cases op; cases "case op of Redis_Set k v ttl \<Rightarrow> ttl | _ \<Rightarrow> None")
      (auto simp: harmless_def redis_set_def redis_setex_def redis_delete_def)
  then show ?case using Cons by simp
qed simp

lemma apply_harmless_other:
  assumes "list_all harmless ops" "redis_get t r (lease_key a) = None"
  shows "redis_get t (fold (redis_apply now) ops r) (lease_key a) = None"
  using assms
proof (induction ops arbitrary: r)
  case (Cons op ops)
  have "redis_get t (redis_apply now op r) (lease_key a) = None"
    using Cons.prems
    by (cases op; cases "case op of Redis_Set k v ttl \<Rightarrow> ttl | _ \<Rightarrow> None")
      (auto simp: harmless_def redis_set_def redis_setex_def redis_delete_def redis_get_def)
  then show ?case using Cons by simp
qed simp

lemma put_robot_frame [simp]:
  "tx_ops (put_robot r db) = tx_ops db" "d_manual (put_robot r db) = d_manual db"
  "d_integrations (put_robot r db) = d_integrations db"
  by (simp_all add: put_robot_def)

lemma reconcile_robot_ops:
  "\<exists>ops. tx_ops (reconcile_robot ws now redis r db) = tx_ops db @ ops \<and> list_all harmless ops
     \<and> (online_state_at now (silence_limits ws (get_integration (rb_id r) db)) (rb_last_seen_at r) \<noteq> ''ONLINE''
          \<longrightarrow> redis_get now redis (lease_key (rb_id r)) = None \<or> Redis_Delete (lease_key (rb_id r)) \<in> set ops)
     \<and> d_integrations (reconcile_robot ws now redis r db) = d_integrations db"
proof -
  have "online_state_at now (silence_limits ws (get_integration (rb_id r) db)) (rb_last_seen_at r)
      \<in> {''ONLINE'', ''STALE'', ''OFFLINE''}"
    by (auto simp: online_state_at_def split: option.split)
  then show ?thesis
    by (auto simp: reconcile_robot_def Let_def announce_state_def drop_lease_def expire_session_def harmless_def
        queue_event_def queue_redis_set_def queue_redis_delete_def split: option.split)
qed

lemma reconcile_robots_ops:
  "\<exists>ops. tx_ops (fold (reconcile_robot ws now redis) rs db) = tx_ops db @ ops \<and> list_all harmless ops
     \<and> (\<forall>r \<in> set rs.
          online_state_at now (silence_limits ws (get_integration (rb_id r) db)) (rb_last_seen_at r) \<noteq> ''ONLINE''
          \<longrightarrow> redis_get now redis (lease_key (rb_id r)) = None \<or> Redis_Delete (lease_key (rb_id r)) \<in> set ops)"
proof (induction rs arbitrary: db)
  case (Cons r rs)
  obtain ops1 where o1: "tx_ops (reconcile_robot ws now redis r db) = tx_ops db @ ops1" "list_all harmless ops1"
    "online_state_at now (silence_limits ws (get_integration (rb_id r) db)) (rb_last_seen_at r) \<noteq> ''ONLINE''
          \<longrightarrow> redis_get now redis (lease_key (rb_id r)) = None \<or> Redis_Delete (lease_key (rb_id r)) \<in> set ops1"
    "d_integrations (reconcile_robot ws now redis r db) = d_integrations db"
    using reconcile_robot_ops [of ws now redis r db] by blast
  have same: "get_integration k (reconcile_robot ws now redis r db) = get_integration k db" for k
    by (simp add: get_integration_def o1(4))
  from Cons.IH [of "reconcile_robot ws now redis r db"] obtain ops2 where
    "tx_ops (fold (reconcile_robot ws now redis) rs (reconcile_robot ws now redis r db))
       = tx_ops (reconcile_robot ws now redis r db) @ ops2" "list_all harmless ops2"
    "\<forall>r \<in> set rs. online_state_at now (silence_limits ws (get_integration (rb_id r) db)) (rb_last_seen_at r) \<noteq> ''ONLINE''
          \<longrightarrow> redis_get now redis (lease_key (rb_id r)) = None \<or> Redis_Delete (lease_key (rb_id r)) \<in> set ops2"
    unfolding same by blast
  then show ?case using o1 by (intro exI [of _ "ops1 @ ops2"]) auto
qed simp

text \<open>The other parts of the cycle queue no Redis operation.\<close>

lemma expire_ops [simp]: "tx_ops (expire_sessions_and_commands ws now redis db) = tx_ops db"
proof -
  have "tx_ops (fold (\<lambda>c s. queue_event ''command.updated'' (Ev_Command (ack_timed_out c))
      (put_command (ack_timed_out c) s)) cs s) = tx_ops s" for cs s
    by (induction cs arbitrary: s) (simp_all add: put_command_def)
  then show ?thesis
    by (simp add: expire_sessions_and_commands_def expire_commands_def expire_sessions_def)
qed

lemma stops_ops: "reconcile_stops env now redis ops db = Inr db' \<Longrightarrow> tx_ops db' = tx_ops db"
proof (induction ops arbitrary: db)
  case (Cons op ops)
  have "tx_ops (store_stop x s) = tx_ops s" for x s by (simp add: store_stop_def put_stop_def)
  with Cons show ?case by (force split: prod.split_asm sum.split_asm)
qed simp

lemma verify_ops: "verify_poses env now redis ts db = Inr db' \<Longrightarrow> tx_ops db' = tx_ops db"
proof (induction ts arbitrary: db)
  case (Cons t ts)
  have "tx_ops (store_verified env now l x x' s) = tx_ops s" for l x x' s
    by (simp add: store_verified_def Let_def put_task_def finish_command_def put_command_def split: option.split)
  with Cons show ?case by (auto simp: Let_def bind_Inr)
qed simp

section \<open>Arrivals\<close>

record pose_pass =
  pp_env :: pyenv
  pp_now :: micros
  pp_latest :: dict

definition good_pose :: "task \<Rightarrow> pose_pass \<Rightarrow> bool" where
  "good_pose t p \<longleftrightarrow> snd (pose_sample (pp_env p) (pp_now p) t (pp_latest p)) \<and> localization_ok (pp_latest p)
     \<and> pose_within (pp_env p) (tk_parameters t) (tk_pose t) (pp_latest p) = Inr True"

text \<open>A history of verification passes, newest first; a task that ended is not looked at again.\<close>

fun pose_history :: "task \<Rightarrow> pose_pass list \<Rightarrow> py_exn + task" where
  "pose_history t [] = Inr t"
| "pose_history t (p # ps) =
     bind (pose_history t ps) (\<lambda>t1.
       if awaiting_pose t1 then verify_pose (pp_env p) (pp_now p) (pp_latest p) t1 else Inr t1)"

definition frames_of :: "task \<Rightarrow> json" where
  "frames_of t = jget_or (tk_parameters t) ''pose_verification_frames'' (JInt 0)"

definition same_goal :: "task \<Rightarrow> task \<Rightarrow> bool" where
  "same_goal t t' \<longleftrightarrow> tk_pose t' = tk_pose t \<and> tk_created_at t' = tk_created_at t
     \<and> (\<forall>k d. k \<noteq> ''pose_verification_frames'' \<longrightarrow>
          jget_or (tk_parameters t') k d = jget_or (tk_parameters t) k d)"

lemma jget_or_JNull: "jget d k = jget_or d k JNull"
  by (simp add: jget_def jget_or_def)

lemma jget_or_jset: "jget_or (jset k v d) k' e = (if k' = k then v else jget_or d k' e)"
  by (simp add: jget_or_def jdict.get_put)

lemma good_pose_same_goal:
  assumes "same_goal t t'" shows "good_pose t' = good_pose t"
proof -
  have e: "tk_pose t' = tk_pose t" "tk_created_at t' = tk_created_at t"
    "jget_or (tk_parameters t') ''vehicle_completed_reported_at'' JNull
       = jget_or (tk_parameters t) ''vehicle_completed_reported_at'' JNull"
    "jget_or (tk_parameters t') ''pose_freshness_ms'' (JInt 1000) = jget_or (tk_parameters t) ''pose_freshness_ms'' (JInt 1000)"
    "jget_or (tk_parameters t') ''position_tolerance_m'' (JFloat (2 / 10))
       = jget_or (tk_parameters t) ''position_tolerance_m'' (JFloat (2 / 10))"
    "jget_or (tk_parameters t') ''yaw_tolerance_rad'' (JFloat (15 / 100))
       = jget_or (tk_parameters t) ''yaw_tolerance_rad'' (JFloat (15 / 100))"
    using assms by (simp_all add: same_goal_def)
  show ?thesis
  proof (rule ext)
    fix p show "good_pose t' p = good_pose t p"
      unfolding good_pose_def pose_sample_def reported_time_def pose_within_def jget_or_JNull Let_def e ..
  qed
qed

lemma same_goal_trans: "same_goal t t1 \<Longrightarrow> same_goal t1 t2 \<Longrightarrow> same_goal t t2"
  by (simp add: same_goal_def)

lemma judge_poseD:
  assumes "judge_pose env now reported frames t = Inr t'"
  shows "tk_parameters t' = tk_parameters t" "tk_pose t' = tk_pose t" "tk_created_at t' = tk_created_at t"
    "awaiting_pose t' \<Longrightarrow> t' = t"
    "jget_or (tk_parameters t) ''required_verification_frames'' (JInt 3) = JInt k \<Longrightarrow>
       tk_status t' = ''SUCCEEDED'' \<Longrightarrow> k \<le> frames \<or> tk_status t = ''SUCCEEDED''"
  using assms by (auto simp: judge_pose_def bind_Inr awaiting_pose_def split: if_split_asm)

lemma verify_poseE:
  assumes "verify_pose env now latest t = Inr t'" "frames_of t = JInt f" "awaiting_pose t"
    "jget_or (tk_parameters t) ''required_verification_frames'' (JInt 3) = JInt k"
    and good: "good \<longleftrightarrow> good_pose t \<lparr>pp_env = env, pp_now = now, pp_latest = latest\<rparr>"
  shows "frames_of t' = JInt (if good then f + 1 else 0)" and "same_goal t t'"
    and "tk_status t' = ''SUCCEEDED'' \<Longrightarrow> k \<le> (if good then f + 1 else 0)"
proof -
  obtain near where near: "pose_within env (tk_parameters t) (tk_pose t) latest = Inr near"
    and judge: "judge_pose env now (fst (pose_sample env now t latest))
        (pose_frames (snd (pose_sample env now t latest)) latest near f)
        (t\<lparr>tk_parameters := jset ''pose_verification_frames''
            (JInt (pose_frames (snd (pose_sample env now t latest)) latest near f)) (tk_parameters t)\<rparr>) = Inr t'"
    using assms(1,2) by (auto simp: verify_pose_def Let_def bind_Inr frames_of_def)
  have fr: "pose_frames (snd (pose_sample env now t latest)) latest near f = (if good then f + 1 else 0)"
    using near by (auto simp: pose_frames_def good good_pose_def)
  note j = judge_poseD [OF judge [unfolded fr]]
  show "frames_of t' = JInt (if good then f + 1 else 0)"
    using j(1) by (simp add: frames_of_def jget_or_jset)
  show "same_goal t t'" using j(1-3) by (simp add: same_goal_def jget_or_jset)
  have "tk_status t \<noteq> ''SUCCEEDED''" using assms(3) by (simp add: awaiting_pose_def)
  then show "tk_status t' = ''SUCCEEDED'' \<Longrightarrow> k \<le> (if good then f + 1 else 0)"
    using j(5) [of k] assms(4) by (simp add: jget_or_jset)
qed

lemma pose_history_invariant:
  assumes "pose_history t ps = Inr t'" "awaiting_pose t" "frames_of t = JInt 0"
    "jget_or (tk_parameters t) ''required_verification_frames'' (JInt 3) = JInt (int k)" "0 < k"
  shows "same_goal t t' \<and>
    (awaiting_pose t' \<longrightarrow> (\<exists>f \<le> length ps. frames_of t' = JInt (int f) \<and> (\<forall>p \<in> set (take f ps). good_pose t p))) \<and>
    (tk_status t' = ''SUCCEEDED'' \<longrightarrow> (\<exists>n. k \<le> length (drop n ps) \<and> (\<forall>p \<in> set (take k (drop n ps)). good_pose t p)))"
  using assms(1)
proof (induction ps arbitrary: t')
  case Nil
  then show ?case using assms(2,3) by (auto simp: same_goal_def awaiting_pose_def)
next
  case (Cons p ps)
  obtain t1 where t1: "pose_history t ps = Inr t1"
    and step: "(if awaiting_pose t1 then verify_pose (pp_env p) (pp_now p) (pp_latest p) t1 else Inr t1) = Inr t'"
    using Cons.prems by (auto simp: bind_Inr)
  note IH = Cons.IH [OF t1]
  show ?case
  proof (cases "awaiting_pose t1")
    case False
    then have "t' = t1" using step by simp
    moreover have "\<exists>n. k \<le> length (drop n (p # ps)) \<and> (\<forall>q \<in> set (take k (drop n (p # ps))). good_pose t q)"
      if "\<exists>n. k \<le> length (drop n ps) \<and> (\<forall>q \<in> set (take k (drop n ps)). good_pose t q)"
      using that by (metis drop_Suc_Cons)
    ultimately show ?thesis using IH False by blast
  next
    case True
    from IH True obtain f where f: "f \<le> length ps" "frames_of t1 = JInt (int f)" "\<forall>q \<in> set (take f ps). good_pose t q"
      by blast
    have goal: "same_goal t t1" using IH by blast
    have req: "jget_or (tk_parameters t1) ''required_verification_frames'' (JInt 3) = JInt (int k)"
      using goal assms(4) by (simp add: same_goal_def)
    have good: "good_pose t p \<longleftrightarrow> good_pose t1 \<lparr>pp_env = pp_env p, pp_now = pp_now p, pp_latest = pp_latest p\<rparr>"
      using good_pose_same_goal [OF goal] by (cases p) simp
    from step True have v: "verify_pose (pp_env p) (pp_now p) (pp_latest p) t1 = Inr t'" by simp
    note e = verify_poseE [OF v f(2) True req good]
    let ?f = "if good_pose t p then Suc f else 0"
    have take: "\<forall>q \<in> set (take ?f (p # ps)). good_pose t q" using f(3) by auto
    have fr: "frames_of t' = JInt (int ?f)" using e(1) by auto
    have kf: "k \<le> ?f" if "tk_status t' = ''SUCCEEDED''" using e(3) [OF that] by (simp split: if_split_asm)
    have le: "?f \<le> length (p # ps)" using f(1) by simp
    have "\<exists>n. k \<le> length (drop n (p # ps)) \<and> (\<forall>q \<in> set (take k (drop n (p # ps))). good_pose t q)"
      if "tk_status t' = ''SUCCEEDED''"
    proof (intro exI [of _ 0] conjI ballI)
      show "k \<le> length (drop 0 (p # ps))" using le_trans [OF kf [OF that] le] by simp
      show "good_pose t q" if q: "q \<in> set (take k (drop 0 (p # ps)))" for q
        using take set_take_subset_set_take [OF kf [OF \<open>tk_status t' = ''SUCCEEDED''\<close>], of "p # ps"] q
        unfolding drop_0 by blast
    qed
    moreover have "\<exists>f \<le> length (p # ps). frames_of t' = JInt (int f) \<and> (\<forall>q \<in> set (take f (p # ps)). good_pose t q)"
      using fr take le by blast
    ultimately show ?thesis using same_goal_trans [OF goal e(2)] by blast
  qed
qed

text \<open>
  An arrival needs consecutive evidence: a navigation that the vehicle reports as
  finished is marked SUCCEEDED by the worker only after the required number of consecutive
  verification passes in which the pose sample was fresh, the localisation valid, and position and
  heading within their tolerances of the goal.
\<close>

lemma arrival_needs_evidence:
  assumes "pose_history t ps = Inr t'" "awaiting_pose t" "frames_of t = JInt 0"
    and "jget_or (tk_parameters t) ''required_verification_frames'' (JInt 3) = JInt (int k)" "0 < k"
    and "tk_status t' = ''SUCCEEDED''"
  shows "\<exists>n. k \<le> length (drop n ps) \<and> (\<forall>p \<in> set (take k (drop n ps)). good_pose t p)"
  using pose_history_invariant [OF assms(1-5)] assms(6) by blast

definition demo_nav_task :: task where
  "demo_nav_task = \<lparr>tk_id = ''t'', tk_code = ''T'', tk_robot_id = ''r'', tk_fire_id = None,
     tk_type = ''NAVIGATE_TO_PRESET'', tk_status = ''EXECUTING'', tk_phase = ''VERIFYING_FINAL_POSE'',
     tk_progress = JInt 0, tk_slot_id = None, tk_pose = [], tk_map_id = ''m'', tk_map_version = ''1'',
     tk_revision = 1, tk_trajectory = JNull, tk_parameters = [], tk_created_by = ''u'', tk_created_at = 0,
     tk_accepted_at = None, tk_started_at = None, tk_completed_at = None,
     tk_failure_code = JNull, tk_failure_message = JNull\<rparr>"

definition demo_pose :: "micros \<Rightarrow> pose_pass" where
  "demo_pose now = \<lparr>pp_env = plain_env now, pp_now = now,
     pp_latest = [(''x'', JInt 0), (''y'', JInt 0), (''theta'', JInt 0), (''localization_status'', JStr ''OK''),
                  (''server_received_at'', JStr ''+0'')]\<rparr>"

lemma demo_within:
  "jget_or params ''position_tolerance_m'' (JFloat (2 / 10)) = JFloat (2 / 10) \<Longrightarrow>
   jget_or params ''yaw_tolerance_rad'' (JFloat (15 / 100)) = JFloat (15 / 100) \<Longrightarrow>
   pose_within env params [] (pp_latest (demo_pose n)) = Inr True"
  by (simp add: pose_within_def demo_pose_def angle_error_def)

lemma demo_sample_fresh:
  assumes "tk_created_at t = 0" "jget (tk_parameters t) ''vehicle_completed_reported_at'' = JNull"
    "jget_or (tk_parameters t) ''pose_freshness_ms'' (JInt 1000) = JInt 1000" "0 \<le> n" "n \<le> 1000000"
  shows "pose_sample (plain_env n) n t (pp_latest (demo_pose n)) = (Iso_Aware 0, True)"
proof -
  have p: "decimal_parse ''+0'' = Iso_Aware 0" "undigits ''0'' = 0" by code_simp+
  show ?thesis
    using assms by (simp add: pose_sample_def Let_def reported_time_def iso_aware_def demo_pose_def plain_env_def p
        elapsed_seconds_def)
qed

lemma demo_verify:
  assumes "tk_pose t = []" "tk_created_at t = 0" "frames_of t = JInt f" "n \<in> {0..1000000}"
    "\<And>k d. k \<noteq> ''pose_verification_frames'' \<Longrightarrow> jget_or (tk_parameters t) k d = d"
  shows "verify_pose (plain_env n) n (pp_latest (demo_pose n)) t
     = judge_pose (plain_env n) n (Iso_Aware 0) (f + 1)
         (t\<lparr>tk_parameters := jset ''pose_verification_frames'' (JInt (f + 1)) (tk_parameters t)\<rparr>)"
proof -
  have loc: "localization_ok (pp_latest (demo_pose n))" by (simp add: localization_ok_def demo_pose_def)
  have s: "pose_sample (plain_env n) n t (pp_latest (demo_pose n)) = (Iso_Aware 0, True)"
    using assms by (intro demo_sample_fresh) (simp_all add: jget_or_JNull)
  show ?thesis
    using assms(1,3,5) by (simp add: verify_pose_def demo_within s loc frames_of_def pose_frames_def Let_def)
qed

lemma arrival_needs_evidence_witness:
  "\<exists>n. 3 \<le> length (drop n [demo_pose 900000, demo_pose 600000, demo_pose 300000])
     \<and> (\<forall>p \<in> set (take 3 (drop n [demo_pose 900000, demo_pose 600000, demo_pose 300000])).
           good_pose demo_nav_task p)"
proof -
  let ?ps = "[demo_pose 900000, demo_pose 600000, demo_pose 300000]"
  have p: "pp_env (demo_pose n) = plain_env n" "pp_now (demo_pose n) = n" for n by (simp_all add: demo_pose_def)
  have t0: "tk_pose demo_nav_task = []" "tk_created_at demo_nav_task = 0" "tk_parameters demo_nav_task = []"
    "awaiting_pose demo_nav_task" by (simp_all add: demo_nav_task_def awaiting_pose_def)
  have keep: "awaiting_pose (t\<lparr>tk_parameters := x\<rparr>) = awaiting_pose t" for t x by (simp add: awaiting_pose_def)
  obtain t' where t': "pose_history demo_nav_task ?ps = Inr t'" "tk_status t' = ''SUCCEEDED''"
    by (simp add: p t0 keep demo_verify [where f = 0] demo_verify [where f = 1] demo_verify [where f = 2]
        frames_of_def judge_pose_def jget_or_jset elapsed_seconds_def)
  from arrival_needs_evidence [OF t'(1), of 3] t'(2) show ?thesis by (simp add: t0 frames_of_def)
qed

end
