(* ===== verification/Ingress_Handlers.thy ===== *)
theory Ingress_Handlers
  imports Worker
begin

text \<open>
  The handlers of the MQTT ingress (\<open>services/mqtt-ingress/main.py\<close>): payload guards, boot
  sessions, the online projection, and what one message of each type does to the database and to
  the robot's telemetry snapshot. The clock is read once per message. A handler that raises
  returns \<open>Inl\<close>; \<open>process\<close> in theory \<open>Ingress\<close> then rolls the transaction back.

  JSON-schema validation (the package \<open>jsonschema\<close>), the hash of the alarm fingerprint and the
  local time zone are fields of \<open>ingress_settings\<close>, next to the settings the code reads.
\<close>

record ingress_settings =
  ig_max_payload :: int
  ig_max_depth :: int
  ig_rate :: int
  ig_location_rate :: int
  ig_offline_seconds :: int
  ig_compat_stale :: int
  ig_compat_offline :: int
  ig_ws_hz :: real
  ig_metadata_refresh :: int
  ig_valid :: "dict \<Rightarrow> bool"
  ig_sha256 :: "string \<Rightarrow> string"
  ig_local :: "micros \<Rightarrow> micros"

section \<open>Payload guards\<close>

fun parse_time :: "ingress_settings \<Rightarrow> pyenv \<Rightarrow> json \<Rightarrow> py_exn + micros" where
  "parse_time cfg env (JStr s) =
     (case iso_parse env (replace_Z s) of
        Iso_Aware t \<Rightarrow> Inr t
      | Iso_Naive t \<Rightarrow> Inr (ig_local cfg t)
      | Iso_Error \<Rightarrow> Inl ValueError)"
| "parse_time cfg env v = Inl AttributeError"

fun json_depth :: "json \<Rightarrow> int \<Rightarrow> int" where
  "json_depth (JObj d) n = fold max (map (\<lambda>kv. json_depth (snd kv) (n + 1)) d) n"
| "json_depth (JArr xs) n = fold max (map (\<lambda>v. json_depth v (n + 1)) xs) n"
| "json_depth v n = n"

definition starts_with :: "string \<Rightarrow> string \<Rightarrow> bool" where
  "starts_with pre s \<longleftrightarrow> take (length pre) s = pre"

definition has_infix :: "string \<Rightarrow> string \<Rightarrow> bool" where
  "has_infix sub s \<longleftrightarrow> list_ex (\<lambda>i. starts_with sub (drop i s)) [0..<Suc (length s)]"

definition data_url :: "string \<Rightarrow> bool" where
  "data_url s \<longleftrightarrow>
     (let l = lower s; rest = drop 11 l
      in (starts_with ''data:image/'' l \<or> starts_with ''data:video/'' l)
         \<and> takeWhile (\<lambda>c. c \<noteq> CHR '';'') rest \<noteq> []
         \<and> starts_with '';base64,'' (dropWhile (\<lambda>c. c \<noteq> CHR '';'') rest))"

fun contains_video_payload :: "json \<Rightarrow> bool" where
  "contains_video_payload (JStr s) \<longleftrightarrow>
     data_url s \<or> (65536 < int (length s) \<and> has_infix ''base64'' (lower (take 128 s)))"
| "contains_video_payload (JObj d) \<longleftrightarrow> (\<exists>kv \<in> set d. contains_video_payload (snd kv))"
| "contains_video_payload (JArr xs) \<longleftrightarrow> (\<exists>v \<in> set xs. contains_video_payload v)"
| "contains_video_payload v \<longleftrightarrow> False"

definition redis_incr :: "micros \<Rightarrow> string \<Rightarrow> redis \<Rightarrow> int \<times> redis" where
  "redis_incr now k r =
     (case redis_get now r k of
        Some (JInt n) \<Rightarrow> (n + 1, r(k \<mapsto> (JInt (n + 1), snd (the (r k)))))
      | _ \<Rightarrow> (1, redis_set k (JInt 1) r))"

definition rate_key :: "string \<Rightarrow> string \<Rightarrow> int \<Rightarrow> string" where
  "rate_key vid ty bucket = ''ratelimit:mqtt:'' @ vid @ '':'' @ ty @ '':'' @ digits bucket"

definition rate_allowed :: "ingress_settings \<Rightarrow> pyenv \<Rightarrow> string \<Rightarrow> string \<Rightarrow> redis \<Rightarrow> bool \<times> redis" where
  "rate_allowed cfg env vid ty r =
     (let key = rate_key vid ty \<lfloor>wall env\<rfloor>;
          (count, r1) = redis_incr (utc_now env) key r;
          r2 = (if count = 1 then redis_expire (utc_now env) key 2 r1 else r1)
      in (count \<le> (if ty = ''location'' then ig_location_rate cfg else ig_rate cfg), r2))"

definition DEDUP_TTL_SECONDS :: "(string \<times> int) list" where
  "DEDUP_TTL_SECONDS =
     [(''location'', 120), (''sensor'', 120), (''heartbeat'', 120), (''status'', 600),
      (''availability'', 86400), (''capabilities'', 86400), (''alarm'', 86400),
      (''command_ack'', 86400), (''task_status'', 86400)]"

definition dedup_ttl :: "string \<Rightarrow> int" where
  "dedup_ttl ty = (case map_of DEDUP_TTL_SECONDS ty of None \<Rightarrow> 600 | Some n \<Rightarrow> n)"

definition robot_for :: "string \<Rightarrow> 'a database_scheme \<Rightarrow> robot option" where
  "robot_for vid d = first_row (\<lambda>r. rb_vehicle_id r = vid) (d_robots d)"

text \<open>Reading a message: \<open>msg[key]\<close> raises \<open>KeyError\<close>; the schemas fix the types.\<close>

definition need :: "dict \<Rightarrow> string list \<Rightarrow> py_exn + unit" where
  "need msg keys = (if \<forall>k \<in> set keys. jhas msg k then Inr () else Inl KeyError)"

fun jstr :: "json \<Rightarrow> string" where
  "jstr (JStr s) = s"
| "jstr v = []"

fun jident :: "json \<Rightarrow> ident option" where
  "jident (JStr s) = Some s"
| "jident v = None"

fun jreal :: "json \<Rightarrow> real option" where
  "jreal (JInt i) = Some (real_of_int i)"
| "jreal (JFloat x) = Some x"
| "jreal v = None"

fun jlist :: "json \<Rightarrow> json list" where
  "jlist (JArr xs) = xs"
| "jlist v = []"

section \<open>Boot sessions\<close>

definition BOOT_ESTABLISH_TYPES :: "string list" where
  "BOOT_ESTABLISH_TYPES = [''availability'', ''heartbeat'', ''capabilities'']"

definition boot_session_of :: "ident \<Rightarrow> ident \<Rightarrow> 'a database_scheme \<Rightarrow> boot_session option" where
  "boot_session_of rid boot d =
     first_row (\<lambda>b. bs_robot_id b = rid \<and> bs_boot_id b = boot) (d_boots d)"

definition add_boot :: "ident \<Rightarrow> ident \<Rightarrow> micros \<Rightarrow> tx \<Rightarrow> tx" where
  "add_boot rid boot received db =
     db\<lparr>d_boots := d_boots db @ [\<lparr>bs_robot_id = rid, bs_boot_id = boot, bs_first_seen = received,
          bs_last_seen = received, bs_ended_at = None\<rparr>]\<rparr>"

definition upd_boot :: "ident \<Rightarrow> ident \<Rightarrow> (boot_session \<Rightarrow> boot_session) \<Rightarrow> tx \<Rightarrow> tx" where
  "upd_boot rid boot f db =
     db\<lparr>d_boots := upd_rows (\<lambda>b. bs_robot_id b = rid \<and> bs_boot_id b = boot) f (d_boots db)\<rparr>"

definition end_boot :: "micros \<Rightarrow> boot_session \<Rightarrow> boot_session" where
  "end_boot received b = (if bs_ended_at b = None then b\<lparr>bs_ended_at := Some received\<rparr> else b)"

definition release_on_reboot :: "micros \<Rightarrow> ident \<Rightarrow> tx \<Rightarrow> tx" where
  "release_on_reboot now lid db =
     db\<lparr>d_manual := upd_rows (\<lambda>m. ms_lease_id m = lid \<and> ms_state m = ''HELD'')
          (\<lambda>m. m\<lparr>ms_state := ''FORCE_RELEASED'', ms_ended_at := Some now, ms_end_reason := Some ''ROBOT_REBOOT''\<rparr>)
          (d_manual db)\<rparr>"

definition invalidate_old_boot_leases :: "micros \<Rightarrow> redis \<Rightarrow> robot \<Rightarrow> ident \<Rightarrow> tx \<Rightarrow> tx" where
  "invalidate_old_boot_leases now redis r boot db =
     (if rb_boot_id r \<in> {None, Some [], Some boot} then db
      else
        let db1 = (case redis_get now redis (lease_key (rb_id r)) of
                     None \<Rightarrow> db
                   | Some lease \<Rightarrow>
                       release_on_reboot now (lease_id_of lease) (queue_redis_delete (lease_key (rb_id r)) db))
        in queue_event ''vehicle.rebooted''
             (Ev_Json [(''vehicle_id'', JStr (rb_vehicle_id r)), (''old_boot_id'', jopt (rb_boot_id r)),
                       (''boot_id'', JStr boot)]) db1)"

definition switch_boot :: "micros \<Rightarrow> redis \<Rightarrow> robot \<Rightarrow> ident \<Rightarrow> micros \<Rightarrow> tx \<Rightarrow> tx" where
  "switch_boot now redis r boot received db =
     (case rb_boot_id r of
        None \<Rightarrow> db
      | Some old \<Rightarrow>
          (if old = [] then db
           else invalidate_old_boot_leases now redis r boot (upd_boot (rb_id r) old (end_boot received) db)))"

definition accept_boot_session ::
    "micros \<Rightarrow> redis \<Rightarrow> robot \<Rightarrow> ident \<Rightarrow> string \<Rightarrow> micros \<Rightarrow> tx \<Rightarrow> bool \<times> tx" where
  "accept_boot_session now redis r boot ty received db =
     (let session = boot_session_of (rb_id r) boot db in
      if rb_boot_id r = Some boot then
        (True, case session of
                 Some b \<Rightarrow> upd_boot (rb_id r) boot (\<lambda>b. b\<lparr>bs_last_seen := received\<rparr>) db
               | None \<Rightarrow> add_boot (rb_id r) boot received db)
      else if (case session of None \<Rightarrow> False | Some b \<Rightarrow> bs_ended_at b \<noteq> None) then (False, db)
      else if ty \<notin> set BOOT_ESTABLISH_TYPES then (False, db)
      else
        let db1 = switch_boot now redis r boot received db;
            db2 = (if session = None then add_boot (rb_id r) boot received db1 else db1)
        in (True, put_robot (r\<lparr>rb_boot_id := Some boot\<rparr>) db2))"

section \<open>Online projection and data channels\<close>

definition update_online :: "micros \<Rightarrow> redis \<Rightarrow> robot \<Rightarrow> string \<Rightarrow> dict \<Rightarrow> json \<Rightarrow> tx \<Rightarrow> tx" where
  "update_online now redis r state msg reason db =
     (let latest = jset ''online_state'' (JStr state) (latest_snapshot now redis r);
          db1 = queue_redis_set (latest_key (rb_vehicle_id r)) (JObj latest) None
                  (put_robot (r\<lparr>rb_online_state := state, rb_last_seen_at := Some now\<rparr>) db)
      in if rb_online_state r = state then db1
         else queue_event (''vehicle.'' @ lower state)
                (Ev_Json [(''vehicle_id'', JStr (rb_vehicle_id r)), (''state'', JStr state), (''reason'', reason)])
                (db1\<lparr>d_connections := d_connections db1 @
                   [\<lparr>cl_robot_id = rb_id r, cl_state = state, cl_boot_id = jget msg ''boot_id'',
                     cl_reason = reason\<rparr>]\<rparr>))"

definition new_channel :: "ident \<Rightarrow> string \<Rightarrow> data_channel" where
  "new_channel rid ch =
     \<lparr>dc_robot_id = rid, dc_channel = ch, dc_support = ''NOT_CONNECTED'', dc_quality = ''UNKNOWN'',
      dc_source_kind = ''CANONICAL_MQTT'', dc_last_source = None, dc_last_received = None,
      dc_metadata = []\<rparr>"

definition upsert_channel :: "ident \<Rightarrow> string \<Rightarrow> (data_channel \<Rightarrow> data_channel) \<Rightarrow> tx \<Rightarrow> tx" where
  "upsert_channel rid ch f db =
     (let own = (\<lambda>c. dc_robot_id c = rid \<and> dc_channel c = ch) in
      case first_row own (d_channels db) of
        None \<Rightarrow> db\<lparr>d_channels := d_channels db @ [f (new_channel rid ch)]\<rparr>
      | Some c \<Rightarrow> db\<lparr>d_channels := upd_rows own f (d_channels db)\<rparr>)"

definition connected :: "string \<Rightarrow> micros \<Rightarrow> micros \<Rightarrow> data_channel \<Rightarrow> data_channel" where
  "connected kind source received c =
     c\<lparr>dc_support := ''CONNECTED'', dc_quality := ''GOOD'', dc_source_kind := kind,
       dc_last_source := Some source, dc_last_received := Some received\<rparr>"

definition channel_projection :: "pyenv \<Rightarrow> string \<Rightarrow> string \<Rightarrow> micros \<Rightarrow> micros \<Rightarrow> dict" where
  "channel_projection env ch kind source received =
     [(''channel'', JStr ch), (''support_state'', JStr ''CONNECTED''), (''quality'', JStr ''GOOD''),
      (''source_kind'', JStr kind), (''last_source_timestamp'', JStr (iso_format env source)),
      (''last_received_at'', JStr (iso_format env received))]"

definition touch_field_channel :: "ident \<Rightarrow> string \<Rightarrow> string \<Rightarrow> micros \<Rightarrow> micros \<Rightarrow> tx \<Rightarrow> tx" where
  "touch_field_channel rid ch kind source received db =
     upsert_channel rid ch (connected kind source received) db"

definition with_channels :: "dict \<Rightarrow> dict \<Rightarrow> dict" where
  "with_channels latest delta =
     (if delta = [] then latest else jset ''data_channels'' (JObj delta) latest)"

section \<open>Telemetry\<close>

definition pose_keys :: "string list" where
  "pose_keys = [''position'', ''x'', ''y'', ''theta'']"

definition pose_projection :: "bool \<Rightarrow> dict \<Rightarrow> dict" where
  "pose_projection verified msg =
     (let pose = as_dict (jget msg ''position'') in
      if verified
      then [(''position'', JObj pose), (''x'', jget pose ''x''), (''y'', jget pose ''y''), (''theta'', jget pose ''theta'')]
      else [(''diagnostic_pose'', JObj pose)])"

definition location_fields :: "pyenv \<Rightarrow> robot \<Rightarrow> dict \<Rightarrow> micros \<Rightarrow> micros \<Rightarrow> bool \<Rightarrow> dict" where
  "location_fields env r msg source received verified =
     [(''vehicle_id'', JStr (rb_vehicle_id r)), (''robot_id'', JStr (rb_id r)),
      (''online_state'', JStr (rb_online_state r))] @ pose_projection verified msg @
     [(''linear'', jget msg ''linear_speed''), (''angular'', jget msg ''angular_speed''),
      (''linear_speed'', jget msg ''linear_speed''), (''angular_speed'', jget msg ''angular_speed''),
      (''battery'', jget_or msg ''battery'' (case rb_battery r of None \<Rightarrow> JNull | Some b \<Rightarrow> JFloat b)),
      (''site_code'', jget msg ''site_code''), (''map_code'', jget msg ''map_code''),
      (''map_version'', jget msg ''map_version''), (''frame_id'', jget msg ''frame_id''),
      (''parking_slot_code'', jget msg ''parking_slot_code''),
      (''localization_status'',
         if verified then jget_or msg ''localization_status'' (JStr ''UNKNOWN'')
         else JStr ''DEGRADED_MAP_UNVERIFIED''),
      (''map_contract_verified'', JBool verified), (''boot_id'', jget msg ''boot_id''),
      (''seq'', jget msg ''seq''), (''source_timestamp'', JStr (iso_format env source)),
      (''server_received_at'', JStr (iso_format env received))]"

definition location_latest ::
    "pyenv \<Rightarrow> redis \<Rightarrow> robot \<Rightarrow> dict \<Rightarrow> micros \<Rightarrow> micros \<Rightarrow> bool \<Rightarrow> bool \<Rightarrow> dict" where
  "location_latest env redis r msg source received estop_unknown verified =
     (let latest0 = (case redis_get (utc_now env) redis (latest_key (rb_vehicle_id r)) of
                       None \<Rightarrow> [] | Some v \<Rightarrow> as_dict v);
          latest1 = (if estop_unknown then jpop ''estop_active'' latest0 else latest0);
          latest2 = (if verified then latest1 else fold jpop pose_keys latest1)
      in jupdate latest2 (location_fields env r msg source received verified))"

definition downsample_key :: "ident \<Rightarrow> string" where
  "downsample_key rid = ''downsample:location:'' @ rid"

definition telemetry_row :: "robot \<Rightarrow> dict \<Rightarrow> micros \<Rightarrow> micros \<Rightarrow> telemetry_sample" where
  "telemetry_row r msg source received =
     (let pose = as_dict (jget msg ''position'') in
      \<lparr>ts_robot_id = rb_id r, ts_source = source, ts_received = received, ts_x = jget pose ''x'',
       ts_y = jget pose ''y'', ts_theta = jget pose ''theta'', ts_linear = jget msg ''linear_speed'',
       ts_angular = jget msg ''angular_speed'',
       ts_battery = jget_or msg ''battery'' (case rb_battery r of None \<Rightarrow> JNull | Some b \<Rightarrow> JFloat b),
       ts_localization = jget_or msg ''localization_status'' (JStr ''UNKNOWN''),
       ts_map_version = jget msg ''map_version'', ts_boot_id = jget msg ''boot_id'', ts_seq = jget msg ''seq''\<rparr>)"

definition located_robot :: "real option \<Rightarrow> dict \<Rightarrow> tx \<Rightarrow> robot \<Rightarrow> robot" where
  "located_robot battery msg db r =
     r\<lparr>rb_battery := (case battery of None \<Rightarrow> rb_battery r | Some b \<Rightarrow> Some b),
       rb_map_version := Some (jstr (jget msg ''map_version'')),
       rb_map_id := map_option mr_id
         (first_row (\<lambda>m. mr_site_id m = rb_site_id r \<and> JStr (mr_code m) = jget msg ''map_code'') (d_maps db))\<rparr>"

definition reported_battery :: "pyenv \<Rightarrow> dict \<Rightarrow> py_exn + real option" where
  "reported_battery env msg =
     (if jget msg ''battery'' = JNull then Inr None
      else bind (py_float env (jget msg ''battery'')) (\<lambda>b. Inr (Some b)))"

text \<open>
  \<open>handle_location\<close> also takes the one-second sampling token from Redis, at once and outside the
  transaction. The token is returned in the second component.
\<close>

definition handle_location ::
    "pyenv \<Rightarrow> redis \<Rightarrow> robot \<Rightarrow> dict \<Rightarrow> micros \<Rightarrow> micros \<Rightarrow> bool \<Rightarrow> bool \<Rightarrow> tx \<Rightarrow> (py_exn + tx) \<times> redis" where
  "handle_location env redis r msg source received estop_unknown verified db =
     (let pose = as_dict (jget msg ''position'');
          latest = location_latest env redis r msg source received estop_unknown verified
      in case bind (need msg [''position'', ''site_code'', ''map_code'', ''map_version'', ''frame_id'', ''boot_id'', ''seq''])
               (\<lambda>_. bind (if verified then need pose [''x'', ''y'', ''theta''] else Inr ())
               (\<lambda>_. reported_battery env msg)) of
           Inl e \<Rightarrow> (Inl e, redis)
         | Inr battery \<Rightarrow>
             let r1 = located_robot battery msg db r;
                 db1 = put_robot r1 (queue_redis_set (latest_key (rb_vehicle_id r)) (JObj latest) None db);
                 (sampled, redis1) = redis_set_nx (utc_now env) (downsample_key (rb_id r)) 1 (JStr ''1'') redis
             in if sampled
                then (bind (need pose [''x'', ''y'', ''theta'']) (\<lambda>_.
                        Inr (queue_event ''vehicle.location'' (Ev_Json latest)
                          (db1\<lparr>d_telemetry := d_telemetry db1 @ [telemetry_row r1 msg source received]\<rparr>))), redis1)
                else (Inr (queue_event ''vehicle.location'' (Ev_Json latest) db1), redis1))"

definition status_robot :: "dict \<Rightarrow> robot \<Rightarrow> robot" where
  "status_robot msg r =
     r\<lparr>rb_mode := (if jhas msg ''mode'' then jstr (jget msg ''mode'') else rb_mode r),
       rb_battery := (if jhas msg ''battery'' then jreal (jget msg ''battery'') else rb_battery r),
       rb_estop := (if jhas msg ''estop_active'' then Some (truthy (jget msg ''estop_active'')) else rb_estop r),
       rb_task_id := (if jhas msg ''active_task_id'' then jident (jget msg ''active_task_id'') else rb_task_id r)\<rparr>"

definition status_updates :: "dict \<Rightarrow> robot \<Rightarrow> dict" where
  "status_updates msg r =
     (if jhas msg ''mode'' then [(''mode'', JStr (rb_mode r))] else [])
     @ (if jhas msg ''battery'' then [(''battery'', jget msg ''battery'')] else [])
     @ (if jhas msg ''estop_active'' then [(''estop_active'', JBool (rb_estop r = Some True))] else [])
     @ (if jhas msg ''active_task_id'' then [(''active_task_id'', jopt (rb_task_id r))] else [])"

definition handle_status ::
    "pyenv \<Rightarrow> redis \<Rightarrow> robot \<Rightarrow> dict \<Rightarrow> micros \<Rightarrow> micros \<Rightarrow> string \<Rightarrow> tx \<Rightarrow> tx" where
  "handle_status env redis r msg source received kind db =
     (let r1 = status_robot msg r;
          latest = jupdate (latest_snapshot (utc_now env) redis r) (status_updates msg r1);
          touched = jhas msg ''battery'';
          db1 = (if touched then touch_field_channel (rb_id r) ''battery'' kind source received db else db);
          delta = (if touched then [(''battery'', JObj (channel_projection env ''battery'' kind source received))] else [])
      in queue_event ''vehicle.status'' (Ev_Json (with_channels latest delta))
           (queue_redis_set (latest_key (rb_vehicle_id r)) (JObj latest) None (put_robot r1 db1)))"

definition sensor_updates :: "pyenv \<Rightarrow> dict \<Rightarrow> micros \<Rightarrow> dict" where
  "sensor_updates env msg received =
     [(''server_received_at'', JStr (iso_format env received))]
     @ (if jget msg ''smoke'' = JNull then [] else [(''smoke'', jget msg ''smoke'')])
     @ (if jget msg ''bottom_ir'' = JNull then [] else [(''bottom_ir'', jget msg ''bottom_ir'')])
     @ (if jget msg ''top_ir_max'' = JNull then []
        else [(''top_ir'', jget msg ''top_ir_max''), (''top_ir_max'', jget msg ''top_ir_max'')])"

definition sensor_row :: "robot \<Rightarrow> dict \<Rightarrow> micros \<Rightarrow> micros \<Rightarrow> sensor_sample" where
  "sensor_row r msg source received =
     \<lparr>ss_robot_id = rb_id r, ss_source = source, ss_received = received, ss_smoke = jget msg ''smoke'',
      ss_bottom_ir = jget msg ''bottom_ir'', ss_top_ir_max = jget msg ''top_ir_max'',
      ss_payload = jget_or msg ''payload'' (JObj []), ss_boot_id = jget msg ''boot_id'', ss_seq = jget msg ''seq''\<rparr>"

definition handle_sensor ::
    "pyenv \<Rightarrow> redis \<Rightarrow> robot \<Rightarrow> dict \<Rightarrow> micros \<Rightarrow> micros \<Rightarrow> string \<Rightarrow> tx \<Rightarrow> py_exn + tx" where
  "handle_sensor env redis r msg source received kind db =
     bind (need msg [''boot_id'', ''seq'']) (\<lambda>_.
       let latest = jupdate (latest_snapshot (utc_now env) redis r) (sensor_updates env msg received);
           touched = (jget msg ''smoke'' \<noteq> JNull);
           db1 = (if touched then touch_field_channel (rb_id r) ''smoke'' kind source received db else db);
           delta = (if touched then [(''smoke'', JObj (channel_projection env ''smoke'' kind source received))] else []);
           db2 = db1\<lparr>d_sensors := d_sensors db1 @ [sensor_row r msg source received]\<rparr>
       in Inr (queue_event ''vehicle.sensor'' (Ev_Json (with_channels latest delta))
                (queue_redis_set (latest_key (rb_vehicle_id r)) (JObj latest) None db2)))"

section \<open>Alarms and capabilities\<close>

definition alarm_seen_again :: "dict \<Rightarrow> micros \<Rightarrow> fire_event \<Rightarrow> fire_event" where
  "alarm_seen_again msg received f =
     f\<lparr>fe_last_seen := received, fe_count := fe_count f + 1, fe_confidence := jget msg ''confidence''\<rparr>"

definition alarm_fingerprint :: "ingress_settings \<Rightarrow> robot \<Rightarrow> parking_slot \<Rightarrow> dict \<Rightarrow> string" where
  "alarm_fingerprint cfg r slot msg =
     ig_sha256 cfg (rb_id r @ '':'' @ ps_id slot @ '':'' @ jstr (jget msg ''fire_type''))"

definition known_alarm :: "ingress_settings \<Rightarrow> robot \<Rightarrow> parking_slot \<Rightarrow> dict \<Rightarrow> micros \<Rightarrow> tx \<Rightarrow> fire_event option" where
  "known_alarm cfg r slot msg received db =
     (case first_row (\<lambda>f. fe_robot_id f = Some (rb_id r) \<and> fe_source_event_id f = jget msg ''event_id'') (d_fires db) of
        Some f \<Rightarrow> Some f
      | None \<Rightarrow> first_row (\<lambda>f. fe_fingerprint f = alarm_fingerprint cfg r slot msg
                              \<and> received - 5 * 60 * 1000000 \<le> fe_last_seen f) (d_fires db))"

definition new_alarm :: "ingress_settings \<Rightarrow> pyenv \<Rightarrow> robot \<Rightarrow> parking_slot \<Rightarrow> dict \<Rightarrow> micros \<Rightarrow> fire_event" where
  "new_alarm cfg env r slot msg received =
     \<lparr>fe_id = uuid env 1, fe_code = ''FE-'' @ stamp env received @ ''-'' @ take 6 (uuid env 0),
      fe_robot_id = Some (rb_id r), fe_slot_id = ps_id slot,
      fe_method = ''AUTO'', fe_type = jstr (jget msg ''fire_type''), fe_confidence = jget msg ''confidence'',
      fe_severity = jstr (jget msg ''severity''), fe_fingerprint = alarm_fingerprint cfg r slot msg,
      fe_source_message_id = jget msg ''message_id'', fe_source_event_id = jget msg ''event_id'',
      fe_state = ''NEW'', fe_first_seen = received, fe_last_seen = received, fe_count = 1,
      fe_ack_by = None, fe_ack_at = None, fe_confirmed_at = None, fe_assigned_task = None,
      fe_resolved_at = None, fe_closed_at = None, fe_position = jget msg ''position'',
      fe_media = jget_or msg ''media'' (JObj []), fe_note = None\<rparr>"

definition handle_alarm :: "ingress_settings \<Rightarrow> pyenv \<Rightarrow> robot \<Rightarrow> dict \<Rightarrow> micros \<Rightarrow> tx \<Rightarrow> py_exn + tx" where
  "handle_alarm cfg env r msg received db =
     bind (need msg [''message_id'']) (\<lambda>_.
       if first_row (\<lambda>f. fe_source_message_id f = jget msg ''message_id'') (d_fires db) \<noteq> None then Inr db
       else case first_row (\<lambda>s. JStr (ps_code s) = jget msg ''parking_slot_code'') (d_slots db) of
         None \<Rightarrow> Inr db
       | Some slot \<Rightarrow>
         bind (need msg [''fire_type'']) (\<lambda>_.
           case known_alarm cfg r slot msg received db of
             Some f \<Rightarrow> Inr (queue_event ''alarm.updated'' (Ev_Fire (alarm_seen_again msg received f))
                              (put_fire (alarm_seen_again msg received f) db))
           | None \<Rightarrow>
             bind (need msg [''severity'', ''event_id'', ''position'']) (\<lambda>_.
               let f = new_alarm cfg env r slot msg received in
               Inr (queue_event ''alarm.created'' (Ev_Fire f) (db\<lparr>d_fires := d_fires db @ [f]\<rparr>)))))"

definition put_capability :: "capability \<Rightarrow> tx \<Rightarrow> tx" where
  "put_capability c db =
     (case get_capability (cp_robot_id c) db of
        None \<Rightarrow> db\<lparr>d_capabilities := d_capabilities db @ [c]\<rparr>
      | Some _ \<Rightarrow> db\<lparr>d_capabilities := upd_rows (\<lambda>x. cp_robot_id x = cp_robot_id c) (\<lambda>_. c) (d_capabilities db)\<rparr>)"

definition handle_capabilities :: "pyenv \<Rightarrow> robot \<Rightarrow> dict \<Rightarrow> micros \<Rightarrow> tx \<Rightarrow> py_exn + tx" where
  "handle_capabilities env r msg received db =
     bind (need msg [''protocol_version'', ''supported_commands'', ''sensors'', ''media'']) (\<lambda>_.
       Inr (queue_event ''vehicle.capabilities''
              (Ev_Json [(''vehicle_id'', JStr (rb_vehicle_id r)),
                 (''protocol_version'', jget msg ''protocol_version''),
                 (''supported_commands_json'', jget msg ''supported_commands''),
                 (''sensors_json'', jget msg ''sensors''), (''media_json'', jget msg ''media''),
                 (''received_at'', JStr (iso_format env received))])
              (put_capability \<lparr>cp_robot_id = rb_id r, cp_protocol_version = jstr (jget msg ''protocol_version''),
                 cp_commands = map jstr (jlist (jget msg ''supported_commands'')),
                 cp_sensors = jlist (jget msg ''sensors''), cp_media = jlist (jget msg ''media''),
                 cp_received_at = received\<rparr> db)))"

section \<open>Acknowledgements and task status\<close>

definition acknowledged :: "dict \<Rightarrow> micros \<Rightarrow> command \<Rightarrow> command" where
  "acknowledged msg received c =
     (let c1 = c\<lparr>cm_ack_at := Some received, cm_ack_status := jget msg ''status'',
                 cm_ack_reason := py_or (jget msg ''reason_code'') (jget msg ''reason'')\<rparr>
      in if jget msg ''status'' = JStr ''accepted'' then c1\<lparr>cm_lifecycle := ''ACK_ACCEPTED''\<rparr>
         else if jget msg ''status'' = JStr ''unsupported''
         then c1\<lparr>cm_lifecycle := ''ACK_UNSUPPORTED'', cm_terminal_at := Some received\<rparr>
         else c1\<lparr>cm_lifecycle := ''ACK_REJECTED'', cm_terminal_at := Some received\<rparr>)"

definition handle_ack :: "robot \<Rightarrow> dict \<Rightarrow> micros \<Rightarrow> tx \<Rightarrow> py_exn + tx" where
  "handle_ack r msg received db =
     bind (need msg [''command_id'']) (\<lambda>_.
       case first_row (\<lambda>c. JStr (cm_command_id c) = jget msg ''command_id'' \<and> cm_robot_id c = rb_id r) (d_commands db) of
         None \<Rightarrow> Inr db
       | Some c \<Rightarrow>
           if cm_ack_at c \<noteq> None then Inr db
           else bind (need msg [''status'']) (\<lambda>_.
             Inr (queue_event ''command.updated'' (Ev_Command (acknowledged msg received c))
                    (put_command (acknowledged msg received c) db))))"

definition TASK_STATUS_MAP :: "(string \<times> string) list" where
  "TASK_STATUS_MAP =
     [(''accepted'', ''ACCEPTED''), (''executing'', ''EXECUTING''), (''completed'', ''SUCCEEDED''),
      (''failed'', ''FAILED''), (''cancelled'', ''CANCELLED'')]"

definition TERMINAL_TASK_STATES :: "string list" where
  "TERMINAL_TASK_STATES = [''SUCCEEDED'', ''FAILED'', ''CANCELLED'']"

definition awaits_verification :: "string \<Rightarrow> task \<Rightarrow> bool" where
  "awaits_verification st t \<longleftrightarrow> tk_type t = ''NAVIGATE_TO_PRESET'' \<and> st = ''SUCCEEDED''"

definition reported_status :: "pyenv \<Rightarrow> string \<Rightarrow> dict \<Rightarrow> micros \<Rightarrow> task \<Rightarrow> py_exn + task" where
  "reported_status env st msg received t =
     (if awaits_verification st t
      then bind (py_float env (jget msg ''progress'')) (\<lambda>x.
             Inr (t\<lparr>tk_status := ''EXECUTING'', tk_phase := ''VERIFYING_FINAL_POSE'',
                    tk_progress := JFloat (min x 99),
                    tk_parameters := jset ''pose_verification_frames'' (JInt 0)
                      (jset ''vehicle_completed_reported_at'' (JStr (iso_format env received)) (tk_parameters t))\<rparr>))
      else bind (need msg [''phase'']) (\<lambda>_.
             Inr (t\<lparr>tk_status := st, tk_phase := jstr (jget msg ''phase''), tk_progress := jget msg ''progress''\<rparr>)))"

definition stamp_task :: "string \<Rightarrow> dict \<Rightarrow> micros \<Rightarrow> task \<Rightarrow> task" where
  "stamp_task st msg received t =
     t\<lparr>tk_accepted_at := (if st = ''ACCEPTED'' then Some received else tk_accepted_at t),
       tk_started_at := (if st = ''EXECUTING'' \<and> tk_started_at t = None then Some received else tk_started_at t),
       tk_completed_at := (if st \<in> set TERMINAL_TASK_STATES \<and> \<not> awaits_verification st t then Some received
                           else tk_completed_at t),
       tk_failure_code := jget msg ''failure_code'',
       tk_failure_message := jget msg ''failure_message''\<rparr>"

definition pick :: "dict \<Rightarrow> (string \<times> string) list \<Rightarrow> json" where
  "pick msg names = JObj (map (\<lambda>(k, m). (k, jget msg m)) names)"

definition live_parameters :: "dict \<Rightarrow> dict \<Rightarrow> dict" where
  "live_parameters msg params =
     (let p1 = (if jget msg ''checkpoint_index'' = JNull then params
                else jset ''live_checkpoint''
                  (pick msg [(''index'', ''checkpoint_index''), (''total'', ''checkpoint_total''),
                     (''current_slot_code'', ''current_slot_code''), (''next_slot_code'', ''next_slot_code'')]) params)
      in if jget msg ''waypoint_index'' = JNull \<and> jget msg ''target_waypoint_index'' = JNull then p1
         else jset ''live_route_cursor''
           (pick msg [(''waypoint_index'', ''waypoint_index''), (''waypoint_total'', ''waypoint_total''),
              (''target_waypoint_index'', ''target_waypoint_index''),
              (''last_completed_waypoint_index'', ''last_completed_waypoint_index'')]) p1)"

text \<open>An interrupted patrol with a route cursor, or an interrupted return, can be resumed.\<close>

definition resumable :: "string \<Rightarrow> task \<Rightarrow> bool" where
  "resumable st t \<longleftrightarrow> st = ''CANCELLED''
     \<and> ((tk_type t = ''PATROL'' \<and> truthy (jget (tk_parameters t) ''live_route_cursor'')) \<or> tk_type t = ''RETURN_DOCK'')"

definition mark_resumable :: "string \<Rightarrow> task \<Rightarrow> task" where
  "mark_resumable st t =
     (if resumable st t
      then t\<lparr>tk_parameters := jset ''resume_state'' (JStr ''AVAILABLE'') (tk_parameters t)\<rparr> else t)"

definition consume_resume :: "string \<Rightarrow> task \<Rightarrow> tx \<Rightarrow> tx" where
  "consume_resume st t db =
     (if st = ''SUCCEEDED'' \<and> tk_type t = ''RETURN_DOCK'' then
        case latest_row tk_created_at
               (filter (\<lambda>x. tk_robot_id x = tk_robot_id t \<and> tk_type x = ''PATROL'' \<and> tk_status x = ''CANCELLED'')
                  (d_tasks db)) of
          None \<Rightarrow> db
        | Some prev \<Rightarrow>
            (if jget (tk_parameters prev) ''resume_state'' = JStr ''AVAILABLE''
             then put_task (prev\<lparr>tk_parameters := jset ''resume_state'' (JStr ''CONSUMED_BY_RETURN'') (tk_parameters prev)\<rparr>) db
             else db)
      else db)"

definition initiating_command :: "ident \<Rightarrow> tx \<Rightarrow> command option" where
  "initiating_command tid db =
     latest_row cm_issued_at
       (filter (\<lambda>c. cm_task_id c = Some tid \<and> cm_cmd c \<in> {''patrol'', ''extinguish'', ''return_dock''}) (d_commands db))"

definition advance_command :: "task \<Rightarrow> micros \<Rightarrow> tx \<Rightarrow> tx" where
  "advance_command t received db =
     (case initiating_command (tk_id t) db of
        None \<Rightarrow> db
      | Some c \<Rightarrow>
          put_command (c\<lparr>cm_lifecycle := tk_status t,
                         cm_terminal_at := (if tk_status t \<in> set TERMINAL_TASK_STATES then Some received
                                            else cm_terminal_at c)\<rparr>) db)"

definition fire_after :: "string \<Rightarrow> micros \<Rightarrow> fire_event \<Rightarrow> fire_event" where
  "fire_after st received f =
     (if st = ''EXECUTING'' then f\<lparr>fe_state := ''IN_PROGRESS''\<rparr>
      else if st = ''ACCEPTED'' then f\<lparr>fe_state := ''DISPATCHED''\<rparr>
      else if st = ''SUCCEEDED'' then f\<lparr>fe_state := ''RESOLVED'', fe_resolved_at := Some received\<rparr>
      else if st \<in> {''FAILED'', ''CANCELLED''} then f\<lparr>fe_state := ''CONFIRMED''\<rparr>
      else f)"

definition advance_fire :: "task \<Rightarrow> micros \<Rightarrow> tx \<Rightarrow> tx" where
  "advance_fire t received db =
     (case tk_fire_id t of
        None \<Rightarrow> db
      | Some fid \<Rightarrow>
          (case first_row (\<lambda>f. fe_id f = fid) (d_fires db) of
             None \<Rightarrow> db
           | Some f \<Rightarrow> queue_event ''alarm.updated'' (Ev_Fire (fire_after (tk_status t) received f))
                         (put_fire (fire_after (tk_status t) received f) db)))"

definition store_status :: "string \<Rightarrow> dict \<Rightarrow> micros \<Rightarrow> task \<Rightarrow> tx \<Rightarrow> tx" where
  "store_status st msg received t db =
     (let db1 = consume_resume st t (put_task t db);
          db2 = db1\<lparr>d_task_events := d_task_events db1 @
                  [\<lparr>te_task_id = tk_id t, te_status = tk_status t, te_phase = tk_phase t,
                    te_progress = tk_progress t, te_payload = msg\<rparr>]\<rparr>
      in queue_event ''task.updated'' (Ev_Task t) (advance_fire t received (advance_command t received db2)))"

definition handle_task_status :: "pyenv \<Rightarrow> robot \<Rightarrow> dict \<Rightarrow> micros \<Rightarrow> tx \<Rightarrow> py_exn + tx" where
  "handle_task_status env r msg received db =
     bind (need msg [''task_id'']) (\<lambda>_.
       case first_row (\<lambda>t. JStr (tk_id t) = jget msg ''task_id'') (d_tasks db) of
         None \<Rightarrow> Inr db
       | Some t \<Rightarrow>
           if tk_robot_id t \<noteq> rb_id r then Inr db
           else bind (need msg [''status'', ''progress'']) (\<lambda>_.
             case map_of TASK_STATUS_MAP (jstr (jget msg ''status'')) of
               None \<Rightarrow> Inl KeyError
             | Some st \<Rightarrow>
                 bind (reported_status env st msg received t) (\<lambda>t1.
                   let t2 = stamp_task st msg received t1;
                       t3 = mark_resumable st (t2\<lparr>tk_parameters := live_parameters msg (tk_parameters t2)\<rparr>)
                   in Inr (store_status st msg received t3 db))))"

end
