(* ===== verification/Ingress.thy ===== *)
theory Ingress
  imports Ingress_Handlers
begin

text \<open>
  What the MQTT ingress (\<open>services/mqtt-ingress/main.py\<close>) does with one delivery: the internal
  contract of the ROS compatibility bridge, and the pipeline of \<open>process\<close>: size, depth, video and
  schema checks, the rate limit, deduplication, the sequence check, one transaction, and the marks
  in Redis that make a redelivery harmless or possible. Metric counters are not modelled.

  A delivery carries the topic, the payload size and what \<open>json.loads\<close> returns for the payload
  (\<open>None\<close> when decoding raises).
\<close>

record delivery =
  dl_topic :: string
  dl_size :: int
  dl_body :: "json option"

datatype outcome =
    Rejected string
  | Internal
  | Duplicate
  | Out_Of_Order
  | Retryable py_exn
  | Raised py_exn
  | Committed bool

definition last_segment :: "string \<Rightarrow> string" where
  "last_segment topic = rev (takeWhile (\<lambda>c. c \<noteq> CHR ''/'') (rev topic))"

definition compat_topic :: "string \<Rightarrow> bool" where
  "compat_topic topic \<longleftrightarrow> starts_with ''_platform/compat/'' topic"

section \<open>Integration facts of a read-only source\<close>

definition default_integration :: "ident \<Rightarrow> integration" where
  "default_integration rid =
     \<lparr>ip_robot_id = rid, ip_source_kind = ''CANONICAL_MQTT'', ip_bridge_boot_id = None,
      ip_availability = None, ip_control_verified = False, ip_ack_verified = False,
      ip_map_verified = False, ip_bidirectional_verified = False, ip_path_verified = False,
      ip_arbitration_verified = False, ip_ros_control_mode = None, ip_stale_seconds = 3,
      ip_offline_seconds = 10, ip_last_source = None, ip_last_received = None, ip_compat_sequence = [],
      ip_forward_only = True, ip_reverse_precision = False,
      ip_verified_at = None\<rparr>"

definition integration_of :: "ident \<Rightarrow> 'a database_scheme \<Rightarrow> integration" where
  "integration_of rid d = (case get_integration rid d of None \<Rightarrow> default_integration rid | Some p \<Rightarrow> p)"

definition put_integration :: "integration \<Rightarrow> tx \<Rightarrow> tx" where
  "put_integration p db =
     (case get_integration (ip_robot_id p) db of
        None \<Rightarrow> db\<lparr>d_integrations := d_integrations db @ [p]\<rparr>
      | Some _ \<Rightarrow> db\<lparr>d_integrations := upd_rows (\<lambda>x. ip_robot_id x = ip_robot_id p) (\<lambda>_. p) (d_integrations db)\<rparr>)"

definition read_only :: "ingress_settings \<Rightarrow> bool \<Rightarrow> integration \<Rightarrow> integration" where
  "read_only cfg keep_map p =
     p\<lparr>ip_source_kind := ''ROS_COMPAT'', ip_control_verified := False, ip_ack_verified := False,
       ip_map_verified := (keep_map \<and> ip_map_verified p), ip_bidirectional_verified := False,
       ip_path_verified := False, ip_arbitration_verified := False,
       ip_stale_seconds := ig_compat_stale cfg, ip_offline_seconds := ig_compat_offline cfg\<rparr>"

definition no_commands :: "ident \<Rightarrow> micros \<Rightarrow> capability" where
  "no_commands rid received =
     \<lparr>cp_robot_id = rid, cp_protocol_version = ''ros1-readonly'', cp_commands = [], cp_sensors = [],
      cp_media = [], cp_received_at = received\<rparr>"

section \<open>The internal contract of the compatibility bridge\<close>

definition COMPAT_TYPES :: "string list" where
  "COMPAT_TYPES =
     [''compat_availability'', ''compat_map'', ''compat_status'', ''compat_battery'', ''compat_odom'',
      ''compat_nav_status'', ''compat_nav_result'']"

text \<open>\<open>expected.removeprefix("compat_")\<close>; every type has the prefix.\<close>

definition compat_name :: "string \<Rightarrow> string" where
  "compat_name ty = drop 7 ty"

definition redis_set_nx_px :: "micros \<Rightarrow> string \<Rightarrow> int \<Rightarrow> json \<Rightarrow> redis \<Rightarrow> bool \<times> redis" where
  "redis_set_nx_px now k ms v r =
     (if redis_exists now r k then (False, r) else (True, r(k \<mapsto> (v, Some (now + ms * 1000)))))"

definition odom_fields :: "dict \<Rightarrow> dict" where
  "odom_fields msg =
     [(''linear'', jget msg ''planar_speed''), (''angular'', jget msg ''angular_z''),
      (''linear_x'', jget msg ''linear_x''), (''linear_y'', jget msg ''linear_y''),
      (''angular_z'', jget msg ''angular_z''), (''planar_speed'', jget msg ''planar_speed''),
      (''linear_speed'', jget msg ''planar_speed''), (''angular_speed'', jget msg ''angular_z'')]"

definition odom_latest :: "pyenv \<Rightarrow> redis \<Rightarrow> string \<Rightarrow> dict \<Rightarrow> micros \<Rightarrow> dict" where
  "odom_latest env redis vid msg source =
     jupdate (case redis_get (utc_now env) redis (latest_key vid) of
                None \<Rightarrow> [(''vehicle_id'', JStr vid)] | Some v \<Rightarrow> as_dict v)
       (odom_fields msg @
        [(''source_timestamp'', JStr (iso_format env source)),
         (''server_received_at'', JStr (iso_format env (utc_now env))),
         (''bridge_boot_id'', jget msg ''bridge_boot_id''), (''seq'', jget msg ''seq'')])"

text \<open>
  The fast path of \<open>compat_odom\<close>: the snapshot is written at once, the realtime event at most
  every interval; the second result tells whether the database facts are due for a refresh.
\<close>

definition odom_fast_path ::
    "ingress_settings \<Rightarrow> pyenv \<Rightarrow> string \<Rightarrow> dict \<Rightarrow> micros \<Rightarrow> platform \<Rightarrow> platform \<times> bool" where
  "odom_fast_path cfg env vid msg source p =
     (let latest = odom_latest env (pf_redis p) vid msg source;
          r1 = redis_set (latest_key vid) (JObj latest) (pf_redis p);
          (announce, r2) = redis_set_nx_px (utc_now env) (''ros_compat:ws_gate:'' @ vid)
                             (max 1 \<lfloor>1000 / ig_ws_hz cfg\<rfloor>) (JStr ''1'') r1;
          (refresh, r3) = redis_set_nx (utc_now env) (''ros_compat:metadata_gate:'' @ vid @ '':odom'')
                             (ig_metadata_refresh cfg) (JStr ''1'') r2
      in (p\<lparr>pf_redis := r3,
            pf_events := pf_events p @ (if announce then [(''vehicle.odom'', Ev_Json latest)] else [])\<rparr>,
          refresh))"

definition compat_integration ::
    "ingress_settings \<Rightarrow> pyenv \<Rightarrow> string \<Rightarrow> dict \<Rightarrow> micros \<Rightarrow> integration \<Rightarrow> integration" where
  "compat_integration cfg env ty msg source p =
     (read_only cfg (ty = ''compat_map'') p)
       \<lparr>ip_bridge_boot_id := (if jhas msg ''bridge_boot_id'' then jident (jget msg ''bridge_boot_id'')
                              else ip_bridge_boot_id p),
        ip_last_source := Some source, ip_last_received := Some (utc_now env),
        ip_compat_sequence := jset (compat_name ty)
          (JObj [(''bridge_boot_id'', jget msg ''bridge_boot_id''), (''seq'', jget msg ''seq''),
                 (''source_timestamp'', JStr (iso_format env source))]) (ip_compat_sequence p)\<rparr>"

fun jint :: "json \<Rightarrow> int option" where
  "jint (JInt i) = Some i"
| "jint v = None"

definition refetch :: "robot \<Rightarrow> tx \<Rightarrow> robot" where
  "refetch r db = (case get_robot (rb_id r) db of None \<Rightarrow> r | Some r' \<Rightarrow> r')"

definition map_verified :: "robot \<Rightarrow> dict \<Rightarrow> tx \<Rightarrow> bool" where
  "map_verified r msg db =
     (case first_row (\<lambda>m. mr_site_id m = rb_site_id r \<and> JStr (mr_code m) = jget msg ''map_code'') (d_maps db) of
        None \<Rightarrow> False
      | Some m \<Rightarrow>
          (case mr_active_version m of
             None \<Rightarrow> False
           | Some vid \<Rightarrow>
               (case first_row (\<lambda>v. mv_id v = vid) (d_map_versions db) of
                  None \<Rightarrow> False
                | Some v \<Rightarrow> JStr (mv_version v) = jget msg ''map_version''
                            \<and> JStr (mv_checksum v) = jget msg ''map_checksum'')))"

text \<open>The branch of each type: what it does to the session, and what it adds to the snapshot.\<close>

definition compat_availability :: "pyenv \<Rightarrow> redis \<Rightarrow> robot \<Rightarrow> dict \<Rightarrow> tx \<Rightarrow> py_exn + tx \<times> dict" where
  "compat_availability env redis r msg db =
     bind (need msg [''state'', ''bridge_boot_id'']) (\<lambda>_.
       let state = lower (py_str env (jget msg ''state''));
           online = (if state = ''online'' then ''ONLINE'' else ''OFFLINE'');
           db1 = put_integration ((integration_of (rb_id r) db)\<lparr>ip_availability := Some state\<rparr>) db;
           db2 = snd (accept_boot_session (utc_now env) redis r (jstr (jget msg ''bridge_boot_id''))
                        ''availability'' (utc_now env) db1)
       in Inr (put_robot ((refetch r db2)\<lparr>rb_online_state := online, rb_last_seen_at := Some (utc_now env)\<rparr>) db2,
               [(''online_state'', JStr online)]))"

definition compat_map :: "robot \<Rightarrow> dict \<Rightarrow> tx \<Rightarrow> py_exn + tx \<times> dict" where
  "compat_map r msg db =
     bind (need msg [''site_code'', ''map_code'', ''map_version'', ''map_checksum'']) (\<lambda>_.
       Inr (put_integration ((integration_of (rb_id r) db)\<lparr>ip_map_verified := map_verified r msg db\<rparr>) db,
            [(''map_contract_verified'', JBool (map_verified r msg db))]))"

definition compat_status :: "pyenv \<Rightarrow> robot \<Rightarrow> dict \<Rightarrow> tx \<Rightarrow> py_exn + tx \<times> dict" where
  "compat_status env r msg db =
     bind (need msg [''mode'']) (\<lambda>_.
       let mode = py_str env (jget msg ''mode'') in
       Inr (put_integration ((integration_of (rb_id r) db)\<lparr>ip_ros_control_mode := jint (jget msg ''ros_control_mode'')\<rparr>)
              (put_robot (r\<lparr>rb_mode := mode\<rparr>) db),
            [(''mode'', JStr mode), (''ros_control_mode'', jget msg ''ros_control_mode'')]))"

definition compat_battery :: "pyenv \<Rightarrow> robot \<Rightarrow> dict \<Rightarrow> tx \<Rightarrow> py_exn + tx \<times> dict" where
  "compat_battery env r msg db =
     bind (need msg [''battery'']) (\<lambda>_.
     bind (py_float env (jget msg ''battery'')) (\<lambda>b.
       Inr (put_robot (r\<lparr>rb_battery := Some b\<rparr>) db,
            [(''battery'', JFloat b), (''battery_diagnostics'', jget_or msg ''diagnostics'' (JObj []))])))"

definition compat_diagnostic :: "pyenv \<Rightarrow> string \<Rightarrow> robot \<Rightarrow> dict \<Rightarrow> micros \<Rightarrow> tx \<Rightarrow> py_exn + tx \<times> dict" where
  "compat_diagnostic env ty r msg source db =
     Inr (db\<lparr>d_diagnostics := d_diagnostics db @
            [\<lparr>nd_robot_id = rb_id r, nd_goal_id = jget msg ''external_goal_id'', nd_type = compat_name ty,
              nd_status = py_str env (jget_or msg ''status'' (JStr ''UNKNOWN'')),
              nd_payload = jget_or msg ''payload'' (JObj []), nd_source = source, nd_received = utc_now env\<rparr>]\<rparr>, [])"

definition compat_branch ::
    "pyenv \<Rightarrow> redis \<Rightarrow> string \<Rightarrow> robot \<Rightarrow> dict \<Rightarrow> micros \<Rightarrow> tx \<Rightarrow> py_exn + tx \<times> dict" where
  "compat_branch env redis ty r msg source db =
     (if ty = ''compat_availability'' then compat_availability env redis r msg db
      else if ty = ''compat_map'' then compat_map r msg db
      else if ty = ''compat_status'' then compat_status env r msg db
      else if ty = ''compat_battery'' then compat_battery env r msg db
      else if ty = ''compat_odom'' then Inr (db, odom_fields msg)
      else compat_diagnostic env ty r msg source db)"

definition compat_metadata :: "string \<Rightarrow> dict \<Rightarrow> data_channel \<Rightarrow> data_channel" where
  "compat_metadata ty msg c =
     (if ty = ''compat_battery'' then c\<lparr>dc_metadata := [(''diagnostics'', jget_or msg ''diagnostics'' (JObj []))]\<rparr>
      else if ty \<in> {''compat_nav_status'', ''compat_nav_result''}
      then c\<lparr>dc_metadata := [(''external_goal_id'', jget msg ''external_goal_id''), (''diagnostic_only'', JBool True)]\<rparr>
      else c)"

definition absent_channel :: "string \<Rightarrow> data_channel \<Rightarrow> data_channel" where
  "absent_channel support c =
     c\<lparr>dc_support := support, dc_quality := ''NOT_AVAILABLE'', dc_source_kind := ''ROS_COMPAT''\<rparr>"

definition compat_channels :: "string \<Rightarrow> ident \<Rightarrow> dict \<Rightarrow> micros \<Rightarrow> micros \<Rightarrow> tx \<Rightarrow> tx" where
  "compat_channels ty rid msg source received db =
     (let db1 = upsert_channel rid (compat_name ty)
                  (\<lambda>c. compat_metadata ty msg (connected ''ROS_COMPAT'' source received c)) db;
          db2 = fold (\<lambda>ch. upsert_channel rid ch (absent_channel ''UNSUPPORTED''))
                  [''estop'', ''roof_rgb'', ''roof_thermal'', ''bottom_ir_video''] db1
      in fold (\<lambda>ch. upsert_channel rid ch (absent_channel ''NOT_CONNECTED''))
           [''smoke'', ''top_ir'', ''bottom_ir''] db2)"

definition compat_transaction ::
    "ingress_settings \<Rightarrow> pyenv \<Rightarrow> redis \<Rightarrow> string \<Rightarrow> string \<Rightarrow> dict \<Rightarrow> micros \<Rightarrow> robot \<Rightarrow> tx \<Rightarrow> py_exn + tx" where
  "compat_transaction cfg env redis ty vid msg source r db =
     (let received = utc_now env;
          latest0 = jpop ''estop_active'' (latest_snapshot received redis r);
          db1 = put_integration (compat_integration cfg env ty msg source (integration_of (rb_id r) db)) db;
          r1 = r\<lparr>rb_estop := None\<rparr>;
          db2 = put_capability (no_commands (rb_id r) received) (put_robot r1 db1)
      in bind (compat_branch env redis ty r1 msg source db2) (\<lambda>(db3, fields).
           let latest = jupdate latest0
                 (fields @ [(''server_received_at'', JStr (iso_format env received)),
                            (''source_timestamp'', JStr (iso_format env source))])
           in Inr (queue_event (''vehicle.'' @ compat_name ty) (Ev_Json latest)
                (compat_channels ty (rb_id r) msg source received
                  (queue_redis_set (latest_key vid) (JObj latest) None db3)))))"

text \<open>
  The errors caught around parsing make the message invalid; \<open>msg.get\<close> of a payload that is not
  an object and \<open>parse_time\<close> of a value that is not a string raise \<open>AttributeError\<close>, which is not
  among them.
\<close>

definition compat_header :: "ingress_settings \<Rightarrow> pyenv \<Rightarrow> json option \<Rightarrow> py_exn + (dict \<times> string \<times> micros) option" where
  "compat_header cfg env body =
     (case body of
        None \<Rightarrow> Inr None
      | Some (JObj msg) \<Rightarrow>
          (if jget msg ''internal_contract'' \<noteq> JStr ''ros-compat-v1''
              \<or> \<not> jhas msg ''vehicle_id'' \<or> \<not> jhas msg ''timestamp'' then Inr None
           else case parse_time cfg env (jget msg ''timestamp'') of
             Inr t \<Rightarrow> Inr (Some (msg, py_str env (jget msg ''vehicle_id''), t))
           | Inl AttributeError \<Rightarrow> Inl AttributeError
           | Inl e \<Rightarrow> Inr None)
      | Some v \<Rightarrow> Inl AttributeError)"

definition compat_refresh ::
    "ingress_settings \<Rightarrow> pyenv \<Rightarrow> string \<Rightarrow> string \<Rightarrow> dict \<Rightarrow> micros \<Rightarrow> platform \<Rightarrow> outcome \<times> platform" where
  "compat_refresh cfg env ty vid msg source p =
     (let db = begin_tx (pf_db p) in
      case robot_for vid db of
        None \<Rightarrow> (Internal, p)
      | Some r \<Rightarrow>
          (case compat_transaction cfg env (pf_redis p) ty vid msg source r db of
             Inl e \<Rightarrow> (Raised e, p)
           | Inr db' \<Rightarrow> (Internal, commit (utc_now env) db' p)))"

definition process_internal_compat ::
    "ingress_settings \<Rightarrow> pyenv \<Rightarrow> string \<Rightarrow> json option \<Rightarrow> platform \<Rightarrow> outcome \<times> platform" where
  "process_internal_compat cfg env ty body p =
     (case compat_header cfg env body of
        Inl e \<Rightarrow> (Raised e, p)
      | Inr None \<Rightarrow> (Internal, p)
      | Inr (Some (msg, vid, source)) \<Rightarrow>
          (if ty = ''compat_odom'' then
             let (p1, refresh) = odom_fast_path cfg env vid msg source p in
             if refresh then compat_refresh cfg env ty vid msg source p1 else (Internal, p1)
           else compat_refresh cfg env ty vid msg source p))"

section \<open>One vehicle message\<close>

definition source_kind :: "string \<Rightarrow> string" where
  "source_kind topic = (if compat_topic topic then ''ROS_COMPAT'' else ''CANONICAL_MQTT'')"

definition adopt_source :: "ingress_settings \<Rightarrow> string \<Rightarrow> ident \<Rightarrow> tx \<Rightarrow> tx" where
  "adopt_source cfg kind rid db =
     (if kind = ''ROS_COMPAT''
         \<and> (case get_integration rid db of None \<Rightarrow> True | Some p \<Rightarrow> ip_source_kind p \<noteq> kind)
      then put_integration (read_only cfg False (integration_of rid db)) db else db)"

definition forget_estop :: "string \<Rightarrow> robot \<Rightarrow> micros \<Rightarrow> tx \<Rightarrow> tx" where
  "forget_estop kind r received db =
     (if kind = ''ROS_COMPAT''
      then put_capability (no_commands (rb_id r) received) (put_robot (r\<lparr>rb_estop := None\<rparr>) db) else db)"

definition message_channel :: "string \<Rightarrow> string \<Rightarrow> string" where
  "message_channel kind ty = (if kind = ''ROS_COMPAT'' \<and> ty = ''location'' then ''pose'' else ty)"

definition heartbeat_key :: "string \<Rightarrow> string" where
  "heartbeat_key vid = ''heartbeat:'' @ vid"

definition goes_offline :: "string \<Rightarrow> dict \<Rightarrow> bool" where
  "goes_offline ty msg \<longleftrightarrow> ty = ''availability'' \<and> jget msg ''state'' = JStr ''offline''"

definition project_online ::
    "ingress_settings \<Rightarrow> pyenv \<Rightarrow> redis \<Rightarrow> string \<Rightarrow> robot \<Rightarrow> dict \<Rightarrow> tx \<Rightarrow> tx" where
  "project_online cfg env redis ty r msg db =
     (if goes_offline ty msg then
        queue_redis_delete (heartbeat_key (rb_vehicle_id r))
          (update_online (utc_now env) redis r ''OFFLINE'' msg (jget msg ''reason'') db)
      else if ty \<in> {''heartbeat'', ''availability''} then
        queue_redis_set (heartbeat_key (rb_vehicle_id r)) (JStr (iso_format env (utc_now env)))
          (Some (ig_offline_seconds cfg))
          (update_online (utc_now env) redis r ''ONLINE'' msg JNull db)
      else db)"

definition run_handler ::
    "ingress_settings \<Rightarrow> pyenv \<Rightarrow> redis \<Rightarrow> string \<Rightarrow> string \<Rightarrow> robot \<Rightarrow> dict \<Rightarrow> micros \<Rightarrow> tx \<Rightarrow> (py_exn + tx) \<times> redis" where
  "run_handler cfg env redis kind ty r msg source db =
     (let received = utc_now env; compat = (kind = ''ROS_COMPAT'') in
      if ty = ''location'' then
        handle_location env redis r msg source received compat
          (\<not> compat \<or> ip_map_verified (integration_of (rb_id r) db)) db
      else if ty = ''status'' then (Inr (handle_status env redis r msg source received kind db), redis)
      else if ty = ''sensor'' then (handle_sensor env redis r msg source received kind db, redis)
      else if ty = ''alarm'' then (handle_alarm cfg env r msg received db, redis)
      else if ty = ''capabilities'' then (handle_capabilities env r msg received db, redis)
      else if ty = ''command_ack'' then (handle_ack r msg received db, redis)
      else if ty = ''task_status'' then (handle_task_status env r msg received db, redis)
      else (Inr db, redis))"

definition channel_state :: "string \<Rightarrow> dict \<Rightarrow> string \<Rightarrow> micros \<Rightarrow> micros \<Rightarrow> data_channel \<Rightarrow> data_channel" where
  "channel_state ty msg kind source received c =
     (let c1 = connected kind source received c in
      if goes_offline ty msg then c1\<lparr>dc_support := ''NOT_CONNECTED''\<rparr> else c1)"

definition prepare ::
    "ingress_settings \<Rightarrow> pyenv \<Rightarrow> redis \<Rightarrow> string \<Rightarrow> string \<Rightarrow> robot \<Rightarrow> dict \<Rightarrow> micros \<Rightarrow> tx \<Rightarrow> tx" where
  "prepare cfg env redis kind ty r msg source db =
     (let received = utc_now env;
          db1 = adopt_source cfg kind (rb_id r) db;
          db2 = forget_estop kind (refetch r db1) received db1;
          db3 = upsert_channel (rb_id r) (message_channel kind ty) (channel_state ty msg kind source received) db2
      in project_online cfg env redis ty (refetch r db3) msg db3)"

text \<open>The transaction. The first component tells whether the message was accepted.\<close>

definition ingest ::
    "ingress_settings \<Rightarrow> pyenv \<Rightarrow> redis \<Rightarrow> string \<Rightarrow> string \<Rightarrow> dict \<Rightarrow> micros \<Rightarrow> tx \<Rightarrow> (py_exn + bool \<times> tx) \<times> redis" where
  "ingest cfg env redis kind ty msg source db =
     (case robot_for (jstr (jget msg ''vehicle_id'')) db of
        None \<Rightarrow> (Inr (False, db), redis)
      | Some r \<Rightarrow>
          (case accept_boot_session (utc_now env) redis r (jstr (jget msg ''boot_id'')) ty (utc_now env) db of
             (False, db1) \<Rightarrow> (Inr (False, db1), redis)
           | (True, db1) \<Rightarrow>
               let db2 = prepare cfg env redis kind ty (refetch r db1) msg source db1;
                   (res, redis1) = run_handler cfg env redis kind ty (refetch r db2) msg source db2
               in (bind res (\<lambda>db3. Inr (True, db3)), redis1)))"

definition dedup_key :: "string \<Rightarrow> string" where
  "dedup_key mid = ''dedup:message:'' @ mid"

definition pending_key :: "string \<Rightarrow> string" where
  "pending_key mid = ''dedup:pending:'' @ mid"

definition seq_key :: "string \<Rightarrow> string \<Rightarrow> string \<Rightarrow> string" where
  "seq_key vid boot ty = ''seq:'' @ vid @ '':'' @ boot @ '':'' @ ty"

text \<open>
  Availability messages are not deduplicated by identifier (\<open>dedup_key\<close> is \<open>None\<close>) and are not
  subject to the sequence check.
\<close>

definition remember :: "pyenv \<Rightarrow> string \<Rightarrow> dict \<Rightarrow> redis \<Rightarrow> redis" where
  "remember env ty msg r =
     (if ty = ''availability'' then r
      else redis_setex (utc_now env) (dedup_key (jstr (jget msg ''message_id''))) (dedup_ttl ty) (JStr ''1'') r)"

definition store_message ::
    "ingress_settings \<Rightarrow> pyenv \<Rightarrow> string \<Rightarrow> string \<Rightarrow> dict \<Rightarrow> micros \<Rightarrow> platform \<Rightarrow> outcome \<times> platform" where
  "store_message cfg env kind ty msg source p =
     (let mid = jstr (jget msg ''message_id'');
          last_key = seq_key (jstr (jget msg ''vehicle_id'')) (jstr (jget msg ''boot_id'')) ty;
          (res, redis1) = ingest cfg env (pf_redis p) kind ty msg source (begin_tx (pf_db p))
      in case res of
           Inl e \<Rightarrow> (Retryable e, p\<lparr>pf_redis := redis_delete (pending_key mid) redis1\<rparr>)
         | Inr (accepted, db) \<Rightarrow>
             let p1 = commit (utc_now env) db (p\<lparr>pf_redis := redis1\<rparr>);
                 r2 = remember env ty msg (pf_redis p1);
                 r3 = (if accepted then redis_setex (utc_now env) last_key 86400 (jget msg ''seq'') r2 else r2)
             in (Committed accepted, p1\<lparr>pf_redis := redis_delete (pending_key mid) r3\<rparr>))"

definition stale_seq :: "micros \<Rightarrow> redis \<Rightarrow> string \<Rightarrow> dict \<Rightarrow> bool" where
  "stale_seq now r ty msg \<longleftrightarrow>
     ty \<noteq> ''availability''
     \<and> (case redis_get now r (seq_key (jstr (jget msg ''vehicle_id'')) (jstr (jget msg ''boot_id'')) ty) of
          Some (JInt last_seq) \<Rightarrow> (case jget msg ''seq'' of JInt n \<Rightarrow> n \<le> last_seq | _ \<Rightarrow> False)
        | _ \<Rightarrow> False)"

definition order_message ::
    "ingress_settings \<Rightarrow> pyenv \<Rightarrow> string \<Rightarrow> string \<Rightarrow> dict \<Rightarrow> platform \<Rightarrow> outcome \<times> platform" where
  "order_message cfg env kind ty msg p =
     (case need msg [''boot_id'', ''seq''] of
        Inl e \<Rightarrow> (Raised e, p)
      | Inr _ \<Rightarrow>
          (if stale_seq (utc_now env) (pf_redis p) ty msg
           then (Out_Of_Order,
                 p\<lparr>pf_redis := redis_delete (pending_key (jstr (jget msg ''message_id''))) (remember env ty msg (pf_redis p))\<rparr>)
           else case bind (need msg [''timestamp'']) (\<lambda>_. parse_time cfg env (jget msg ''timestamp'')) of
             Inl e \<Rightarrow> (Raised e, p)
           | Inr source \<Rightarrow> store_message cfg env kind ty msg source p))"

definition already_seen :: "micros \<Rightarrow> redis \<Rightarrow> string \<Rightarrow> dict \<Rightarrow> bool" where
  "already_seen now r ty msg \<longleftrightarrow>
     ty \<noteq> ''availability'' \<and> redis_exists now r (dedup_key (jstr (jget msg ''message_id'')))"

definition claim_message ::
    "ingress_settings \<Rightarrow> pyenv \<Rightarrow> string \<Rightarrow> string \<Rightarrow> dict \<Rightarrow> platform \<Rightarrow> outcome \<times> platform" where
  "claim_message cfg env kind ty msg p =
     (case need msg [''message_id''] of
        Inl e \<Rightarrow> (Raised e, p)
      | Inr _ \<Rightarrow>
          (if already_seen (utc_now env) (pf_redis p) ty msg then (Duplicate, p)
           else
             let (claimed, r1) = redis_set_nx (utc_now env) (pending_key (jstr (jget msg ''message_id''))) 30
                                   (JStr ''1'') (pf_redis p)
             in if claimed then order_message cfg env kind ty msg (p\<lparr>pf_redis := r1\<rparr>) else (Duplicate, p)))"

definition route_message ::
    "ingress_settings \<Rightarrow> pyenv \<Rightarrow> string \<Rightarrow> dict \<Rightarrow> platform \<Rightarrow> outcome \<times> platform" where
  "route_message cfg env topic msg p =
     (let ty = last_segment topic in
      case need msg [''type''] of
        Inl e \<Rightarrow> (Raised e, p)
      | Inr _ \<Rightarrow>
          (if jget msg ''type'' \<noteq> JStr ty then (Rejected ''topic_type_mismatch'', p)
           else if \<not> jhas msg ''vehicle_id'' then (Raised KeyError, p)
           else
             let (allowed, r1) = rate_allowed cfg env (jstr (jget msg ''vehicle_id'')) ty (pf_redis p);
                 p1 = p\<lparr>pf_redis := r1\<rparr>
             in if allowed then claim_message cfg env (source_kind topic) ty msg p1
                else (Rejected ''rate_limit'', p1)))"

definition process :: "ingress_settings \<Rightarrow> pyenv \<Rightarrow> delivery \<Rightarrow> platform \<Rightarrow> outcome \<times> platform" where
  "process cfg env d p =
     (if ig_max_payload cfg < dl_size d then (Rejected ''payload_too_large'', p)
      else if compat_topic (dl_topic d) \<and> last_segment (dl_topic d) \<in> set COMPAT_TYPES
      then process_internal_compat cfg env (last_segment (dl_topic d)) (dl_body d) p
      else case dl_body d of
        None \<Rightarrow> (Rejected ''invalid'', p)
      | Some v \<Rightarrow>
          (if ig_max_depth cfg < json_depth v 0 then (Rejected ''json_too_deep'', p)
           else if contains_video_payload v then (Rejected ''video_payload_forbidden'', p)
           else case v of
             JObj msg \<Rightarrow> if ig_valid cfg msg then route_message cfg env (dl_topic d) msg p
                         else (Rejected ''ValidationError'', p)
           | _ \<Rightarrow> (Raised AttributeError, p)))"

text \<open>A run of the ingress: the deliveries in the order the broker hands them over, each with the
  reading of the clock at that moment.\<close>

definition ingress_step :: "ingress_settings \<Rightarrow> pyenv \<times> delivery \<Rightarrow> platform \<Rightarrow> platform" where
  "ingress_step cfg x p = snd (process cfg (fst x) (snd x) p)"

definition ingress_run :: "ingress_settings \<Rightarrow> (pyenv \<times> delivery) list \<Rightarrow> platform \<Rightarrow> platform" where
  "ingress_run cfg xs p = fold (ingress_step cfg) xs p"

end
