(* ===== verification/Ingress_Safety.thy ===== *)
theory Ingress_Safety
  imports Ingress Demo
begin

text \<open>
  Properties of the MQTT ingress. First what each operation leaves alone and which Redis keys a
  transaction may touch, then the case split of a delivery into "database unchanged", "one
  transaction of a vehicle message" and "one transaction of the compatibility contract", and with
  it the properties over arbitrary runs of acknowledgements and arrival. Boot sessions and
  deduplication have theories of their own.
\<close>

named_theorems ingress_frame \<open>what the operations of the ingress leave alone\<close>

section \<open>Frames\<close>

lemma row_ops_frame [simp, ingress_frame]:
  "d_commands (put_robot r db) = d_commands db" "d_tasks (put_robot r db) = d_tasks db"
  "d_boots (put_robot r db) = d_boots db" "tx_ops (put_robot r db) = tx_ops db"
  "tx_events (put_robot r db) = tx_events db" "d_manual (put_robot r db) = d_manual db"
  "d_commands (put_task t db) = d_commands db" "d_robots (put_task t db) = d_robots db"
  "d_boots (put_task t db) = d_boots db" "tx_ops (put_task t db) = tx_ops db"
  "d_manual (put_task t db) = d_manual db"
  "d_tasks (put_command c db) = d_tasks db" "d_robots (put_command c db) = d_robots db"
  "d_boots (put_command c db) = d_boots db" "tx_ops (put_command c db) = tx_ops db"
  "d_manual (put_command c db) = d_manual db"
  "d_commands (put_fire f db) = d_commands db" "d_robots (put_fire f db) = d_robots db"
  "d_boots (put_fire f db) = d_boots db" "tx_ops (put_fire f db) = tx_ops db"
  "d_tasks (put_fire f db) = d_tasks db" "d_manual (put_fire f db) = d_manual db"
  by (simp_all add: put_robot_def put_task_def put_command_def put_fire_def)

lemma queue_frame_more [simp, ingress_frame]:
  "d_boots (queue_event ty pl s) = d_boots s"
  "d_boots (queue_redis_set k v ttl s) = d_boots s" "d_boots (queue_redis_delete k s) = d_boots s"
  "d_robots (queue_redis_set k v ttl s) = d_robots s" "d_robots (queue_redis_delete k s) = d_robots s"
  "d_commands (queue_redis_set k v ttl s) = d_commands s" "d_commands (queue_redis_delete k s) = d_commands s"
  "d_tasks (queue_redis_set k v ttl s) = d_tasks s" "d_tasks (queue_redis_delete k s) = d_tasks s"
  "d_manual (queue_redis_set k v ttl s) = d_manual s" "d_manual (queue_redis_delete k s) = d_manual s"
  "tx_ops (queue_redis_set k v ttl s) = tx_ops s @ [Redis_Set k v ttl]"
  "tx_ops (queue_redis_delete k s) = tx_ops s @ [Redis_Delete k]"
  by (simp_all add: queue_event_def queue_redis_set_def queue_redis_delete_def)

lemma upsert_channel_frame [simp, ingress_frame]:
  "d_commands (upsert_channel rid ch f db) = d_commands db" "d_tasks (upsert_channel rid ch f db) = d_tasks db"
  "d_boots (upsert_channel rid ch f db) = d_boots db" "d_robots (upsert_channel rid ch f db) = d_robots db"
  "tx_ops (upsert_channel rid ch f db) = tx_ops db" "d_manual (upsert_channel rid ch f db) = d_manual db"
  by (simp_all add: upsert_channel_def Let_def split: option.split)

lemma fold_channels_frame [simp, ingress_frame]:
  "d_commands (fold (\<lambda>ch. upsert_channel rid ch g) chs db) = d_commands db"
  "d_tasks (fold (\<lambda>ch. upsert_channel rid ch g) chs db) = d_tasks db"
  "d_boots (fold (\<lambda>ch. upsert_channel rid ch g) chs db) = d_boots db"
  "d_robots (fold (\<lambda>ch. upsert_channel rid ch g) chs db) = d_robots db"
  "tx_ops (fold (\<lambda>ch. upsert_channel rid ch g) chs db) = tx_ops db"
  "d_manual (fold (\<lambda>ch. upsert_channel rid ch g) chs db) = d_manual db"
  by (induction chs arbitrary: db) simp_all

lemma put_facts_frame [simp, ingress_frame]:
  "d_commands (put_integration p db) = d_commands db" "d_tasks (put_integration p db) = d_tasks db"
  "d_boots (put_integration p db) = d_boots db" "d_robots (put_integration p db) = d_robots db"
  "tx_ops (put_integration p db) = tx_ops db" "d_manual (put_integration p db) = d_manual db"
  "d_commands (put_capability c db) = d_commands db" "d_tasks (put_capability c db) = d_tasks db"
  "d_boots (put_capability c db) = d_boots db" "d_robots (put_capability c db) = d_robots db"
  "tx_ops (put_capability c db) = tx_ops db" "d_manual (put_capability c db) = d_manual db"
  by (simp_all add: put_integration_def put_capability_def split: option.split)

lemma boot_rows_frame [simp, ingress_frame]:
  "d_commands (add_boot rid b t db) = d_commands db" "d_tasks (add_boot rid b t db) = d_tasks db"
  "d_robots (add_boot rid b t db) = d_robots db" "tx_ops (add_boot rid b t db) = tx_ops db"
  "d_manual (add_boot rid b t db) = d_manual db"
  "d_commands (upd_boot rid b f db) = d_commands db" "d_tasks (upd_boot rid b f db) = d_tasks db"
  "d_robots (upd_boot rid b f db) = d_robots db" "tx_ops (upd_boot rid b f db) = tx_ops db"
  "d_manual (upd_boot rid b f db) = d_manual db"
  "d_commands (release_on_reboot t l db) = d_commands db" "d_tasks (release_on_reboot t l db) = d_tasks db"
  "d_robots (release_on_reboot t l db) = d_robots db" "tx_ops (release_on_reboot t l db) = tx_ops db"
  "d_boots (release_on_reboot t l db) = d_boots db"
  by (simp_all add: add_boot_def upd_boot_def release_on_reboot_def)

text \<open>The Redis writes an ingress transaction queues: it sets the telemetry snapshot and the
  heartbeat of a vehicle, and it deletes heartbeats and manual leases.\<close>

fun projection_op :: "redis_op \<Rightarrow> bool" where
  "projection_op (Redis_Set k v ttl) \<longleftrightarrow> (\<exists>x. k = latest_key x \<or> k = heartbeat_key x)"
| "projection_op (Redis_Delete k) \<longleftrightarrow> (\<exists>x. k = heartbeat_key x \<or> k = lease_key x)"

lemma projection_op_keys [simp]:
  "projection_op (Redis_Set (latest_key x) v ttl)" "projection_op (Redis_Set (heartbeat_key x) v ttl)"
  "projection_op (Redis_Delete (heartbeat_key x))" "projection_op (Redis_Delete (lease_key x))"
  by auto

declare projection_op.simps [simp del]

definition ops_ok :: "tx \<Rightarrow> bool" where
  "ops_ok db \<longleftrightarrow> (\<forall>op \<in> set (tx_ops db). projection_op op)"

text \<open>What neither table nor queue operations of the ingress change: commands and tasks, with
  only projection writes added.\<close>

definition quiet :: "tx \<Rightarrow> tx \<Rightarrow> bool" where
  "quiet db db' \<longleftrightarrow> d_commands db' = d_commands db \<and> d_tasks db' = d_tasks db \<and> (ops_ok db \<longrightarrow> ops_ok db')"

lemma quiet_refl [simp]: "quiet db db"
  by (simp add: quiet_def)

lemma quiet_trans: "quiet a b \<Longrightarrow> quiet b c \<Longrightarrow> quiet a c"
  by (simp add: quiet_def)

lemma quiet_switch_boot: "quiet db (switch_boot now redis r boot received db)"
  by (auto simp: quiet_def ops_ok_def switch_boot_def invalidate_old_boot_leases_def Let_def split: option.split)

lemma quiet_accept: "quiet db (snd (accept_boot_session now redis r boot ty received db))"
  using quiet_switch_boot [of db now redis r boot received]
  by (auto simp: quiet_def ops_ok_def accept_boot_session_def Let_def split: option.split)

lemma quiet_update_online: "quiet db (update_online now redis r state msg reason db)"
  by (auto simp: quiet_def ops_ok_def update_online_def Let_def)

lemma quiet_project_online: "quiet db (project_online cfg env redis ty r msg db)"
  using quiet_update_online [of db]
  by (auto simp: quiet_def ops_ok_def project_online_def)

lemma quiet_adopt_source: "quiet db (adopt_source cfg kind rid db)"
  by (simp add: quiet_def ops_ok_def adopt_source_def)

lemma quiet_forget_estop: "quiet db (forget_estop kind r received db)"
  by (simp add: quiet_def ops_ok_def forget_estop_def)

lemma quiet_upsert_channel: "quiet db (upsert_channel rid ch f db)"
  by (simp add: quiet_def ops_ok_def)

lemma quiet_prepare: "quiet db (prepare cfg env redis kind ty r msg source db)"
  unfolding prepare_def Let_def
  by (rule quiet_trans [OF quiet_trans [OF quiet_trans [OF quiet_adopt_source quiet_forget_estop]
        quiet_upsert_channel] quiet_project_online])

section \<open>Handlers\<close>

lemma bind_quiet: "bind x f = Inr db' \<Longrightarrow> (\<And>v. f v = Inr db' \<Longrightarrow> quiet db db') \<Longrightarrow> quiet db db'"
  by (auto simp: bind_Inr)

lemma quiet_status: "quiet db (handle_status env redis r msg source received kind db)"
  by (auto simp: quiet_def ops_ok_def handle_status_def touch_field_channel_def Let_def)

lemma quiet_sensor:
  "handle_sensor env redis r msg source received kind db = Inr db' \<Longrightarrow> quiet db db'"
  unfolding handle_sensor_def Let_def
  by (auto simp: bind_Inr quiet_def ops_ok_def touch_field_channel_def split: if_splits)

lemma quiet_capabilities: "handle_capabilities env r msg received db = Inr db' \<Longrightarrow> quiet db db'"
  by (auto simp: handle_capabilities_def bind_Inr quiet_def ops_ok_def)

lemma quiet_alarm: "handle_alarm cfg env r msg received db = Inr db' \<Longrightarrow> quiet db db'"
  unfolding handle_alarm_def
  by (auto simp: bind_Inr quiet_def ops_ok_def Let_def split: if_splits option.splits)

text \<open>A successful location message: the robot row, the snapshot and possibly a sample.\<close>

lemma handle_location_cases:
  assumes "handle_location env redis r msg source received eu v db = (Inr db', redis')"
  obtains r1 latest where "rb_id r1 = rb_id r" "rb_boot_id r1 = rb_boot_id r"
    "d_commands db' = d_commands db" "d_tasks db' = d_tasks db" "d_boots db' = d_boots db"
    "d_manual db' = d_manual db"
    "d_robots db' = d_robots (put_robot r1 db)"
    "tx_ops db' = tx_ops db @ [Redis_Set (latest_key (rb_vehicle_id r)) (JObj latest) None]"
proof -
  define st where "st = bind (need msg [''position'', ''site_code'', ''map_code'', ''map_version'', ''frame_id'', ''boot_id'', ''seq''])
     (\<lambda>_. bind (if v then need (as_dict (jget msg ''position'')) [''x'', ''y'', ''theta''] else Inr ())
     (\<lambda>_. reported_battery env msg))"
  obtain b where b: "st = Inr b"
    using assms unfolding handle_location_def st_def [symmetric] Let_def by (cases st) auto
  let ?r1 = "located_robot b msg db r"
  let ?l = "location_latest env redis r msg source received eu v"
  show thesis
    using assms b unfolding handle_location_def st_def [symmetric] Let_def
    by (intro that [of ?r1 ?l])
      (auto simp: located_robot_def put_robot_def bind_Inr queue_event_def queue_redis_set_def
         split: if_splits prod.splits)
qed

lemma quiet_location:
  assumes "handle_location env redis r msg source received eu v db = (Inr db', redis')"
  shows "quiet db db'"
  by (rule handle_location_cases [OF assms]) (auto simp: quiet_def ops_ok_def)

section \<open>Acknowledgements and task status\<close>

text \<open>How a transaction may change the commands and the tasks: rows keep their identifiers, a
  recorded acknowledgement stays, and a navigation only succeeds if it already had.\<close>

definition ack_view :: "command \<Rightarrow> ident \<times> micros option \<times> json \<times> json" where
  "ack_view c = (cm_command_id c, cm_ack_at c, cm_ack_status c, cm_ack_reason c)"

definition acks_kept :: "'a database_scheme \<Rightarrow> 'b database_scheme \<Rightarrow> bool" where
  "acks_kept db db' \<longleftrightarrow>
     map cm_command_id (d_commands db') = map cm_command_id (d_commands db)
     \<and> (\<forall>i < length (d_commands db). cm_ack_at (d_commands db ! i) \<noteq> None
          \<longrightarrow> ack_view (d_commands db' ! i) = ack_view (d_commands db ! i))"

definition unique_commands :: "'a database_scheme \<Rightarrow> bool" where
  "unique_commands db \<longleftrightarrow> distinct (map cm_command_id (d_commands db))"

definition arrived :: "'a database_scheme \<Rightarrow> ident \<Rightarrow> bool" where
  "arrived db tid \<longleftrightarrow>
     (\<exists>t \<in> set (d_tasks db). tk_id t = tid \<and> tk_type t = ''NAVIGATE_TO_PRESET'' \<and> tk_status t = ''SUCCEEDED'')"

definition no_new_arrival :: "'a database_scheme \<Rightarrow> 'b database_scheme \<Rightarrow> bool" where
  "no_new_arrival db db' \<longleftrightarrow> (\<forall>tid. arrived db' tid \<longrightarrow> arrived db tid)"

lemma acks_kept_refl [simp]: "acks_kept db db"
  by (simp add: acks_kept_def)

lemma acks_kept_same: "d_commands db' = d_commands db \<Longrightarrow> acks_kept db db'"
  by (simp add: acks_kept_def)

lemma acks_kept_ids: "acks_kept a b \<Longrightarrow> length (d_commands b) = length (d_commands a)"
  unfolding acks_kept_def by (metis length_map)

lemma acks_kept_trans:
  assumes "acks_kept a b" "acks_kept b c"
  shows "acks_kept a c"
  unfolding acks_kept_def
proof (intro conjI allI impI)
  show "map cm_command_id (d_commands c) = map cm_command_id (d_commands a)"
    using assms by (simp add: acks_kept_def)
  fix i assume i: "i < length (d_commands a)" and ack: "cm_ack_at (d_commands a ! i) \<noteq> None"
  have b: "ack_view (d_commands b ! i) = ack_view (d_commands a ! i)"
    using assms(1) i ack by (simp add: acks_kept_def)
  then have "cm_ack_at (d_commands b ! i) \<noteq> None" using ack by (simp add: ack_view_def)
  then have "ack_view (d_commands c ! i) = ack_view (d_commands b ! i)"
    using assms acks_kept_ids [OF assms(1)] i by (simp add: acks_kept_def)
  with b show "ack_view (d_commands c ! i) = ack_view (d_commands a ! i)" by simp
qed

lemma unique_commands_kept: "acks_kept a b \<Longrightarrow> unique_commands a \<Longrightarrow> unique_commands b"
  by (simp add: acks_kept_def unique_commands_def)

text \<open>Replacing the row of a command by one with the same identifier: either the acknowledgement
  is unchanged, or there was none.\<close>

lemma put_command_acks:
  assumes "unique_commands db" "c \<in> set (d_commands db)" "cm_command_id c' = cm_command_id c"
    and "cm_ack_at c = None \<or> ack_view c' = ack_view c"
  shows "acks_kept db (put_command c' db)"
  unfolding acks_kept_def
proof (intro conjI allI impI)
  show "map cm_command_id (d_commands (put_command c' db)) = map cm_command_id (d_commands db)"
    by (simp add: put_command_def upd_rows_def)
  fix i assume i: "i < length (d_commands db)" and ack: "cm_ack_at (d_commands db ! i) \<noteq> None"
  show "ack_view (d_commands (put_command c' db) ! i) = ack_view (d_commands db ! i)"
  proof (cases "cm_command_id (d_commands db ! i) = cm_command_id c")
    case True
    obtain j where j: "j < length (d_commands db)" "d_commands db ! j = c"
      using assms(2) by (auto simp: in_set_conv_nth)
    have "i = j"
      using assms(1) i j True unfolding unique_commands_def distinct_conv_nth
      by (metis length_map nth_map)
    then show ?thesis
      using assms(3,4) i j ack by (auto simp: put_command_def upd_rows_def)
  next
    case False
    then show ?thesis using assms(3) i by (simp add: put_command_def upd_rows_def)
  qed
qed

lemma first_row_in: "first_row P rows = Some r \<Longrightarrow> r \<in> set rows"
  by (drule first_row_Some) simp

lemma acknowledged_id [simp]: "cm_command_id (acknowledged msg received c) = cm_command_id c"
  by (simp add: acknowledged_def Let_def)

lemma handle_ack_cases:
  assumes "handle_ack r msg received db = Inr db'"
  obtains "db' = db"
  | c where "c \<in> set (d_commands db)" "JStr (cm_command_id c) = jget msg ''command_id''" "cm_robot_id c = rb_id r"
      "cm_ack_at c = None"
      "db' = queue_event ''command.updated'' (Ev_Command (acknowledged msg received c))
               (put_command (acknowledged msg received c) db)"
proof -
  let ?P = "\<lambda>c. JStr (cm_command_id c) = jget msg ''command_id'' \<and> cm_robot_id c = rb_id r"
  show thesis
  proof (cases "first_row ?P (d_commands db)")
    case None
    then show thesis using assms that(1) by (auto simp: handle_ack_def bind_Inr)
  next
    case (Some c)
    have P: "c \<in> set (d_commands db)" "?P c" using first_row_Some [OF Some] by auto
    show thesis
    proof (cases "cm_ack_at c")
      case None
      then have "db' = queue_event ''command.updated'' (Ev_Command (acknowledged msg received c))
               (put_command (acknowledged msg received c) db)"
        using assms Some by (simp add: handle_ack_def bind_Inr)
      then show thesis using that(2) P None by blast
    next
      case (Some t)
      then show thesis
        using assms \<open>first_row ?P (d_commands db) = Some c\<close> that(1) by (simp add: handle_ack_def bind_Inr)
    qed
  qed
qed

lemma handle_ack_kept:
  assumes "handle_ack r msg received db = Inr db'" "unique_commands db"
  shows "acks_kept db db'"
  using assms(1)
proof (cases rule: handle_ack_cases)
  case (2 c)
  have "acks_kept db (put_command (acknowledged msg received c) db)"
    by (rule put_command_acks [OF assms(2) 2(1)]) (use 2(4) in auto)
  then show ?thesis
    by (rule acks_kept_trans) (simp add: 2(5) acks_kept_same)
qed simp

lemma advance_command_kept:
  assumes "unique_commands db"
  shows "acks_kept db (advance_command t received db)"
proof (cases "initiating_command (tk_id t) db")
  case None
  then show ?thesis by (simp add: advance_command_def)
next
  case (Some c)
  then have "c \<in> set (d_commands db)"
    unfolding initiating_command_def by (auto dest: latest_row_in)
  then show ?thesis
    using put_command_acks [OF assms] by (simp add: advance_command_def Some ack_view_def)
qed

definition tame :: "tx \<Rightarrow> tx \<Rightarrow> bool" where
  "tame db db' \<longleftrightarrow>
     (unique_commands db \<longrightarrow> acks_kept db db') \<and> no_new_arrival db db' \<and> (ops_ok db \<longrightarrow> ops_ok db')"

lemma tame_refl [simp]: "tame db db"
  by (simp add: tame_def no_new_arrival_def)

lemma tame_trans: "tame a b \<Longrightarrow> tame b c \<Longrightarrow> tame a c"
  unfolding tame_def no_new_arrival_def using acks_kept_trans unique_commands_kept by blast

lemma quiet_tame: "quiet db db' \<Longrightarrow> tame db db'"
  by (simp add: quiet_def tame_def acks_kept_same no_new_arrival_def arrived_def)

lemma tame_put_task:
  "(tk_type t = ''NAVIGATE_TO_PRESET'' \<Longrightarrow> tk_status t \<noteq> ''SUCCEEDED'') \<Longrightarrow> tame db (put_task t db)"
  by (auto simp: tame_def acks_kept_same ops_ok_def no_new_arrival_def arrived_def put_task_def
      elim!: set_upd_rowsE)

lemma tame_put_command:
  assumes "unique_commands db \<Longrightarrow> acks_kept db (put_command c db)"
  shows "tame db (put_command c db)"
  using assms by (auto simp: tame_def ops_ok_def no_new_arrival_def arrived_def)

lemma tame_queue_event: "tame db (queue_event ty pl db)"
  by (rule quiet_tame) (simp add: quiet_def ops_ok_def)

lemma tame_consume: "tame db (consume_resume st t db)"
proof (cases "st = ''SUCCEEDED'' \<and> tk_type t = ''RETURN_DOCK''")
  case True
  let ?rows = "filter (\<lambda>x. tk_robot_id x = tk_robot_id t \<and> tk_type x = ''PATROL'' \<and> tk_status x = ''CANCELLED'') (d_tasks db)"
  show ?thesis
  proof (cases "latest_row tk_created_at ?rows")
    case None
    then show ?thesis using True by (simp add: consume_resume_def)
  next
    case (Some prev)
    then have "tk_type prev = ''PATROL''" using latest_row_in [OF Some] by simp
    then have "tame db (put_task (prev\<lparr>tk_parameters := x\<rparr>) db)" for x
      by (intro tame_put_task) simp
    then show ?thesis unfolding consume_resume_def using True Some by simp
  qed
qed (auto simp: consume_resume_def)

lemma tame_advance_command: "tame db (advance_command t received db)"
proof (cases "initiating_command (tk_id t) db")
  case None
  then show ?thesis by (simp add: advance_command_def)
next
  case (Some c)
  show ?thesis
    using advance_command_kept [of db t received] tame_put_command [of db]
    unfolding advance_command_def Some by simp
qed

lemma tame_advance_fire: "tame db (advance_fire t received db)"
  by (rule quiet_tame) (auto simp: advance_fire_def quiet_def ops_ok_def split: option.split)

lemma tame_task_event: "tame db (db\<lparr>d_task_events := x\<rparr>)"
  by (rule quiet_tame) (simp add: quiet_def ops_ok_def)

lemma tame_store_status:
  assumes "tk_type t = ''NAVIGATE_TO_PRESET'' \<Longrightarrow> tk_status t \<noteq> ''SUCCEEDED''"
  shows "tame db (store_status st msg received t db)"
  unfolding store_status_def Let_def
  by (rule tame_trans [OF tame_trans [OF tame_trans [OF tame_trans [OF tame_trans [OF tame_put_task
        [OF assms] tame_consume] tame_task_event] tame_advance_command] tame_advance_fire] tame_queue_event])

lemma reported_status_type:
  assumes "reported_status env st msg received t = Inr t'"
  shows "tk_type t' = tk_type t" "tk_id t' = tk_id t" "tk_fire_id t' = tk_fire_id t"
    "tk_robot_id t' = tk_robot_id t"
    "tk_type t' = ''NAVIGATE_TO_PRESET'' \<Longrightarrow> tk_status t' \<noteq> ''SUCCEEDED''"
  using assms by (auto simp: reported_status_def awaits_verification_def bind_Inr split: if_splits)

lemma task_rewrites [simp]:
  "tk_type (stamp_task st msg received t) = tk_type t" "tk_status (stamp_task st msg received t) = tk_status t"
  "tk_id (stamp_task st msg received t) = tk_id t" "tk_fire_id (stamp_task st msg received t) = tk_fire_id t"
  "tk_parameters (stamp_task st msg received t) = tk_parameters t"
  "tk_type (mark_resumable st t) = tk_type t" "tk_status (mark_resumable st t) = tk_status t"
  "tk_id (mark_resumable st t) = tk_id t" "tk_fire_id (mark_resumable st t) = tk_fire_id t"
  by (simp_all add: stamp_task_def mark_resumable_def)

lemma handle_task_status_cases:
  assumes "handle_task_status env r msg received db = Inr db'"
  obtains "db' = db"
  | t st t1 t3 where "t \<in> set (d_tasks db)" "JStr (tk_id t) = jget msg ''task_id''" "tk_robot_id t = rb_id r"
      "map_of TASK_STATUS_MAP (jstr (jget msg ''status'')) = Some st"
      "reported_status env st msg received t = Inr t1"
      "tk_type t3 = tk_type t1" "tk_status t3 = tk_status t1" "tk_id t3 = tk_id t1" "tk_fire_id t3 = tk_fire_id t1"
      "db' = store_status st msg received t3 db"
proof -
  let ?P = "\<lambda>t. JStr (tk_id t) = jget msg ''task_id''"
  show thesis
  proof (cases "first_row ?P (d_tasks db)")
    case None
    then show thesis using assms that(1) by (auto simp: handle_task_status_def bind_Inr)
  next
    case (Some t)
    have P: "t \<in> set (d_tasks db)" "?P t" using first_row_Some [OF Some] by auto
    note eq = assms [unfolded handle_task_status_def bind_Inr Some option.case(2)]
    show thesis
    proof (cases "tk_robot_id t = rb_id r")
      case False
      then show thesis using eq that(1) by auto
    next
      case True
      then obtain st where st: "map_of TASK_STATUS_MAP (jstr (jget msg ''status'')) = Some st"
        using eq by (auto simp: bind_Inr split: option.splits)
      then obtain t1 where t1: "reported_status env st msg received t = Inr t1"
        and db': "db' = store_status st msg received (mark_resumable st ((stamp_task st msg received t1)
             \<lparr>tk_parameters := live_parameters msg (tk_parameters (stamp_task st msg received t1))\<rparr>)) db"
        using eq True by (auto simp: bind_Inr Let_def)
      show thesis
        by (rule that(2) [OF P True st t1 _ _ _ _ db']) simp_all
    qed
  qed
qed

lemma tame_task_status:
  assumes "handle_task_status env r msg received db = Inr db'"
  shows "tame db db'"
  using assms
proof (cases rule: handle_task_status_cases)
  case (2 t st t1 t3)
  show ?thesis
    unfolding 2(10) by (rule tame_store_status) (use 2 reported_status_type [OF 2(5)] in auto)
qed simp

lemma tame_ack:
  assumes "handle_ack r msg received db = Inr db'"
  shows "tame db db'"
  unfolding tame_def
proof (intro conjI impI)
  show "acks_kept db db'" if "unique_commands db" by (rule handle_ack_kept [OF assms that])
  show "no_new_arrival db db'"
    by (rule handle_ack_cases [OF assms]) (auto simp: no_new_arrival_def arrived_def)
  show "ops_ok db'" if "ops_ok db"
    by (rule handle_ack_cases [OF assms]) (use that in \<open>auto simp: ops_ok_def\<close>)
qed

lemma tame_run_handler:
  assumes "run_handler cfg env redis kind ty r msg source db = (Inr db', redis')"
  shows "tame db db'"
  using assms unfolding run_handler_def Let_def
  by (auto split: if_splits intro: quiet_tame quiet_location quiet_status quiet_sensor quiet_alarm
      quiet_capabilities tame_ack tame_task_status)

lemma tame_ingest:
  assumes "ingest cfg env redis kind ty msg source db = (Inr (acc, db'), redis')"
  shows "tame db db'"
proof (cases "robot_for (jstr (jget msg ''vehicle_id'')) db")
  case None
  then show ?thesis using assms by (simp add: ingest_def)
next
  case (Some r)
  obtain ok db1 where a: "accept_boot_session (utc_now env) redis r (jstr (jget msg ''boot_id'')) ty (utc_now env) db = (ok, db1)"
    by (cases "accept_boot_session (utc_now env) redis r (jstr (jget msg ''boot_id'')) ty (utc_now env) db")
  have q: "tame db db1"
    using quiet_tame [OF quiet_accept [of db "utc_now env" redis r "jstr (jget msg ''boot_id'')" ty "utc_now env"]] a
    by simp
  show ?thesis
  proof (cases ok)
    case False
    then show ?thesis using assms Some a q by (simp add: ingest_def)
  next
    case True
    let ?db2 = "prepare cfg env redis kind ty (refetch r db1) msg source db1"
    obtain res r1 where h: "run_handler cfg env redis kind ty (refetch r ?db2) msg source ?db2 = (res, r1)"
      by (cases "run_handler cfg env redis kind ty (refetch r ?db2) msg source ?db2")
    have "res = Inr db'"
      using assms Some a True h by (simp add: ingest_def Let_def bind_Inr)
    then have "tame ?db2 db'" using tame_run_handler h by simp
    then show ?thesis
      using tame_trans [OF q] tame_trans [OF quiet_tame [OF quiet_prepare]] by blast
  qed
qed

section \<open>The compatibility contract\<close>

lemma quiet_steps:
  "quiet a b \<Longrightarrow> quiet a (put_robot r b)" "quiet a b \<Longrightarrow> quiet a (put_integration p b)"
  "quiet a b \<Longrightarrow> quiet a (b\<lparr>d_diagnostics := y\<rparr>)"
  by (simp_all add: quiet_def ops_ok_def)

lemma quiet_accept_step:
  "quiet a b \<Longrightarrow> quiet a (snd (accept_boot_session now redis x boot ty received b))"
  by (erule quiet_trans) (rule quiet_accept)

lemma quiet_compat_availability:
  assumes "compat_availability env redis r msg db = Inr (db', upd)"
  shows "quiet db db'"
proof -
  have "\<exists>x p. db' = put_robot x (snd (accept_boot_session (utc_now env) redis r (jstr (jget msg ''bridge_boot_id''))
           ''availability'' (utc_now env) (put_integration p db)))"
    using assms unfolding compat_availability_def bind_Inr Let_def by blast
  then obtain x p where "db' = put_robot x (snd (accept_boot_session (utc_now env) redis r
      (jstr (jget msg ''bridge_boot_id'')) ''availability'' (utc_now env) (put_integration p db)))"
    by blast
  then show ?thesis by (simp only:) (intro quiet_steps quiet_accept_step quiet_refl)
qed

lemma compat_branch_shape:
  assumes "compat_branch env redis ty r msg source db = Inr (db', upd)" "ty \<noteq> ''compat_availability''"
  obtains p where "db' = put_integration p db" | p m where "db' = put_integration p (put_robot (r\<lparr>rb_mode := m\<rparr>) db)"
  | b where "db' = put_robot (r\<lparr>rb_battery := b\<rparr>) db" | "db' = db" | x where "db' = db\<lparr>d_diagnostics := x\<rparr>"
proof -
  consider "ty = ''compat_map''" | "ty = ''compat_status''" | "ty = ''compat_battery''" | "ty = ''compat_odom''"
    | "ty \<notin> {''compat_availability'', ''compat_map'', ''compat_status'', ''compat_battery'', ''compat_odom''}"
    using assms(2) by blast
  then show thesis
  proof cases
    case 1
    then have "compat_map r msg db = Inr (db', upd)" using assms by (simp add: compat_branch_def)
    then show thesis using that(1) by (auto simp: compat_map_def bind_Inr)
  next
    case 2
    then have "compat_status env r msg db = Inr (db', upd)" using assms by (simp add: compat_branch_def)
    then show thesis using that(2) by (auto simp: compat_status_def bind_Inr Let_def)
  next
    case 3
    then have "compat_battery env r msg db = Inr (db', upd)" using assms by (simp add: compat_branch_def)
    then show thesis using that(3) by (auto simp: compat_battery_def bind_Inr)
  next
    case 4
    then show thesis using assms that(4) by (simp add: compat_branch_def)
  next
    case 5
    then show thesis using assms that(5) by (auto simp: compat_branch_def compat_diagnostic_def)
  qed
qed

lemma quiet_compat_branch:
  assumes "compat_branch env redis ty r msg source db = Inr (db', upd)"
  shows "quiet db db'"
proof (cases "ty = ''compat_availability''")
  case True
  then show ?thesis using assms quiet_compat_availability by (simp add: compat_branch_def)
next
  case False
  show ?thesis
    by (rule compat_branch_shape [OF assms False]) (simp_all add: quiet_def ops_ok_def)
qed

lemma quiet_compat_transaction:
  assumes "compat_transaction cfg env redis ty vid msg source r db = Inr db'"
  shows "quiet db db'"
proof -
  let ?db2 = "put_capability (no_commands (rb_id r) (utc_now env)) (put_robot (r\<lparr>rb_estop := None\<rparr>)
     (put_integration (compat_integration cfg env ty msg source (integration_of (rb_id r) db)) db))"
  obtain db3 upd where b: "compat_branch env redis ty (r\<lparr>rb_estop := None\<rparr>) msg source ?db2 = Inr (db3, upd)"
    and q: "quiet db3 db'"
    using assms unfolding compat_transaction_def Let_def
    by (auto simp: bind_Inr quiet_def ops_ok_def compat_channels_def Let_def)
  have "quiet db ?db2" by (simp add: quiet_def ops_ok_def)
  then show ?thesis using quiet_compat_branch [OF b] q quiet_trans by blast
qed

section \<open>One delivery\<close>

lemma store_message_cases:
  obtains (failed) e r1 where "store_message cfg env kind ty msg source p =
        (Retryable e, p\<lparr>pf_redis := redis_delete (pending_key (jstr (jget msg ''message_id''))) r1\<rparr>)"
      "ingest cfg env (pf_redis p) kind ty msg source (begin_tx (pf_db p)) = (Inl e, r1)"
  | (stored) acc db r1 where
      "ingest cfg env (pf_redis p) kind ty msg source (begin_tx (pf_db p)) = (Inr (acc, db), r1)"
      "fst (store_message cfg env kind ty msg source p) = Committed acc"
      "pf_db (snd (store_message cfg env kind ty msg source p)) = database.truncate db"
proof (cases "ingest cfg env (pf_redis p) kind ty msg source (begin_tx (pf_db p))")
  case (Pair res r1)
  show thesis
  proof (cases res)
    case (Inl e)
    show thesis by (rule failed [of e r1]) (simp_all add: store_message_def Pair Inl)
  next
    case (Inr x)
    obtain acc db where x: "x = (acc, db)" by (cases x)
    show thesis by (rule stored [of acc db r1]) (simp_all add: store_message_def Pair Inr x Let_def)
  qed
qed

lemma process_entry:
  obtains (size) "ig_max_payload cfg < dl_size d"
  | (compat) "\<not> ig_max_payload cfg < dl_size d"
      "compat_topic (dl_topic d) \<and> last_segment (dl_topic d) \<in> set COMPAT_TYPES"
  | (invalid) out where "process cfg env d p = (out, p)" "\<And>a. out \<noteq> Committed a" "\<And>e. out \<noteq> Retryable e"
  | (msg) msg where "dl_body d = Some (JObj msg)" "process cfg env d p = route_message cfg env (dl_topic d) msg p"
      "\<not> (compat_topic (dl_topic d) \<and> last_segment (dl_topic d) \<in> set COMPAT_TYPES)"
proof (cases "ig_max_payload cfg < dl_size d")
  case True
  then show thesis by (rule size)
next
  case fits: False
  show thesis
  proof (cases "compat_topic (dl_topic d) \<and> last_segment (dl_topic d) \<in> set COMPAT_TYPES")
    case True
    then show thesis using fits compat by blast
  next
    case False
    note eq = process_def [of cfg env d p, unfolded if_not_P [OF fits] if_not_P [OF False]]
    show thesis
    proof (cases "\<exists>msg v. dl_body d = Some v \<and> v = JObj msg \<and> \<not> ig_max_depth cfg < json_depth v 0
                    \<and> \<not> contains_video_payload v \<and> ig_valid cfg msg")
      case True
      then obtain msg v where m: "dl_body d = Some v" "v = JObj msg" "\<not> ig_max_depth cfg < json_depth v 0"
        "\<not> contains_video_payload v" "ig_valid cfg msg" by blast
      have "process cfg env d p = route_message cfg env (dl_topic d) msg p"
        unfolding eq m(1) option.case(2) using m by (simp only: if_False if_True json.case)
      then show thesis using m(1,2) False msg by blast
    next
      case bad: False
      have "\<exists>out. process cfg env d p = (out, p) \<and> (\<forall>a. out \<noteq> Committed a) \<and> (\<forall>e. out \<noteq> Retryable e)"
      proof (cases "dl_body d")
        case (Some v)
        show ?thesis
          unfolding eq Some option.case(2) using bad Some by (cases v) (auto simp del: contains_video_payload.simps json_depth.simps)
      qed (simp add: eq)
      then show thesis using invalid by blast
    qed
  qed
qed

text \<open>The stages before \<open>store_message\<close> pass the platform on with another Redis, or stop.\<close>

lemma process_stages:
  obtains (stopped) out r1 where "process cfg env d p = (out, p\<lparr>pf_redis := r1\<rparr>)" "\<And>a. out \<noteq> Committed a"
      "\<And>e. out \<noteq> Retryable e"
  | (internal) "compat_topic (dl_topic d)" "last_segment (dl_topic d) \<in> set COMPAT_TYPES"
      "process cfg env d p = process_internal_compat cfg env (last_segment (dl_topic d)) (dl_body d) p"
  | (reached) msg source r1 where "dl_body d = Some (JObj msg)" "jget msg ''type'' = JStr (last_segment (dl_topic d))"
      "\<not> (compat_topic (dl_topic d) \<and> last_segment (dl_topic d) \<in> set COMPAT_TYPES)"
      "\<not> already_seen (utc_now env) r1 (last_segment (dl_topic d)) msg"
      "\<not> stale_seq (utc_now env) r1 (last_segment (dl_topic d)) msg"
      "r1 = redis_setex (utc_now env) (pending_key (jstr (jget msg ''message_id''))) 30 (JStr ''1'')
              (snd (rate_allowed cfg env (jstr (jget msg ''vehicle_id'')) (last_segment (dl_topic d)) (pf_redis p)))"
      "process cfg env d p =
         store_message cfg env (source_kind (dl_topic d)) (last_segment (dl_topic d)) msg source (p\<lparr>pf_redis := r1\<rparr>)"
      "jhas msg ''message_id''" "jhas msg ''vehicle_id''" "jhas msg ''boot_id''" "jhas msg ''seq''"
proof -
  let ?ty = "last_segment (dl_topic d)"
  show thesis
  proof (cases rule: process_entry [where cfg = cfg and env = env and d = d and p = p])
    case size
    then show thesis using stopped [of "Rejected ''payload_too_large''" "pf_redis p"] by (simp add: process_def)
  next
    case compat
    then show thesis using internal by (simp add: process_def)
  next
    case (invalid out)
    then show thesis using stopped [of out "pf_redis p"] by simp
  next
    case (msg msg)
    obtain ok r0 where rate: "rate_allowed cfg env (jstr (jget msg ''vehicle_id'')) ?ty (pf_redis p) = (ok, r0)"
      by (cases "rate_allowed cfg env (jstr (jget msg ''vehicle_id'')) ?ty (pf_redis p)")
    show thesis
    proof (cases "jhas msg ''type'' \<and> jget msg ''type'' = JStr ?ty \<and> jhas msg ''vehicle_id'' \<and> ok
                  \<and> jhas msg ''message_id'' \<and> \<not> already_seen (utc_now env) r0 ?ty msg")
      case False
      then show thesis
        using msg rate stopped [of "fst (process cfg env d p)" r0] stopped [of "fst (process cfg env d p)" "pf_redis p"]
        by (auto simp: route_message_def claim_message_def need_def Let_def split: if_splits)
    next
      case seen: True
      obtain claimed r1 where c: "redis_set_nx (utc_now env) (pending_key (jstr (jget msg ''message_id''))) 30 (JStr ''1'') r0 = (claimed, r1)"
        by (cases "redis_set_nx (utc_now env) (pending_key (jstr (jget msg ''message_id''))) 30 (JStr ''1'') r0")
      have claim: "process cfg env d p = (if claimed then order_message cfg env (source_kind (dl_topic d)) ?ty msg (p\<lparr>pf_redis := r1\<rparr>)
                     else (Duplicate, p\<lparr>pf_redis := r0\<rparr>))"
        using msg seen rate c by (simp add: route_message_def claim_message_def need_def Let_def)
      show thesis
      proof (cases "claimed \<and> jhas msg ''boot_id'' \<and> jhas msg ''seq'' \<and> \<not> stale_seq (utc_now env) r1 ?ty msg
                    \<and> (\<exists>source. bind (need msg [''timestamp'']) (\<lambda>_. parse_time cfg env (jget msg ''timestamp'')) = Inr source)")
        case False
        have "\<exists>out r. process cfg env d p = (out, p\<lparr>pf_redis := r\<rparr>) \<and> (\<forall>a. out \<noteq> Committed a) \<and> (\<forall>e. out \<noteq> Retryable e)"
        proof (cases "claimed \<and> jhas msg ''boot_id'' \<and> jhas msg ''seq'' \<and> \<not> stale_seq (utc_now env) r1 ?ty msg")
          case True
          then obtain e where "bind (need msg [''timestamp'']) (\<lambda>_. parse_time cfg env (jget msg ''timestamp'')) = Inl e"
            using False by (cases "bind (need msg [''timestamp'']) (\<lambda>_. parse_time cfg env (jget msg ''timestamp''))") auto
          then show ?thesis using True claim by (auto simp: order_message_def need_def)
        qed (auto simp: claim order_message_def need_def)
        then show thesis using stopped by blast
      next
        case True
        then obtain source where s: "bind (need msg [''timestamp'']) (\<lambda>_. parse_time cfg env (jget msg ''timestamp'')) = Inr source"
          by blast
        have r1: "r1 = redis_setex (utc_now env) (pending_key (jstr (jget msg ''message_id''))) 30 (JStr ''1'') r0"
          using c True by (auto simp: redis_set_nx_def split: if_splits)
        have key: "dedup_key x \<noteq> pending_key y" for x y by (simp add: dedup_key_def pending_key_def)
        have seen1: "\<not> already_seen (utc_now env) r1 ?ty msg"
          using seen key by (auto simp: r1 already_seen_def redis_exists_def redis_get_def redis_setex_def)
        show thesis
          by (rule reached [of msg r1 source])
            (use msg rate seen seen1 True r1 s claim in \<open>simp_all add: order_message_def need_def\<close>)
      qed
    qed
  qed
qed

lemma odom_fast_path_db [simp]:
  "pf_db (fst (odom_fast_path cfg env vid msg source p)) = pf_db p"
  by (simp add: odom_fast_path_def Let_def split: prod.split)

lemma compat_refresh_cases:
  obtains (same) out where "compat_refresh cfg env ty vid msg source p = (out, p)"
      "\<And>a. out \<noteq> Committed a" "\<And>e. out \<noteq> Retryable e"
  | (contract) r db where "robot_for vid (begin_tx (pf_db p)) = Some r"
      "compat_transaction cfg env (pf_redis p) ty vid msg source r (begin_tx (pf_db p)) = Inr db"
      "compat_refresh cfg env ty vid msg source p = (Internal, commit (utc_now env) db p)"
proof (cases "robot_for vid (begin_tx (pf_db p))")
  case None
  then show thesis using same [of Internal] by (simp add: compat_refresh_def)
next
  case (Some r)
  show thesis
  proof (cases "compat_transaction cfg env (pf_redis p) ty vid msg source r (begin_tx (pf_db p))")
    case (Inl e)
    then show thesis using Some same [of "Raised e"] by (simp add: compat_refresh_def)
  next
    case (Inr db)
    then show thesis using Some contract by (simp add: compat_refresh_def)
  qed
qed

lemma process_internal_cases:
  obtains (same) "pf_db (snd (process_internal_compat cfg env ty body p)) = pf_db p"
      "\<And>a. fst (process_internal_compat cfg env ty body p) \<noteq> Committed a"
      "\<And>e. fst (process_internal_compat cfg env ty body p) \<noteq> Retryable e"
  | (contract) redis vid msg source r db where "robot_for vid (begin_tx (pf_db p)) = Some r"
      "compat_transaction cfg env redis ty vid msg source r (begin_tx (pf_db p)) = Inr db"
      "pf_db (snd (process_internal_compat cfg env ty body p)) = database.truncate db"
      "\<And>a. fst (process_internal_compat cfg env ty body p) \<noteq> Committed a"
      "\<And>e. fst (process_internal_compat cfg env ty body p) \<noteq> Retryable e"
proof -
  consider (err) e where "compat_header cfg env body = Inl e" | (bad) "compat_header cfg env body = Inr None"
    | (ok) msg vid source where "compat_header cfg env body = Inr (Some (msg, vid, source))"
    by (cases "compat_header cfg env body") (auto, metis option.exhaust prod_cases3)
  then show thesis
  proof cases
    case err
    then show thesis using same by (simp add: process_internal_compat_def)
  next
    case bad
    then show thesis using same by (simp add: process_internal_compat_def)
  next
    case (ok msg vid source)
    obtain p1 refresh where o: "odom_fast_path cfg env vid msg source p = (p1, refresh)"
      by (cases "odom_fast_path cfg env vid msg source p")
    have p1: "pf_db p1 = pf_db p" using odom_fast_path_db [of cfg env vid msg source p] o by simp
    show thesis
    proof (cases "ty = ''compat_odom''")
      case odom: True
      show thesis
      proof (cases refresh)
        case False
        then show thesis using odom ok o p1 same by (simp add: process_internal_compat_def)
      next
        case True
        have eq: "process_internal_compat cfg env ty body p = compat_refresh cfg env ty vid msg source p1"
          using True odom ok o by (simp add: process_internal_compat_def)
        show thesis
          by (cases rule: compat_refresh_cases [of cfg env ty vid msg source p1]) (use eq p1 same contract in auto)
      qed
    next
      case False
      then have eq: "process_internal_compat cfg env ty body p = compat_refresh cfg env ty vid msg source p"
        using ok by (simp add: process_internal_compat_def)
      show thesis
        by (cases rule: compat_refresh_cases [of cfg env ty vid msg source p]) (use eq same contract in auto)
    qed
  qed
qed

lemma process_internal_outcome:
  "fst (process_internal_compat cfg env ty body p) \<noteq> Committed a"
  "fst (process_internal_compat cfg env ty body p) \<noteq> Retryable e"
  by (cases rule: process_internal_cases [of cfg env ty body p]; blast)+

text \<open>Every delivery leaves the database as it is or replaces it by the result of one of the two
  transactions.\<close>

lemma process_db:
  obtains (same) "pf_db (snd (process cfg env d p)) = pf_db p"
  | (message) redis kind msg source acc db redis' where
      "ingest cfg env redis kind (last_segment (dl_topic d)) msg source (begin_tx (pf_db p)) = (Inr (acc, db), redis')"
      "dl_body d = Some (JObj msg)" "fst (process cfg env d p) = Committed acc"
      "pf_db (snd (process cfg env d p)) = database.truncate db"
  | (contract) redis vid msg source r db where "robot_for vid (begin_tx (pf_db p)) = Some r"
      "compat_transaction cfg env redis (last_segment (dl_topic d)) vid msg source r (begin_tx (pf_db p)) = Inr db"
      "pf_db (snd (process cfg env d p)) = database.truncate db"
proof (cases rule: process_stages [where cfg = cfg and env = env and d = d and p = p])
  case (stopped out r1)
  then show thesis using same by simp
next
  case internal
  show thesis
    by (cases rule: process_internal_cases [of cfg env "last_segment (dl_topic d)" "dl_body d" p])
      (use internal same contract in auto)
next
  case (reached msg source r1)
  show thesis
  proof (cases rule: store_message_cases [of cfg env "source_kind (dl_topic d)" "last_segment (dl_topic d)" msg source "p\<lparr>pf_redis := r1\<rparr>"])
    case (failed e r2)
    then show thesis using reached(7) same by simp
  next
    case (stored acc db r2)
    then show thesis using reached(1,7) message [of r1] by simp
  qed
qed

text \<open>A property of databases that both transactions preserve holds along every run.\<close>

lemma run_invariant:
  assumes "\<And>env d redis kind ty msg source acc db redis' s.
      Q s \<Longrightarrow> ingest cfg env redis kind ty msg source (begin_tx s) = (Inr (acc, db), redis') \<Longrightarrow> Q (database.truncate db)"
    and "\<And>env redis ty vid msg source r db s.
      Q s \<Longrightarrow> robot_for vid (begin_tx s) = Some r
      \<Longrightarrow> compat_transaction cfg env redis ty vid msg source r (begin_tx s) = Inr db \<Longrightarrow> Q (database.truncate db)"
    and "Q (pf_db p)"
  shows "Q (pf_db (ingress_run cfg xs p))"
  using assms(3)
proof (induction xs arbitrary: p)
  case (Cons x xs)
  have "Q (pf_db (ingress_step cfg x p))"
    unfolding ingress_step_def
    by (cases rule: process_db [where cfg = cfg and env = "fst x" and d = "snd x" and p = p])
      (use Cons.prems assms(1,2) in auto)
  then show ?case using Cons.IH by (simp add: ingress_run_def)
qed (simp add: ingress_run_def)

section \<open>Acknowledgements and arrival\<close>

lemma tame_tables: "tame (begin_tx s) db \<Longrightarrow> unique_commands s \<Longrightarrow> acks_kept s (database.truncate db)"
  by (simp add: tame_def acks_kept_def unique_commands_def)

lemma tame_arrival: "tame (begin_tx s) db \<Longrightarrow> no_new_arrival s (database.truncate db)"
  by (simp add: tame_def no_new_arrival_def arrived_def)

lemma run_acks_kept:
  assumes "unique_commands (pf_db p)"
  shows "acks_kept (pf_db p) (pf_db (ingress_run cfg xs p))"
proof -
  have "acks_kept (pf_db p) s' \<and> unique_commands s'"
    if "acks_kept (pf_db p) s \<and> unique_commands s" "tame (begin_tx s) db" "s' = database.truncate db" for s s' db
    using that tame_tables [OF that(2)] acks_kept_trans unique_commands_kept by blast
  then have "acks_kept (pf_db p) (pf_db (ingress_run cfg xs p)) \<and> unique_commands (pf_db (ingress_run cfg xs p))"
    using assms
    by (intro run_invariant [where Q = "\<lambda>s. acks_kept (pf_db p) s \<and> unique_commands s"])
      (blast intro: tame_ingest quiet_tame [OF quiet_compat_transaction] | simp)+
  then show ?thesis ..
qed

lemma run_no_new_arrival: "no_new_arrival (pf_db p) (pf_db (ingress_run cfg xs p))"
proof (rule run_invariant [where Q = "no_new_arrival (pf_db p)"])
  show "no_new_arrival (pf_db p) (pf_db p)" by (simp add: no_new_arrival_def)
next
  fix env d redis kind ty msg source acc db redis' and s :: database
  assume "no_new_arrival (pf_db p) s" "ingest cfg env redis kind ty msg source (begin_tx s) = (Inr (acc, db), redis')"
  then show "no_new_arrival (pf_db p) (database.truncate db)"
    using tame_arrival [OF tame_ingest] unfolding no_new_arrival_def by blast
next
  fix env redis ty vid msg source r db and s :: database
  assume "no_new_arrival (pf_db p) s" "compat_transaction cfg env redis ty vid msg source r (begin_tx s) = Inr db"
  then show "no_new_arrival (pf_db p) (database.truncate db)"
    using tame_arrival [OF quiet_tame [OF quiet_compat_transaction]] unfolding no_new_arrival_def by blast
qed

definition demo_ingress :: ingress_settings where
  "demo_ingress = \<lparr>ig_max_payload = 262144, ig_max_depth = 20, ig_rate = 50, ig_location_rate = 30,
     ig_offline_seconds = 10, ig_compat_stale = 8, ig_compat_offline = 15, ig_ws_hz = 10,
     ig_metadata_refresh = 60, ig_valid = (\<lambda>_. True), ig_sha256 = id, ig_local = id\<rparr>"

definition demo_message :: "string \<Rightarrow> string \<Rightarrow> string \<Rightarrow> int \<Rightarrow> dict \<Rightarrow> delivery" where
  "demo_message ty mid boot seq extra =
     \<lparr>dl_topic = ''robot/v/'' @ ty, dl_size = 100,
      dl_body = Some (JObj ([(''type'', JStr ty), (''message_id'', JStr mid), (''vehicle_id'', JStr ''v''),
        (''boot_id'', JStr boot), (''seq'', JInt seq), (''timestamp'', JStr ''+0'')] @ extra))\<rparr>"

definition demo_issued :: command where
  "demo_issued = \<lparr>cm_command_id = ''c'', cm_correlation_id = ''k'', cm_robot_id = ''r'', cm_task_id = Some ''t'',
     cm_cmd = ''patrol'', cm_priority = 20, cm_payload = [], cm_lifecycle = ''PUBLISHED'', cm_issued_by = ''u'',
     cm_issued_at = 0, cm_expires_at = 30000000, cm_published_at = Some 0, cm_ack_at = None,
     cm_ack_status = JNull, cm_ack_reason = JNull, cm_terminal_at = None\<rparr>"

definition demo_ack :: "string \<Rightarrow> string \<Rightarrow> int \<Rightarrow> delivery" where
  "demo_ack mid st seq = demo_message ''command_ack'' mid ''b'' seq
     [(''command_id'', JStr ''c''), (''status'', JStr st), (''reason_code'', JNull)]"

definition demo_live :: "command list \<Rightarrow> task list \<Rightarrow> platform" where
  "demo_live cs ts = demo_platform\<lparr>pf_db := demo_db\<lparr>d_commands := cs, d_tasks := ts\<rparr>\<rparr>"

text \<open>
  Property C19. The first acknowledgement of a command is final: whatever the vehicle or the
  network delivers afterwards (duplicates, a contradicting acknowledgement, task status, messages
  of other types or of the compatibility bridge), the recorded time, status and reason stay.
\<close>

theorem acknowledgement_is_final:
  assumes "unique_commands (pf_db p)" and "c \<in> set (d_commands (pf_db p))" and "cm_ack_at c = Some t"
  shows "\<exists>c' \<in> set (d_commands (pf_db (ingress_run cfg xs p))).
           cm_command_id c' = cm_command_id c \<and> cm_ack_at c' = Some t
           \<and> cm_ack_status c' = cm_ack_status c \<and> cm_ack_reason c' = cm_ack_reason c"
proof -
  obtain i where i: "i < length (d_commands (pf_db p))" "d_commands (pf_db p) ! i = c"
    using assms(2) by (auto simp: in_set_conv_nth)
  let ?d = "d_commands (pf_db (ingress_run cfg xs p))"
  have k: "acks_kept (pf_db p) (pf_db (ingress_run cfg xs p))" by (rule run_acks_kept [OF assms(1)])
  then have "ack_view (?d ! i) = ack_view c" using i assms(3) by (simp add: acks_kept_def)
  moreover have "?d ! i \<in> set ?d" using i(1) acks_kept_ids [OF k] by simp
  ultimately show ?thesis using assms(3) by (intro bexI [of _ "?d ! i"]) (auto simp: ack_view_def)
qed

text \<open>The run of the witness delivers an acceptance and then a rejection of the same command.\<close>

definition demo_accepted :: platform where
  "demo_accepted = ingress_run demo_ingress [(plain_env 1000000, demo_ack ''m1'' ''accepted'' 1)] (demo_live [demo_issued] [])"

lemma demo_accepted_commands:
  "map (\<lambda>c. (cm_command_id c, cm_ack_at c, cm_ack_status c)) (d_commands (pf_db demo_accepted))
     = [(''c'', Some 1000000, JStr ''accepted'')]"
  by code_simp

theorem acknowledgement_is_final_witness:
  "\<exists>c' \<in> set (d_commands (pf_db (ingress_run demo_ingress
       [(plain_env 2000000, demo_ack ''m2'' ''rejected'' 2)] demo_accepted))).
     cm_command_id c' = ''c'' \<and> cm_ack_at c' = Some 1000000 \<and> cm_ack_status c' = JStr ''accepted''"
proof -
  obtain c where c: "d_commands (pf_db demo_accepted) = [c]" "cm_command_id c = ''c''"
    "cm_ack_at c = Some 1000000" "cm_ack_status c = JStr ''accepted''"
    using demo_accepted_commands by (cases "d_commands (pf_db demo_accepted)") auto
  then show ?thesis
    using acknowledgement_is_final [of demo_accepted c 1000000 demo_ingress "[(plain_env 2000000, demo_ack ''m2'' ''rejected'' 2)]"]
    by (auto simp: unique_commands_def)
qed

text \<open>
  Property C20. The vehicle cannot claim an arrival: no sequence of messages, whatever it reports,
  makes a navigation task SUCCEEDED; a reported completion only opens the verification of the
  final pose, and the verdict stays with the worker.
\<close>

theorem vehicle_cannot_claim_arrival:
  assumes "\<not> arrived (pf_db p) tid"
  shows "\<not> arrived (pf_db (ingress_run cfg xs p)) tid"
  using assms run_no_new_arrival by (auto simp: no_new_arrival_def)

definition demo_navigation :: task where
  "demo_navigation = demo_task\<lparr>tk_type := ''NAVIGATE_TO_PRESET''\<rparr>"

definition demo_completed :: "(pyenv \<times> delivery) list" where
  "demo_completed = [(plain_env 1000000, demo_message ''task_status'' ''m1'' ''b'' 1
     [(''task_id'', JStr ''t''), (''status'', JStr ''completed''), (''phase'', JStr ''DONE''), (''progress'', JInt 100)])]"

theorem vehicle_cannot_claim_arrival_witness:
  "\<not> arrived (pf_db (ingress_run demo_ingress demo_completed (demo_live [] [demo_navigation]))) ''t''
   \<and> map tk_phase (d_tasks (pf_db (ingress_run demo_ingress demo_completed (demo_live [] [demo_navigation]))))
       = [''VERIFYING_FINAL_POSE'']"
proof
  have "\<not> arrived (pf_db (demo_live [] [demo_navigation])) ''t''"
    by (simp add: arrived_def demo_live_def demo_navigation_def demo_task_def demo_platform_def)
  then show "\<not> arrived (pf_db (ingress_run demo_ingress demo_completed (demo_live [] [demo_navigation]))) ''t''"
    by (rule vehicle_cannot_claim_arrival)
qed code_simp

end
