(* ===== verification/Ingress_Boot.thy ===== *)
theory Ingress_Boot
  imports Ingress_Safety
begin

text \<open>
  Boot sessions of a robot across arbitrary runs of the ingress: a boot that has ended stays ended
  and is never the robot's current boot again, and a reboot takes the manual lease away.
\<close>

definition boot_pairs :: "'a database_scheme \<Rightarrow> (ident \<times> ident option) set" where
  "boot_pairs d = (\<lambda>r. (rb_id r, rb_boot_id r)) ` set (d_robots d)"

definition retired :: "ident \<Rightarrow> ident \<Rightarrow> 'a database_scheme \<Rightarrow> bool" where
  "retired rid boot d \<longleftrightarrow>
     (case boot_session_of rid boot d of None \<Rightarrow> False | Some b \<Rightarrow> bs_ended_at b \<noteq> None)
     \<and> (rid, Some boot) \<notin> boot_pairs d"

text \<open>Operations that keep every robot row on its boot and every session as it is.\<close>

definition steady :: "tx \<Rightarrow> tx \<Rightarrow> bool" where
  "steady db db' \<longleftrightarrow> d_boots db' = d_boots db \<and> boot_pairs db' \<subseteq> boot_pairs db
     \<and> fst ` boot_pairs db' = fst ` boot_pairs db"

lemma steady_refl [simp]: "steady db db"
  by (simp add: steady_def)

lemma steady_trans: "steady a b \<Longrightarrow> steady b c \<Longrightarrow> steady a c"
  by (auto simp: steady_def)

lemma steady_same: "d_robots db' = d_robots db \<Longrightarrow> d_boots db' = d_boots db \<Longrightarrow> steady db db'"
  by (simp add: steady_def boot_pairs_def)

lemma steady_like: "steady db a \<Longrightarrow> d_robots b = d_robots a \<Longrightarrow> d_boots b = d_boots a \<Longrightarrow> steady db b"
  by (simp add: steady_def boot_pairs_def)

lemma steady_retired: "steady db db' \<Longrightarrow> retired rid boot db \<Longrightarrow> retired rid boot db'"
  by (auto simp: steady_def retired_def boot_session_of_def)

definition live :: "robot \<Rightarrow> tx \<Rightarrow> bool" where
  "live r db \<longleftrightarrow> (rb_id r, rb_boot_id r) \<in> boot_pairs db"

lemma boot_pairs_put:
  "boot_pairs (put_robot r db)
     = (if rb_id r \<in> fst ` boot_pairs db then {(rb_id r, rb_boot_id r)} else {})
       \<union> {x \<in> boot_pairs db. fst x \<noteq> rb_id r}"
proof -
  have "boot_pairs (put_robot r db)
      = (\<lambda>x. if rb_id x = rb_id r then (rb_id r, rb_boot_id r) else (rb_id x, rb_boot_id x)) ` set (d_robots db)"
    by (force simp: boot_pairs_def put_robot_def upd_rows_def image_iff)
  then show ?thesis by (force simp: boot_pairs_def image_iff)
qed

lemma steady_put_robot: "live r db \<Longrightarrow> rb_id x = rb_id r \<Longrightarrow> rb_boot_id x = rb_boot_id r \<Longrightarrow> steady db (put_robot x db)"
  unfolding steady_def live_def boot_pairs_put by (auto simp: image_iff)

lemma live_refetch:
  assumes "rb_id r \<in> fst ` boot_pairs db"
  shows "live (refetch r db) db" "rb_id (refetch r db) = rb_id r"
proof -
  obtain x where "x \<in> set (d_robots db)" "rb_id x = rb_id r"
    using assms by (auto simp: boot_pairs_def)
  then obtain y where y: "get_robot (rb_id r) db = Some y"
    by (cases "get_robot (rb_id r) db") (auto simp: get_robot_def first_row_None)
  then have "y \<in> set (d_robots db)" "rb_id y = rb_id r"
    by (auto simp: get_robot_def dest: first_row_Some)
  then show "live (refetch r db) db" "rb_id (refetch r db) = rb_id r"
    by (auto simp: refetch_def y live_def boot_pairs_def intro!: image_eqI [of _ _ y])
qed

lemma live_known: "live r db \<Longrightarrow> rb_id r \<in> fst ` boot_pairs db"
  unfolding live_def by (rule image_eqI [of _ _ "(rb_id r, rb_boot_id r)"]) simp_all

lemma steady_known: "steady a b \<Longrightarrow> rid \<in> fst ` boot_pairs a \<Longrightarrow> rid \<in> fst ` boot_pairs b"
  by (simp add: steady_def)

lemma live_robot_for: "robot_for vid db = Some r \<Longrightarrow> live r db"
  by (auto simp: robot_for_def live_def boot_pairs_def dest!: first_row_Some)

section \<open>The steady operations\<close>

lemma steady_update_online: "live r db \<Longrightarrow> steady db (update_online now redis r state msg reason db)"
  using steady_put_robot [of r db "r\<lparr>rb_online_state := state, rb_last_seen_at := Some now\<rparr>"]
  by (simp add: update_online_def Let_def steady_def boot_pairs_def)

lemma steady_project_online: "live r db \<Longrightarrow> steady db (project_online cfg env redis ty r msg db)"
  using steady_update_online [of r db]
  by (simp add: project_online_def steady_def boot_pairs_def)

lemma steady_adopt_source: "steady db (adopt_source cfg kind rid db)"
  by (rule steady_same) (simp_all add: adopt_source_def)

lemma steady_forget_estop: "live r db \<Longrightarrow> steady db (forget_estop kind r received db)"
  using steady_put_robot [of r db "r\<lparr>rb_estop := None\<rparr>"]
  by (simp add: forget_estop_def steady_def boot_pairs_def)

lemma steady_prepare:
  assumes "rb_id r \<in> fst ` boot_pairs db"
  shows "steady db (prepare cfg env redis kind ty r msg source db)"
proof -
  let ?db1 = "adopt_source cfg kind (rb_id r) db"
  let ?db2 = "forget_estop kind (refetch r ?db1) (utc_now env) ?db1"
  let ?db3 = "upsert_channel (rb_id r) (message_channel kind ty) (channel_state ty msg kind source (utc_now env)) ?db2"
  have 1: "steady db ?db1" by (rule steady_adopt_source)
  have 2: "steady ?db1 ?db2"
    by (rule steady_forget_estop) (rule live_refetch, rule steady_known [OF 1 assms])
  have 3: "steady ?db2 ?db3" by (rule steady_same) simp_all
  have 123: "steady db ?db3" using 1 2 3 steady_trans by blast
  have 4: "steady ?db3 (project_online cfg env redis ty (refetch r ?db3) msg ?db3)"
    by (rule steady_project_online) (rule live_refetch, rule steady_known [OF 123 assms])
  show ?thesis unfolding prepare_def Let_def by (rule steady_trans [OF 123 4])
qed

lemma steady_store_status: "steady db (store_status st msg received t db)"
proof -
  have c: "d_robots (consume_resume st t db) = d_robots db \<and> d_boots (consume_resume st t db) = d_boots db" for db
    by (simp add: consume_resume_def split: option.split)
  have a: "d_robots (advance_command t received db) = d_robots db \<and> d_boots (advance_command t received db) = d_boots db" for db
    by (simp add: advance_command_def split: option.split)
  have f: "d_robots (advance_fire t received db) = d_robots db \<and> d_boots (advance_fire t received db) = d_boots db" for db
    by (simp add: advance_fire_def split: option.split)
  show ?thesis by (rule steady_same) (simp_all add: store_status_def Let_def c a f)
qed

lemma steady_run_handler:
  assumes h: "run_handler cfg env redis kind ty r msg source db = (Inr db', redis')" and l: "live r db"
  shows "steady db db'"
proof -
  have loc: "steady db db'" if "handle_location env redis r msg source received eu v db = (Inr db', redis')" for received eu v
    by (rule handle_location_cases [OF that])
      (use steady_put_robot [OF l] in \<open>auto simp: steady_def boot_pairs_def\<close>)
  have status: "steady db (handle_status env redis r msg source received k db)" for received k
    by (rule steady_like [OF steady_put_robot [OF l, of "status_robot msg r"]])
      (simp_all add: handle_status_def Let_def touch_field_channel_def status_robot_def put_robot_def)
  have sensor: "steady db db'" if "handle_sensor env redis r msg source received k db = Inr db'" for received k
    by (rule steady_same) (use that in \<open>auto simp: handle_sensor_def bind_Inr Let_def touch_field_channel_def split: if_splits\<close>)
  have alarm: "steady db db'" if "handle_alarm cfg env r msg received db = Inr db'" for received
    by (rule steady_same) (use that in \<open>auto simp: handle_alarm_def bind_Inr Let_def queue_event_def split: if_splits option.splits\<close>)
  have caps: "steady db db'" if "handle_capabilities env r msg received db = Inr db'" for received
    by (rule steady_same) (use that in \<open>auto simp: handle_capabilities_def bind_Inr\<close>)
  have ack: "steady db db'" if "handle_ack r msg received db = Inr db'" for received
    by (rule handle_ack_cases [OF that]) (auto intro!: steady_same)
  have task: "steady db db'" if "handle_task_status env r msg received db = Inr db'" for received
    by (rule handle_task_status_cases [OF that]) (auto intro: steady_store_status)
  show ?thesis
    using h loc status sensor alarm caps ack task unfolding run_handler_def Let_def
    by (auto split: if_splits)
qed

section \<open>Accepting a boot\<close>

lemma boot_session_append:
  "boot_session_of rid boot (add_boot rid' boot' t db) =
     (case boot_session_of rid boot db of
        Some b \<Rightarrow> Some b
      | None \<Rightarrow> if rid' = rid \<and> boot' = boot
                then Some \<lparr>bs_robot_id = rid', bs_boot_id = boot', bs_first_seen = t, bs_last_seen = t, bs_ended_at = None\<rparr>
                else None)"
proof -
  have "find P (xs @ [x]) = (case find P xs of Some y \<Rightarrow> Some y | None \<Rightarrow> if P x then Some x else None)" for P :: "boot_session \<Rightarrow> bool" and xs x
    by (induction xs) auto
  then show ?thesis by (auto simp: boot_session_of_def add_boot_def first_row_def split: option.split)
qed

lemma boot_session_upd:
  assumes "\<And>b. bs_robot_id (f b) = bs_robot_id b \<and> bs_boot_id (f b) = bs_boot_id b"
  shows "boot_session_of rid boot (upd_boot rid' boot' f db) =
     map_option (\<lambda>b. if rid' = rid \<and> boot' = boot then f b else b) (boot_session_of rid boot db)"
proof -
  have "find (\<lambda>b. bs_robot_id b = rid \<and> bs_boot_id b = boot)
          (map (\<lambda>b. if bs_robot_id b = rid' \<and> bs_boot_id b = boot' then f b else b) xs)
        = map_option (\<lambda>b. if rid' = rid \<and> boot' = boot then f b else b)
            (find (\<lambda>b. bs_robot_id b = rid \<and> bs_boot_id b = boot) xs)" for xs
    by (induction xs) (use assms in auto)
  then show ?thesis by (simp add: boot_session_of_def upd_boot_def upd_rows_def first_row_def)
qed

lemma boot_session_other [simp]:
  "boot_session_of rid boot (put_robot r db) = boot_session_of rid boot db"
  "boot_session_of rid boot (queue_event ty pl db) = boot_session_of rid boot db"
  "boot_session_of rid boot (queue_redis_delete k db) = boot_session_of rid boot db"
  "boot_session_of rid boot (release_on_reboot now lid db) = boot_session_of rid boot db"
  by (simp_all add: boot_session_of_def)

lemma boot_session_invalidate [simp]:
  "boot_session_of rid boot (invalidate_old_boot_leases now redis r b db) = boot_session_of rid boot db"
  by (simp add: invalidate_old_boot_leases_def Let_def split: option.split)

lemma boot_session_switch:
  "boot_session_of rid boot (switch_boot now redis r b received db) =
     map_option (\<lambda>x. if rid = rb_id r \<and> rb_boot_id r = Some boot \<and> boot \<noteq> [] then end_boot received x else x)
       (boot_session_of rid boot db)"
  by (cases "boot_session_of rid boot db"; cases "rb_boot_id r")
    (auto simp: switch_boot_def boot_session_upd end_boot_def)

lemma switch_boot_robots [simp]: "d_robots (switch_boot now redis r b received db) = d_robots db"
  by (simp add: switch_boot_def invalidate_old_boot_leases_def Let_def split: option.split)

lemma accept_cases:
  obtains (current) db1 where "rb_boot_id r = Some boot"
      "accept_boot_session now redis r boot ty received db = (True, db1)" "d_robots db1 = d_robots db"
      "\<And>rid b. map_option bs_ended_at (boot_session_of rid b db1) =
         (if rid = rb_id r \<and> b = boot \<and> boot_session_of rid b db = None then Some None
          else map_option bs_ended_at (boot_session_of rid b db))"
  | (rejected) "rb_boot_id r \<noteq> Some boot" "accept_boot_session now redis r boot ty received db = (False, db)"
  | (switched) db1 where "rb_boot_id r \<noteq> Some boot"
      "accept_boot_session now redis r boot ty received db = (True, put_robot (r\<lparr>rb_boot_id := Some boot\<rparr>) db1)"
      "ty \<in> set BOOT_ESTABLISH_TYPES"
      "case boot_session_of (rb_id r) boot db of None \<Rightarrow> True | Some b \<Rightarrow> bs_ended_at b = None"
      "d_robots db1 = d_robots db"
      "db1 = (let db0 = switch_boot now redis r boot received db
              in if boot_session_of (rb_id r) boot db = None then add_boot (rb_id r) boot received db0 else db0)"
proof -
  let ?s = "boot_session_of (rb_id r) boot db"
  show thesis
  proof (cases "rb_boot_id r = Some boot")
    case True
    let ?db1 = "case ?s of Some b \<Rightarrow> upd_boot (rb_id r) boot (\<lambda>b. b\<lparr>bs_last_seen := received\<rparr>) db
                         | None \<Rightarrow> add_boot (rb_id r) boot received db"
    show thesis
    proof (rule current [of ?db1])
      show "accept_boot_session now redis r boot ty received db = (True, ?db1)"
        using True by (simp add: accept_boot_session_def Let_def)
      show "map_option bs_ended_at (boot_session_of rid b ?db1) =
         (if rid = rb_id r \<and> b = boot \<and> boot_session_of rid b db = None then Some None
          else map_option bs_ended_at (boot_session_of rid b db))" for rid b
        by (cases ?s; cases "boot_session_of rid b db") (auto simp: boot_session_append boot_session_upd)
    qed (use True in \<open>auto split: option.split\<close>)
  next
    case False
    show thesis
    proof (cases "ty \<in> set BOOT_ESTABLISH_TYPES \<and> (case ?s of None \<Rightarrow> True | Some b \<Rightarrow> bs_ended_at b = None)")
      case no: False
      then have "accept_boot_session now redis r boot ty received db = (False, db)"
        using False by (cases ?s) (auto simp: accept_boot_session_def Let_def)
      then show thesis using False rejected by blast
    next
      case True
      let ?db1 = "let db0 = switch_boot now redis r boot received db
                  in if ?s = None then add_boot (rb_id r) boot received db0 else db0"
      have "accept_boot_session now redis r boot ty received db = (True, put_robot (r\<lparr>rb_boot_id := Some boot\<rparr>) ?db1)"
        using False True by (cases ?s) (auto simp: accept_boot_session_def Let_def)
      then show thesis using switched [of ?db1] False True by (simp add: Let_def)
    qed
  qed
qed

lemma known_ids: "fst ` boot_pairs d = rb_id ` set (d_robots d)"
  by (simp add: boot_pairs_def image_image)

lemma known_put [simp]: "fst ` boot_pairs (put_robot r db) = fst ` boot_pairs db"
  unfolding known_ids put_robot_def upd_rows_def by (auto simp: image_iff) metis

lemma accept_known:
  "fst ` boot_pairs (snd (accept_boot_session now redis r boot ty received db)) = fst ` boot_pairs db"
proof (cases rule: accept_cases [of r boot now redis ty received db])
  case (switched db1)
  then have "boot_pairs db1 = boot_pairs db" by (simp add: boot_pairs_def)
  then show ?thesis using switched(2) known_put by simp
qed (simp_all add: boot_pairs_def)

lemma accept_retired:
  assumes "retired rid old db" "live r db"
  shows "retired rid old (snd (accept_boot_session now redis r boot ty received db))"
proof -
  obtain s where s: "boot_session_of rid old db = Some s" "bs_ended_at s \<noteq> None"
    using assms(1) by (auto simp: retired_def split: option.splits)
  have notin: "(rid, Some old) \<notin> boot_pairs db" using assms(1) by (simp add: retired_def)
  show ?thesis
  proof (cases rule: accept_cases [of r boot now redis ty received db])
    case (current db1)
    have "map_option bs_ended_at (boot_session_of rid old db1) = Some (bs_ended_at s)"
      using current(4) [of rid old] s by simp
    then obtain x where "boot_session_of rid old db1 = Some x" "bs_ended_at x \<noteq> None"
      using s(2) by auto
    moreover have "boot_pairs db1 = boot_pairs db" using current(3) by (simp add: boot_pairs_def)
    ultimately show ?thesis using current(2) notin by (simp add: retired_def)
  next
    case rejected
    then show ?thesis using assms(1) by simp
  next
    case (switched db1)
    have "(rid, Some old) \<noteq> (rb_id r, Some boot)"
      using switched(4) s by auto
    moreover have "boot_pairs db1 = boot_pairs db" using switched(5) by (simp add: boot_pairs_def)
    moreover have "\<exists>x. boot_session_of rid old db1 = Some x \<and> bs_ended_at x \<noteq> None"
      unfolding switched(6) Let_def using s by (auto simp: boot_session_append boot_session_switch end_boot_def)
    ultimately show ?thesis
      using switched(2) notin by (auto simp: retired_def boot_pairs_put)
  qed
qed

lemma ingest_retired:
  assumes "ingest cfg env redis kind ty msg source db = (Inr (acc, db'), redis')" "retired rid old db"
  shows "retired rid old db'"
proof (cases "robot_for (jstr (jget msg ''vehicle_id'')) db")
  case None
  then show ?thesis using assms by (simp add: ingest_def)
next
  case (Some r)
  note l = live_robot_for [OF Some]
  let ?a = "accept_boot_session (utc_now env) redis r (jstr (jget msg ''boot_id'')) ty (utc_now env) db"
  have a: "retired rid old (snd ?a)" by (rule accept_retired [OF assms(2) l])
  obtain ok db1 where acc: "?a = (ok, db1)" by (cases ?a)
  show ?thesis
  proof (cases ok)
    case False
    then show ?thesis using assms Some acc a by (simp add: ingest_def)
  next
    case True
    let ?db2 = "prepare cfg env redis kind ty (refetch r db1) msg source db1"
    obtain res r1 where h: "run_handler cfg env redis kind ty (refetch r ?db2) msg source ?db2 = (res, r1)"
      by (cases "run_handler cfg env redis kind ty (refetch r ?db2) msg source ?db2")
    have res: "res = Inr db'" using assms Some acc True h by (simp add: ingest_def Let_def bind_Inr)
    have k: "rb_id r \<in> fst ` boot_pairs db1"
      using accept_known [of "utc_now env" redis r "jstr (jget msg ''boot_id'')" ty "utc_now env" db] live_known [OF l] acc
      by simp
    have p: "steady db1 ?db2" by (rule steady_prepare) (use live_refetch(2) [OF k] k in simp)
    have "steady ?db2 db'"
      by (rule steady_run_handler [OF h [unfolded res]]) (rule live_refetch, rule steady_known [OF p k])
    then show ?thesis using a acc p steady_retired by simp
  qed
qed

lemma compat_retired:
  assumes t: "compat_transaction cfg env redis ty vid msg source r db = Inr db'"
    and r: "robot_for v db = Some r" and old: "retired rid old db"
  shows "retired rid old db'"
proof -
  let ?r1 = "r\<lparr>rb_estop := None\<rparr>"
  let ?db1 = "put_integration (compat_integration cfg env ty msg source (integration_of (rb_id r) db)) db"
  let ?db2 = "put_capability (no_commands (rb_id r) (utc_now env)) (put_robot ?r1 ?db1)"
  have l1: "live r ?db1" using live_robot_for [OF r] by (simp add: live_def boot_pairs_def)
  have s2: "steady db ?db2"
    by (rule steady_like [OF steady_trans [OF steady_same steady_put_robot [OF l1]]]) simp_all
  have k2: "rb_id r \<in> fst ` boot_pairs ?db2" by (rule steady_known [OF s2 live_known [OF live_robot_for [OF r]]])
  have l2: "live ?r1 ?db2"
  proof -
    have "boot_pairs ?db2 = boot_pairs (put_robot ?r1 ?db1)" by (simp add: boot_pairs_def)
    then show ?thesis using live_known [OF l1] by (simp add: live_def boot_pairs_put)
  qed
  obtain db3 upd where b: "compat_branch env redis ty ?r1 msg source ?db2 = Inr (db3, upd)"
    and s: "d_robots db' = d_robots db3" "d_boots db' = d_boots db3"
    using t unfolding compat_transaction_def Let_def by (auto simp: bind_Inr compat_channels_def Let_def)
  have old2: "retired rid old ?db2" by (rule steady_retired [OF s2 old])
  have "retired rid old db3"
  proof (cases "ty = ''compat_availability''")
    case True
    then have "compat_availability env redis ?r1 msg ?db2 = Inr (db3, upd)" using b by (simp add: compat_branch_def)
    then obtain p db4 y where db4: "db4 = snd (accept_boot_session (utc_now env) redis ?r1 (jstr (jget msg ''bridge_boot_id''))
           ''availability'' (utc_now env) (put_integration p ?db2))"
      and db3: "db3 = put_robot ((refetch ?r1 db4)\<lparr>rb_online_state := y, rb_last_seen_at := Some (utc_now env)\<rparr>) db4"
      unfolding compat_availability_def bind_Inr Let_def by blast
    have "retired rid old (put_integration p ?db2)" "live ?r1 (put_integration p ?db2)"
      using old2 l2 by (simp_all add: retired_def live_def boot_pairs_def boot_session_of_def)
    then have "retired rid old db4" unfolding db4 by (rule accept_retired)
    moreover have "rb_id ?r1 \<in> fst ` boot_pairs db4"
      unfolding db4 accept_known using k2 by (simp add: boot_pairs_def)
    then have "steady db4 db3"
      unfolding db3 by (intro steady_put_robot) (rule live_refetch, simp_all)
    ultimately show ?thesis by (rule steady_retired [rotated])
  next
    case False
    have put: "steady ?db2 (put_robot x ?db2)" if "rb_id x = rb_id r" "rb_boot_id x = rb_boot_id r" for x
      by (rule steady_put_robot [OF l2]) (use that in simp_all)
    have "steady ?db2 db3"
    proof (cases rule: compat_branch_shape [OF b False])
      case (2 p m)
      show ?thesis unfolding 2 by (rule steady_like [OF put [of "?r1\<lparr>rb_mode := m\<rparr>"]]) simp_all
    next
      case (3 x)
      show ?thesis unfolding 3 by (rule put) simp_all
    qed (auto intro: steady_same)
    then show ?thesis using old2 steady_retired by blast
  qed
  then show ?thesis using s by (simp add: retired_def boot_pairs_def boot_session_of_def)
qed

lemma run_retired: "retired rid old (pf_db p) \<Longrightarrow> retired rid old (pf_db (ingress_run cfg xs p))"
proof (rule run_invariant [where Q = "retired rid old"])
  have to_tx: "retired rid old (begin_tx s) = retired rid old s"
    "retired rid old (database.truncate db) = retired rid old db" for s :: database and db :: tx
    by (simp_all add: retired_def boot_pairs_def boot_session_of_def)
  show "retired rid old (database.truncate db)"
    if "retired rid old s" "ingest cfg env redis kind ty msg source (begin_tx s) = (Inr (acc, db), redis')"
    for env d redis kind ty msg source acc db redis' s
    using ingest_retired [OF that(2)] that(1) to_tx by blast
  show "retired rid old (database.truncate db)"
    if "retired rid old s" "robot_for vid (begin_tx s) = Some r"
      "compat_transaction cfg env redis ty vid msg source r (begin_tx s) = Inr db"
    for env redis ty vid msg source r db s
    using compat_retired [OF that(3,2)] that(1) to_tx by blast
qed


definition demo_rebooted :: platform where
  "demo_rebooted = demo_platform\<lparr>pf_db := demo_db\<lparr>d_boots :=
     [\<lparr>bs_robot_id = ''r'', bs_boot_id = ''a'', bs_first_seen = 0, bs_last_seen = 0, bs_ended_at = Some 1\<rparr>,
      \<lparr>bs_robot_id = ''r'', bs_boot_id = ''b'', bs_first_seen = 1, bs_last_seen = 1, bs_ended_at = None\<rparr>]\<rparr>\<rparr>"

definition demo_late :: platform where
  "demo_late = ingress_run demo_ingress [(plain_env 1000000, demo_message ''heartbeat'' ''m1'' ''b'' 1 [])] demo_rebooted"

lemma demo_late_robot: "map_option rb_id (robot_for ''v'' (pf_db demo_late)) = Some ''r''"
  by code_simp


section \<open>A reboot takes control away\<close>

lemma fold_lease:
  assumes "\<forall>op \<in> set ops. projection_op op"
  shows "fold (redis_apply now) ops r (lease_key x)
    = (if Redis_Delete (lease_key x) \<in> set ops then None else r (lease_key x))"
  using assms
proof (induction ops arbitrary: r)
  case (Cons op ops)
  have keys: "lease_key x \<noteq> latest_key y" "lease_key x \<noteq> heartbeat_key y" for y
    by (simp_all add: lease_key_def latest_key_def heartbeat_key_def)
  show ?case
  proof (cases op)
    case (Redis_Set k v ttl)
    then have "redis_apply now op r (lease_key x) = r (lease_key x)"
      using Cons.prems keys by (cases ttl) (auto simp: projection_op.simps redis_set_def redis_setex_def)
    then show ?thesis using Cons Redis_Set by simp
  next
    case (Redis_Delete k)
    then show ?thesis using Cons by (simp add: redis_delete_def)
  qed
qed simp

lemma prepare_ops: "set (tx_ops db) \<subseteq> set (tx_ops (prepare cfg env redis kind ty r msg source db))"
proof -
  have u: "set (tx_ops db) \<subseteq> set (tx_ops (update_online now redis r st msg reason db))" for now r st reason db
    by (auto simp: update_online_def Let_def)
  then have o: "set (tx_ops db) \<subseteq> set (tx_ops (project_online cfg env redis ty r msg db))" for r db
    by (auto simp: project_online_def dest: subsetD [OF u])
  have f: "tx_ops (forget_estop kind r received db) = tx_ops db" for r received db
    by (simp add: forget_estop_def)
  have a: "tx_ops (adopt_source cfg kind rid db) = tx_ops db" for rid db
    by (simp add: adopt_source_def)
  show ?thesis unfolding prepare_def Let_def by (rule order_trans [OF _ o]) (simp add: f a)
qed

lemma establishing_handler:
  assumes "run_handler cfg env redis kind ty r msg source db = (Inr db', redis')" "ty \<in> set BOOT_ESTABLISH_TYPES"
  shows "redis' = redis \<and> tx_ops db' = tx_ops db"
proof -
  consider "ty = ''capabilities''" | "ty = ''heartbeat'' \<or> ty = ''availability''"
    using assms(2) by (auto simp: BOOT_ESTABLISH_TYPES_def)
  then show ?thesis
  proof cases
    case 1
    then have "handle_capabilities env r msg (utc_now env) db = Inr db'" "redis' = redis"
      using assms(1) by (simp_all add: run_handler_def)
    then show ?thesis by (auto simp: handle_capabilities_def bind_Inr)
  next
    case 2
    then show ?thesis using assms(1) by (auto simp: run_handler_def)
  qed
qed

lemma switch_drops_lease:
  assumes "rb_boot_id r = Some old" "old \<noteq> []" "boot \<noteq> old"
    and "redis_get now redis (lease_key (rb_id r)) \<noteq> None"
  shows "Redis_Delete (lease_key (rb_id r)) \<in> set (tx_ops (switch_boot now redis r boot received db))"
  using assms by (auto simp: switch_boot_def invalidate_old_boot_leases_def)

lemma switch_retires:
  assumes "rb_boot_id r = Some old" "old \<noteq> []" "boot \<noteq> old" "boot_session_of (rb_id r) old db \<noteq> None"
    and "live r db" "accept_boot_session now redis r boot ty received db = (True, db1)"
  shows "retired (rb_id r) old db1" "ty \<in> set BOOT_ESTABLISH_TYPES"
    "redis_get now redis (lease_key (rb_id r)) \<noteq> None
       \<Longrightarrow> Redis_Delete (lease_key (rb_id r)) \<in> set (tx_ops db1)"
proof -
  have "retired (rb_id r) old db1 \<and> ty \<in> set BOOT_ESTABLISH_TYPES
      \<and> (redis_get now redis (lease_key (rb_id r)) \<noteq> None \<longrightarrow> Redis_Delete (lease_key (rb_id r)) \<in> set (tx_ops db1))"
  proof (cases rule: accept_cases [of r boot now redis ty received db])
    case (switched db2)
    have db1: "db1 = put_robot (r\<lparr>rb_boot_id := Some boot\<rparr>) db2" using switched(2) assms(6) by simp
    obtain y where y: "boot_session_of (rb_id r) old db = Some y" using assms(4) by blast
    have "boot_session_of (rb_id r) old db2 = Some (end_boot received y)"
      unfolding switched(6) Let_def using assms(1-3) y by (simp add: boot_session_append boot_session_switch)
    moreover have "bs_ended_at (end_boot received y) \<noteq> None" by (simp add: end_boot_def)
    ultimately have "\<exists>x. boot_session_of (rb_id r) old db2 = Some x \<and> bs_ended_at x \<noteq> None" by blast
    moreover have "(rb_id r, Some old) \<notin> boot_pairs db1"
      using assms(3) by (auto simp: db1 boot_pairs_put)
    ultimately have "retired (rb_id r) old db1" by (auto simp: db1 retired_def)
    moreover have "Redis_Delete (lease_key (rb_id r)) \<in> set (tx_ops db1)"
      if "redis_get now redis (lease_key (rb_id r)) \<noteq> None"
      using switch_drops_lease [OF assms(1-3) that] by (simp add: db1 switched(6) Let_def)
    ultimately show ?thesis using switched(3) by blast
  qed (use assms in auto)
  then show "retired (rb_id r) old db1" "ty \<in> set BOOT_ESTABLISH_TYPES"
    "redis_get now redis (lease_key (rb_id r)) \<noteq> None
       \<Longrightarrow> Redis_Delete (lease_key (rb_id r)) \<in> set (tx_ops db1)"
    by auto
qed

text \<open>The Redis marks of one delivery never touch a manual lease.\<close>

lemma lease_key_apart [simp]:
  "lease_key x \<noteq> dedup_key m" "lease_key x \<noteq> pending_key m" "lease_key x \<noteq> seq_key a b c"
  "lease_key x \<noteq> rate_key a b n"
  by (simp_all add: lease_key_def dedup_key_def pending_key_def seq_key_def rate_key_def)

lemma redis_incr_other: "k' \<noteq> k \<Longrightarrow> snd (redis_incr now k r) k' = r k'"
  by (auto simp: redis_incr_def redis_set_def split: option.split json.split)

lemma redis_expire_other: "k' \<noteq> k \<Longrightarrow> redis_expire now k n r k' = r k'"
  by (simp add: redis_expire_def split: option.split)

lemma rate_allowed_other:
  assumes "k' \<noteq> rate_key vid ty \<lfloor>wall env\<rfloor>"
  shows "snd (rate_allowed cfg env vid ty r) k' = r k'"
proof -
  obtain n r1 where i: "redis_incr (utc_now env) (rate_key vid ty \<lfloor>wall env\<rfloor>) r = (n, r1)"
    by (cases "redis_incr (utc_now env) (rate_key vid ty \<lfloor>wall env\<rfloor>) r")
  show ?thesis
    using redis_incr_other [OF assms, of "utc_now env" r] redis_expire_other [OF assms]
    unfolding rate_allowed_def i Let_def by simp
qed

lemma marks_keep_lease [simp]:
  "remember env ty msg r (lease_key x) = r (lease_key x)"
  "redis_setex now (seq_key a b c) n v r (lease_key x) = r (lease_key x)"
  "redis_delete (pending_key m) r (lease_key x) = r (lease_key x)"
  "redis_setex now (pending_key m) n v r (lease_key x) = r (lease_key x)"
  by (simp_all add: remember_def redis_setex_def redis_delete_def)

text \<open>
  A reboot takes control away: when a message of a new boot is accepted, the previous
  boot session is closed and no longer current, and the manual lease on the robot is gone from
  Redis, so the operator who drove the old boot cannot drive the new one.
\<close>

lemma reboot_revokes_control:
  assumes p': "process cfg env d p = (Committed True, p')" and body: "dl_body d = Some (JObj msg)"
    and r: "robot_for (jstr (jget msg ''vehicle_id'')) (pf_db p) = Some r"
    and old: "rb_boot_id r = Some old" "old \<noteq> []" "boot_session_of (rb_id r) old (pf_db p) \<noteq> None"
    and boot: "jget msg ''boot_id'' = JStr boot" "boot \<noteq> old"
  shows "retired (rb_id r) old (pf_db p')
     \<and> redis_get (utc_now env) (pf_redis p') (lease_key (rb_id r)) = None"
proof (cases rule: process_stages [where cfg = cfg and env = env and d = d and p = p])
  case (stopped out r1)
  then show ?thesis using p' stopped(2) [of True] by simp
next
  case internal
  then have "fst (process_internal_compat cfg env (last_segment (dl_topic d)) (dl_body d) p) = Committed True"
    using p' by (metis fst_conv)
  then show ?thesis using process_internal_outcome by blast
next
  case (reached m source r1)
  let ?ty = "last_segment (dl_topic d)" and ?kind = "source_kind (dl_topic d)" and ?db = "begin_tx (pf_db p)"
  have m: "m = msg" using reached(1) body by simp
  have r': "robot_for (jstr (jget msg ''vehicle_id'')) ?db = Some r" using r by (simp add: robot_for_def)
  have store: "store_message cfg env ?kind ?ty msg source (p\<lparr>pf_redis := r1\<rparr>) = (Committed True, p')"
    using reached(7) p' m by simp
  obtain db r2 where ing: "ingest cfg env r1 ?kind ?ty msg source ?db = (Inr (True, db), r2)"
    using store by (cases "ingest cfg env r1 ?kind ?ty msg source ?db" rule: prod.exhaust)
      (auto simp: store_message_def Let_def split: sum.splits)
  obtain ok db1 where acc: "accept_boot_session (utc_now env) r1 r boot ?ty (utc_now env) ?db = (ok, db1)"
    by (cases "accept_boot_session (utc_now env) r1 r boot ?ty (utc_now env) ?db")
  have ok: "ok" using ing r' acc boot(1) by (cases ok) (auto simp: ingest_def)
  have s: "boot_session_of (rb_id r) old ?db \<noteq> None" using old(3) by (simp add: boot_session_of_def)
  note sw = switch_retires [OF old(1,2) boot(2) s live_robot_for [OF r'] acc [unfolded eqTrueI [OF ok]]]
  let ?db2 = "prepare cfg env r1 ?kind ?ty (refetch r db1) msg source db1"
  obtain db3 where h: "run_handler cfg env r1 ?kind ?ty (refetch r ?db2) msg source ?db2 = (Inr db3, r2)" and db: "db = db3"
    using ing r' acc ok boot(1) by (auto simp: ingest_def Let_def bind_Inr split: prod.splits)
  note est = establishing_handler [OF h sw(2)]
  have k: "rb_id r \<in> fst ` boot_pairs db1"
    using accept_known [of "utc_now env" r1 r boot ?ty "utc_now env" ?db] live_known [OF live_robot_for [OF r']] acc by simp
  have st: "steady db1 ?db2" by (rule steady_prepare) (use live_refetch(2) [OF k] k in simp)
  have "steady ?db2 db3" by (rule steady_run_handler [OF h]) (rule live_refetch, rule steady_known [OF st k])
  then have ret: "retired (rb_id r) old db" using sw(1) st steady_retired db by blast
  have ops: "\<forall>op \<in> set (tx_ops db). projection_op op"
    using tame_ingest [OF ing] by (simp add: tame_def ops_ok_def)
  have p'_eq: "pf_db p' = database.truncate db"
    and redis: "pf_redis p' (lease_key (rb_id r)) = fold (redis_apply (utc_now env)) (tx_ops db) r1 (lease_key (rb_id r))"
    using store ing est by (auto simp: store_message_def Let_def commit_def)
  have "redis_get (utc_now env) (pf_redis p') (lease_key (rb_id r)) = None"
  proof (cases "redis_get (utc_now env) r1 (lease_key (rb_id r)) = None")
    case True
    then show ?thesis unfolding redis_get_def redis fold_lease [OF ops] by simp
  next
    case False
    then have "Redis_Delete (lease_key (rb_id r)) \<in> set (tx_ops db)"
      using subsetD [OF prepare_ops sw(3) [OF False]] est db by simp
    then show ?thesis unfolding redis_get_def redis fold_lease [OF ops] by simp
  qed
  moreover have "retired (rb_id r) old (pf_db p')"
    using ret p'_eq by (simp add: retired_def boot_pairs_def boot_session_of_def)
  ultimately show ?thesis by blast
qed

text \<open>The witness: the robot of boot \<open>b\<close>, with a manual lease in Redis, restarts as boot \<open>n\<close>.\<close>

definition demo_driven :: platform where
  "demo_driven = demo_rebooted\<lparr>pf_redis := redis_set (lease_key ''r'') (JObj [(''lease_id'', JStr ''l'')]) (\<lambda>_. None)\<rparr>"

definition demo_restart :: delivery where
  "demo_restart = demo_message ''heartbeat'' ''m3'' ''n'' 1 []"

lemma demo_restart_accepted: "fst (process demo_ingress (plain_env 1000000) demo_restart demo_driven) = Committed True"
  by code_simp

lemma reboot_revokes_control_witness:
  "redis_get 1000000 (pf_redis demo_driven) (lease_key ''r'') \<noteq> None
   \<and> redis_get 1000000 (pf_redis (snd (process demo_ingress (plain_env 1000000) demo_restart demo_driven))) (lease_key ''r'') = None"
proof
  show "redis_get 1000000 (pf_redis demo_driven) (lease_key ''r'') \<noteq> None"
    by (simp add: demo_driven_def redis_get_def redis_set_def)
  obtain p' where p': "process demo_ingress (plain_env 1000000) demo_restart demo_driven = (Committed True, p')"
    using demo_restart_accepted by (cases "process demo_ingress (plain_env 1000000) demo_restart demo_driven") auto
  have "redis_get (utc_now (plain_env 1000000)) (pf_redis p') (lease_key (rb_id demo_robot)) = None"
    using reboot_revokes_control [OF p', of _ demo_robot "''b''" "''n''"]
    by (simp add: demo_restart_def demo_message_def robot_for_def demo_driven_def demo_rebooted_def demo_db_def
        boot_session_of_def demo_robot_def)
  then show "redis_get 1000000 (pf_redis (snd (process demo_ingress (plain_env 1000000) demo_restart demo_driven))) (lease_key ''r'') = None"
    by (simp add: p' demo_robot_def)
qed

end
