(* ===== verification/Ingress_Dedup.thy ===== *)
theory Ingress_Dedup
  imports Ingress_Boot
begin

text \<open>
  Delivery is at least once; the ingress makes the effect at most once and keeps a failed message
  retryable. A stored message leaves a mark under its identifier; no delivery removes or renews a
  live mark, and a delivery that finds one changes nothing but the rate counter.
\<close>

section \<open>Redis keys\<close>

lemma keys_apart [simp]:
  "dedup_key m \<noteq> latest_key x" "dedup_key m \<noteq> heartbeat_key x" "dedup_key m \<noteq> lease_key x"
  "dedup_key m \<noteq> pending_key x" "dedup_key m \<noteq> seq_key a b c" "dedup_key m \<noteq> rate_key a b n"
  "dedup_key m \<noteq> downsample_key x" "pending_key m \<noteq> downsample_key x" "seq_key a b c \<noteq> downsample_key x"
  "seq_key a b c \<noteq> rate_key x y n" "seq_key a b c \<noteq> pending_key x" "seq_key a b c \<noteq> dedup_key x"
  "pending_key m \<noteq> rate_key a b n" "pending_key m \<noteq> dedup_key x"
  "dedup_key m \<noteq> ''ros_compat:'' @ y"
  by (simp_all add: dedup_key_def latest_key_def heartbeat_key_def lease_key_def pending_key_def seq_key_def
      rate_key_def downsample_key_def)

lemma dedup_key_inj [simp]: "dedup_key m = dedup_key m' \<longleftrightarrow> m = m'"
  by (simp add: dedup_key_def)

lemma redis_get_later: "now \<le> now' \<Longrightarrow> redis_get now r k = None \<Longrightarrow> redis_get now' r k = None"
  by (auto simp: redis_get_def split: option.splits if_splits)

lemma redis_get_earlier: "now \<le> now' \<Longrightarrow> redis_get now' r k = Some v \<Longrightarrow> redis_get now r k = Some v"
  by (auto simp: redis_get_def split: option.splits if_splits)

lemma redis_get_cong: "r k = r' k \<Longrightarrow> redis_get now r k = redis_get now r' k"
  by (simp add: redis_get_def)

lemma already_seen_cong:
  assumes "\<And>m. r (dedup_key m) = r' (dedup_key m)"
  shows "already_seen now r ty msg = already_seen now r' ty msg"
  using assms by (simp add: already_seen_def redis_exists_def redis_get_def)

text \<open>Live marks are kept.\<close>

definition marks_kept :: "micros \<Rightarrow> redis \<Rightarrow> redis \<Rightarrow> bool" where
  "marks_kept now r r' \<longleftrightarrow>
     (\<forall>m v t. r (dedup_key m) = Some (v, Some t) \<and> now < t \<longrightarrow> r' (dedup_key m) = Some (v, Some t))"

lemma marks_kept_refl [simp]: "marks_kept now r r"
  by (simp add: marks_kept_def)

lemma marks_kept_trans: "marks_kept now a b \<Longrightarrow> marks_kept now b c \<Longrightarrow> marks_kept now a c"
  by (simp add: marks_kept_def)

lemma marks_kept_other: "(\<And>m. r' (dedup_key m) = r (dedup_key m)) \<Longrightarrow> marks_kept now r r'"
  by (simp add: marks_kept_def)

lemma marks_remember: "\<not> already_seen now r ty msg \<Longrightarrow> utc_now env = now \<Longrightarrow> marks_kept now r (remember env ty msg r)"
  by (auto simp: marks_kept_def already_seen_def remember_def redis_exists_def redis_get_def redis_setex_def)

lemma fold_dedup:
  assumes "\<forall>op \<in> set ops. projection_op op"
  shows "fold (redis_apply now) ops r (dedup_key m) = r (dedup_key m)"
  using assms
proof (induction ops arbitrary: r)
  case (Cons op ops)
  have "redis_apply now op r (dedup_key m) = r (dedup_key m)"
  proof (cases op)
    case (Redis_Set k v ttl)
    then show ?thesis
      using Cons.prems by (cases ttl) (auto simp: projection_op.simps redis_set_def redis_setex_def)
  next
    case (Redis_Delete k)
    then show ?thesis using Cons.prems by (auto simp: projection_op.simps redis_delete_def)
  qed
  then show ?case using Cons by simp
qed simp

lemma marks_commit:
  assumes "ops_ok db"
  shows "pf_redis (commit now db p) (dedup_key m) = pf_redis p (dedup_key m)"
  using fold_dedup assms by (simp add: commit_def ops_ok_def)

lemma begin_ops_ok [simp]: "ops_ok (begin_tx d)"
  by (simp add: ops_ok_def)

lemma run_handler_redis:
  assumes "run_handler cfg env redis kind ty r msg source db = (res, redis')" "k \<noteq> downsample_key (rb_id r)"
  shows "redis' k = redis k"
proof -
  have loc: "snd (handle_location env redis r msg source received eu v db) k = redis k" for received eu v
    unfolding handle_location_def
    using assms(2) by (auto simp: Let_def redis_set_nx_def redis_setex_def split: sum.split)
  show ?thesis
  proof (cases "ty = ''location''")
    case True
    then show ?thesis
      using assms(1) loc [of "utc_now env" "kind = ''ROS_COMPAT''"
          "kind \<noteq> ''ROS_COMPAT'' \<or> ip_map_verified (integration_of (rb_id r) db)"]
      by (simp add: run_handler_def Let_def)
  next
    case False
    then show ?thesis using assms(1) by (simp add: run_handler_def Let_def split: if_splits)
  qed
qed

lemma ingest_redis:
  assumes "ingest cfg env redis kind ty msg source db = (res, redis')" "\<And>x. k \<noteq> downsample_key x"
  shows "redis' k = redis k"
  using assms run_handler_redis [OF _ assms(2)] unfolding ingest_def
  by (auto simp: Let_def split: option.splits prod.splits bool.splits)

section \<open>One delivery keeps the marks\<close>

lemma marks_store:
  assumes "\<not> already_seen (utc_now env) (pf_redis p) ty msg"
  shows "marks_kept (utc_now env) (pf_redis p) (pf_redis (snd (store_message cfg env kind ty msg source p)))"
proof -
  let ?now = "utc_now env"
  obtain res r1 where i: "ingest cfg env (pf_redis p) kind ty msg source (begin_tx (pf_db p)) = (res, r1)"
    by (cases "ingest cfg env (pf_redis p) kind ty msg source (begin_tx (pf_db p))")
  have r1: "r1 (dedup_key m) = pf_redis p (dedup_key m)" for m by (rule ingest_redis [OF i]) simp
  show ?thesis
  proof (cases res)
    case (Inl e)
    then show ?thesis by (intro marks_kept_other) (simp add: store_message_def i r1 redis_delete_def)
  next
    case (Inr x)
    obtain acc db where x: "x = (acc, db)" by (cases x)
    have ok: "ops_ok db" using tame_ingest [OF i [unfolded Inr x]] by (simp add: tame_def)
    let ?r2 = "pf_redis (commit ?now db (p\<lparr>pf_redis := r1\<rparr>))"
    have r2: "?r2 (dedup_key m) = pf_redis p (dedup_key m)" for m using marks_commit [OF ok] r1 by simp
    have "marks_kept ?now (pf_redis p) ?r2" using r2 by (rule marks_kept_other)
    moreover have "\<not> already_seen ?now ?r2 ty msg"
      using assms already_seen_cong [of ?r2 "pf_redis p", OF r2] by simp
    then have "marks_kept ?now ?r2 (remember env ty msg ?r2)" by (rule marks_remember) simp
    moreover have "marks_kept ?now (remember env ty msg ?r2) (pf_redis (snd (store_message cfg env kind ty msg source p)))"
      by (intro marks_kept_other) (simp add: store_message_def i Inr x Let_def redis_delete_def redis_setex_def)
    ultimately show ?thesis using marks_kept_trans by blast
  qed
qed

lemma marks_order:
  assumes "\<not> already_seen (utc_now env) (pf_redis p) ty msg"
  shows "marks_kept (utc_now env) (pf_redis p) (pf_redis (snd (order_message cfg env kind ty msg p)))"
proof (cases "need msg [''boot_id'', ''seq'']")
  case (Inr u)
  show ?thesis
  proof (cases "stale_seq (utc_now env) (pf_redis p) ty msg")
    case True
    have "marks_kept (utc_now env) (remember env ty msg (pf_redis p))
        (redis_delete (pending_key (jstr (jget msg ''message_id''))) (remember env ty msg (pf_redis p)))"
      by (rule marks_kept_other) (simp add: redis_delete_def)
    then show ?thesis
      using marks_kept_trans [OF marks_remember [OF assms refl]] Inr True by (simp add: order_message_def)
  next
    case False
    then show ?thesis
      using Inr marks_store [OF assms]
      by (cases "bind (need msg [''timestamp'']) (\<lambda>_. parse_time cfg env (jget msg ''timestamp''))")
        (simp_all add: order_message_def)
  qed
qed (simp add: order_message_def)

lemma marks_claim: "marks_kept (utc_now env) (pf_redis p) (pf_redis (snd (claim_message cfg env kind ty msg p)))"
proof (cases "need msg [''message_id'']")
  case (Inr u)
  let ?m = "pending_key (jstr (jget msg ''message_id''))"
  let ?r1 = "redis_setex (utc_now env) ?m 30 (JStr ''1'') (pf_redis p)"
  show ?thesis
  proof (cases "already_seen (utc_now env) (pf_redis p) ty msg \<or> redis_exists (utc_now env) (pf_redis p) ?m")
    case True
    then show ?thesis using Inr by (auto simp: claim_message_def redis_set_nx_def)
  next
    case False
    have same: "?r1 (dedup_key m) = pf_redis p (dedup_key m)" for m by (simp add: redis_setex_def)
    then have "\<not> already_seen (utc_now env) ?r1 ty msg"
      using False already_seen_cong [of ?r1 "pf_redis p", OF same] by simp
    then have "marks_kept (utc_now env) ?r1 (pf_redis (snd (order_message cfg env kind ty msg (p\<lparr>pf_redis := ?r1\<rparr>))))"
      using marks_order [of env "p\<lparr>pf_redis := ?r1\<rparr>"] by simp
    then show ?thesis
      using marks_kept_trans [OF marks_kept_other [of ?r1 "pf_redis p", OF same]] Inr False
      by (simp add: claim_message_def redis_set_nx_def)
  qed
qed (simp add: claim_message_def)

lemma marks_route: "marks_kept (utc_now env) (pf_redis p) (pf_redis (snd (route_message cfg env topic msg p)))"
proof -
  obtain ok r1 where r: "rate_allowed cfg env (jstr (jget msg ''vehicle_id'')) (last_segment topic) (pf_redis p) = (ok, r1)"
    by (cases "rate_allowed cfg env (jstr (jget msg ''vehicle_id'')) (last_segment topic) (pf_redis p)")
  have "r1 (dedup_key m) = pf_redis p (dedup_key m)" for m
    using rate_allowed_other [of "dedup_key m" "jstr (jget msg ''vehicle_id'')" "last_segment topic" env cfg "pf_redis p"] r by simp
  then have "marks_kept (utc_now env) (pf_redis p) r1" by (rule marks_kept_other)
  moreover have "marks_kept (utc_now env) r1 (pf_redis (snd (claim_message cfg env (source_kind topic) (last_segment topic) msg (p\<lparr>pf_redis := r1\<rparr>))))"
    using marks_claim [of env "p\<lparr>pf_redis := r1\<rparr>"] by simp
  ultimately show ?thesis
    using marks_kept_trans [of "utc_now env" "pf_redis p" r1] r
    by (cases "need msg [''type'']") (auto simp: route_message_def Let_def)
qed

lemma marks_refresh: "marks_kept (utc_now env) (pf_redis p) (pf_redis (snd (compat_refresh cfg env ty vid msg source p)))"
proof (cases rule: compat_refresh_cases [of cfg env ty vid msg source p])
  case (contract r db)
  have "ops_ok db" using quiet_compat_transaction [OF contract(2)] by (simp add: quiet_def)
  then show ?thesis using contract(3) by (intro marks_kept_other) (simp add: marks_commit)
qed simp

lemma marks_odom: "marks_kept now (pf_redis p) (pf_redis (fst (odom_fast_path cfg env vid msg source p)))"
  by (rule marks_kept_other)
    (auto simp: odom_fast_path_def Let_def redis_set_nx_px_def redis_set_nx_def redis_setex_def redis_set_def
      dedup_key_def latest_key_def split: prod.split if_splits)

lemma marks_process: "marks_kept (utc_now env) (pf_redis p) (pf_redis (snd (process cfg env d p)))"
proof (cases rule: process_entry [where cfg = cfg and env = env and d = d and p = p])
  case compat
  have eq: "process cfg env d p = process_internal_compat cfg env (last_segment (dl_topic d)) (dl_body d) p"
    using compat by (simp add: process_def)
  consider (err) e where "compat_header cfg env (dl_body d) = Inl e" | (bad) "compat_header cfg env (dl_body d) = Inr None"
    | (ok) msg vid source where "compat_header cfg env (dl_body d) = Inr (Some (msg, vid, source))"
    by (cases "compat_header cfg env (dl_body d)") (auto, metis option.exhaust prod_cases3)
  then show ?thesis
  proof cases
    case (ok msg vid source)
    let ?o = "odom_fast_path cfg env vid msg source p"
    have "marks_kept (utc_now env) (pf_redis p)
        (pf_redis (snd (compat_refresh cfg env (last_segment (dl_topic d)) vid msg source (fst ?o))))"
      using marks_kept_trans [OF marks_odom marks_refresh] .
    then show ?thesis
      using ok marks_odom [of "utc_now env" p cfg env vid msg source] marks_refresh [of env p]
      by (cases ?o) (auto simp: eq process_internal_compat_def)
  qed (simp_all add: eq process_internal_compat_def)
qed (auto simp: process_def marks_route)

lemma marks_run:
  assumes "\<forall>x \<in> set xs. utc_now (fst x) < t" and "pf_redis p (dedup_key m) = Some (v, Some t)"
  shows "pf_redis (ingress_run cfg xs p) (dedup_key m) = Some (v, Some t)"
  using assms
proof (induction xs arbitrary: p)
  case (Cons x xs)
  have "pf_redis (ingress_step cfg x p) (dedup_key m) = Some (v, Some t)"
    using marks_process [of "fst x" p cfg "snd x"] Cons.prems by (simp add: marks_kept_def ingress_step_def)
  then show ?case using Cons by (simp add: ingress_run_def)
qed (simp add: ingress_run_def)

lemma stored_mark:
  assumes "fst (store_message cfg env kind ty msg source p) = Committed acc" "ty \<noteq> ''availability''"
  shows "pf_redis (snd (store_message cfg env kind ty msg source p)) (dedup_key (jstr (jget msg ''message_id'')))
    = Some (JStr ''1'', Some (utc_now env + dedup_ttl ty * 1000000))"
  using assms by (auto simp: store_message_def Let_def remember_def redis_setex_def redis_delete_def
      split: sum.splits prod.splits)

section \<open>At most once\<close>


definition demo_status :: delivery where
  "demo_status = demo_message ''status'' ''m1'' ''b'' 1 [(''mode'', JStr ''MANUAL'')]"

lemma demo_status_committed: "fst (process demo_ingress (plain_env 1000000) demo_status demo_platform) = Committed True"
  by code_simp

definition demo_between :: "(pyenv \<times> delivery) list" where
  "demo_between = [(plain_env 2000000, demo_message ''status'' ''m2'' ''b'' 2 [(''mode'', JStr ''IDLE'')])]"


section \<open>A failed message stays retryable\<close>

lemma claim_fresh:
  assumes "\<not> already_seen (utc_now env) (pf_redis p) ty msg"
    and "\<not> redis_exists (utc_now env) (pf_redis p) (pending_key (jstr (jget msg ''message_id'')))"
    and "\<not> stale_seq (utc_now env) (pf_redis p) ty msg"
  shows "fst (claim_message cfg env kind ty msg p) \<notin> {Duplicate, Out_Of_Order}"
proof -
  let ?r1 = "redis_setex (utc_now env) (pending_key (jstr (jget msg ''message_id''))) 30 (JStr ''1'') (pf_redis p)"
  have seq: "\<not> stale_seq (utc_now env) ?r1 ty msg"
    using assms(3) by (simp add: stale_seq_def redis_get_def redis_setex_def)
  have "fst (store_message cfg env kind ty msg source q) \<notin> {Duplicate, Out_Of_Order}" for source q
    by (auto simp: store_message_def Let_def split: sum.split prod.split)
  then show ?thesis
    using assms(1,2) seq
    by (auto simp: claim_message_def order_message_def redis_set_nx_def split: sum.split)
qed


text \<open>The witness: a task status with a word outside the table makes the handler raise.\<close>

definition demo_bad_status :: delivery where
  "demo_bad_status = demo_message ''task_status'' ''m1'' ''b'' 1
     [(''task_id'', JStr ''t''), (''status'', JStr ''paused''), (''phase'', JStr ''P''), (''progress'', JInt 1)]"

lemma demo_bad_status_fails:
  "fst (process demo_ingress (plain_env 1000000) demo_bad_status (demo_live [] [demo_task])) = Retryable KeyError"
  by code_simp


end
