(* ===== verification/Ingress_Gaps.thy ===== *)
theory Ingress_Gaps
  imports Ingress_Dedup
begin

text \<open>
  Two behaviours of the message handlers that other parts of the system do not expect: a task
  status report is applied whatever state the task and its fire event are in, and a sensor message
  passes for a new observation of the vehicle's motion.
\<close>

section \<open>Task status reports have no state guard\<close>

lemma first_row_upd_in:
  "first_row P rows = Some r \<Longrightarrow> f r \<in> set (upd_rows P f rows)"
  by (auto simp: upd_rows_def image_iff dest!: first_row_Some)

lemma consume_resume_keeps:
  assumes "t \<in> set (d_tasks db)" "tk_status t \<noteq> ''CANCELLED''" "st \<noteq> ''SUCCEEDED''"
  shows "consume_resume st t' db = db"
  using assms by (simp add: consume_resume_def)

lemma fires_frame [simp]:
  "d_fires (put_task t db) = d_fires db" "d_fires (put_command c db) = d_fires db"
  "d_fires (queue_event ty pl db) = d_fires db" "d_tasks (put_fire f db) = d_tasks db"
  by (simp_all add: put_task_def put_command_def queue_event_def put_fire_def)

lemma advance_command_frame [simp]:
  "d_fires (advance_command t received db) = d_fires db" "d_tasks (advance_command t received db) = d_tasks db"
  by (simp_all add: advance_command_def split: option.split)

text \<open>
  Late reports reopen finished work: a report \<open>executing\<close> for a task of the robot is
  applied whatever the task's status is, so a task that is already CANCELLED, FAILED or SUCCEEDED
  is EXECUTING again, and its fire event, even when RESOLVED or DISMISSED, is IN_PROGRESS.
\<close>

lemma late_status_reopens_task:
  assumes task: "first_row (\<lambda>t. JStr (tk_id t) = jget msg ''task_id'') (d_tasks db) = Some t"
    and robot: "tk_robot_id t = rb_id r" and msg: "jhas msg ''task_id''" "jhas msg ''phase''" "jhas msg ''progress''"
      "jget msg ''status'' = JStr ''executing''"
    and fire: "tk_fire_id t = Some fid" "first_row (\<lambda>f. fe_id f = fid) (d_fires db) = Some f"
  shows "\<exists>db'. handle_task_status env r msg received db = Inr db'
     \<and> (\<exists>t' \<in> set (d_tasks db'). tk_id t' = tk_id t \<and> tk_status t' = ''EXECUTING'')
     \<and> (\<exists>f' \<in> set (d_fires db'). fe_id f' = fid \<and> fe_state f' = ''IN_PROGRESS'')"
proof -
  have st: "map_of TASK_STATUS_MAP (jstr (jget msg ''status'')) = Some ''EXECUTING''"
    using msg(4) by (simp add: TASK_STATUS_MAP_def)
  have "jhas msg ''status''" using msg(4) by (auto simp: jhas_def jget_def split: option.splits)
  define t1 where "t1 = t\<lparr>tk_status := ''EXECUTING'', tk_phase := jstr (jget msg ''phase''), tk_progress := jget msg ''progress''\<rparr>"
  define t3 where "t3 = mark_resumable ''EXECUTING'' ((stamp_task ''EXECUTING'' msg received t1)
     \<lparr>tk_parameters := live_parameters msg (tk_parameters (stamp_task ''EXECUTING'' msg received t1))\<rparr>)"
  have t3: "tk_id t3 = tk_id t" "tk_status t3 = ''EXECUTING''" "tk_fire_id t3 = Some fid"
    by (simp_all add: t3_def t1_def fire)
  have h: "handle_task_status env r msg received db = Inr (store_status ''EXECUTING'' msg received t3 db)"
    unfolding handle_task_status_def
    using task robot msg \<open>jhas msg ''status''\<close> st
    by (simp add: need_def reported_status_def awaits_verification_def t1_def t3_def Let_def)
  let ?db' = "store_status ''EXECUTING'' msg received t3 db"
  have cr: "consume_resume ''EXECUTING'' t3 x = x" for x by (simp add: consume_resume_def)
  have "t3 \<in> set (d_tasks (put_task t3 db))"
    using first_row_Some [OF task] t3(1) by (auto simp: put_task_def upd_rows_def image_iff)
  moreover have "d_tasks ?db' = d_tasks (put_task t3 db)"
    by (simp add: store_status_def Let_def cr advance_fire_def split: option.split)
  ultimately have "t3 \<in> set (d_tasks ?db')" by simp
  moreover have "fire_after ''EXECUTING'' received f \<in> set (d_fires ?db')"
  proof -
    have "fe_id f = fid" using first_row_Some [OF fire(2)] by simp
    have id: "fe_id (fire_after ''EXECUTING'' received f) = fid" using \<open>fe_id f = fid\<close> by (simp add: fire_after_def)
    have "f \<in> set (d_fires db)" using first_row_Some [OF fire(2)] by simp
    then show ?thesis
      by (auto simp: store_status_def Let_def cr advance_fire_def t3 fire(2) put_fire_def upd_rows_def id
          \<open>fe_id f = fid\<close> image_iff)
  qed
  moreover have "fe_id (fire_after ''EXECUTING'' received f) = fid" "fe_state (fire_after ''EXECUTING'' received f) = ''IN_PROGRESS''"
    using first_row_Some [OF fire(2)] by (simp_all add: fire_after_def)
  ultimately show ?thesis using h t3 by blast
qed

definition demo_fire :: "string \<Rightarrow> fire_event" where
  "demo_fire state = \<lparr>fe_id = ''f'', fe_code = ''FE'', fe_robot_id = Some ''r'', fe_slot_id = ''s'', fe_method = ''AUTO'',
     fe_type = ''smoke'', fe_confidence = JNull, fe_severity = ''HIGH'', fe_fingerprint = '''', fe_source_message_id = JNull,
     fe_source_event_id = JNull, fe_state = state, fe_first_seen = 0, fe_last_seen = 0, fe_count = 1, fe_ack_by = None,
     fe_ack_at = None, fe_confirmed_at = None, fe_assigned_task = None, fe_resolved_at = None, fe_closed_at = None,
     fe_position = JNull, fe_media = JNull, fe_note = None\<rparr>"

text \<open>A task that is CANCELLED, for a fire event that is RESOLVED.\<close>

lemma late_status_reopens_task_witness:
  "\<exists>db'. handle_task_status (plain_env 9) demo_robot
       [(''task_id'', JStr ''t''), (''status'', JStr ''executing''), (''phase'', JStr ''P''), (''progress'', JInt 5)] 9
       (begin_tx (empty_db\<lparr>d_tasks := [demo_task\<lparr>tk_status := ''CANCELLED'', tk_fire_id := Some ''f''\<rparr>],
                           d_fires := [demo_fire ''RESOLVED'']\<rparr>)) = Inr db'
     \<and> (\<exists>t' \<in> set (d_tasks db'). tk_id t' = ''t'' \<and> tk_status t' = ''EXECUTING'')
     \<and> (\<exists>f' \<in> set (d_fires db'). fe_id f' = ''f'' \<and> fe_state f' = ''IN_PROGRESS'')"
  using late_status_reopens_task [of
      "[(''task_id'', JStr ''t''), (''status'', JStr ''executing''), (''phase'', JStr ''P''), (''progress'', JInt 5)]"
      "begin_tx (empty_db\<lparr>d_tasks := [demo_task\<lparr>tk_status := ''CANCELLED'', tk_fire_id := Some ''f''\<rparr>],
                           d_fires := [demo_fire ''RESOLVED'']\<rparr>)"
      "demo_task\<lparr>tk_status := ''CANCELLED'', tk_fire_id := Some ''f''\<rparr>" demo_robot "''f''" "demo_fire ''RESOLVED''" "plain_env 9" 9]
  by (simp add: demo_task_def demo_robot_def demo_fire_def)

section \<open>A sensor message counts as motion evidence\<close>

lemma jget_or_eq: "jhas a k = jhas b k \<Longrightarrow> jget a k = jget b k \<Longrightarrow> jget_or a k x = jget_or b k x"
  by (auto simp: jget_or_def jhas_def jget_def split: option.splits)

lemma sensor_keys: "k \<notin> {''server_received_at'', ''smoke'', ''bottom_ir'', ''top_ir'', ''top_ir_max''}
    \<Longrightarrow> k \<notin> fst ` set (sensor_updates env msg received)"
  by (auto simp: sensor_updates_def split: if_splits)

text \<open>
  A sensor message renews the motion observation: the snapshot it writes has the
  receive time of the sensor message as its observation token, while the speed, the turn rate and
  the source time are those of the last motion message. For the frame counter of a stop operation
  every sensor message therefore counts like a new, independent observation of the same speed.
\<close>

lemma sensor_renews_motion_token:
  assumes "handle_sensor env redis r msg source received kind db = Inr db'" and "iso_roundtrip env"
  shows "\<exists>latest'. Redis_Set (latest_key (rb_vehicle_id r)) (JObj latest') None \<in> set (tx_ops db')
     \<and> observation_token env latest' = Some received
     \<and> planar_speed env latest' = planar_speed env (latest_snapshot (utc_now env) redis r)
     \<and> jget_or latest' ''angular_z'' (jget latest' ''angular'')
         = jget_or (latest_snapshot (utc_now env) redis r) ''angular_z'' (jget (latest_snapshot (utc_now env) redis r) ''angular'')
     \<and> jget latest' ''source_timestamp'' = jget (latest_snapshot (utc_now env) redis r) ''source_timestamp''"
proof -
  let ?l0 = "latest_snapshot (utc_now env) redis r"
  define l where "l = jupdate ?l0 (sensor_updates env msg received)"
  have op: "Redis_Set (latest_key (rb_vehicle_id r)) (JObj l) None \<in> set (tx_ops db')"
    using assms(1) unfolding handle_sensor_def l_def Let_def by (auto simp: bind_Inr)
  have same: "jget l k = jget ?l0 k" "jhas l k = jhas ?l0 k"
    if "k \<notin> {''server_received_at'', ''smoke'', ''bottom_ir'', ''top_ir'', ''top_ir_max''}" for k
    using sensor_keys [OF that] by (simp_all add: l_def jget_jupdate_frame jhas_jupdate_frame)
  have "jget l ''server_received_at'' = JStr (iso_format env received)"
    unfolding l_def sensor_updates_def by (simp add: jget_jupdate_frame)
  then have tok: "observation_token env l = Some received"
    using iso_roundtripD [OF assms(2), of received] by (simp add: observation_token_def token_of_def)
  have "planar_speed env l = planar_speed env ?l0"
    by (simp add: planar_speed_def same)
  moreover have "jget_or l ''angular_z'' (jget l ''angular'') = jget_or ?l0 ''angular_z'' (jget ?l0 ''angular'')"
    using jget_or_eq [of l "''angular_z''" ?l0] same by simp
  moreover have "jget l ''source_timestamp'' = jget ?l0 ''source_timestamp''" by (rule same(1)) simp
  ultimately show ?thesis by (intro exI [of _ l] conjI op tok)
qed

lemma demo_vehicle: "rb_vehicle_id demo_robot = ''v''"
  by (simp add: demo_robot_def)

lemma sensor_renews_motion_token_witness:
  "\<exists>db' latest'. handle_sensor (plain_env 5000000) (\<lambda>_. None) demo_robot
       [(''boot_id'', JStr ''b''), (''seq'', JInt 1), (''smoke'', JInt 0)] 0 5000000 ''CANONICAL_MQTT'' (begin_tx demo_db) = Inr db'
     \<and> Redis_Set (latest_key ''v'') (JObj latest') None \<in> set (tx_ops db')
     \<and> observation_token (plain_env 5000000) latest' = Some 5000000"
proof -
  let ?msg = "[(''boot_id'', JStr ''b''), (''seq'', JInt 1), (''smoke'', JInt 0)]"
  obtain db' where h: "handle_sensor (plain_env 5000000) (\<lambda>_. None) demo_robot ?msg 0 5000000 ''CANONICAL_MQTT'' (begin_tx demo_db) = Inr db'"
    by (simp add: handle_sensor_def need_def Let_def)
  show ?thesis
    using sensor_renews_motion_token [OF h plain_env_roundtrip] h demo_vehicle by metis
qed

end
