(* ===== verification/Dijkstra.thy ===== *)
theory Dijkstra
  imports Complex_Main
begin

text \<open>
  The shortest-path search of the return planner (\<open>_dijkstra\<close> in
  \<open>app/modules/navigation/route_builder.py\<close>), with lazy deletion from the heap and early exit at
  the goal, and the reconstruction of the path from \<open>prev\<close>. Both loops are partial functions:
  \<open>None\<close> is a loop that does not end, and the theorems prove that they end.

  \<open>heapq\<close> is modelled by its contract: the queue is the list of its entries and \<open>heappop\<close> removes
  the smallest tuple. A node number is a \<open>nat\<close>, a weight a real; \<open>adjacency.get(u, [])\<close> is
  \<open>adj u\<close>.
\<close>

type_synonym adjacency = "nat \<Rightarrow> (nat \<times> real) list"

record search =
  sr_dist :: "nat \<Rightarrow> real option"
  sr_prev :: "nat \<Rightarrow> nat option"
  sr_queue :: "(real \<times> nat) list"

definition before :: "real \<times> nat \<Rightarrow> real \<times> nat \<Rightarrow> bool" where
  "before a b \<longleftrightarrow> fst a < fst b \<or> (fst a = fst b \<and> snd a \<le> snd b)"

fun smallest :: "real \<times> nat \<Rightarrow> (real \<times> nat) list \<Rightarrow> real \<times> nat" where
  "smallest a [] = a"
| "smallest a (b # q) = smallest (if before a b then a else b) q"

fun heappop :: "(real \<times> nat) list \<Rightarrow> ((real \<times> nat) \<times> (real \<times> nat) list) option" where
  "heappop [] = None"
| "heappop (a # q) = Some (smallest a q, remove1 (smallest a q) (a # q))"

definition heappush :: "real \<times> nat \<Rightarrow> (real \<times> nat) list \<Rightarrow> (real \<times> nat) list" where
  "heappush e q = q @ [e]"

definition closer :: "real \<Rightarrow> real option \<Rightarrow> bool" where
  "closer d known = (case known of None \<Rightarrow> True | Some d' \<Rightarrow> d < d')"

definition relax :: "nat \<Rightarrow> real \<Rightarrow> nat \<times> real \<Rightarrow> search \<Rightarrow> search" where
  "relax u d e s =
     (let v = fst e; nd = d + snd e in
      if closer nd (sr_dist s v)
      then s\<lparr>sr_dist := (sr_dist s)(v \<mapsto> nd), sr_prev := (sr_prev s)(v \<mapsto> u),
             sr_queue := heappush (nd, v) (sr_queue s)\<rparr>
      else s)"

partial_function (option) search_loop :: "adjacency \<Rightarrow> nat \<Rightarrow> search \<Rightarrow> search option" where
  "search_loop adj goal s =
     (case heappop (sr_queue s) of
        None \<Rightarrow> Some s
      | Some ((d, u), q) \<Rightarrow>
          (if (case sr_dist s u of None \<Rightarrow> False | Some d' \<Rightarrow> d' < d)
           then search_loop adj goal (s\<lparr>sr_queue := q\<rparr>)
           else if u = goal then Some (s\<lparr>sr_queue := q\<rparr>)
           else search_loop adj goal (fold (relax u d) (adj u) (s\<lparr>sr_queue := q\<rparr>))))"

text \<open>
  \<open>path.append(prev[path[-1]])\<close> until the start is reached, then \<open>reverse\<close>; the accumulator holds
  the path with its last element first. The inner \<open>None\<close> is the \<open>KeyError\<close> of a missing \<open>prev\<close>.
\<close>

partial_function (option) trace_back :: "(nat \<Rightarrow> nat option) \<Rightarrow> nat \<Rightarrow> nat list \<Rightarrow> nat list option option" where
  "trace_back prev start path =
     (if hd path = start then Some (Some path)
      else case prev (hd path) of
        None \<Rightarrow> Some None
      | Some p \<Rightarrow> trace_back prev start (p # path))"

definition initial_search :: "nat \<Rightarrow> search" where
  "initial_search start = \<lparr>sr_dist = [start \<mapsto> 0], sr_prev = Map.empty, sr_queue = [(0, start)]\<rparr>"

datatype path_result = Unreachable | Missing_Prev | Path "nat list"

definition dijkstra :: "adjacency \<Rightarrow> nat \<Rightarrow> nat \<Rightarrow> path_result option" where
  "dijkstra adj start goal =
     Option.bind (search_loop adj goal (initial_search start)) (\<lambda>s.
       if sr_dist s goal = None then Some Unreachable
       else Option.bind (trace_back (sr_prev s) start [goal]) (\<lambda>r.
         case r of None \<Rightarrow> Some Missing_Prev | Some path \<Rightarrow> Some (Path path)))"

section \<open>The queue\<close>

lemma before_refl [simp]: "before a a"
  by (simp add: before_def)

lemma before_trans: "before a b \<Longrightarrow> before b c \<Longrightarrow> before a c"
  by (auto simp: before_def)

lemma before_total: "before a b \<or> before b a"
  by (auto simp: before_def)

lemma smallest_in: "smallest a q \<in> set (a # q)"
proof (induction q arbitrary: a)
  case (Cons b q)
  show ?case using Cons.IH [of "if before a b then a else b"] by (auto split: if_splits)
qed simp

lemma smallest_before: "x \<in> set (a # q) \<Longrightarrow> before (smallest a q) x"
proof (induction q arbitrary: a x)
  case (Cons b q)
  let ?c = "if before a b then a else b"
  have c: "before ?c a" "before ?c b" using before_total [of a b] by auto
  have s: "before (smallest ?c q) ?c" by (rule Cons.IH) simp
  consider "x = a" | "x = b" | "x \<in> set q" using Cons.prems by auto
  then have "before (smallest ?c q) x"
  proof cases
    case 1
    then show ?thesis using before_trans [OF s c(1)] by simp
  next
    case 2
    then show ?thesis using before_trans [OF s c(2)] by simp
  next
    case 3
    then show ?thesis by (intro Cons.IH) simp
  qed
  then show ?case by simp
qed simp

lemma heappop_None [simp]: "heappop q = None \<longleftrightarrow> q = []"
  by (cases q) simp_all

lemma heappop_Some:
  assumes "heappop q = Some (e, q')"
  shows "e \<in> set q" "\<And>x. x \<in> set q \<Longrightarrow> before e x" "q' = remove1 e q" "length q' < length q"
proof -
  obtain a r where q: "q = a # r" using assms by (cases q) auto
  then have e: "e = smallest a r" and q': "q' = remove1 e q" using assms by auto
  show "e \<in> set q" using smallest_in [of a r] by (simp add: e q)
  then show "length q' < length q"
    unfolding q' by (metis diff_less length_pos_if_in_set length_remove1 zero_less_one)
  show "before e x" if "x \<in> set q" for x using smallest_before [of x a r] that by (simp add: e q)
  show "q' = remove1 e q" by (rule q')
qed

section \<open>Walks\<close>

inductive walk :: "adjacency \<Rightarrow> nat \<Rightarrow> nat list \<Rightarrow> nat \<Rightarrow> real \<Rightarrow> bool" for adj start where
  walk_start: "walk adj start [start] start 0"
| walk_step: "walk adj start ns u d \<Longrightarrow> (v, w) \<in> set (adj u) \<Longrightarrow> walk adj start (ns @ [v]) v (d + w)"

inductive_cases walk_elim: "walk adj start ns u d"

lemma walk_ends: "walk adj start ns u d \<Longrightarrow> ns \<noteq> [] \<and> hd ns = start \<and> last ns = u"
  by (induction rule: walk.induct) auto

text \<open>The graphs the planner builds: finitely many nodes, no negative weight.\<close>

definition graph :: "adjacency \<Rightarrow> nat \<Rightarrow> bool" where
  "graph adj n \<longleftrightarrow> (\<forall>u v w. (v, w) \<in> set (adj u) \<longrightarrow> v < n \<and> 0 \<le> w)"

section \<open>The invariant\<close>

text \<open>A node is settled when its distance is known and no entry of the queue stands for it.\<close>

definition settled :: "search \<Rightarrow> nat \<Rightarrow> bool" where
  "settled s u \<longleftrightarrow> (\<exists>d. sr_dist s u = Some d \<and> (d, u) \<notin> set (sr_queue s))"

text \<open>\<open>traced prev start ns u\<close>: following \<open>prev\<close> from \<open>u\<close> gives \<open>ns\<close> backwards.\<close>

inductive traced :: "(nat \<Rightarrow> nat option) \<Rightarrow> nat \<Rightarrow> nat list \<Rightarrow> nat \<Rightarrow> bool" for prev start where
  traced_start: "traced prev start [start] start"
| traced_step: "traced prev start ns p \<Longrightarrow> prev u = Some p \<Longrightarrow> u \<noteq> start \<Longrightarrow> traced prev start (ns @ [u]) u"

lemma traced_update:
  assumes "traced prev start ns u" "v \<notin> set ns"
  shows "traced (prev(v \<mapsto> p)) start ns u"
  using assms by (induction rule: traced.induct) (auto intro: traced.intros)

lemma traced_nonempty: "traced prev start ns u \<Longrightarrow> ns \<noteq> [] \<and> last ns = u"
  by (induction rule: traced.induct) auto

text \<open>
  \<open>cur\<close> is the node whose edges are being relaxed, \<open>todo\<close> those of its edges not looked at yet.
\<close>

definition known_ok :: "nat \<Rightarrow> nat \<Rightarrow> search \<Rightarrow> bool" where
  "known_ok n start s \<longleftrightarrow> sr_dist s start = Some 0 \<and> distinct (sr_queue s)
     \<and> (\<forall>u d. sr_dist s u = Some d \<longrightarrow> (u < n \<or> u = start) \<and> 0 \<le> d)
     \<and> (\<forall>d u. (d, u) \<in> set (sr_queue s) \<longrightarrow> (\<exists>d'. sr_dist s u = Some d' \<and> d' \<le> d))"

definition relaxed_ok :: "adjacency \<Rightarrow> nat option \<Rightarrow> (nat \<times> real) list \<Rightarrow> search \<Rightarrow> bool" where
  "relaxed_ok adj cur todo s \<longleftrightarrow>
     (\<forall>u d v w. settled s u \<longrightarrow> sr_dist s u = Some d \<longrightarrow> (v, w) \<in> set (adj u) \<longrightarrow>
        (cur = Some u \<and> (v, w) \<in> set todo) \<or> (\<exists>dv. sr_dist s v = Some dv \<and> dv \<le> d + w))"

definition frontier_ok :: "nat option \<Rightarrow> search \<Rightarrow> bool" where
  "frontier_ok cur s \<longleftrightarrow>
     (\<forall>u d e. settled s u \<longrightarrow> sr_dist s u = Some d \<longrightarrow> e \<in> set (sr_queue s) \<longrightarrow> d \<le> fst e)
     \<and> (\<forall>c dc u d. cur = Some c \<longrightarrow> sr_dist s c = Some dc \<longrightarrow> settled s u \<longrightarrow> sr_dist s u = Some d \<longrightarrow> d \<le> dc)
     \<and> (\<forall>c. cur = Some c \<longrightarrow> settled s c)"

definition paths_ok :: "adjacency \<Rightarrow> nat \<Rightarrow> search \<Rightarrow> bool" where
  "paths_ok adj start s \<longleftrightarrow>
     (\<forall>u d. sr_dist s u = Some d \<longrightarrow>
        (\<exists>ns. walk adj start ns u d \<and> traced (sr_prev s) start ns u \<and> (\<forall>x \<in> set (butlast ns). settled s x)))"

definition search_inv :: "adjacency \<Rightarrow> nat \<Rightarrow> nat \<Rightarrow> nat option \<Rightarrow> (nat \<times> real) list \<Rightarrow> search \<Rightarrow> bool" where
  "search_inv adj n start cur todo s \<longleftrightarrow>
     known_ok n start s \<and> relaxed_ok adj cur todo s \<and> frontier_ok cur s \<and> paths_ok adj start s"

lemma search_inv_initial: "search_inv adj n start None [] (initial_search start)"
proof -
  have "\<not> settled (initial_search start) u" for u by (auto simp: settled_def initial_search_def)
  moreover have "walk adj start [start] start 0 \<and> traced (sr_prev (initial_search start)) start [start] start"
    by (simp add: walk_start traced_start)
  ultimately show ?thesis
    by (auto simp: search_inv_def known_ok_def relaxed_ok_def frontier_ok_def paths_ok_def initial_search_def
        intro!: exI [of _ "[start]"] split: if_splits)
qed

section \<open>One relaxation\<close>

lemma relax_kept:
  assumes g: "graph adj n" and e: "(v, w) \<in> set (adj u)" and du: "sr_dist s u = Some d"
    and inv: "search_inv adj n start (Some u) ((v, w) # todo) s"
    and far: "\<not> closer (d + w) (sr_dist s v)"
  shows "search_inv adj n start (Some u) todo (relax u d (v, w) s)"
proof -
  obtain dv where dv: "sr_dist s v = Some dv" "dv \<le> d + w"
    using far by (auto simp: closer_def split: option.splits)
  have "relaxed_ok adj (Some u) todo s"
    unfolding relaxed_ok_def
  proof (intro allI impI)
    fix x dx y z assume a: "settled s x" "sr_dist s x = Some dx" "(y, z) \<in> set (adj x)"
    have "(Some u = Some x \<and> (y, z) \<in> set ((v, w) # todo)) \<or> (\<exists>dv. sr_dist s y = Some dv \<and> dv \<le> dx + z)"
      using inv a unfolding search_inv_def relaxed_ok_def by blast
    then show "(Some u = Some x \<and> (y, z) \<in> set todo) \<or> (\<exists>dv. sr_dist s y = Some dv \<and> dv \<le> dx + z)"
      using dv du a(2) by auto
  qed
  then show ?thesis using far inv by (simp add: relax_def search_inv_def)
qed

lemma settled_not_closer:
  assumes g: "graph adj n" and e: "(v, w) \<in> set (adj u)" and du: "sr_dist s u = Some d"
    and inv: "search_inv adj n start (Some u) ((v, w) # todo) s"
    and x: "settled s x" "sr_dist s x = Some dx"
  shows "dx \<le> d + w"
proof -
  have "dx \<le> d" using inv x du unfolding search_inv_def frontier_ok_def by blast
  moreover have "0 \<le> w" using g e by (auto simp: graph_def)
  ultimately show ?thesis by simp
qed

lemma relax_improved:
  assumes g: "graph adj n" and e: "(v, w) \<in> set (adj u)" and du: "sr_dist s u = Some d"
    and inv: "search_inv adj n start (Some u) ((v, w) # todo) s"
    and c: "closer (d + w) (sr_dist s v)"
  shows "search_inv adj n start (Some u) todo (relax u d (v, w) s)"
proof -
  note settled_not_closer = settled_not_closer [OF g e du inv]
  let ?nd = "d + w"
  let ?s = "relax u d (v, w) s"
  have s': "sr_dist ?s = (sr_dist s)(v \<mapsto> ?nd)" "sr_prev ?s = (sr_prev s)(v \<mapsto> u)"
    "sr_queue ?s = sr_queue s @ [(?nd, v)]"
    using c by (simp_all add: relax_def heappush_def Let_def)
  have known: "known_ok n start s" and rel: "relaxed_ok adj (Some u) ((v, w) # todo) s"
    and fr: "frontier_ok (Some u) s" and pa: "paths_ok adj start s"
    using inv by (simp_all add: search_inv_def)
  have d0: "0 \<le> d" using known du by (auto simp: known_ok_def)
  have w0: "0 \<le> w" "v < n" using g e by (auto simp: graph_def)
  have unsettled: "\<not> settled s v"
  proof
    assume v: "settled s v"
    then obtain dv where "sr_dist s v = Some dv" by (auto simp: settled_def)
    then show False using c settled_not_closer [OF v] by (simp add: closer_def)
  qed
  have v_start: "v \<noteq> start"
    using known c d0 w0 by (auto simp: known_ok_def closer_def)
  have v_u: "v \<noteq> u" using c du w0 by (auto simp: closer_def)
  have st: "settled ?s x \<longleftrightarrow> settled s x" for x
    using unsettled by (auto simp: settled_def s')
  have less: "?nd < dv" if "sr_dist s v = Some dv" for dv using c that by (simp add: closer_def)
  have new: "(?nd, v) \<notin> set (sr_queue s)"
    using known less unfolding known_ok_def by (meson leD)
  have "known_ok n start ?s"
    using known new v_start d0 w0 less by (fastforce simp: known_ok_def s')
  moreover have "relaxed_ok adj (Some u) todo ?s"
    unfolding relaxed_ok_def
  proof (intro allI impI)
    fix x dx y z assume a: "settled ?s x" "sr_dist ?s x = Some dx" "(y, z) \<in> set (adj x)"
    have x: "settled s x" "sr_dist s x = Some dx" using a st unsettled by (auto simp: s' split: if_splits)
    then have "(Some u = Some x \<and> (y, z) \<in> set ((v, w) # todo)) \<or> (\<exists>dv. sr_dist s y = Some dv \<and> dv \<le> dx + z)"
      using rel a(3) unfolding relaxed_ok_def by blast
    then consider (edge) "x = u" "y = v" "z = w" | (todo) "x = u" "(y, z) \<in> set todo"
      | (old) dv where "sr_dist s y = Some dv" "dv \<le> dx + z" by auto
    then show "(Some u = Some x \<and> (y, z) \<in> set todo) \<or> (\<exists>dv. sr_dist ?s y = Some dv \<and> dv \<le> dx + z)"
    proof cases
      case edge
      have "sr_dist ?s y = Some ?nd" by (simp add: s' edge)
      moreover have "dx = d" using du x(2) edge by simp
      ultimately show ?thesis by (intro disjI2 exI [of _ ?nd]) (simp add: edge)
    next
      case (old dv)
      then show ?thesis using less [of dv] by (cases "y = v") (auto simp: s')
    qed simp
  qed
  moreover have "frontier_ok (Some u) ?s"
    using fr du v_u unsettled settled_not_closer unfolding frontier_ok_def st by (auto simp: s' split: if_splits)
  moreover have "paths_ok adj start ?s"
    unfolding paths_ok_def
  proof (intro allI impI)
    fix x dx assume x: "sr_dist ?s x = Some dx"
    show "\<exists>ns. walk adj start ns x dx \<and> traced (sr_prev ?s) start ns x \<and> (\<forall>y \<in> set (butlast ns). settled ?s y)"
    proof (cases "x = v")
      case True
      obtain ns where ns: "walk adj start ns u d" "traced (sr_prev s) start ns u" "\<forall>y \<in> set (butlast ns). settled s y"
        using pa du unfolding paths_ok_def by blast
      have cur: "settled s u" using fr by (simp add: frontier_ok_def)
      have all: "settled s y" if "y \<in> set ns" for y
        using that ns(3) traced_nonempty [OF ns(2)] cur
        by (metis append_butlast_last_id in_set_conv_decomp rotate1.simps(2) set_rotate1 set_ConsD)
      have "v \<notin> set ns" using all unsettled by blast
      then have "traced (sr_prev ?s) start (ns @ [v]) v"
        using ns(2) v_start by (auto simp: s' intro: traced_step traced_update)
      moreover have "walk adj start (ns @ [v]) v dx"
        using ns(1) e x True by (auto simp: s' intro: walk_step)
      ultimately show ?thesis using True all st by (intro exI [of _ "ns @ [v]"]) simp
    next
      case False
      then obtain ns where ns: "walk adj start ns x dx" "traced (sr_prev s) start ns x" "\<forall>y \<in> set (butlast ns). settled s y"
        using pa x unfolding paths_ok_def s' by (metis fun_upd_apply)
      have "v \<notin> set ns"
        using ns(3) traced_nonempty [OF ns(2)] False unsettled
        by (metis append_butlast_last_id in_set_conv_decomp rotate1.simps(2) set_rotate1 set_ConsD)
      then show ?thesis using ns st by (auto simp: s' intro: traced_update)
    qed
  qed
  ultimately show ?thesis by (simp add: search_inv_def)
qed

section \<open>One iteration\<close>

lemma relax_all:
  assumes "graph adj n" "search_inv adj n start (Some u) es s" "sr_dist s u = Some d" "set es \<subseteq> set (adj u)"
  shows "search_inv adj n start (Some u) [] (fold (relax u d) es s)
     \<and> (\<forall>x. settled s x \<longrightarrow> settled (fold (relax u d) es s) x)"
  using assms(2-4)
proof (induction es arbitrary: s)
  case (Cons e es)
  obtain v w where e: "e = (v, w)" by (cases e)
  have ev: "(v, w) \<in> set (adj u)" using Cons.prems e by simp
  have inv: "search_inv adj n start (Some u) ((v, w) # es) s" using Cons.prems e by simp
  let ?s = "relax u d (v, w) s"
  have step: "search_inv adj n start (Some u) es ?s"
    using relax_kept [OF assms(1) ev Cons.prems(2) inv] relax_improved [OF assms(1) ev Cons.prems(2) inv] by blast
  have w: "0 \<le> w" using assms(1) ev by (auto simp: graph_def)
  have du: "sr_dist ?s u = Some d"
    using Cons.prems(2) w by (auto simp: relax_def Let_def closer_def)
  have mono: "settled s x \<longrightarrow> settled ?s x" for x
  proof (cases "closer (d + w) (sr_dist s v) \<and> x = v")
    case True
    show ?thesis
    proof
      assume x: "settled s x"
      then obtain dx where "sr_dist s x = Some dx" by (auto simp: settled_def)
      then show "settled ?s x"
        using settled_not_closer [OF assms(1) ev Cons.prems(2) inv x] True by (simp add: closer_def)
    qed
  next
    case False
    then show ?thesis by (auto simp: relax_def Let_def settled_def heappush_def)
  qed
  show ?case using Cons.IH [OF step du] Cons.prems(3) mono e by auto
qed simp

lemma pop_stale:
  assumes inv: "search_inv adj n start None [] s" and pop: "heappop (sr_queue s) = Some ((d, u), q)"
    and stale: "sr_dist s u = Some d'" "d' < d"
  shows "search_inv adj n start None [] (s\<lparr>sr_queue := q\<rparr>)"
    and "settled (s\<lparr>sr_queue := q\<rparr>) x = settled s x"
proof -
  note p = heappop_Some [OF pop]
  have dist: "distinct (sr_queue s)" using inv by (simp add: search_inv_def known_ok_def)
  have q: "set q = set (sr_queue s) - {(d, u)}" using p(3) dist by simp
  have st: "settled (s\<lparr>sr_queue := q\<rparr>) x = settled s x" for x
    using stale by (auto simp: settled_def q)
  show "settled (s\<lparr>sr_queue := q\<rparr>) x = settled s x" by (rule st)
  show "search_inv adj n start None [] (s\<lparr>sr_queue := q\<rparr>)"
    using inv dist p(3) unfolding search_inv_def known_ok_def relaxed_ok_def frontier_ok_def paths_ok_def st
    by (simp add: q) blast
qed

lemma pop_current:
  assumes inv: "search_inv adj n start None [] s" and pop: "heappop (sr_queue s) = Some ((d, u), q)"
    and fresh: "sr_dist s u = Some d"
  shows "search_inv adj n start (Some u) (adj u) (s\<lparr>sr_queue := q\<rparr>)"
    and "settled (s\<lparr>sr_queue := q\<rparr>) x \<longleftrightarrow> settled s x \<or> x = u" and "\<not> settled s u"
proof -
  note p = heappop_Some [OF pop]
  have known: "known_ok n start s" and rel: "relaxed_ok adj None [] s" and fr: "frontier_ok None s"
    and pa: "paths_ok adj start s"
    using inv by (simp_all add: search_inv_def)
  have dist: "distinct (sr_queue s)" using known by (simp add: known_ok_def)
  have q: "set q = set (sr_queue s) - {(d, u)}" using p(3) dist by simp
  let ?s = "s\<lparr>sr_queue := q\<rparr>"
  have st: "settled ?s x \<longleftrightarrow> settled s x \<or> x = u" for x
    using fresh by (auto simp: settled_def q)
  show "settled ?s x \<longleftrightarrow> settled s x \<or> x = u" by (rule st)
  show "\<not> settled s u" using p(1) fresh by (auto simp: settled_def)
  have min: "d \<le> fst e" if "e \<in> set (sr_queue s)" for e
    using p(2) [OF that] by (auto simp: before_def)
  have le: "dx \<le> d" if "settled s x" "sr_dist s x = Some dx" for x dx
    using fr that p(1) unfolding frontier_ok_def by fastforce
  have "known_ok n start ?s" using known p(3) by (simp add: known_ok_def q)
  moreover have "relaxed_ok adj (Some u) (adj u) ?s"
    using rel unfolding relaxed_ok_def st by auto
  moreover have "frontier_ok (Some u) ?s"
    using fr min le fresh unfolding frontier_ok_def st by (auto simp: q)
  moreover have "paths_ok adj start ?s" using pa unfolding paths_ok_def st by fastforce
  ultimately show "search_inv adj n start (Some u) (adj u) ?s" by (simp add: search_inv_def)
qed

lemma relaxed_done: "search_inv adj n start (Some u) [] s \<Longrightarrow> search_inv adj n start None [] s"
  by (simp add: search_inv_def relaxed_ok_def frontier_ok_def)

section \<open>Termination\<close>

definition open_nodes :: "nat \<Rightarrow> nat \<Rightarrow> search \<Rightarrow> nat set" where
  "open_nodes n start s = {u \<in> insert start {..<n}. \<not> settled s u}"

lemma search_loop_ends:
  assumes g: "graph adj n" and inv: "search_inv adj n start None [] s"
  shows "\<exists>s'. search_loop adj goal s = Some s' \<and> known_ok n start s' \<and> paths_ok adj start s'
     \<and> (sr_queue s' = [] \<and> search_inv adj n start None [] s'
        \<or> (\<exists>s1 d q. search_inv adj n start None [] s1 \<and> heappop (sr_queue s1) = Some ((d, goal), q)
             \<and> sr_dist s1 goal = Some d \<and> s' = s1\<lparr>sr_queue := q\<rparr>))"
  using inv
proof (induction s rule: wf_induct [OF wf_measures [of "[\<lambda>s. card (open_nodes n start s), \<lambda>s. length (sr_queue s)]"]])
  case (1 s)
  note IH = 1(1) [rule_format] and inv = 1(2)
  show ?case
  proof (cases "heappop (sr_queue s)")
    case None
    then show ?thesis using inv by (auto simp: search_loop.simps search_inv_def)
  next
    case (Some x)
    obtain d u q where pop: "heappop (sr_queue s) = Some ((d, u), q)" using Some by (cases x) auto
    note p = heappop_Some [OF pop]
    obtain d' where d': "sr_dist s u = Some d'" "d' \<le> d"
      using inv p(1) unfolding search_inv_def known_ok_def by blast
    show ?thesis
    proof (cases "d' < d")
      case True
      let ?s = "s\<lparr>sr_queue := q\<rparr>"
      note st = pop_stale [OF inv pop d'(1) True]
      have "open_nodes n start ?s = open_nodes n start s" by (simp add: open_nodes_def st(2))
      then have "(?s, s) \<in> measures [\<lambda>s. card (open_nodes n start s), \<lambda>s. length (sr_queue s)]"
        using p(4) by simp
      then show ?thesis using IH [OF _ st(1)] pop d' True by (subst search_loop.simps) simp
    next
      case False
      then have du: "sr_dist s u = Some d" using d' by simp
      let ?s = "s\<lparr>sr_queue := q\<rparr>"
      note pc = pop_current [OF inv pop du]
      show ?thesis
      proof (cases "u = goal")
        case True
        have "known_ok n start ?s \<and> paths_ok adj start ?s" using pc(1) by (simp add: search_inv_def)
        then show ?thesis using inv pop du True by (subst search_loop.simps) auto
      next
        case False
        let ?t = "fold (relax u d) (adj u) ?s"
        have t: "search_inv adj n start (Some u) [] ?t" "\<And>x. settled ?s x \<Longrightarrow> settled ?t x"
          using relax_all [OF g pc(1)] du by auto
        have "u \<in> insert start {..<n}" using inv du by (auto simp: search_inv_def known_ok_def)
        then have "open_nodes n start ?t \<subset> open_nodes n start s"
          using t(2) pc(2,3) by (auto simp: open_nodes_def)
        then have "card (open_nodes n start ?t) < card (open_nodes n start s)"
          by (rule psubset_card_mono [rotated]) (simp add: open_nodes_def)
        then have "(?t, s) \<in> measures [\<lambda>s. card (open_nodes n start s), \<lambda>s. length (sr_queue s)]" by simp
        then show ?thesis using IH [OF _ relaxed_done [OF t(1)]] pop du False by (subst search_loop.simps) simp
      qed
    qed
  qed
qed

lemma trace_back_ends:
  assumes "traced prev start ns u"
  shows "trace_back prev start (u # acc) = Some (Some (ns @ acc))"
  using assms
proof (induction arbitrary: acc rule: traced.induct)
  case traced_start
  then show ?case by (subst trace_back.simps) simp
next
  case (traced_step ns p u)
  then show ?case by (subst trace_back.simps) simp
qed

section \<open>Shortest paths\<close>

text \<open>Every walk from the start leads to a settled node at no more than its length, or passes the
  frontier at no more than its length.\<close>

lemma walk_frontier:
  assumes inv: "search_inv adj n start None [] s" and g: "graph adj n" and "walk adj start ns x W"
  shows "(\<exists>d. settled s x \<and> sr_dist s x = Some d \<and> d \<le> W) \<or> (\<exists>e \<in> set (sr_queue s). fst e \<le> W)"
  using assms(3)
proof (induction rule: walk.induct)
  case walk_start
  have "sr_dist s start = Some 0" using inv by (simp add: search_inv_def known_ok_def)
  then show ?case by (cases "(0, start) \<in> set (sr_queue s)") (auto simp: settled_def intro: bexI [of _ "(0, start)"])
next
  case (walk_step ns u W v w)
  have w: "0 \<le> w" using g walk_step(2) by (auto simp: graph_def)
  from walk_step.IH show ?case
  proof
    assume "\<exists>d. settled s u \<and> sr_dist s u = Some d \<and> d \<le> W"
    then obtain d where d: "settled s u" "sr_dist s u = Some d" "d \<le> W" by blast
    then obtain dv where dv: "sr_dist s v = Some dv" "dv \<le> d + w"
      using inv walk_step(2) unfolding search_inv_def relaxed_ok_def by (metis option.distinct(1))
    show ?case
    proof (cases "(dv, v) \<in> set (sr_queue s)")
      case True
      then show ?thesis using dv d by (intro disjI2 bexI [of _ "(dv, v)"]) simp_all
    next
      case False
      then show ?thesis using dv d by (auto simp: settled_def)
    qed
  next
    assume "\<exists>e \<in> set (sr_queue s). fst e \<le> W"
    then show ?case using w by force
  qed
qed

text \<open>
  Property C21. On a graph whose edges have non-negative weights and lead to finitely many nodes the
  search ends, the reconstruction of the path ends and never meets a missing \<open>prev\<close>, and the answer
  is a shortest path, or that there is no path when there is none.
\<close>

theorem dijkstra_correct:
  assumes g: "graph adj n"
  shows "(dijkstra adj start goal = Some Unreachable \<and> (\<nexists>ns W. walk adj start ns goal W))
     \<or> (\<exists>path d. dijkstra adj start goal = Some (Path path) \<and> walk adj start path goal d
          \<and> (\<forall>ns W. walk adj start ns goal W \<longrightarrow> d \<le> W))"
proof -
  obtain s where s: "search_loop adj goal (initial_search start) = Some s" "known_ok n start s" "paths_ok adj start s"
    and cases: "sr_queue s = [] \<and> search_inv adj n start None [] s
        \<or> (\<exists>s1 d q. search_inv adj n start None [] s1 \<and> heappop (sr_queue s1) = Some ((d, goal), q)
             \<and> sr_dist s1 goal = Some d \<and> s = s1\<lparr>sr_queue := q\<rparr>)"
    using search_loop_ends [OF g search_inv_initial] by blast
  have opt: "(\<exists>d. sr_dist s goal = Some d \<and> d \<le> W)" if W: "walk adj start ns goal W" for ns W
    using cases
  proof
    assume "sr_queue s = [] \<and> search_inv adj n start None [] s"
    then show ?thesis using walk_frontier [OF _ g W, of s] by auto
  next
    assume "\<exists>s1 d q. search_inv adj n start None [] s1 \<and> heappop (sr_queue s1) = Some ((d, goal), q)
             \<and> sr_dist s1 goal = Some d \<and> s = s1\<lparr>sr_queue := q\<rparr>"
    then obtain s1 d q where s1: "search_inv adj n start None [] s1" "heappop (sr_queue s1) = Some ((d, goal), q)"
      "sr_dist s1 goal = Some d" "s = s1\<lparr>sr_queue := q\<rparr>" by blast
    note p = heappop_Some [OF s1(2)]
    have "\<not> settled s1 goal" using p(1) s1(3) by (auto simp: settled_def)
    then obtain e where e: "e \<in> set (sr_queue s1)" "fst e \<le> W" using walk_frontier [OF s1(1) g W] by blast
    have "d \<le> fst e" using p(2) [OF e(1)] by (auto simp: before_def)
    then show ?thesis using e(2) s1(3,4) by simp
  qed
  show ?thesis
  proof (cases "sr_dist s goal")
    case None
    then have "dijkstra adj start goal = Some Unreachable" using s(1) by (simp add: dijkstra_def)
    moreover have "\<nexists>ns W. walk adj start ns goal W" using opt None by fastforce
    ultimately show ?thesis by blast
  next
    case (Some d)
    obtain ns where ns: "walk adj start ns goal d" "traced (sr_prev s) start ns goal"
      using s(3) Some unfolding paths_ok_def by blast
    have "dijkstra adj start goal = Some (Path ns)"
      using s(1) Some trace_back_ends [OF ns(2), of "[]"] by (simp add: dijkstra_def)
    moreover have "\<forall>ns W. walk adj start ns goal W \<longrightarrow> d \<le> W" using opt Some by fastforce
    ultimately show ?thesis using ns(1) by blast
  qed
qed

definition triangle :: adjacency where
  "triangle u = (if u = 0 then [(2, 5), (1, 1)] else if u = 1 then [(2, 1)] else [])"

theorem dijkstra_correct_witness:
  "graph triangle 3 \<and> (\<exists>path d. dijkstra triangle 0 2 = Some (Path path) \<and> walk triangle 0 path 2 d \<and> d \<le> 2)"
proof -
  have g: "graph triangle 3" by (auto simp: graph_def triangle_def)
  have "walk triangle 0 [0] 0 0" by (rule walk.walk_start)
  then have "walk triangle 0 ([0] @ [1]) 1 (0 + 1)" by (rule walk.walk_step) (simp add: triangle_def)
  then have "walk triangle 0 (([0] @ [1]) @ [2]) 2 (0 + 1 + 1)" by (rule walk.walk_step) (simp add: triangle_def)
  then have w: "\<exists>ns. walk triangle 0 ns 2 2" by auto
  then show ?thesis using dijkstra_correct [OF g, of 0 2] g by blast
qed

end
