(* ===== verification/Route_Builder.thy ===== *)
theory Route_Builder
  imports Dijkstra Json Protocol "HOL-Library.AList"
begin

text \<open>
  The route geometry of the inspection map (\<open>app/modules/navigation/route_builder.py\<close>): inspection
  poses and the S-shaped cruise, the corridor graph, the return route over it, and resuming an
  interrupted cruise. Coordinates are reals. \<open>None\<close> is an exception (\<open>IndexError\<close>, \<open>KeyError\<close>,
  \<open>ValueError\<close>, a failed assertion) or a search that does not end. Distances are kept as their
  squares, so that the definitions stay executable.
\<close>

record slot_ref =
  sl_code :: string
  sl_x :: real
  sl_y :: real

record pose =
  po_x :: real
  po_y :: real
  po_theta :: real

record waypoint =
  wp_x :: real
  wp_y :: real
  wp_kind :: string
  wp_theta :: "real option"
  wp_slot :: "string option"
  wp_sequence :: "int option"

text \<open>\<open>REMOTE_WAITING\<close>, by its three entries.\<close>

definition REMOTE_X :: real where
  "REMOTE_X = 12 / 10"

definition REMOTE_Y :: real where
  "REMOTE_Y = 12 / 10"

definition REMOTE_THETA :: real where
  "REMOTE_THETA = pi / 2"

definition NORTH_TRANSFER_Y :: real where
  "NORTH_TRANSFER_Y = 27"

section \<open>Inspection poses\<close>

text \<open>\<open>int(text)\<close> is modelled on digit strings; anything else raises \<open>ValueError\<close>.\<close>

definition digit_value :: "string \<Rightarrow> int option" where
  "digit_value s =
     (if s \<noteq> [] \<and> list_all (\<lambda>c. 48 \<le> (of_char c :: int) \<and> (of_char c :: int) \<le> 57) s
      then Some (undigits s) else None)"

definition slot_number :: "string \<Rightarrow> int option" where
  "slot_number code =
     (let tail = rev (takeWhile (\<lambda>c. c \<noteq> CHR ''-'') (rev code));
          stripped = dropWhile (\<lambda>c. c = CHR ''0'') tail
      in digit_value (if stripped = [] then ''0'' else stripped))"

definition group_of :: "string \<Rightarrow> string option" where
  "group_of code =
     map_option (\<lambda>n. if n \<le> 18 then ''top'' else if n \<le> 27 then ''col1'' else if n \<le> 36 then ''col2''
                     else if n \<le> 45 then ''col3'' else ''col4'') (slot_number code)"

definition vehicle_right_vector :: "real \<Rightarrow> real \<times> real" where
  "vehicle_right_vector theta = (sin theta, - cos theta)"

definition slot_is_on_vehicle_right :: "pose \<Rightarrow> slot_ref \<Rightarrow> bool" where
  "slot_is_on_vehicle_right robot slot \<longleftrightarrow>
     (let right = vehicle_right_vector (po_theta robot)
      in (sl_x slot - po_x robot) * fst right + (sl_y slot - po_y robot) * snd right > 0)"

definition inspection_pose_of :: "string \<Rightarrow> slot_ref \<Rightarrow> pose" where
  "inspection_pose_of grp slot =
     (if grp = ''top'' then \<lparr>po_x = sl_x slot, po_y = sl_y slot + - (28 / 10), po_theta = pi\<rparr>
      else if grp \<in> {''col1'', ''col3''} then \<lparr>po_x = sl_x slot + 3, po_y = sl_y slot, po_theta = - (pi / 2)\<rparr>
      else \<lparr>po_x = sl_x slot - 3, po_y = sl_y slot, po_theta = pi / 2\<rparr>)"

definition inspection_pose :: "slot_ref \<Rightarrow> pose option" where
  "inspection_pose slot = map_option (\<lambda>g. inspection_pose_of g slot) (group_of (sl_code slot))"

section \<open>The cruise\<close>

definition members :: "string \<Rightarrow> slot_ref list \<Rightarrow> slot_ref list" where
  "members g slots = filter (\<lambda>s. group_of (sl_code s) = Some g) slots"

definition ordered_groups :: "slot_ref list \<Rightarrow> slot_ref list list option" where
  "ordered_groups slots =
     (if \<exists>s \<in> set slots. group_of (sl_code s) = None then None
      else Some [sort_key (\<lambda>s. - sl_y s) (members ''col1'' slots), sort_key sl_y (members ''col2'' slots),
                 sort_key (\<lambda>s. - sl_y s) (members ''col3'' slots), sort_key sl_y (members ''col4'' slots),
                 sort_key (\<lambda>s. - sl_x s) (members ''top'' slots)])"

definition ordered_codes :: "slot_ref list \<Rightarrow> string list option" where
  "ordered_codes slots = map_option (\<lambda>gs. map sl_code (concat gs)) (ordered_groups slots)"

definition plain :: "string \<Rightarrow> real \<Rightarrow> real \<Rightarrow> waypoint" where
  "plain kind x y = \<lparr>wp_x = x, wp_y = y, wp_kind = kind, wp_theta = None, wp_slot = None, wp_sequence = None\<rparr>"

definition waiting_waypoint :: "real \<Rightarrow> real \<Rightarrow> waypoint" where
  "waiting_waypoint x y = (plain ''WAITING'' x y)\<lparr>wp_theta := Some (REMOTE_THETA)\<rparr>"

text \<open>\<open>inspection_pose\<close> of a slot of \<open>groups[gi]\<close>, whose group is known.\<close>

definition pose_in :: "nat \<Rightarrow> slot_ref \<Rightarrow> pose" where
  "pose_in gi slot = inspection_pose_of ([''col1'', ''col2'', ''col3'', ''col4'', ''top''] ! gi) slot"

definition inspection_waypoint :: "nat \<Rightarrow> int \<Rightarrow> slot_ref \<Rightarrow> waypoint" where
  "inspection_waypoint gi sequence slot =
     (let pose = pose_in gi slot in
      \<lparr>wp_x = po_x pose, wp_y = po_y pose, wp_kind = ''INSPECTION'', wp_theta = Some (po_theta pose),
       wp_slot = Some (sl_code slot), wp_sequence = Some sequence\<rparr>)"

fun inspections :: "nat \<Rightarrow> int \<Rightarrow> slot_ref list \<Rightarrow> waypoint list" where
  "inspections gi sequence [] = []"
| "inspections gi sequence (s # ss) = inspection_waypoint gi (sequence + 1) s # inspections gi (sequence + 1) ss"

definition turns :: "nat \<Rightarrow> pose \<Rightarrow> pose \<Rightarrow> waypoint list" where
  "turns gi end_pose nxt =
     (if gi = 0 \<or> gi = 2 then [plain ''TURN'' (po_x end_pose) (3 / 2), plain ''TURN'' (po_x nxt) (3 / 2)]
      else if gi = 1
      then [plain ''TURN'' (po_x end_pose) NORTH_TRANSFER_Y, plain ''TURN'' (po_x nxt) NORTH_TRANSFER_Y]
      else [plain ''TURN'' (po_x end_pose) (po_y nxt)])"

fun cruise_groups :: "nat \<Rightarrow> int \<Rightarrow> slot_ref list list \<Rightarrow> waypoint list" where
  "cruise_groups gi sequence [] = []"
| "cruise_groups gi sequence [g] = inspections gi sequence g"
| "cruise_groups gi sequence (g # h # gs) =
     inspections gi sequence g @ turns gi (pose_in gi (last g)) (pose_in (gi + 1) (hd h))
     @ cruise_groups (gi + 1) (sequence + int (length g)) (h # gs)"

text \<open>\<open>groups[0][0]\<close>, \<open>group[-1]\<close> and the like raise \<open>IndexError\<close> when a group is empty.\<close>

definition build_cruise_waypoints :: "slot_ref list \<Rightarrow> waypoint list option" where
  "build_cruise_waypoints slots =
     (case ordered_groups slots of
        None \<Rightarrow> None
      | Some groups \<Rightarrow>
          (if \<exists>g \<in> set groups. g = [] then None
           else
             let first = pose_in 0 (hd (hd groups));
                 top_end = pose_in 4 (last (last groups));
                 home = waiting_waypoint (REMOTE_X) (REMOTE_Y)
             in Some ([home, plain ''TRANSIT'' (REMOTE_X) NORTH_TRANSFER_Y,
                       plain ''TRANSIT'' (po_x first) NORTH_TRANSFER_Y]
                      @ cruise_groups 0 0 groups
                      @ [plain ''TRANSIT'' (REMOTE_X) (po_y top_end), home])))"

text \<open>Python's \<open>round(x, 4)\<close>: to the nearest multiple, ties to the even one.\<close>

definition round_half_even :: "real \<Rightarrow> int" where
  "round_half_even r =
     (let f = \<lfloor>r\<rfloor>; d = r - of_int f
      in if d < 1 / 2 then f else if 1 / 2 < d then f + 1 else if even f then f else f + 1)"

definition round4 :: "real \<Rightarrow> real" where
  "round4 x = of_int (round_half_even (x * 10000)) / 10000"

text \<open>\<open>_dedupe\<close> compares the point as given with the last kept point, which was rounded.\<close>

fun dedupe_points :: "(real \<times> real) option \<Rightarrow> (real \<times> real) list \<Rightarrow> (real \<times> real) list" where
  "dedupe_points kept [] = []"
| "dedupe_points kept (p # ps) =
     (if kept = Some p then dedupe_points kept ps
      else (round4 (fst p), round4 (snd p)) # dedupe_points (Some (round4 (fst p), round4 (snd p))) ps)"

definition build_cruise_trajectory :: "slot_ref list \<Rightarrow> (real \<times> real) list option" where
  "build_cruise_trajectory slots =
     map_option (\<lambda>ws. dedupe_points None (map (\<lambda>w. (wp_x w, wp_y w)) ws)) (build_cruise_waypoints slots)"

section \<open>The corridor graph\<close>

type_synonym point = "real \<times> real"

definition CORRIDOR_VERTICALS :: "(real \<times> real \<times> real) list" where
  "CORRIDOR_VERTICALS = [(12 / 10, 1, 287 / 10), (8, 1, 27), (14, 1, 27), (32, 1, 27), (40, 1, 287 / 10)]"

definition CORRIDOR_HORIZONTALS :: "(real \<times> real \<times> real) list" where
  "CORRIDOR_HORIZONTALS = [(1, 12 / 10, 40), (27, 12 / 10, 40), (287 / 10, 12 / 10, 442 / 10)]"

record corridor =
  cg_nodes :: "point list"
  cg_adj :: "(nat \<times> (nat \<times> real) list) list"

fun position :: "'a \<Rightarrow> 'a list \<Rightarrow> nat option" where
  "position k [] = None"
| "position k (x # xs) = (if x = k then Some 0 else map_option Suc (position k xs))"

definition node_index :: "point \<Rightarrow> corridor \<Rightarrow> nat \<times> corridor" where
  "node_index p g =
     (let key = (round4 (fst p), round4 (snd p)) in
      case position key (cg_nodes g) of
        Some i \<Rightarrow> (i, g)
      | None \<Rightarrow> (length (cg_nodes g), g\<lparr>cg_nodes := cg_nodes g @ [key]\<rparr>))"

definition edges_of :: "(nat \<times> (nat \<times> real) list) list \<Rightarrow> adjacency" where
  "edges_of a u = (case map_of a u of None \<Rightarrow> [] | Some es \<Rightarrow> es)"

definition add_edge :: "nat \<Rightarrow> nat \<Rightarrow> real \<Rightarrow> corridor \<Rightarrow> corridor" where
  "add_edge a b w g = g\<lparr>cg_adj := AList.update a (edges_of (cg_adj g) a @ [(b, w)]) (cg_adj g)\<rparr>"

definition link :: "nat \<Rightarrow> nat \<Rightarrow> real \<Rightarrow> corridor \<Rightarrow> corridor" where
  "link a b w g = (if w < 1 / 1000000 then g else add_edge b a w (add_edge a b w g))"

definition link_points :: "point \<Rightarrow> point \<Rightarrow> real \<Rightarrow> corridor \<Rightarrow> corridor" where
  "link_points p q w g =
     (let (a, g1) = node_index p g; (b, g2) = node_index q g1 in link a b w g2)"

definition junctions :: "real \<Rightarrow> real \<Rightarrow> real \<Rightarrow> (real \<times> real \<times> real) list \<Rightarrow> real list" where
  "junctions pos lo hi crossing =
     sort (remdups (lo # hi # map fst (filter (\<lambda>(c, cmin, cmax). lo \<le> c \<and> c \<le> hi \<and> cmin \<le> pos \<and> pos \<le> cmax) crossing)))"

fun link_vertical :: "real \<Rightarrow> real list \<Rightarrow> corridor \<Rightarrow> corridor" where
  "link_vertical x (a # b # ys) g = link_vertical x (b # ys) (link_points (x, a) (x, b) (b - a) g)"
| "link_vertical x ys g = g"

fun link_horizontal :: "real \<Rightarrow> real list \<Rightarrow> corridor \<Rightarrow> corridor" where
  "link_horizontal y (a # b # xs) g = link_horizontal y (b # xs) (link_points (a, y) (b, y) (b - a) g)"
| "link_horizontal y xs g = g"

definition corridor_graph :: corridor where
  "corridor_graph =
     (let g0 = \<lparr>cg_nodes = [], cg_adj = []\<rparr>;
          g1 = fold (\<lambda>(x, lo, hi). link_vertical x (junctions x lo hi CORRIDOR_HORIZONTALS)) CORRIDOR_VERTICALS g0;
          g2 = fold (\<lambda>(y, lo, hi). link_horizontal y (junctions y lo hi CORRIDOR_VERTICALS)) CORRIDOR_HORIZONTALS g1
      in link_points (REMOTE_X, REMOTE_Y) (12 / 10, 1) (2 / 10) g2)"

section \<open>Projection\<close>

definition project :: "point \<Rightarrow> point \<times> point \<Rightarrow> point" where
  "project c seg =
     (let (ax, ay) = fst seg; (bx, by) = snd seg; dx = bx - ax; dy = by - ay; len2 = dx * dx + dy * dy
      in if len2 < 1 / 1000000000 then (ax, ay)
         else let t = max 0 (min 1 (((fst c - ax) * dx + (snd c - ay) * dy) / len2))
              in (ax + t * dx, ay + t * dy))"

definition dist2 :: "point \<Rightarrow> point \<Rightarrow> real" where
  "dist2 p q = (fst p - fst q) * (fst p - fst q) + (snd p - snd q) * (snd p - snd q)"

text \<open>\<open>d < best[0]\<close> keeps the first of the nearest segments.\<close>

fun nearest :: "point \<Rightarrow> nat \<Rightarrow> (point \<times> point) list \<Rightarrow> (real \<times> point \<times> nat) option \<Rightarrow> (real \<times> point \<times> nat) option" where
  "nearest c i [] best = best"
| "nearest c i (seg # segs) best =
     (let p = project c seg; d = dist2 c p
      in nearest c (i + 1) segs
           (case best of None \<Rightarrow> Some (d, p, i) | Some (d', p', i') \<Rightarrow> if d < d' then Some (d, p, i) else best))"

definition project_onto_segments :: "point \<Rightarrow> (point \<times> point) list \<Rightarrow> (real \<times> point \<times> nat) option" where
  "project_onto_segments c segs = nearest c 0 segs None"

definition corridor_segments :: "(point \<times> point) list" where
  "corridor_segments =
     map (\<lambda>(x, lo, hi). ((x, lo), (x, hi))) CORRIDOR_VERTICALS
     @ map (\<lambda>(y, lo, hi). ((lo, y), (hi, y))) CORRIDOR_HORIZONTALS"

section \<open>The return route\<close>

fun dedupe_waypoints :: "point option \<Rightarrow> waypoint list \<Rightarrow> waypoint list" where
  "dedupe_waypoints kept [] = []"
| "dedupe_waypoints kept (w # ws) =
     (if kept = Some (wp_x w, wp_y w) then dedupe_waypoints kept ws
      else w # dedupe_waypoints (Some (wp_x w, wp_y w)) ws)"

fun closest_lane :: "real \<Rightarrow> real \<Rightarrow> real list \<Rightarrow> real" where
  "closest_lane cx best [] = best"
| "closest_lane cx best (x # xs) = closest_lane cx (if \<bar>x - cx\<bar> < \<bar>best - cx\<bar> then x else best) xs"

definition fallback_return :: "real \<Rightarrow> real \<Rightarrow> waypoint list" where
  "fallback_return cx cy =
     (let vx = closest_lane cx (fst (hd CORRIDOR_VERTICALS)) (map fst (tl CORRIDOR_VERTICALS))
      in dedupe_waypoints None
           ([plain ''TRANSIT'' cx cy] @ (if 1 / 1000000 < \<bar>vx - cx\<bar> then [plain ''TRANSIT'' vx cy] else [])
            @ [plain ''TRANSIT'' vx 1, plain ''TRANSIT'' (REMOTE_X) 1,
               waiting_waypoint (REMOTE_X) (REMOTE_Y)]))"

text \<open>Connecting the projection with the two ends of the lane it lies on; a missing key raises.\<close>

definition connect :: "nat \<Rightarrow> point \<Rightarrow> real \<Rightarrow> point \<Rightarrow> real \<Rightarrow> corridor \<Rightarrow> corridor option" where
  "connect p lo wlo hi whi g =
     (case (position (round4 (fst lo), round4 (snd lo)) (cg_nodes g), position (round4 (fst hi), round4 (snd hi)) (cg_nodes g)) of
        (Some a, Some b) \<Rightarrow>
          Some (add_edge b p whi (add_edge p b whi (add_edge a p wlo (add_edge p a wlo g))))
      | _ \<Rightarrow> None)"

definition on_vertical :: "point \<Rightarrow> real \<times> real \<times> real \<Rightarrow> bool" where
  "on_vertical p lane \<longleftrightarrow> (case lane of (x, lo, hi) \<Rightarrow> \<bar>fst p - x\<bar> < 1 / 1000000 \<and> lo \<le> snd p \<and> snd p \<le> hi)"

definition on_horizontal :: "point \<Rightarrow> real \<times> real \<times> real \<Rightarrow> bool" where
  "on_horizontal p lane \<longleftrightarrow> (case lane of (y, lo, hi) \<Rightarrow> \<bar>snd p - y\<bar> < 1 / 1000000 \<and> lo \<le> fst p \<and> fst p \<le> hi)"

definition connect_projection :: "point \<Rightarrow> nat \<Rightarrow> corridor \<Rightarrow> corridor option" where
  "connect_projection proj p g =
     (case find (on_vertical proj) CORRIDOR_VERTICALS of
        Some (x, lo, hi) \<Rightarrow> connect p (x, lo) \<bar>snd proj - lo\<bar> (x, hi) \<bar>hi - snd proj\<bar> g
      | None \<Rightarrow>
          (case find (on_horizontal proj) CORRIDOR_HORIZONTALS of
             Some (y, lo, hi) \<Rightarrow> connect p (lo, y) \<bar>fst proj - lo\<bar> (hi, y) \<bar>hi - fst proj\<bar> g
           | None \<Rightarrow> Some g))"

definition route_waypoint :: "point \<Rightarrow> waypoint" where
  "route_waypoint q =
     (if \<bar>fst q - REMOTE_X\<bar> < 1 / 1000000 \<and> \<bar>snd q - REMOTE_Y\<bar> < 1 / 1000000
      then waiting_waypoint (fst q) (snd q) else plain ''TRANSIT'' (fst q) (snd q))"

definition route_from :: "point \<Rightarrow> point \<Rightarrow> waypoint list option" where
  "route_from c proj =
     (let (p, g) = node_index proj corridor_graph in
      case connect_projection proj p g of
        None \<Rightarrow> None
      | Some g' \<Rightarrow>
          (case position (round4 (REMOTE_X), round4 (REMOTE_Y)) (cg_nodes g') of
             None \<Rightarrow> Some (fallback_return (fst c) (snd c))
           | Some goal \<Rightarrow>
               (case dijkstra (edges_of (cg_adj g')) p goal of
                  Some (Path path) \<Rightarrow>
                    Some (dedupe_waypoints None
                      (plain ''TRANSIT'' (fst c) (snd c) # map (\<lambda>i. route_waypoint (cg_nodes g' ! i)) path))
                | Some Unreachable \<Rightarrow> Some (fallback_return (fst c) (snd c))
                | Some Missing_Prev \<Rightarrow> None
                | None \<Rightarrow> None)))"

definition build_return_waypoints :: "real \<Rightarrow> real \<Rightarrow> waypoint list option" where
  "build_return_waypoints cx cy =
     (case project_onto_segments (cx, cy) corridor_segments of
        None \<Rightarrow> None
      | Some (d, proj, i) \<Rightarrow>
          (if 2 * 2 < d then Some (fallback_return cx cy) else route_from (cx, cy) proj))"

section \<open>Resuming a cruise\<close>

definition legs :: "waypoint list \<Rightarrow> (point \<times> point) list" where
  "legs ws = map (\<lambda>(a, b). ((wp_x a, wp_y a), (wp_x b, wp_y b))) (zip ws (tl ws))"

text \<open>\<open>_project_onto_route\<close> and \<open>infer_route_cursor\<close>: the last completed and the target waypoint.\<close>

definition infer_route_cursor :: "point \<Rightarrow> waypoint list \<Rightarrow> (nat \<times> nat) option" where
  "infer_route_cursor c ws =
     map_option (\<lambda>(d, p, i). (i, i + 1)) (project_onto_segments c (legs ws))"

definition resume_from :: "point \<Rightarrow> waypoint list \<Rightarrow> waypoint list" where
  "resume_from c remaining =
     (case remaining of
        [] \<Rightarrow> [plain ''TRANSIT'' (fst c) (snd c), waiting_waypoint (REMOTE_X) (REMOTE_Y)]
      | w # ws \<Rightarrow> if wp_x w = fst c \<and> wp_y w = snd c then remaining
                 else plain ''TRANSIT'' (fst c) (snd c) # remaining)"

text \<open>A slice with a negative start counts from the end of the list.\<close>

definition slice_from :: "int \<Rightarrow> 'a list \<Rightarrow> 'a list" where
  "slice_from i xs = drop (nat (if i < 0 then max 0 (int (length xs) + i) else i)) xs"

definition build_resumed_cruise_waypoints :: "point \<Rightarrow> waypoint list \<Rightarrow> int option \<Rightarrow> waypoint list option" where
  "build_resumed_cruise_waypoints c full cursor =
     (case (case cursor of Some i \<Rightarrow> Some i | None \<Rightarrow> map_option (\<lambda>(a, b). int b) (infer_route_cursor c full)) of
        None \<Rightarrow> None
      | Some i \<Rightarrow> Some (resume_from c (slice_from (min i (int (length full) - 1)) full)))"

section \<open>Slots in the way\<close>

definition cross :: "point \<Rightarrow> point \<Rightarrow> point \<Rightarrow> real" where
  "cross p a b = (fst a - fst p) * (snd b - snd p) - (snd a - snd p) * (fst b - fst p)"

definition crosses :: "point \<Rightarrow> point \<Rightarrow> point \<Rightarrow> point \<Rightarrow> bool" where
  "crosses a b p q \<longleftrightarrow>
     (let d1 = cross a b p; d2 = cross a b q; d3 = cross p q a; d4 = cross p q b
      in ((0 < d1 \<and> d2 < 0) \<or> (d1 < 0 \<and> 0 < d2)) \<and> ((0 < d3 \<and> d4 < 0) \<or> (d3 < 0 \<and> 0 < d4)))"

definition segment_intersects_slot :: "point \<Rightarrow> point \<Rightarrow> slot_ref \<Rightarrow> real \<Rightarrow> real \<Rightarrow> real \<Rightarrow> bool" where
  "segment_intersects_slot a b slot half_width half_height margin \<longleftrightarrow>
     (let x0 = sl_x slot - half_width - margin; x1 = sl_x slot + half_width + margin;
          y0 = sl_y slot - half_height - margin; y1 = sl_y slot + half_height + margin;
          inside = (\<lambda>p. x0 \<le> fst p \<and> fst p \<le> x1 \<and> y0 \<le> snd p \<and> snd p \<le> y1)
      in inside a \<or> inside b
         \<or> crosses a b (x0, y0) (x1, y0) \<or> crosses a b (x1, y0) (x1, y1)
         \<or> crosses a b (x1, y1) (x0, y1) \<or> crosses a b (x0, y1) (x0, y0))"

end
