(* ===== verification/Projection.thy ===== *)
theory Projection
  imports Route_Builder
begin

text \<open>
  Projecting a pose on a list of segments finds the first of the nearest ones; resuming a cruise from
  the nearest leg; and two corners of the geometry helpers.
\<close>

lemma nearest_some: "segs \<noteq> [] \<or> best \<noteq> None \<Longrightarrow> nearest c i segs best \<noteq> None"
proof (induction segs arbitrary: i best)
  case (Cons seg segs)
  show ?case unfolding nearest.simps Let_def by (rule Cons.IH) (cases best; auto)
qed simp

section \<open>The nearest segment\<close>

lemma nearest_in_range:
  assumes "nearest c k segs best = Some (d, p, i)"
  shows "best = Some (d, p, i) \<or> k \<le> i \<and> i < k + length segs \<and> p = project c (segs ! (i - k)) \<and> d = dist2 c p"
  using assms
proof (induction c k segs best rule: nearest.induct)
  case (2 c k seg segs best)
  let ?b = "case best of None \<Rightarrow> Some (dist2 c (project c seg), project c seg, k)
     | Some (d', p', i') \<Rightarrow> if dist2 c (project c seg) < d' then Some (dist2 c (project c seg), project c seg, k) else best"
  have "?b = Some (d, p, i) \<or> k + 1 \<le> i \<and> i < k + 1 + length segs \<and> p = project c (segs ! (i - (k + 1))) \<and> d = dist2 c p"
    using "2.IH" [OF refl refl] "2.prems" by (simp add: Let_def)
  then show ?case
  proof
    assume "?b = Some (d, p, i)"
    then show ?thesis by (auto split: option.splits if_splits)
  next
    assume a: "k + 1 \<le> i \<and> i < k + 1 + length segs \<and> p = project c (segs ! (i - (k + 1))) \<and> d = dist2 c p"
    then have "i - k = Suc (i - (k + 1))" by arith
    then show ?thesis using a by simp
  qed
qed simp

lemma nearest_minimal:
  assumes "nearest c k segs best = Some (d, p, i)"
  shows "(\<forall>seg \<in> set segs. d \<le> dist2 c (project c seg)) \<and> (\<forall>d' p' i'. best = Some (d', p', i') \<longrightarrow> d \<le> d')"
  using assms
proof (induction c k segs best rule: nearest.induct)
  case (2 c k seg segs best)
  let ?b = "case best of None \<Rightarrow> Some (dist2 c (project c seg), project c seg, k)
     | Some (d', p', i') \<Rightarrow> if dist2 c (project c seg) < d' then Some (dist2 c (project c seg), project c seg, k) else best"
  have ih: "(\<forall>seg \<in> set segs. d \<le> dist2 c (project c seg)) \<and> (\<forall>d' p' i'. ?b = Some (d', p', i') \<longrightarrow> d \<le> d')"
    using "2.IH" [OF refl refl] "2.prems" by (simp add: Let_def)
  then have "d \<le> dist2 c (project c seg)" "\<forall>d' p' i'. best = Some (d', p', i') \<longrightarrow> d \<le> d'"
    by (auto split: option.splits if_splits)
  then show ?case using ih by simp
qed simp

section \<open>Resuming a cruise\<close>

text \<open>
  A cruise resumed without a cursor exists whenever the route has a leg: it starts at the
  robot, continues with the end of the nearest leg and then follows the rest of the route to its last
  waypoint, without the waypoints before that leg.
\<close>

lemma resumed_cruise:
  assumes "2 \<le> length full"
  shows "\<exists>ws i. build_resumed_cruise_waypoints c full None = Some ws \<and> i + 1 < length full
     \<and> (\<forall>leg \<in> set (legs full). dist2 c (project c (legs full ! i)) \<le> dist2 c (project c leg))
     \<and> (ws = drop (i + 1) full \<or> ws = plain ''TRANSIT'' (fst c) (snd c) # drop (i + 1) full)
     \<and> (wp_x (hd ws), wp_y (hd ws)) = c \<and> last ws = last full"
proof -
  have len: "length (legs full) = length full - 1" by (simp add: legs_def)
  then have "legs full \<noteq> []" using assms by auto
  then obtain d p i where n: "nearest c 0 (legs full) None = Some (d, p, i)"
    using nearest_some [of "legs full" None c 0] by auto
  have i: "i + 1 < length full" "d = dist2 c (project c (legs full ! i))"
    using nearest_in_range [OF n] len by auto
  let ?rest = "drop (i + 1) full"
  have ne: "?rest \<noteq> []" "last ?rest = last full" using i(1) by simp_all
  then obtain w us where w: "?rest = w # us" by (cases ?rest) auto
  have "min (int (i + 1)) (int (length full) - 1) = int (i + 1)" using i(1) by auto
  then have b: "build_resumed_cruise_waypoints c full None = Some (resume_from c ?rest)"
    using n by (simp add: build_resumed_cruise_waypoints_def infer_route_cursor_def project_onto_segments_def
        slice_from_def nat_add_distrib)
  have r: "resume_from c ?rest = ?rest \<and> wp_x w = fst c \<and> wp_y w = snd c
      \<or> resume_from c ?rest = plain ''TRANSIT'' (fst c) (snd c) # ?rest"
    unfolding w by (simp add: resume_from_def)
  have l: "last (w # us) = last full" using ne(2) unfolding w .
  have "(wp_x (hd (resume_from c ?rest)), wp_y (hd (resume_from c ?rest))) = c \<and> last (resume_from c ?rest) = last full"
    using r l unfolding w by (auto simp: plain_def)
  moreover have "\<forall>leg \<in> set (legs full). dist2 c (project c (legs full ! i)) \<le> dist2 c (project c leg)"
    using nearest_minimal [OF n] i(2) by simp
  ultimately show ?thesis using b i(1) r by blast
qed

lemma resumed_cruise_witness:
  "\<exists>ws. build_resumed_cruise_waypoints (5, 1) [plain ''TRANSIT'' 0 0, plain ''TRANSIT'' 9 0] None = Some ws
     \<and> (wp_x (hd ws), wp_y (hd ws)) = (5, 1) \<and> last ws = plain ''TRANSIT'' 9 0"
  using resumed_cruise [of "[plain ''TRANSIT'' 0 0, plain ''TRANSIT'' 9 0]" "(5, 1)"] by auto

section \<open>Corners\<close>

text \<open>A segment that enters and leaves the box of a slot through two opposite corners is not seen.\<close>

lemma diagonal_missed:
  "\<not> segment_intersects_slot (- 2, - 2) (2, 2) \<lparr>sl_code = c, sl_x = 0, sl_y = 0\<rparr> 1 1 0"
  by (simp add: segment_intersects_slot_def crosses_def cross_def Let_def)

text \<open>Two equal points that rounding moves are both kept.\<close>

lemma duplicates_survive:
  "dedupe_points None [(1 / 100000, 0), (1 / 100000, 0)] = [(0, 0), (0, 0)]"
  by (simp add: round4_def round_half_even_def Let_def)

end
