(* ===== verification/Route_Safety.thy ===== *)
theory Route_Safety
  imports Projection
begin

text \<open>
  The return route: from every pose it exists, ends at the waiting area and, unless the pose is far
  from every lane, stays on the corridor lanes.
\<close>

section \<open>Rounding\<close>

lemma round_half_even_near: "\<bar>r - of_int k\<bar> < 1 / 2 \<Longrightarrow> round_half_even r = k"
proof -
  assume a: "\<bar>r - of_int k\<bar> < 1 / 2"
  show ?thesis
  proof (cases "of_int k \<le> r")
    case True
    then have "\<lfloor>r\<rfloor> = k" using a by (intro floor_unique) auto
    then show ?thesis using a True by (simp add: round_half_even_def Let_def)
  next
    case False
    then have "\<lfloor>r\<rfloor> = k - 1" using a by (intro floor_unique) auto
    then show ?thesis using a False by (simp add: round_half_even_def Let_def)
  qed
qed

lemma round_half_even_bounds: "\<lfloor>r\<rfloor> \<le> round_half_even r" "round_half_even r \<le> \<lceil>r\<rceil>"
proof -
  have c: "r = of_int \<lfloor>r\<rfloor> \<or> \<lceil>r\<rceil> = \<lfloor>r\<rfloor> + 1" by linarith
  show "\<lfloor>r\<rfloor> \<le> round_half_even r" by (simp add: round_half_even_def Let_def)
  have "round_half_even r \<le> \<lfloor>r\<rfloor> + 1" by (simp add: round_half_even_def Let_def)
  moreover have "round_half_even r = \<lfloor>r\<rfloor>" if "r = of_int \<lfloor>r\<rfloor>"
    by (rule round_half_even_near) (use that in simp)
  ultimately show "round_half_even r \<le> \<lceil>r\<rceil>" using c by linarith
qed

lemma round4_near: "\<bar>x - of_int k / 10000\<bar> < 1 / 1000000 \<Longrightarrow> round4 x = of_int k / 10000"
proof -
  assume "\<bar>x - of_int k / 10000\<bar> < 1 / 1000000"
  then have "\<bar>x * 10000 - of_int k\<bar> < 1 / 2" unfolding abs_less_iff by linarith
  then show ?thesis unfolding round4_def by (subst round_half_even_near) auto
qed

lemma round4_le: "x \<le> of_int k / 10000 \<Longrightarrow> round4 x \<le> of_int k / 10000"
proof -
  assume "x \<le> of_int k / 10000"
  then have "\<lceil>x * 10000\<rceil> \<le> k" by (simp add: ceiling_le_iff)
  then show ?thesis using round_half_even_bounds(2) [of "x * 10000"] unfolding round4_def by simp
qed

lemma round4_ge: "of_int k / 10000 \<le> x \<Longrightarrow> of_int k / 10000 \<le> round4 x"
proof -
  assume "of_int k / 10000 \<le> x"
  then have "k \<le> \<lfloor>x * 10000\<rfloor>" by (simp add: le_floor_iff)
  then show ?thesis using round_half_even_bounds(1) [of "x * 10000"] unfolding round4_def by simp
qed

section \<open>Lanes\<close>

definition same_lane :: "point \<Rightarrow> point \<Rightarrow> bool" where
  "same_lane p q \<longleftrightarrow>
     (\<exists>l \<in> set CORRIDOR_VERTICALS. case l of (x, lo, hi) \<Rightarrow>
        fst p = x \<and> fst q = x \<and> lo \<le> snd p \<and> snd p \<le> hi \<and> lo \<le> snd q \<and> snd q \<le> hi)
     \<or> (\<exists>l \<in> set CORRIDOR_HORIZONTALS. case l of (y, lo, hi) \<Rightarrow>
        snd p = y \<and> snd q = y \<and> lo \<le> fst p \<and> fst p \<le> hi \<and> lo \<le> fst q \<and> fst q \<le> hi)"

lemma same_lane_sym: "same_lane p q \<Longrightarrow> same_lane q p"
  by (auto simp: same_lane_def)

text \<open>A corridor graph: edges join existing nodes on one lane and have no negative length.\<close>

definition edge_ok :: "corridor \<Rightarrow> nat \<Rightarrow> nat \<times> real \<Rightarrow> bool" where
  "edge_ok g u e \<longleftrightarrow> u < length (cg_nodes g) \<and> fst e < length (cg_nodes g) \<and> 0 \<le> snd e
     \<and> same_lane (cg_nodes g ! u) (cg_nodes g ! fst e)"

definition corridor_ok :: "corridor \<Rightarrow> bool" where
  "corridor_ok g \<longleftrightarrow> list_all (\<lambda>(u, es). list_all (edge_ok g u) es) (cg_adj g)"

lemma corridor_edge: "corridor_ok g \<Longrightarrow> e \<in> set (edges_of (cg_adj g) u) \<Longrightarrow> edge_ok g u e"
proof -
  assume ok: "corridor_ok g" and e: "e \<in> set (edges_of (cg_adj g) u)"
  obtain es where "map_of (cg_adj g) u = Some es" "e \<in> set es"
    using e by (cases "map_of (cg_adj g) u") (auto simp: edges_of_def)
  then show ?thesis using ok map_of_SomeD unfolding corridor_ok_def list_all_iff by fastforce
qed

lemma corridor_graph_ok: "corridor_ok corridor_graph"
  by code_simp

lemma corridor_is_graph: "corridor_ok g \<Longrightarrow> graph (edges_of (cg_adj g)) (length (cg_nodes g))"
  unfolding graph_def using corridor_edge by (fastforce simp: edge_ok_def)

lemma edges_of_update: "edges_of (AList.update a es g) u = (if u = a then es else edges_of g u)"
  by (simp add: edges_of_def update_conv')

lemma add_edge_simps [simp]:
  "cg_nodes (add_edge a b w g) = cg_nodes g"
  "edges_of (cg_adj (add_edge a b w g)) u = edges_of (cg_adj g) u @ (if u = a then [(b, w)] else [])"
  by (simp_all add: add_edge_def edges_of_update)

text \<open>The edge predicate over all nodes, which is easier to maintain than the one over the rows.\<close>

definition edges_ok :: "corridor \<Rightarrow> bool" where
  "edges_ok g \<longleftrightarrow> (\<forall>u e. e \<in> set (edges_of (cg_adj g) u) \<longrightarrow> edge_ok g u e)"

lemma edges_ok_graph: "edges_ok g \<Longrightarrow> graph (edges_of (cg_adj g)) (length (cg_nodes g))"
  unfolding graph_def edges_ok_def by (fastforce simp: edge_ok_def)

lemma edges_ok_corridor: "edges_ok corridor_graph"
  unfolding edges_ok_def using corridor_edge [OF corridor_graph_ok] by blast

lemma edges_ok_add:
  assumes "edges_ok g" "edge_ok g a (b, w)"
  shows "edges_ok (add_edge a b w g)"
  using assms by (auto simp: edges_ok_def edge_ok_def)

lemma edges_ok_append: "edges_ok g \<Longrightarrow> edges_ok (g\<lparr>cg_nodes := cg_nodes g @ ps\<rparr>)"
  by (fastforce simp: edges_ok_def edge_ok_def nth_append)

lemma position_Some: "position k xs = Some i \<Longrightarrow> i < length xs \<and> xs ! i = k"
  by (induction xs arbitrary: i) (auto split: if_splits)

lemma position_append: "position k xs = Some i \<Longrightarrow> position k (xs @ ys) = Some i"
  by (induction xs arbitrary: i) (auto split: if_splits)

lemma node_index_simps:
  assumes "node_index p g = (i, g')"
  shows "i < length (cg_nodes g')" "cg_nodes g' ! i = (round4 (fst p), round4 (snd p))"
    "edges_of (cg_adj g') = edges_of (cg_adj g)" "edges_ok g \<Longrightarrow> edges_ok g'"
    "position k (cg_nodes g) = Some j \<Longrightarrow> position k (cg_nodes g') = Some j"
proof -
  show "i < length (cg_nodes g')" "cg_nodes g' ! i = (round4 (fst p), round4 (snd p))"
    "edges_of (cg_adj g') = edges_of (cg_adj g)" "edges_ok g \<Longrightarrow> edges_ok g'"
    "position k (cg_nodes g) = Some j \<Longrightarrow> position k (cg_nodes g') = Some j"
    using assms edges_ok_append
    by (auto simp: node_index_def Let_def position_append dest: position_Some split: option.splits)
qed

section \<open>The projection is on a lane\<close>

lemma unit_interval: "0 \<le> max 0 (min 1 (t :: real))" "max 0 (min 1 t) \<le> 1"
  by auto

lemma between: "lo \<le> (hi :: real) \<Longrightarrow> 0 \<le> t \<Longrightarrow> t \<le> 1 \<Longrightarrow> lo \<le> lo + t * (hi - lo) \<and> lo + t * (hi - lo) \<le> hi"
  using mult_left_le_one_le [of "hi - lo" t] by auto

lemma project_vertical: "lo \<le> hi \<Longrightarrow> on_vertical (project c ((x, lo), (x, hi))) (x, lo, hi)"
  using between [OF _ unit_interval] by (auto simp: on_vertical_def project_def Let_def)

lemma project_horizontal: "lo \<le> hi \<Longrightarrow> on_horizontal (project c ((lo, y), (hi, y))) (y, lo, hi)"
  using between [OF _ unit_interval] by (auto simp: on_horizontal_def project_def Let_def)

lemma nearest_mem:
  assumes "nearest c i segs best = Some (d, p, k)"
  shows "best = Some (d, p, k) \<or> (\<exists>seg \<in> set segs. p = project c seg \<and> d = dist2 c p)"
  using assms
proof (induction segs arbitrary: i best)
  case (Cons seg segs)
  show ?case using Cons.IH [OF Cons.prems [unfolded nearest.simps Let_def]] by (auto split: option.splits if_splits)
qed simp

lemma lanes_ordered:
  "list_all (\<lambda>(x, lo, hi). lo \<le> hi) (CORRIDOR_VERTICALS @ CORRIDOR_HORIZONTALS)"
  by code_simp

lemma projection_on_lane:
  assumes "project_onto_segments c corridor_segments = Some (d, p, i)"
  shows "(\<exists>l \<in> set CORRIDOR_VERTICALS. on_vertical p l) \<or> (\<exists>l \<in> set CORRIDOR_HORIZONTALS. on_horizontal p l)"
proof -
  obtain seg where seg: "seg \<in> set corridor_segments" "p = project c seg"
    using nearest_mem assms unfolding project_onto_segments_def by blast
  from seg(1) consider (v) x lo hi where "(x, lo, hi) \<in> set CORRIDOR_VERTICALS" "seg = ((x, lo), (x, hi))"
    | (h) y lo hi where "(y, lo, hi) \<in> set CORRIDOR_HORIZONTALS" "seg = ((lo, y), (hi, y))"
    by (auto simp: corridor_segments_def)
  then show ?thesis
  proof cases
    case v
    then have "lo \<le> hi" using lanes_ordered unfolding list_all_iff by fastforce
    then show ?thesis using v project_vertical seg(2) by blast
  next
    case h
    then have "lo \<le> hi" using lanes_ordered unfolding list_all_iff by fastforce
    then show ?thesis using h project_horizontal seg(2) by blast
  qed
qed

section \<open>Connecting the projection\<close>

abbreviation rounded :: "point \<Rightarrow> point" where
  "rounded p \<equiv> (round4 (fst p), round4 (snd p))"

definition on_grid :: "real \<Rightarrow> bool" where
  "on_grid x \<longleftrightarrow> x = of_int \<lfloor>x * 10000\<rfloor> / 10000"

lemma lanes_on_grid:
  "list_all (\<lambda>(x, lo, hi). on_grid x \<and> on_grid lo \<and> on_grid hi) (CORRIDOR_VERTICALS @ CORRIDOR_HORIZONTALS)"
  by code_simp

lemma on_grid_round:
  assumes "on_grid a"
  shows "\<bar>x - a\<bar> < 1 / 1000000 \<Longrightarrow> round4 x = a" "x \<le> a \<Longrightarrow> round4 x \<le> a" "a \<le> x \<Longrightarrow> a \<le> round4 x" "round4 a = a"
proof -
  obtain k where k: "a = of_int k / 10000" using assms unfolding on_grid_def by blast
  show "\<bar>x - a\<bar> < 1 / 1000000 \<Longrightarrow> round4 x = a" "x \<le> a \<Longrightarrow> round4 x \<le> a" "a \<le> x \<Longrightarrow> a \<le> round4 x" "round4 a = a"
    using round4_near [of x k] round4_le [of x k] round4_ge [of k x] round4_near [of a k] by (simp_all add: k)
qed

lemma lane_grid:
  assumes "(x, lo, hi) \<in> set CORRIDOR_VERTICALS \<union> set CORRIDOR_HORIZONTALS"
  shows "on_grid x" "on_grid lo" "on_grid hi" "lo \<le> hi"
proof -
  have l: "(x, lo, hi) \<in> set (CORRIDOR_VERTICALS @ CORRIDOR_HORIZONTALS)" using assms by simp
  have "on_grid x \<and> on_grid lo \<and> on_grid hi"
    using bspec [OF lanes_on_grid [unfolded list_all_iff] l] by simp
  then show "on_grid x" "on_grid lo" "on_grid hi" by auto
  show "lo \<le> hi" using bspec [OF lanes_ordered [unfolded list_all_iff] l] by simp
qed

lemma vertical_same_lane:
  assumes "(x, lo, hi) \<in> set CORRIDOR_VERTICALS" "on_vertical p (x, lo, hi)"
  shows "same_lane (rounded p) (rounded (x, lo))" "same_lane (rounded p) (rounded (x, hi))"
proof -
  have g: "on_grid x" "on_grid lo" "on_grid hi" "lo \<le> hi"
    by (rule lane_grid [of x lo hi]; use assms(1) in simp)+
  have r: "round4 (fst p) = x" "lo \<le> round4 (snd p)" "round4 (snd p) \<le> hi" "round4 x = x" "round4 lo = lo" "round4 hi = hi"
    using assms(2) on_grid_round(1) [OF g(1), of "fst p"] on_grid_round(2) [OF g(3), of "snd p"]
      on_grid_round(3) [OF g(2), of "snd p"] on_grid_round(4) [OF g(1)] on_grid_round(4) [OF g(2)] on_grid_round(4) [OF g(3)]
    by (simp_all add: on_vertical_def)
  then show "same_lane (rounded p) (rounded (x, lo))" "same_lane (rounded p) (rounded (x, hi))"
    using g(4) assms(1) unfolding same_lane_def by (intro disjI1 bexI [OF _ assms(1)]; simp)+
qed

lemma horizontal_same_lane:
  assumes "(y, lo, hi) \<in> set CORRIDOR_HORIZONTALS" "on_horizontal p (y, lo, hi)"
  shows "same_lane (rounded p) (rounded (lo, y))" "same_lane (rounded p) (rounded (hi, y))"
proof -
  have g: "on_grid y" "on_grid lo" "on_grid hi" "lo \<le> hi"
    by (rule lane_grid [of y lo hi]; use assms(1) in simp)+
  have r: "round4 (snd p) = y" "lo \<le> round4 (fst p)" "round4 (fst p) \<le> hi" "round4 y = y" "round4 lo = lo" "round4 hi = hi"
    using assms(2) on_grid_round(1) [OF g(1), of "snd p"] on_grid_round(2) [OF g(3), of "fst p"]
      on_grid_round(3) [OF g(2), of "fst p"] on_grid_round(4) [OF g(1)] on_grid_round(4) [OF g(2)] on_grid_round(4) [OF g(3)]
    by (simp_all add: on_horizontal_def)
  then show "same_lane (rounded p) (rounded (lo, y))" "same_lane (rounded p) (rounded (hi, y))"
    using g(4) assms(1) unfolding same_lane_def by (intro disjI2 bexI [OF _ assms(1)]; simp)+
qed

text \<open>What connecting does to a graph: nothing is lost, and the projection gets an edge to \<open>lo\<close>.\<close>

lemma connect_ok:
  assumes "edges_ok g" "p < length (cg_nodes g)" "0 \<le> wlo" "0 \<le> whi"
    and "same_lane (cg_nodes g ! p) (rounded lo)" "same_lane (cg_nodes g ! p) (rounded hi)"
    and a: "position (rounded lo) (cg_nodes g) = Some a" and b: "position (rounded hi) (cg_nodes g) = Some b"
  shows "\<exists>g'. connect p lo wlo hi whi g = Some g' \<and> cg_nodes g' = cg_nodes g \<and> edges_ok g'
     \<and> (\<forall>u. set (edges_of (cg_adj g) u) \<subseteq> set (edges_of (cg_adj g') u))
     \<and> (a, wlo) \<in> set (edges_of (cg_adj g') p)"
proof -
  let ?g' = "add_edge b p whi (add_edge p b whi (add_edge a p wlo (add_edge p a wlo g)))"
  have ab: "a < length (cg_nodes g)" "cg_nodes g ! a = rounded lo" "b < length (cg_nodes g)" "cg_nodes g ! b = rounded hi"
    using position_Some [OF a] position_Some [OF b] by auto
  have keep: "edge_ok (add_edge i j w h) u e = edge_ok h u e" for i j w h u e by (simp add: edge_ok_def)
  have "edge_ok g p (a, wlo)" "edge_ok g a (p, wlo)" "edge_ok g p (b, whi)" "edge_ok g b (p, whi)"
    using ab assms(2-6) same_lane_sym [OF assms(5)] same_lane_sym [OF assms(6)] by (simp_all add: edge_ok_def)
  then have "edges_ok ?g'" using assms(1) by (intro edges_ok_add) (simp_all only: keep)
  moreover have "connect p lo wlo hi whi g = Some ?g'" using a b by (simp add: connect_def)
  ultimately show ?thesis by (intro exI [of _ ?g']) simp
qed

section \<open>Every lane end reaches the waiting area\<close>

definition grow :: "(nat \<times> (nat \<times> real) list) list \<Rightarrow> nat list \<Rightarrow> nat list" where
  "grow adj us = remdups (us @ concat (map (\<lambda>u. map fst (edges_of adj u)) us))"

fun reached :: "(nat \<times> (nat \<times> real) list) list \<Rightarrow> nat \<Rightarrow> nat list \<Rightarrow> nat list" where
  "reached adj 0 us = us"
| "reached adj (Suc k) us = reached adj k (grow adj us)"

lemma reached_walk:
  assumes "v \<in> set (reached adj k us)" "\<And>u. u \<in> set us \<Longrightarrow> \<exists>ns W. walk (edges_of adj) s ns u W"
  shows "\<exists>ns W. walk (edges_of adj) s ns v W"
  using assms
proof (induction k arbitrary: us)
  case (Suc k)
  have "\<exists>ns W. walk (edges_of adj) s ns u W" if u: "u \<in> set (grow adj us)" for u
  proof (cases "u \<in> set us")
    case False
    then obtain x w where "x \<in> set us" "(u, w) \<in> set (edges_of adj x)" using u False by (auto simp: grow_def)
    then show ?thesis using Suc.prems(2) walk_step by blast
  qed (use Suc.prems(2) in blast)
  then show ?case using Suc.IH [of "grow adj us"] Suc.prems(1) by simp
qed simp

definition goal_node :: nat where
  "goal_node = 13"

definition ends_connected :: "corridor \<Rightarrow> bool" where
  "ends_connected g \<longleftrightarrow>
     position (rounded (REMOTE_X, REMOTE_Y)) (cg_nodes g) = Some goal_node
     \<and> cg_nodes g ! goal_node = (REMOTE_X, REMOTE_Y)
     \<and> list_all (\<lambda>p. case position (rounded p) (cg_nodes g) of
                       None \<Rightarrow> False | Some a \<Rightarrow> goal_node \<in> set (reached (cg_adj g) 7 [a]))
         (concat (map (\<lambda>(x, lo, hi). [(x, lo), (x, hi)]) CORRIDOR_VERTICALS)
          @ concat (map (\<lambda>(y, lo, hi). [(lo, y), (hi, y)]) CORRIDOR_HORIZONTALS))"

lemma corridor_ends_connected: "ends_connected corridor_graph"
  by code_simp

lemma lane_ends:
  assumes "(x, lo, hi) \<in> set CORRIDOR_VERTICALS \<and> p \<in> {(x, lo), (x, hi)}
         \<or> (x, lo, hi) \<in> set CORRIDOR_HORIZONTALS \<and> p \<in> {(lo, x), (hi, x)}"
  obtains a ns W where "position (rounded p) (cg_nodes corridor_graph) = Some a"
    "walk (edges_of (cg_adj corridor_graph)) a ns goal_node W"
proof -
  have "p \<in> set (concat (map (\<lambda>(x, lo, hi). [(x, lo), (x, hi)]) CORRIDOR_VERTICALS)
          @ concat (map (\<lambda>(y, lo, hi). [(lo, y), (hi, y)]) CORRIDOR_HORIZONTALS))"
    using assms by force
  then have "case position (rounded p) (cg_nodes corridor_graph) of
                None \<Rightarrow> False | Some a \<Rightarrow> goal_node \<in> set (reached (cg_adj corridor_graph) 7 [a])"
    using corridor_ends_connected unfolding ends_connected_def list_all_iff by blast
  then obtain a where a: "position (rounded p) (cg_nodes corridor_graph) = Some a"
    "goal_node \<in> set (reached (cg_adj corridor_graph) 7 [a])" by (auto split: option.splits)
  then show thesis using that reached_walk [OF a(2), of a] walk_start by fastforce
qed

lemma walk_mono:
  "walk adj s ns u W \<Longrightarrow> (\<And>x. set (adj x) \<subseteq> set (adj' x)) \<Longrightarrow> walk adj' s ns u W"
  by (induction rule: walk.induct) (auto intro: walk.intros)

lemma walk_prepend:
  "walk adj a ns u W \<Longrightarrow> (a, w) \<in> set (adj p) \<Longrightarrow> \<exists>ns' W'. walk adj p ns' u W'"
proof (induction rule: walk.induct)
  case walk_start
  then show ?case using walk.walk_step [OF walk.walk_start] by blast
next
  case (walk_step ns u d v w')
  then show ?case using walk.walk_step by blast
qed

section \<open>The return route\<close>

definition xy :: "waypoint \<Rightarrow> point" where
  "xy w = (wp_x w, wp_y w)"

lemma xy_simps [simp]: "xy (plain k x y) = (x, y)" "xy (waiting_waypoint x y) = (x, y)" "xy (route_waypoint q) = q"
  by (simp_all add: xy_def plain_def waiting_waypoint_def route_waypoint_def)

lemma dedupe_Cons: "dedupe_waypoints kept (w # ws) =
    (if kept = Some (xy w) then dedupe_waypoints kept ws else w # dedupe_waypoints (Some (xy w)) ws)"
  by (simp add: xy_def)

declare dedupe_waypoints.simps(2) [simp del] dedupe_Cons [simp]

lemma dedupe_last: "ws \<noteq> [] \<Longrightarrow>
    (case dedupe_waypoints kept ws of [] \<Rightarrow> kept = Some (xy (last ws)) | us \<Rightarrow> xy (last us) = xy (last ws))"
proof (induction ws arbitrary: kept)
  case (Cons w ws)
  show ?case
  proof (cases "ws = []")
    case True
    then show ?thesis by simp
  next
    case False
    then show ?thesis
      using Cons.IH [of kept] Cons.IH [of "Some (xy w)"] by (auto split: list.splits)
  qed
qed simp

lemma dedupe_chain:
  assumes "successively R (map xy ws)"
    and "\<And>k. kept = Some k \<Longrightarrow> ws \<noteq> [] \<Longrightarrow> k = xy (hd ws) \<or> R k (xy (hd ws))"
  shows "successively R (map xy (dedupe_waypoints kept ws))
     \<and> (\<forall>k. kept = Some k \<longrightarrow> dedupe_waypoints kept ws \<noteq> [] \<longrightarrow> R k (xy (hd (dedupe_waypoints kept ws))))"
  using assms
proof (induction ws arbitrary: kept)
  case (Cons w ws)
  have chain: "successively R (map xy ws)" and step: "ws \<noteq> [] \<Longrightarrow> R (xy w) (xy (hd ws))"
    using Cons.prems(1) by (cases ws; simp)+
  show ?case
  proof (cases "kept = Some (xy w)")
    case True
    then show ?thesis using Cons.IH [OF chain, of kept] step by simp
  next
    case False
    have "successively R (map xy (dedupe_waypoints (Some (xy w)) ws))
       \<and> (dedupe_waypoints (Some (xy w)) ws \<noteq> [] \<longrightarrow> R (xy w) (xy (hd (dedupe_waypoints (Some (xy w)) ws))))"
      using Cons.IH [OF chain, of "Some (xy w)"] step by simp
    then have "successively R (map xy (w # dedupe_waypoints (Some (xy w)) ws))"
      by (cases "dedupe_waypoints (Some (xy w)) ws") auto
    then show ?thesis using False Cons.prems(2) by auto
  qed
qed simp

lemma walk_lanes:
  assumes "walk (edges_of (cg_adj g)) s ns u W" "edges_ok g"
  shows "successively same_lane (map (\<lambda>i. cg_nodes g ! i) ns)"
  using assms(1)
proof (induction rule: walk.induct)
  case (walk_step ns u d v w)
  have "same_lane (cg_nodes g ! u) (cg_nodes g ! v)"
    using assms(2) walk_step(2) by (fastforce simp: edges_ok_def edge_ok_def)
  moreover have "ns \<noteq> []" "last ns = u" using walk_ends [OF walk_step(1)] by auto
  ultimately show ?case using walk_step.IH by (simp add: successively_append_iff last_map)
qed simp

text \<open>The route found over the graph: dropping repeated points keeps it on the lanes.\<close>

definition lane_route :: "point \<Rightarrow> waypoint list \<Rightarrow> bool" where
  "lane_route c ws \<longleftrightarrow> ws \<noteq> [] \<and> xy (hd ws) = c \<and> xy (last ws) = (REMOTE_X, REMOTE_Y)
     \<and> successively same_lane (map xy (tl ws))"

lemma route_lanes:
  assumes w: "walk (edges_of (cg_adj g)) s path goal W" and g: "edges_ok g" and last: "cg_nodes g ! goal = (REMOTE_X, REMOTE_Y)"
  shows "lane_route c (dedupe_waypoints None (plain ''TRANSIT'' (fst c) (snd c) # map (\<lambda>i. route_waypoint (cg_nodes g ! i)) path))"
proof -
  let ?ws = "map (\<lambda>i. route_waypoint (cg_nodes g ! i)) path"
  let ?us = "dedupe_waypoints (Some c) ?ws"
  have e: "dedupe_waypoints None (plain ''TRANSIT'' (fst c) (snd c) # ?ws) = plain ''TRANSIT'' (fst c) (snd c) # ?us"
    by simp
  have ne: "?ws \<noteq> []" using walk_ends [OF w] by simp
  have lastx: "xy (last ?ws) = (REMOTE_X, REMOTE_Y)"
    using walk_ends [OF w] last by (simp add: last_map)
  have fin: "xy (last (plain ''TRANSIT'' (fst c) (snd c) # ?us)) = (REMOTE_X, REMOTE_Y)"
    using dedupe_last [OF ne, of "Some c"] lastx by (cases ?us) auto
  have chain: "successively same_lane (map xy ?ws)" using walk_lanes [OF w g] by (simp add: comp_def)
  have "successively same_lane (map xy ?us)"
  proof -
    have "successively same_lane (map xy (dedupe_waypoints k ws))" if "successively same_lane (map xy ws)" for k ws
      using that
    proof (induction ws)
      case (Cons a ws)
      have ch: "successively same_lane (map xy ws)" using Cons.prems by (cases ws) auto
      show ?case
      proof (cases "k = Some (xy a)")
        case True
        then show ?thesis using Cons.IH [OF ch] by simp
      next
        case False
        have "successively same_lane (map xy (dedupe_waypoints None (a # ws)))"
          using dedupe_chain [of same_lane "a # ws" None] Cons.prems by simp
        then show ?thesis using False by simp
      qed
    qed simp
    then show ?thesis using chain by blast
  qed
  then show ?thesis using fin by (simp add: lane_route_def e)
qed

lemma route_from_lanes:
  assumes "(\<exists>l \<in> set CORRIDOR_VERTICALS. on_vertical proj l) \<or> (\<exists>l \<in> set CORRIDOR_HORIZONTALS. on_horizontal proj l)"
  shows "\<exists>ws. route_from c proj = Some ws \<and> lane_route c ws"
proof -
  obtain p g where pg: "node_index proj corridor_graph = (p, g)" by (cases "node_index proj corridor_graph")
  note ni = node_index_simps [OF pg]
  have g: "edges_ok g" by (rule ni(4) [OF edges_ok_corridor])
  have keep: "edges_of (cg_adj g) = edges_of (cg_adj corridor_graph)" by (rule ni(3))
  have "\<exists>lo hi wlo whi. connect_projection proj p g = connect p lo wlo hi whi g \<and> 0 \<le> wlo \<and> 0 \<le> whi
      \<and> same_lane (rounded proj) (rounded lo) \<and> same_lane (rounded proj) (rounded hi)
      \<and> (\<exists>x l h. (x, l, h) \<in> set CORRIDOR_VERTICALS \<and> lo = (x, l) \<and> hi = (x, h)
                 \<or> (x, l, h) \<in> set CORRIDOR_HORIZONTALS \<and> lo = (l, x) \<and> hi = (h, x))"
  proof (cases "find (on_vertical proj) CORRIDOR_VERTICALS")
    case (Some l)
    obtain x lo hi where l: "l = (x, lo, hi)" by (cases l)
    have m: "(x, lo, hi) \<in> set CORRIDOR_VERTICALS" "on_vertical proj (x, lo, hi)"
      using Some l by (auto simp: find_Some_iff)
    show ?thesis
      using Some l m vertical_same_lane [OF m]
      by (intro exI [of _ "(x, lo)"] exI [of _ "(x, hi)"] exI [of _ "\<bar>snd proj - lo\<bar>"] exI [of _ "\<bar>hi - snd proj\<bar>"])
        (auto simp: connect_projection_def)
  next
    case None
    then have "\<exists>l \<in> set CORRIDOR_HORIZONTALS. on_horizontal proj l" using assms by (auto simp: find_None_iff)
    then obtain l where "find (on_horizontal proj) CORRIDOR_HORIZONTALS = Some l"
      by (cases "find (on_horizontal proj) CORRIDOR_HORIZONTALS") (auto simp: find_None_iff)
    moreover obtain y lo hi where l: "l = (y, lo, hi)" by (cases l)
    ultimately have m: "(y, lo, hi) \<in> set CORRIDOR_HORIZONTALS" "on_horizontal proj (y, lo, hi)"
      and f: "find (on_horizontal proj) CORRIDOR_HORIZONTALS = Some (y, lo, hi)"
      by (auto simp: find_Some_iff)
    show ?thesis
      using None f m horizontal_same_lane [OF m]
      by (intro exI [of _ "(lo, y)"] exI [of _ "(hi, y)"] exI [of _ "\<bar>fst proj - lo\<bar>"] exI [of _ "\<bar>hi - fst proj\<bar>"])
        (auto simp: connect_projection_def)
  qed
  then obtain lo hi wlo whi x l h where c: "connect_projection proj p g = connect p lo wlo hi whi g" "0 \<le> wlo" "0 \<le> whi"
      "same_lane (rounded proj) (rounded lo)" "same_lane (rounded proj) (rounded hi)"
    and lane: "(x, l, h) \<in> set CORRIDOR_VERTICALS \<and> lo = (x, l) \<and> hi = (x, h)
                 \<or> (x, l, h) \<in> set CORRIDOR_HORIZONTALS \<and> lo = (l, x) \<and> hi = (h, x)"
    by blast
  obtain a ns W where a: "position (rounded lo) (cg_nodes corridor_graph) = Some a"
    and w: "walk (edges_of (cg_adj corridor_graph)) a ns goal_node W"
    by (rule lane_ends [of x l h lo]) (use lane in auto)
  obtain b where b: "position (rounded hi) (cg_nodes corridor_graph) = Some b"
    by (rule lane_ends [of x l h hi]) (use lane in auto)
  obtain g' where g': "connect p lo wlo hi whi g = Some g'" "cg_nodes g' = cg_nodes g" "edges_ok g'"
      "\<forall>u. set (edges_of (cg_adj g) u) \<subseteq> set (edges_of (cg_adj g') u)" "(a, wlo) \<in> set (edges_of (cg_adj g') p)"
    using connect_ok [OF g ni(1) c(2,3) _ _ ni(5) [OF a] ni(5) [OF b]] c(4,5) ni(2) by auto
  have goal: "position (rounded (REMOTE_X, REMOTE_Y)) (cg_nodes g') = Some goal_node"
    using corridor_ends_connected ni(5) by (simp add: ends_connected_def g'(2))
  have at: "cg_nodes g' ! goal_node = (REMOTE_X, REMOTE_Y)"
  proof -
    have "cg_nodes g' ! goal_node = rounded (REMOTE_X, REMOTE_Y)" using position_Some [OF goal] by simp
    moreover have "cg_nodes corridor_graph ! goal_node = rounded (REMOTE_X, REMOTE_Y)"
      "cg_nodes corridor_graph ! goal_node = (REMOTE_X, REMOTE_Y)"
      using corridor_ends_connected position_Some [of "rounded (REMOTE_X, REMOTE_Y)" "cg_nodes corridor_graph" goal_node]
      by (auto simp: ends_connected_def)
    ultimately show ?thesis by simp
  qed
  have "walk (edges_of (cg_adj g')) a ns goal_node W"
    by (rule walk_mono [OF w]) (use g'(4) keep in auto)
  then have "\<exists>ns W. walk (edges_of (cg_adj g')) p ns goal_node W" using walk_prepend g'(5) by blast
  then obtain path d where path: "dijkstra (edges_of (cg_adj g')) p goal_node = Some (Path path)"
    "walk (edges_of (cg_adj g')) p path goal_node d"
    using dijkstra_correct [OF edges_ok_graph [OF g'(3)], of p goal_node] by blast
  have "route_from c proj = Some (dedupe_waypoints None
      (plain ''TRANSIT'' (fst c) (snd c) # map (\<lambda>i. route_waypoint (cg_nodes g' ! i)) path))"
    using pg c(1) g'(1) goal path(1) by (simp add: route_from_def)
  then show ?thesis using route_lanes [OF path(2) g'(3) at] by blast
qed

lemma fallback_ends: "\<exists>w ws. fallback_return cx cy = w # ws \<and> xy w = (cx, cy) \<and> xy (last (w # ws)) = (REMOTE_X, REMOTE_Y)"
proof -
  define vx where "vx = closest_lane cx (fst (hd CORRIDOR_VERTICALS)) (map fst (tl CORRIDOR_VERTICALS))"
  define rest where "rest = (if 1 / 1000000 < \<bar>vx - cx\<bar> then [plain ''TRANSIT'' vx cy] else [])
            @ [plain ''TRANSIT'' vx 1, plain ''TRANSIT'' REMOTE_X 1, waiting_waypoint REMOTE_X REMOTE_Y]"
  have e: "fallback_return cx cy = plain ''TRANSIT'' cx cy # dedupe_waypoints (Some (cx, cy)) rest"
    by (simp add: fallback_return_def Let_def vx_def rest_def)
  have "rest \<noteq> []" "xy (last rest) = (REMOTE_X, REMOTE_Y)" by (simp_all add: rest_def)
  then show ?thesis
    using dedupe_last [of rest "Some (cx, cy)"] e by (cases "dedupe_waypoints (Some (cx, cy)) rest") auto
qed

text \<open>
  Property C22. Planning the return never fails: from every pose there is a route, it starts at the
  pose and ends at the waiting area, no search loops and no lookup raises; and when the pose is
  within two metres of a lane, every leg after the approach to the lane runs along one lane of the
  corridor.
\<close>

theorem return_route_exists:
  "\<exists>ws d p i. build_return_waypoints cx cy = Some ws \<and> ws \<noteq> [] \<and> xy (hd ws) = (cx, cy)
     \<and> xy (last ws) = (REMOTE_X, REMOTE_Y)
     \<and> project_onto_segments (cx, cy) corridor_segments = Some (d, p, i)
     \<and> (2 * 2 < d \<or> successively same_lane (map xy (tl ws)))"
proof -
  have "corridor_segments \<noteq> []" by (simp add: corridor_segments_def CORRIDOR_VERTICALS_def)
  then obtain d p i where proj: "project_onto_segments (cx, cy) corridor_segments = Some (d, p, i)"
    using nearest_some [of corridor_segments None "(cx, cy)" 0] unfolding project_onto_segments_def by auto
  show ?thesis
  proof (cases "2 * 2 < d")
    case True
    obtain w ws where "fallback_return cx cy = w # ws" "xy w = (cx, cy)" "xy (last (w # ws)) = (REMOTE_X, REMOTE_Y)"
      using fallback_ends by blast
    then show ?thesis using proj True by (auto simp: build_return_waypoints_def)
  next
    case False
    obtain ws where "route_from (cx, cy) p = Some ws" "lane_route (cx, cy) ws"
      using route_from_lanes [OF projection_on_lane [OF proj]] by blast
    then show ?thesis using proj False by (auto simp: build_return_waypoints_def lane_route_def)
  qed
qed

end
