(* ===== verification/Cruise.thy ===== *)
theory Cruise
  imports Route_Builder "HOL-Library.Multiset"
begin

text \<open>
  What the cruise of \<open>build_cruise_waypoints\<close> promises: it visits every slot exactly once, numbered
  in order, each time from a pose that has the slot on the right-hand side of the vehicle; it exists
  exactly when every code can be read and none of the five groups is empty.
\<close>

section \<open>Groups\<close>

definition GROUPS :: "string list" where
  "GROUPS = [''col1'', ''col2'', ''col3'', ''col4'', ''top'']"

lemma group_of_cases: "group_of c = Some g \<Longrightarrow> g \<in> set GROUPS"
  by (auto simp: group_of_def GROUPS_def split: if_splits)

lemma members_mset:
  assumes "\<forall>s \<in> set slots. group_of (sl_code s) \<noteq> None"
  shows "mset (members ''col1'' slots) + mset (members ''col2'' slots) + mset (members ''col3'' slots)
       + mset (members ''col4'' slots) + mset (members ''top'' slots) = mset slots"
  using assms
proof (induction slots)
  case (Cons s ss)
  then obtain g where g: "group_of (sl_code s) = Some g" by auto
  then have "g = ''col1'' \<or> g = ''col2'' \<or> g = ''col3'' \<or> g = ''col4'' \<or> g = ''top''"
    using group_of_cases [OF g] by (simp add: GROUPS_def)
  moreover have "mset (members ''col1'' ss) + mset (members ''col2'' ss) + mset (members ''col3'' ss)
       + mset (members ''col4'' ss) + mset (members ''top'' ss) = mset ss"
    using Cons by simp
  ultimately show ?case using g by (elim disjE) (simp_all add: members_def)
qed (simp add: members_def)

lemma ordered_groups_Some:
  assumes "ordered_groups slots = Some groups"
  shows "length groups = 5" "mset (concat groups) = mset slots"
    and "gi < 5 \<Longrightarrow> s \<in> set (groups ! gi) \<Longrightarrow> s \<in> set slots \<and> group_of (sl_code s) = Some (GROUPS ! gi)"
proof -
  have all: "\<forall>s \<in> set slots. group_of (sl_code s) \<noteq> None"
    and gs: "groups = [sort_key (\<lambda>s. - sl_y s) (members ''col1'' slots), sort_key sl_y (members ''col2'' slots),
                 sort_key (\<lambda>s. - sl_y s) (members ''col3'' slots), sort_key sl_y (members ''col4'' slots),
                 sort_key (\<lambda>s. - sl_x s) (members ''top'' slots)]"
    using assms by (auto simp: ordered_groups_def split: if_splits)
  show "length groups = 5" by (simp add: gs)
  show "mset (concat groups) = mset slots" using members_mset [OF all] by (simp add: gs ac_simps)
  show "s \<in> set slots \<and> group_of (sl_code s) = Some (GROUPS ! gi)" if "gi < 5" "s \<in> set (groups ! gi)"
  proof -
    have "gi \<in> {0, 1, 2, 3, 4}" using that(1) by auto
    then show ?thesis using that(2) by (auto simp: gs GROUPS_def members_def)
  qed
qed

section \<open>The inspections of the cruise\<close>

definition inspections_of :: "waypoint list \<Rightarrow> waypoint list" where
  "inspections_of ws = filter (\<lambda>w. wp_kind w = ''INSPECTION'') ws"

lemma inspections_of_append [simp]: "inspections_of (us @ ws) = inspections_of us @ inspections_of ws"
  by (simp add: inspections_of_def)

lemma inspections_of_Nil [simp]: "inspections_of [] = []"
  by (simp add: inspections_of_def)

lemma inspections_of_plain [simp]: "k \<noteq> ''INSPECTION'' \<Longrightarrow> inspections_of (plain k x y # ws) = inspections_of ws"
  by (simp add: inspections_of_def plain_def)

lemma inspections_of_waiting [simp]: "inspections_of (waiting_waypoint x y # ws) = inspections_of ws"
  by (simp add: inspections_of_def waiting_waypoint_def plain_def)

lemma inspections_of_inspections [simp]: "inspections_of (inspections gi n ss) = inspections gi n ss"
  by (induction gi n ss rule: inspections.induct) (simp_all add: inspections_of_def inspection_waypoint_def Let_def)

lemma inspections_of_turns [simp]: "inspections_of (turns gi p q) = []"
  by (simp add: turns_def)

fun numbered :: "nat \<Rightarrow> int \<Rightarrow> slot_ref list list \<Rightarrow> waypoint list" where
  "numbered gi n [] = []"
| "numbered gi n (g # gs) = inspections gi n g @ numbered (gi + 1) (n + int (length g)) gs"

lemma inspections_of_cruise: "inspections_of (cruise_groups gi n gs) = numbered gi n gs"
  by (induction gi n gs rule: cruise_groups.induct) simp_all

text \<open>A waypoint inspects a slot: under its code, from its pose, with the slot on the right.\<close>

definition inspects :: "waypoint \<Rightarrow> slot_ref \<Rightarrow> bool" where
  "inspects w s \<longleftrightarrow> wp_slot w = Some (sl_code s)
     \<and> (\<exists>p. inspection_pose s = Some p \<and> wp_x w = po_x p \<and> wp_y w = po_y p \<and> wp_theta w = Some (po_theta p)
          \<and> slot_is_on_vehicle_right p s)"

lemma pose_on_right: "slot_is_on_vehicle_right (inspection_pose_of g s) s"
  by (simp add: slot_is_on_vehicle_right_def inspection_pose_of_def vehicle_right_vector_def)

lemma inspection_waypoint_inspects:
  "gi < 5 \<Longrightarrow> group_of (sl_code s) = Some (GROUPS ! gi) \<Longrightarrow> inspects (inspection_waypoint gi n s) s"
  by (auto simp: inspects_def inspection_waypoint_def Let_def pose_in_def GROUPS_def inspection_pose_def pose_on_right)

lemma inspections_inspect:
  "gi < 5 \<Longrightarrow> \<forall>s \<in> set ss. group_of (sl_code s) = Some (GROUPS ! gi) \<Longrightarrow> list_all2 inspects (inspections gi n ss) ss"
  by (induction gi n ss rule: inspections.induct) (simp_all add: inspection_waypoint_inspects)

lemma numbered_inspect:
  "\<forall>i < length gs. gi + i < 5 \<and> (\<forall>s \<in> set (gs ! i). group_of (sl_code s) = Some (GROUPS ! (gi + i)))
     \<Longrightarrow> list_all2 inspects (numbered gi n gs) (concat gs)"
proof (induction gi n gs rule: numbered.induct)
  case (2 gi n g gs)
  have "list_all2 inspects (inspections gi n g) g"
    using spec [OF "2.prems", of 0] by (intro inspections_inspect) simp_all
  moreover have "list_all2 inspects (numbered (gi + 1) (n + int (length g)) gs) (concat gs)"
  proof (rule "2.IH", intro allI impI)
    fix i assume "i < length gs"
    then show "gi + 1 + i < 5 \<and> (\<forall>s \<in> set (gs ! i). group_of (sl_code s) = Some (GROUPS ! (gi + 1 + i)))"
      using spec [OF "2.prems", of "Suc i"] by simp
  qed
  ultimately show ?case by (simp add: list_all2_appendI)
qed simp

lemma inspections_sequence:
  "map wp_sequence (inspections gi n ss) = map Some [n + 1..n + int (length ss)]"
proof (induction gi n ss rule: inspections.induct)
  case (2 gi n s ss)
  have "[n + 1..n + int (length (s # ss))] = (n + 1) # [n + 1 + 1..n + 1 + int (length ss)]"
    by (subst upto_rec1) (simp_all add: algebra_simps)
  then show ?case using 2 by (simp add: inspection_waypoint_def Let_def)
qed simp

lemma numbered_sequence:
  "map wp_sequence (numbered gi n gs) = map Some [n + 1..n + int (length (concat gs))]"
proof (induction gi n gs rule: numbered.induct)
  case (2 gi n g gs)
  have "[n + 1..n + int (length (concat (g # gs)))]
      = [n + 1..n + int (length g)] @ [n + int (length g) + 1..n + int (length g) + int (length (concat gs))]"
    by (cases g) (simp, subst upto_split2 [of "n + 1" "n + int (length g)"], simp_all add: algebra_simps)
  then show ?case using 2 by (simp add: inspections_sequence)
qed simp

lemma cruise_inspections:
  assumes "build_cruise_waypoints slots = Some ws"
  obtains groups where "ordered_groups slots = Some groups" "inspections_of ws = numbered 0 0 groups"
proof -
  obtain groups where g: "ordered_groups slots = Some groups"
    using assms by (auto simp: build_cruise_waypoints_def split: option.splits)
  then have "inspections_of ws = numbered 0 0 groups"
    using assms by (auto simp: build_cruise_waypoints_def inspections_of_cruise Let_def split: if_splits)
  then show ?thesis using g by (rule that [rotated])
qed

text \<open>
  Property C23. The cruise inspects every slot exactly once, as often as it is listed, in the order
  of \<open>ordered_codes\<close> and numbered 1, 2, 3 and so on; each inspection stands at the pose
  \<open>inspection_pose\<close> gives for its slot, and from there the slot is on the vehicle's right.
\<close>

theorem cruise_inspects_every_slot:
  assumes "build_cruise_waypoints slots = Some ws"
  shows "\<exists>ss. mset ss = mset slots \<and> ordered_codes slots = Some (map sl_code ss)
     \<and> list_all2 inspects (inspections_of ws) ss
     \<and> map wp_sequence (inspections_of ws) = map Some [1..int (length slots)]"
proof -
  obtain groups where g: "ordered_groups slots = Some groups" and i: "inspections_of ws = numbered 0 0 groups"
    using cruise_inspections [OF assms] .
  have m: "mset (concat groups) = mset slots" by (rule ordered_groups_Some(2) [OF g])
  then have "length (concat groups) = length slots" by (rule mset_eq_length)
  moreover have "list_all2 inspects (numbered 0 0 groups) (concat groups)"
    using ordered_groups_Some(1,3) [OF g] by (intro numbered_inspect) auto
  ultimately show ?thesis
    using m g i numbered_sequence [of 0 0 groups] by (intro exI [of _ "concat groups"]) (auto simp: ordered_codes_def)
qed

text \<open>The cruise exists exactly when every code can be read and every group has a slot.\<close>

lemma cruise_exists_iff:
  "build_cruise_waypoints slots \<noteq> None \<longleftrightarrow>
     (\<forall>s \<in> set slots. slot_number (sl_code s) \<noteq> None)
     \<and> (\<forall>g \<in> set GROUPS. \<exists>s \<in> set slots. group_of (sl_code s) = Some g)"
proof -
  have n: "slot_number (sl_code s) = None \<longleftrightarrow> group_of (sl_code s) = None" for s
    by (simp add: group_of_def)
  have e: "sort_key f (members g slots) = [] \<longleftrightarrow> \<not> (\<exists>s \<in> set slots. group_of (sl_code s) = Some g)"
    for f :: "slot_ref \<Rightarrow> real" and g
    using mset_sort [of f "members g slots"] by (auto simp: members_def filter_empty_conv simp flip: mset_zero_iff)
  have e': "[] = sort_key f (members g slots) \<longleftrightarrow> \<not> (\<exists>s \<in> set slots. group_of (sl_code s) = Some g)"
    for f :: "slot_ref \<Rightarrow> real" and g
    using e [of f g] by metis
  show ?thesis
    unfolding build_cruise_waypoints_def ordered_groups_def n
    by (simp add: e e' GROUPS_def Let_def)
qed

definition demo_slots :: "slot_ref list" where
  "demo_slots = [\<lparr>sl_code = ''A-01'', sl_x = 3, sl_y = 31\<rparr>, \<lparr>sl_code = ''A-02'', sl_x = 5, sl_y = 31\<rparr>,
     \<lparr>sl_code = ''A-19'', sl_x = 5, sl_y = 3\<rparr>, \<lparr>sl_code = ''A-28'', sl_x = 17, sl_y = 3\<rparr>,
     \<lparr>sl_code = ''A-37'', sl_x = 29, sl_y = 3\<rparr>, \<lparr>sl_code = ''A-46'', sl_x = 43, sl_y = 3\<rparr>]"

lemma demo_groups:
  "map (\<lambda>s. group_of (sl_code s)) demo_slots
     = [Some ''top'', Some ''top'', Some ''col1'', Some ''col2'', Some ''col3'', Some ''col4'']"
  by code_simp

theorem cruise_inspects_every_slot_witness:
  "\<exists>ws ss. build_cruise_waypoints demo_slots = Some ws \<and> mset ss = mset demo_slots
     \<and> list_all2 inspects (inspections_of ws) ss \<and> map wp_sequence (inspections_of ws) = map Some [1..6]"
proof -
  have "slot_number (sl_code s) \<noteq> None" if "s \<in> set demo_slots" for s
    using that demo_groups by (auto simp: demo_slots_def group_of_def)
  moreover have "\<exists>s \<in> set demo_slots. group_of (sl_code s) = Some g" if "g \<in> set GROUPS" for g
    using that demo_groups by (auto simp: demo_slots_def GROUPS_def)
  ultimately obtain ws where ws: "build_cruise_waypoints demo_slots = Some ws"
    using cruise_exists_iff [of demo_slots] by blast
  then show ?thesis
    using cruise_inspects_every_slot [OF ws] by (auto simp: demo_slots_def)
qed

end
