(* ===== verification/Tasks.thy ===== *)
theory Tasks
  imports Safety_Commands Route_Builder
begin

text \<open>
  The task endpoints (\<open>tasks/router.py\<close>) and the builders behind them (\<open>tasks/patrol.py\<close>,
  \<open>tasks/return_dock.py\<close>): extinguishing tasks, patrols and their resumption, the return to the
  waiting area, and cancelling. An endpoint maps the platform and the request to the new platform
  and the response or the error; an error rolls the open session back.

  \<open>Trajectory.path_json\<close> holds waypoint dictionaries as the route builder writes them. Redis reads
  are taken to succeed; appending to the event stream may fail, after the commit, and then the
  request fails although its task exists. The distance to the waiting area is compared by squares.
\<close>

section \<open>Errors in sequence\<close>

definition and_then :: "'e + 'a \<Rightarrow> ('a \<Rightarrow> 'e + 'b) \<Rightarrow> 'e + 'b" where
  "and_then x f = (case x of Inl e \<Rightarrow> Inl e | Inr v \<Rightarrow> f v)"

lemma and_then_simps [simp]: "and_then (Inl e) f = Inl e" "and_then (Inr v) f = f v"
  by (simp_all add: and_then_def)

lemma and_then_Inr [simp]: "and_then x f = Inr y \<longleftrightarrow> (\<exists>v. x = Inr v \<and> f v = Inr y)"
  by (cases x) simp_all

definition raised :: "py_exn + 'a \<Rightarrow> api_error + 'a" where
  "raised x = (case x of Inl e \<Rightarrow> Inl (PyError e) | Inr v \<Rightarrow> Inr v)"

definition or_raise :: "'e \<Rightarrow> 'a option \<Rightarrow> 'e + 'a" where
  "or_raise e x = (case x of None \<Rightarrow> Inl e | Some v \<Rightarrow> Inr v)"

lemma raised_simps [simp]: "raised (Inl e) = Inl (PyError e)" "raised (Inr v) = Inr v"
  by (simp_all add: raised_def)

lemma raised_Inr [simp]: "raised x = Inr v \<longleftrightarrow> x = Inr v"
  by (cases x) simp_all

lemma or_raise_simps [simp]: "or_raise e None = Inl e" "or_raise e (Some v) = Inr v"
  by (simp_all add: or_raise_def)

lemma or_raise_Inr [simp]: "or_raise e x = Inr v \<longleftrightarrow> x = Some v"
  by (cases x) simp_all

section \<open>Waypoints and poses\<close>

definition waypoint_json :: "waypoint \<Rightarrow> json" where
  "waypoint_json w = JObj
     ([(''x'', JFloat (wp_x w)), (''y'', JFloat (wp_y w)), (''kind'', JStr (wp_kind w))]
      @ (case wp_theta w of None \<Rightarrow> [] | Some t \<Rightarrow> [(''theta'', JFloat t)])
      @ (case wp_slot w of None \<Rightarrow> [] | Some s \<Rightarrow> [(''slot_code'', JStr s)])
      @ (case wp_sequence w of None \<Rightarrow> [] | Some i \<Rightarrow> [(''sequence'', JInt i)]))"

fun json_real :: "json \<Rightarrow> real option" where
  "json_real (JFloat r) = Some r"
| "json_real (JInt i) = Some (real_of_int i)"
| "json_real v = None"

fun json_str :: "json \<Rightarrow> string option" where
  "json_str (JStr s) = Some s"
| "json_str v = None"

fun json_int :: "json \<Rightarrow> int option" where
  "json_int (JInt i) = Some i"
| "json_int v = None"

fun waypoint_of :: "json \<Rightarrow> waypoint option" where
  "waypoint_of (JObj d) =
     (case (json_real (jget d ''x''), json_real (jget d ''y'')) of
        (Some x, Some y) \<Rightarrow> Some \<lparr>wp_x = x, wp_y = y, wp_kind = jstr_of (jget d ''kind''),
           wp_theta = json_real (jget d ''theta''), wp_slot = json_str (jget d ''slot_code''),
           wp_sequence = json_int (jget d ''sequence'')\<rparr>
      | _ \<Rightarrow> None)"
| "waypoint_of v = None"

fun waypoints_of :: "json list \<Rightarrow> waypoint list option" where
  "waypoints_of [] = Some []"
| "waypoints_of (v # vs) =
     (case (waypoint_of v, waypoints_of vs) of (Some w, Some ws) \<Rightarrow> Some (w # ws) | _ \<Rightarrow> None)"

definition path_json :: "waypoint list \<Rightarrow> json" where
  "path_json ws = JArr (map waypoint_json ws)"

definition latest_dict :: "micros \<Rightarrow> redis \<Rightarrow> robot \<Rightarrow> dict" where
  "latest_dict now redis r =
     (case redis_get now redis (latest_key (rb_vehicle_id r)) of None \<Rightarrow> [] | Some v \<Rightarrow> as_dict v)"

definition WAITING_TOLERANCE_M :: real where
  "WAITING_TOLERANCE_M = 8 / 10"

definition robot_at_waiting :: "pyenv \<Rightarrow> redis \<Rightarrow> robot \<Rightarrow> py_exn + bool" where
  "robot_at_waiting env redis r =
     (let latest = latest_dict (utc_now env) redis r in
      if \<not> jhas latest ''x'' \<or> \<not> jhas latest ''y'' then Inr False
      else bind (py_float env (jget latest ''x'')) (\<lambda>x.
           bind (py_float env (jget latest ''y'')) (\<lambda>y.
             Inr (dist2 (x, y) (REMOTE_X, REMOTE_Y) \<le> WAITING_TOLERANCE_M * WAITING_TOLERANCE_M))))"

definition latest_pose :: "pyenv \<Rightarrow> dict \<Rightarrow> py_exn + (real \<times> real \<times> real) option" where
  "latest_pose env latest =
     (if \<not> jhas latest ''x'' \<or> \<not> jhas latest ''y'' \<or> \<not> jhas latest ''theta'' then Inr None
      else bind (py_float env (jget latest ''x'')) (\<lambda>x.
           bind (py_float env (jget latest ''y'')) (\<lambda>y.
           bind (py_float env (jget latest ''theta'')) (\<lambda>t. Inr (Some (x, y, t))))))"

section \<open>Tasks and their commands\<close>

definition new_task :: "pyenv \<Rightarrow> nat \<Rightarrow> robot \<Rightarrow> ident \<Rightarrow> string \<Rightarrow> string \<Rightarrow> dict \<Rightarrow> ident \<Rightarrow> string \<Rightarrow> int \<Rightarrow>
     json \<Rightarrow> dict \<Rightarrow> task" where
  "new_task env n r actor ty phase pose map_id version revision trajectory params =
     \<lparr>tk_id = uuid env (n + 1), tk_code = task_code env n ''T'', tk_robot_id = rb_id r, tk_fire_id = None,
      tk_type = ty, tk_status = ''CREATED'', tk_phase = phase, tk_progress = JInt 0, tk_slot_id = None,
      tk_pose = pose, tk_map_id = map_id, tk_map_version = version, tk_revision = revision,
      tk_trajectory = trajectory, tk_parameters = params, tk_created_by = actor,
      tk_created_at = utc_now env, tk_accepted_at = None, tk_started_at = None, tk_completed_at = None,
      tk_failure_code = JNull, tk_failure_message = JNull\<rparr>"

definition created_event :: "task \<Rightarrow> task_event" where
  "created_event t = \<lparr>te_task_id = tk_id t, te_status = tk_status t, te_phase = tk_phase t,
     te_progress = tk_progress t, te_payload = []\<rparr>"

definition add_task :: "task \<Rightarrow> tx \<Rightarrow> tx" where
  "add_task t db = db\<lparr>d_tasks := d_tasks db @ [t], d_task_events := d_task_events db @ [created_event t]\<rparr>"

definition queued :: "task \<Rightarrow> task" where
  "queued t = t\<lparr>tk_status := ''QUEUED'', tk_phase := ''COMMAND_QUEUED''\<rparr>"

text \<open>The task is added and flushed, its command goes through the gate, then the task is queued.\<close>

definition launch ::
    "pyenv \<Rightarrow> nat \<Rightarrow> redis \<Rightarrow> robot \<Rightarrow> ident \<Rightarrow> string \<Rightarrow> dict \<Rightarrow> int \<Rightarrow> task \<Rightarrow> tx \<Rightarrow>
     api_error + (task \<times> command \<times> tx)" where
  "launch env n redis r actor cmd params priority t db =
     and_then (create_durable_command env (n + 2) redis r actor cmd params (Some (tk_id t)) 30000 priority
                 (add_task t db)) (\<lambda>(c, db1).
       Inr (queued t, c, put_task (queued t) db1))"

section \<open>Patrols\<close>

fun insert_point :: "patrol_point \<Rightarrow> patrol_point list \<Rightarrow> patrol_point list" where
  "insert_point p [] = [p]"
| "insert_point p (q # qs) = (if pt_sequence p \<le> pt_sequence q then p # q # qs else q # insert_point p qs)"

definition plan_points :: "ident \<Rightarrow> 'a database_scheme \<Rightarrow> patrol_point list" where
  "plan_points pid db = foldr insert_point (filter (\<lambda>p. pt_plan_id p = pid) (d_plan_points db)) []"

fun with_presets :: "patrol_point list \<Rightarrow> 'a database_scheme \<Rightarrow> (patrol_point \<times> navigation_preset) list option" where
  "with_presets [] db = Some []"
| "with_presets (p # ps) db =
     (case (get_preset (pt_preset_id p) db, with_presets ps db) of
        (Some s, Some rest) \<Rightarrow> if np_enabled s then Some ((p, s) # rest) else None
      | _ \<Rightarrow> None)"

definition point_snapshot :: "patrol_point \<times> navigation_preset \<Rightarrow> json" where
  "point_snapshot ps = JObj [(''navigation_preset_id'', JStr (np_id (snd ps))), (''pose'', JObj (np_pose (snd ps))),
     (''dwell_seconds'', JInt (pt_dwell (fst ps))), (''required_observations'', pt_observations (fst ps))]"

definition plan_version :: "patrol_plan \<Rightarrow> 'a database_scheme \<Rightarrow> api_error + map_version" where
  "plan_version plan db =
     (case get_map_version (pp_map_version_id plan) db of
        None \<Rightarrow> Inl (PlatformError ''PATROL_PLAN_INVALID'')
      | Some v \<Rightarrow> if pp_enabled plan then Inr v else Inl (PlatformError ''PATROL_PLAN_INVALID''))"

definition same_map :: "robot \<Rightarrow> map_version \<Rightarrow> bool" where
  "same_map r v \<longleftrightarrow> rb_map_id r = Some (mv_map_id v) \<and> rb_map_version r = Some (mv_version v)"

definition trajectory_json :: "trajectory option \<Rightarrow> json" where
  "trajectory_json t = (case t of None \<Rightarrow> JNull | Some x \<Rightarrow> JArr (tj_path x))"

definition prepare_patrol ::
    "pyenv \<Rightarrow> nat \<Rightarrow> patrol_plan \<Rightarrow> robot \<Rightarrow> ident \<Rightarrow> json \<Rightarrow> ident option \<Rightarrow> ident option \<Rightarrow> tx \<Rightarrow>
     api_error + (task \<times> dict)" where
  "prepare_patrol env n plan r actor source schedule occurrence db =
     and_then (plan_version plan db) (\<lambda>v.
     if \<not> same_map r v then Inl (PlatformError ''MAP_VERSION_MISMATCH'')
     else case with_presets (plan_points (pp_id plan) db) db of
       None \<Rightarrow> Inl (PlatformError ''PATROL_PLAN_POINTS_INVALID'')
     | Some [] \<Rightarrow> Inl (PlatformError ''PATROL_PLAN_POINTS_INVALID'')
     | Some (first # rest) \<Rightarrow>
       (let points = JArr (map point_snapshot (first # rest));
            path = trajectory_json (get_trajectory (pp_trajectory_id plan) db);
            t = new_task env n r actor ''PATROL'' ''PATROL_PLAN_TRIGGERED'' (np_pose (snd first))
                  (mv_map_id v) (mv_version v) (mv_revision v) path
                  [(''source'', source), (''patrol_plan_id'', JStr (pp_id plan)),
                   (''schedule_id'', jopt schedule), (''occurrence_id'', jopt occurrence), (''points'', points)]
        in Inr (t, [(''task_id'', JStr (tk_id t)), (''patrol_plan_id'', JStr (pp_id plan)),
              (''map_id'', JStr (mv_map_id v)), (''map_version'', JStr (mv_version v)),
              (''semantic_revision'', JInt (mv_revision v)), (''trajectory'', path), (''points'', points)])))"

definition build_patrol_task ::
    "pyenv \<Rightarrow> nat \<Rightarrow> redis \<Rightarrow> patrol_plan \<Rightarrow> robot \<Rightarrow> ident \<Rightarrow> json \<Rightarrow> ident option \<Rightarrow> ident option \<Rightarrow> tx \<Rightarrow>
     api_error + (task \<times> command \<times> tx)" where
  "build_patrol_task env n redis plan r actor source schedule occurrence db =
     and_then (prepare_patrol env n plan r actor source schedule occurrence db) (\<lambda>(t, params).
       launch env n redis r actor ''patrol'' params 50 t db)"

lemma build_patrol_task_eq:
  "build_patrol_task env n redis plan r actor source schedule occurrence db =
     and_then (plan_version plan db) (\<lambda>v.
     if \<not> same_map r v then Inl (PlatformError ''MAP_VERSION_MISMATCH'')
     else case with_presets (plan_points (pp_id plan) db) db of
       None \<Rightarrow> Inl (PlatformError ''PATROL_PLAN_POINTS_INVALID'')
     | Some [] \<Rightarrow> Inl (PlatformError ''PATROL_PLAN_POINTS_INVALID'')
     | Some (first # rest) \<Rightarrow>
       (let points = JArr (map point_snapshot (first # rest));
            path = trajectory_json (get_trajectory (pp_trajectory_id plan) db);
            t = new_task env n r actor ''PATROL'' ''PATROL_PLAN_TRIGGERED'' (np_pose (snd first))
                  (mv_map_id v) (mv_version v) (mv_revision v) path
                  [(''source'', source), (''patrol_plan_id'', JStr (pp_id plan)),
                   (''schedule_id'', jopt schedule), (''occurrence_id'', jopt occurrence), (''points'', points)]
        in launch env n redis r actor ''patrol''
             [(''task_id'', JStr (tk_id t)), (''patrol_plan_id'', JStr (pp_id plan)),
              (''map_id'', JStr (mv_map_id v)), (''map_version'', JStr (mv_version v)),
              (''semantic_revision'', JInt (mv_revision v)), (''trajectory'', path), (''points'', points)]
             50 t db))"
  unfolding build_patrol_task_def prepare_patrol_def
  by (cases "plan_version plan db") (simp_all add: Let_def split: option.split list.split)

text \<open>\<open>parameters.get("live_route_cursor") or {}\<close>, whose \<open>get\<close> a value that is no object does not have.\<close>

definition live_cursor :: "task \<Rightarrow> py_exn + dict" where
  "live_cursor t =
     (case jget (tk_parameters t) ''live_route_cursor'' of
        JObj d \<Rightarrow> Inr d
      | v \<Rightarrow> if truthy v then Inl AttributeError else Inr [])"

definition opt_int :: "pyenv \<Rightarrow> json \<Rightarrow> py_exn + int option" where
  "opt_int env v = (if v = JNull then Inr None else bind (py_int env v) (\<lambda>i. Inr (Some i)))"

definition resume_index :: "pyenv \<Rightarrow> dict \<Rightarrow> py_exn + int option" where
  "resume_index env cursor =
     opt_int env (if jget cursor ''target_waypoint_index'' = JNull then jget cursor ''waypoint_index''
                  else jget cursor ''target_waypoint_index'')"

text \<open>\<open>first = resumed[1] if len(resumed) > 1 else current_pose\<close>\<close>

definition first_target :: "real \<times> real \<times> real \<Rightarrow> waypoint list \<Rightarrow> dict" where
  "first_target pose ws =
     (case ws of
        a # b # rest \<Rightarrow> as_dict (waypoint_json b)
      | _ \<Rightarrow> [(''x'', JFloat (fst pose)), (''y'', JFloat (fst (snd pose))), (''theta'', JFloat (snd (snd pose)))])"

definition build_resumed_patrol_task ::
    "pyenv \<Rightarrow> nat \<Rightarrow> redis \<Rightarrow> patrol_plan \<Rightarrow> robot \<Rightarrow> ident \<Rightarrow> json \<Rightarrow> task \<Rightarrow> tx \<Rightarrow>
     api_error + (task \<times> command \<times> tx)" where
  "build_resumed_patrol_task env n redis plan r actor source previous db =
     and_then (plan_version plan db) (\<lambda>v.
     and_then (raised (live_cursor previous)) (\<lambda>cursor.
     let db1 = put_task (previous\<lparr>tk_parameters :=
                  jset ''resume_state'' (JStr ''CONSUMED_BY_RESUME'') (tk_parameters previous)\<rparr>) db in
     and_then (raised (latest_pose env (latest_dict (utc_now env) redis r))) (\<lambda>found.
     and_then (or_raise (PlatformError ''ROBOT_POSE_UNKNOWN'') found) (\<lambda>pose.
     and_then (raised (resume_index env cursor)) (\<lambda>index.
     and_then (or_raise (PyError KeyError)
        (waypoints_of (case get_trajectory (pp_trajectory_id plan) db of None \<Rightarrow> [] | Some t \<Rightarrow> tj_path t))) (\<lambda>full.
     and_then (or_raise (PyError ValueError)
        (build_resumed_cruise_waypoints (fst pose, fst (snd pose)) full index)) (\<lambda>resumed.
       let t = new_task env n r actor ''PATROL'' ''PATROL_RESUMED'' (first_target pose resumed)
                 (mv_map_id v) (mv_version v) (mv_revision v) (path_json resumed)
                 [(''source'', source), (''patrol_plan_id'', JStr (pp_id plan)),
                  (''resumed_from_task_id'', JStr (tk_id previous)),
                  (''resume_waypoint_index'', (case index of None \<Rightarrow> JNull | Some i \<Rightarrow> JInt i))]
       in launch env n redis r actor ''patrol''
            [(''task_id'', JStr (tk_id t)), (''patrol_plan_id'', JStr (pp_id plan)),
             (''map_id'', JStr (mv_map_id v)), (''map_version'', JStr (mv_version v)),
             (''semantic_revision'', JInt (mv_revision v)), (''trajectory'', path_json resumed),
             (''resume_waypoint_index'', (case index of None \<Rightarrow> JNull | Some i \<Rightarrow> JInt i))]
            50 t db1)))))))"

section \<open>Returning to the waiting area\<close>

definition CRUISE_CODE :: string where
  "CRUISE_CODE = ''RIGHT_SIDE_S_CRUISE''"

definition waiting_preset :: "'a database_scheme \<Rightarrow> navigation_preset option" where
  "waiting_preset db =
     first_row (\<lambda>p. (\<exists>t \<in> set (d_trajectories db). tj_code t = CRUISE_CODE \<and> tj_map_version_id t = np_map_version_id p)
        \<and> np_category p = ''WAITING_AREA'' \<and> np_code p = ''REMOTE_WAITING_AREA'') (d_presets db)"

text \<open>\<open>_route_cursor_of\<close>; its result is passed on but not used by the return planner.\<close>

definition route_cursor_of :: "pyenv \<Rightarrow> task \<Rightarrow> py_exn + (int option \<times> int option)" where
  "route_cursor_of env t =
     bind (live_cursor t) (\<lambda>cursor.
     bind (opt_int env (jget cursor ''waypoint_index'')) (\<lambda>i.
     bind (opt_int env (jget cursor ''waypoint_total'')) (\<lambda>total. Inr (i, total))))"

definition build_return_task ::
    "pyenv \<Rightarrow> nat \<Rightarrow> redis \<Rightarrow> robot \<Rightarrow> ident \<Rightarrow> json \<Rightarrow> task option \<Rightarrow> tx \<Rightarrow> api_error + (task \<times> command \<times> tx)" where
  "build_return_task env n redis r actor source previous db =
     and_then (or_raise (PlatformError ''WAITING_AREA_MISSING'') (waiting_preset db)) (\<lambda>w.
     and_then (raised (latest_pose env (latest_dict (utc_now env) redis r))) (\<lambda>found.
     and_then (raised (case previous of None \<Rightarrow> Inr (None, None) | Some t \<Rightarrow> route_cursor_of env t)) (\<lambda>_.
     let pose = (case found of None \<Rightarrow> (REMOTE_X, REMOTE_Y) | Some (x, y, t) \<Rightarrow> (x, y)) in
     and_then (or_raise (PyError ValueError) (build_return_waypoints (fst pose) (snd pose))) (\<lambda>path.
       let t = new_task env n r actor ''RETURN_DOCK'' ''RETURN_TRIGGERED'' (np_pose w)
                 (case rb_map_id r of None \<Rightarrow> [] | Some m \<Rightarrow> m) (case rb_map_version r of None \<Rightarrow> [] | Some v \<Rightarrow> v)
                 1 (path_json path) [(''source'', source), (''waiting_preset_id'', JStr (np_id w))]
       in launch env n redis r actor ''return_dock''
            [(''task_id'', JStr (tk_id t)), (''trajectory'', path_json path),
             (''waiting_preset_id'', JStr (np_id w)), (''target_pose'', JObj (np_pose w))] 50 t db))))"

end
