(* ===== verification/Task_Endpoints.thy ===== *)
theory Task_Endpoints
  imports Tasks
begin

text \<open>
  The endpoints of \<open>tasks/router.py\<close> over the builders of theory \<open>Tasks\<close>: the request body, the
  idempotency record, the guards, the transaction and the response.
\<close>

record task_input =
  ti_robot_id :: ident
  ti_slot_id :: ident
  ti_trajectory_id :: "ident option"
  ti_fire_id :: "ident option"
  ti_parameters :: dict

definition task_body :: "task_input \<Rightarrow> dict" where
  "task_body q = [(''robot_id'', JStr (ti_robot_id q)), (''target_parking_slot_id'', JStr (ti_slot_id q)),
     (''trajectory_id'', jopt (ti_trajectory_id q)), (''fire_event_id'', jopt (ti_fire_id q)),
     (''parameters'', JObj (ti_parameters q))]"

record plan_input =
  pi_robot_id :: ident
  pi_plan_id :: ident
  pi_parameters :: dict
  pi_resume_id :: "ident option"

definition plan_body :: "plan_input \<Rightarrow> dict" where
  "plan_body q = [(''robot_id'', JStr (pi_robot_id q)), (''patrol_plan_id'', JStr (pi_plan_id q)),
     (''parameters'', JObj (pi_parameters q)), (''resume_task_id'', jopt (pi_resume_id q))]"

record return_input =
  ri_robot_id :: ident
  ri_parameters :: dict

definition return_body :: "return_input \<Rightarrow> dict" where
  "return_body q = [(''robot_id'', JStr (ri_robot_id q)), (''parameters'', JObj (ri_parameters q))]"

definition EXTINGUISH_MODES :: "string list" where
  "EXTINGUISH_MODES = [''DEPLOY_BLANKET'', ''SPRAY_AGENT'', ''DEPLOY_THEN_SPRAY'']"

text \<open>\<open>bool(x)\<close> of an optional identifier: the empty string counts as absent.\<close>

definition given :: "ident option \<Rightarrow> ident option" where
  "given x = (if x = Some [] then None else x)"

section \<open>The response\<close>

definition serialize_task :: "pyenv \<Rightarrow> task \<Rightarrow> dict" where
  "serialize_task env t =
     [(''id'', JStr (tk_id t)), (''task_code'', JStr (tk_code t)), (''robot_id'', JStr (tk_robot_id t)),
      (''fire_event_id'', jopt (tk_fire_id t)), (''type'', JStr (tk_type t)), (''status'', JStr (tk_status t)),
      (''phase'', JStr (tk_phase t)), (''progress'', tk_progress t),
      (''target_parking_slot_id'', jopt (tk_slot_id t)), (''target_pose_snapshot_json'', JObj (tk_pose t)),
      (''map_id_snapshot'', JStr (tk_map_id t)), (''map_version_snapshot'', JStr (tk_map_version t)),
      (''semantic_revision_snapshot'', JInt (tk_revision t)), (''trajectory_snapshot_json'', tk_trajectory t),
      (''parameters_json'', JObj (tk_parameters t)), (''created_by'', JStr (tk_created_by t)),
      (''created_at'', iso_opt env (Some (tk_created_at t))), (''accepted_at'', iso_opt env (tk_accepted_at t)),
      (''started_at'', iso_opt env (tk_started_at t)), (''completed_at'', iso_opt env (tk_completed_at t)),
      (''failure_code'', tk_failure_code t), (''failure_message'', tk_failure_message t)]"

definition task_response :: "pyenv \<Rightarrow> task \<Rightarrow> command \<Rightarrow> dict" where
  "task_response env t c = serialize_task env t @ [(''command_id'', JStr (cm_command_id c))]"

text \<open>
  What every endpoint does around its work: replay the stored response of the key, or do the work,
  store the response, commit, and append to the event stream, which may raise after the commit.
\<close>

definition once ::
    "(dict \<Rightarrow> string) \<Rightarrow> ident \<Rightarrow> string \<Rightarrow> string \<Rightarrow> dict \<Rightarrow> platform \<Rightarrow>
     ((failure + dict) \<times> platform) \<Rightarrow> (failure + dict) \<times> platform" where
  "once H actor endpoint key body p work =
     (case lookup H actor endpoint key body (begin_tx (pf_db p)) of
        Inl e \<Rightarrow> (Inl (Api e), p)
      | Inr (Some row) \<Rightarrow> (Inr (id_response row), p)
      | Inr None \<Rightarrow> work)"

definition finish ::
    "pyenv \<Rightarrow> (dict \<Rightarrow> string) \<Rightarrow> redis_health \<Rightarrow> ident \<Rightarrow> string \<Rightarrow> string \<Rightarrow> dict \<Rightarrow> int \<Rightarrow> string \<Rightarrow> dict \<Rightarrow>
     dict \<Rightarrow> tx \<Rightarrow> platform \<Rightarrow> (failure + dict) \<times> platform" where
  "finish env H rh actor endpoint key body status event shown response db p =
     (let p' = commit (utc_now env) (store H actor endpoint key body response status db) p in
      if rh_event rh
      then (Inr response, p'\<lparr>pf_events := pf_events p' @ [(event, Ev_Json shown)]\<rparr>)
      else (Inl RedisError, p'))"

definition finish_task ::
    "pyenv \<Rightarrow> (dict \<Rightarrow> string) \<Rightarrow> redis_health \<Rightarrow> ident \<Rightarrow> string \<Rightarrow> string \<Rightarrow> dict \<Rightarrow> platform \<Rightarrow>
     api_error + (task \<times> command \<times> tx) \<Rightarrow> (failure + dict) \<times> platform" where
  "finish_task env H rh actor endpoint key body p result =
     (case result of
        Inl e \<Rightarrow> (Inl (Api e), p)
      | Inr (t, c, db) \<Rightarrow>
          finish env H rh actor endpoint key body 201 ''task.created'' (task_response env t c) (task_response env t c) db p)"

section \<open>Extinguishing\<close>

definition target_snapshot ::
    "robot \<Rightarrow> task_input \<Rightarrow> string \<Rightarrow> 'a database_scheme \<Rightarrow>
     api_error + (parking_slot \<times> map_version \<times> dict \<times> json)" where
  "target_snapshot r q ty db =
     and_then (or_raise (HTTPException 404) (get_slot (ti_slot_id q) db)) (\<lambda>slot.
     and_then (or_raise (HTTPException 409) (get_map_version (ps_map_version_id slot) db)) (\<lambda>v.
       if mv_status v \<noteq> ''PUBLISHED'' then Inl (HTTPException 409)
       else if \<not> same_map r v then Inl (PlatformError ''MAP_VERSION_MISMATCH'')
       else
         and_then (if ty = ''EXTINGUISH''
                   then or_raise (HTTPException 409)
                          (map_option xp_pose (first_row (\<lambda>x. xp_slot_id x = ps_id slot) (d_extinguish_points db)))
                   else Inr (ps_pose slot)) (\<lambda>pose.
         let path = get_trajectory (ti_trajectory_id q) db in
         if (case path of None \<Rightarrow> False | Some t \<Rightarrow> tj_map_version_id t \<noteq> mv_id v)
         then Inl (HTTPException 409)
         else Inr (slot, v, pose, trajectory_json path))))"

definition extinguish_mode_check :: "task_input \<Rightarrow> string \<Rightarrow> api_error + unit" where
  "extinguish_mode_check q ty =
     (if ty \<noteq> ''EXTINGUISH'' then Inr ()
      else let mode = jget (ti_parameters q) ''extinguish_mode'' in
        if \<not> hashable mode then Inl (PyError TypeError)
        else if mode \<notin> JStr ` set EXTINGUISH_MODES then Inl (PlatformError ''EXTINGUISH_MODE_REQUIRED'')
        else Inr ())"

definition dispatch_fire :: "ident option \<Rightarrow> ident \<Rightarrow> tx \<Rightarrow> api_error + tx" where
  "dispatch_fire fire tid db =
     (case given fire of
        None \<Rightarrow> Inr db
      | Some fid \<Rightarrow>
        (case get_fire fid db of
           None \<Rightarrow> Inl (HTTPException 404)
         | Some f \<Rightarrow> Inr (put_fire (f\<lparr>fe_assigned_task := Some tid, fe_state := ''DISPATCHED''\<rparr>) db)))"

definition ascii_lower :: "string \<Rightarrow> string" where
  "ascii_lower s = map (\<lambda>c. if 65 \<le> (of_char c :: nat) \<and> (of_char c :: nat) \<le> 90 then char_of ((of_char c :: nat) + 32) else c) s"

definition build_task ::
    "pyenv \<Rightarrow> nat \<Rightarrow> redis \<Rightarrow> string \<Rightarrow> robot \<Rightarrow> ident \<Rightarrow> task_input \<Rightarrow> tx \<Rightarrow>
     api_error + (task \<times> command \<times> tx)" where
  "build_task env n redis ty r actor q db =
     and_then (extinguish_mode_check q ty) (\<lambda>_.
     and_then (target_snapshot r q ty db) (\<lambda>(slot, v, pose, path).
     let t = (new_task env n r actor ty ''CREATED'' pose (mv_map_id v) (mv_version v) (mv_revision v) path
                (ti_parameters q))\<lparr>tk_fire_id := ti_fire_id q, tk_slot_id := Some (ps_id slot)\<rparr> in
     and_then (launch env n redis r actor (ascii_lower ty)
                 (jupdate [(''task_id'', JStr (tk_id t)), (''task_code'', JStr (tk_code t)),
                           (''target_pose'', JObj pose), (''map_id'', JStr (mv_map_id v)),
                           (''map_version'', JStr (mv_version v)), (''semantic_revision'', JInt (mv_revision v)),
                           (''trajectory'', path)] (ti_parameters q))
                 (if ty = ''EXTINGUISH'' then 70 else 50) t db) (\<lambda>(t', c, db1).
     and_then (dispatch_fire (ti_fire_id q) (tk_id t) db1) (\<lambda>db2. Inr (t', c, db2)))))"

definition create_task ::
    "pyenv \<Rightarrow> nat \<Rightarrow> (dict \<Rightarrow> string) \<Rightarrow> redis_health \<Rightarrow> string \<Rightarrow> task_input \<Rightarrow> ident \<Rightarrow> string \<Rightarrow> platform \<Rightarrow>
     (failure + dict) \<times> platform" where
  "create_task env n H rh ty q actor key p =
     (let endpoint = ''/tasks/'' @ ascii_lower ty; body = task_body q in
      once H actor endpoint key body p (with_robot (ti_robot_id q) p (\<lambda>r.
        finish_task env H rh actor endpoint key body p
          (build_task env n (pf_redis p) ty r actor q (begin_tx (pf_db p))))))"

definition extinguish ::
    "pyenv \<Rightarrow> nat \<Rightarrow> (dict \<Rightarrow> string) \<Rightarrow> redis_health \<Rightarrow> task_input \<Rightarrow> ident \<Rightarrow> string \<Rightarrow> platform \<Rightarrow>
     (failure + dict) \<times> platform" where
  "extinguish env n H rh q actor key p = create_task env n H rh ''EXTINGUISH'' q actor key p"

section \<open>Patrols\<close>

fun string_le :: "string \<Rightarrow> string \<Rightarrow> bool" where
  "string_le [] t = True"
| "string_le (c # s) [] = False"
| "string_le (c # s) (d # t) =
     (if (of_char c :: nat) = of_char d then string_le s t else (of_char c :: nat) < of_char d)"

fun first_plan :: "patrol_plan list \<Rightarrow> patrol_plan option" where
  "first_plan [] = None"
| "first_plan (p # ps) =
     (case first_plan ps of
        None \<Rightarrow> Some p
      | Some q \<Rightarrow> if string_le (pp_code p) (pp_code q) then Some p else Some q)"

text \<open>\<open>str(payload.parameters.get("source", default))\<close>\<close>

definition source_of :: "pyenv \<Rightarrow> dict \<Rightarrow> string \<Rightarrow> json" where
  "source_of env params dflt = JStr (py_str env (jget_or params ''source'' (JStr dflt)))"

definition patrol ::
    "pyenv \<Rightarrow> nat \<Rightarrow> (dict \<Rightarrow> string) \<Rightarrow> redis_health \<Rightarrow> task_input \<Rightarrow> ident \<Rightarrow> string \<Rightarrow> platform \<Rightarrow>
     (failure + dict) \<times> platform" where
  "patrol env n H rh q actor key p =
     (let endpoint = ''/tasks/patrol''; body = task_body q; db = begin_tx (pf_db p) in
      once H actor endpoint key body p (with_robot (ti_robot_id q) p (\<lambda>r.
        finish_task env H rh actor endpoint key body p
          (and_then (or_raise (PlatformError ''PATROL_PLAN_INVALID'')
             (first_plan (filter (\<lambda>x. pp_robot_id x = rb_id r \<and> pp_enabled x) (d_plans db)))) (\<lambda>plan.
             build_patrol_task env n (pf_redis p) plan r actor (source_of env (ti_parameters q) ''EXTERNAL_API'')
               None None db)))))"

definition cancelled_patrol :: "robot \<Rightarrow> task \<Rightarrow> bool" where
  "cancelled_patrol r t \<longleftrightarrow> tk_robot_id t = rb_id r \<and> tk_type t = ''PATROL'' \<and> tk_status t = ''CANCELLED''"

definition last_cancelled :: "robot \<Rightarrow> 'a database_scheme \<Rightarrow> task option" where
  "last_cancelled r db = latest_row tk_created_at (filter (cancelled_patrol r) (d_tasks db))"

definition resume_available :: "robot \<Rightarrow> 'a database_scheme \<Rightarrow> bool" where
  "resume_available r db \<longleftrightarrow>
     opt_holds (\<lambda>t. jget (tk_parameters t) ''resume_state'' = JStr ''AVAILABLE'') (last_cancelled r db)"

definition own_plan :: "robot \<Rightarrow> ident \<Rightarrow> 'a database_scheme \<Rightarrow> api_error + patrol_plan" where
  "own_plan r pid db =
     (case get_plan pid db of
        None \<Rightarrow> Inl (PlatformError ''PATROL_PLAN_INVALID'')
      | Some plan \<Rightarrow> if pp_robot_id plan = rb_id r then Inr plan else Inl (PlatformError ''PATROL_PLAN_INVALID''))"

definition resumable :: "robot \<Rightarrow> ident \<Rightarrow> 'a database_scheme \<Rightarrow> api_error + task" where
  "resumable r tid db =
     (case get_task tid db of
        None \<Rightarrow> Inl (PlatformError ''PATROL_RESUME_INVALID'')
      | Some t \<Rightarrow> if cancelled_patrol r t then Inr t else Inl (PlatformError ''PATROL_RESUME_INVALID''))"

definition plan_task ::
    "pyenv \<Rightarrow> nat \<Rightarrow> redis \<Rightarrow> robot \<Rightarrow> ident \<Rightarrow> plan_input \<Rightarrow> tx \<Rightarrow> api_error + (task \<times> command \<times> tx)" where
  "plan_task env n redis r actor q db =
     and_then (own_plan r (pi_plan_id q) db) (\<lambda>plan.
     let source = source_of env (pi_parameters q) ''OPERATIONS_HMI'' in
     case given (pi_resume_id q) of
       Some tid \<Rightarrow>
         and_then (resumable r tid db) (\<lambda>previous.
           build_resumed_patrol_task env n redis plan r actor source previous db)
     | None \<Rightarrow>
         (if resume_available r db then Inl (PlatformError ''PATROL_RESUME_REQUIRED'')
          else and_then (raised (robot_at_waiting env redis r)) (\<lambda>waiting.
            if \<not> waiting then Inl (PlatformError ''PATROL_START_REQUIRES_WAITING_AREA'')
            else build_patrol_task env n redis plan r actor source None None db)))"

definition patrol_plan_task ::
    "pyenv \<Rightarrow> nat \<Rightarrow> (dict \<Rightarrow> string) \<Rightarrow> redis_health \<Rightarrow> plan_input \<Rightarrow> ident \<Rightarrow> string \<Rightarrow> platform \<Rightarrow>
     (failure + dict) \<times> platform" where
  "patrol_plan_task env n H rh q actor key p =
     (let endpoint = ''/tasks/patrol-plan''; body = plan_body q in
      once H actor endpoint key body p (with_robot (pi_robot_id q) p (\<lambda>r.
        finish_task env H rh actor endpoint key body p
          (plan_task env n (pf_redis p) r actor q (begin_tx (pf_db p))))))"

section \<open>Returning and cancelling\<close>

definition return_dock_task ::
    "pyenv \<Rightarrow> nat \<Rightarrow> (dict \<Rightarrow> string) \<Rightarrow> redis_health \<Rightarrow> return_input \<Rightarrow> ident \<Rightarrow> string \<Rightarrow> platform \<Rightarrow>
     (failure + dict) \<times> platform" where
  "return_dock_task env n H rh q actor key p =
     (let endpoint = ''/tasks/return-dock''; body = return_body q; db = begin_tx (pf_db p) in
      once H actor endpoint key body p (with_robot (ri_robot_id q) p (\<lambda>r.
        finish_task env H rh actor endpoint key body p
          (build_return_task env n (pf_redis p) r actor (source_of env (ri_parameters q) ''OPERATIONS_HMI'')
             (last_cancelled r db) db))))"

definition TERMINAL_STATUSES :: "string list" where
  "TERMINAL_STATUSES = [''SUCCEEDED'', ''FAILED'', ''CANCELLED'']"

definition cancel_target :: "ident \<Rightarrow> 'a database_scheme \<Rightarrow> api_error + (task \<times> robot)" where
  "cancel_target tid db =
     and_then (or_raise (HTTPException 404) (get_task tid db)) (\<lambda>t.
     if tk_status t \<in> set TERMINAL_STATUSES then Inl (HTTPException 409)
     else and_then (or_raise (HTTPException 409) (get_robot (tk_robot_id t) db)) (\<lambda>r. Inr (t, r)))"

definition cancel_queued :: "task \<Rightarrow> task" where
  "cancel_queued t = t\<lparr>tk_phase := ''CANCEL_QUEUED''\<rparr>"

definition cancel_task ::
    "pyenv \<Rightarrow> nat \<Rightarrow> (dict \<Rightarrow> string) \<Rightarrow> redis_health \<Rightarrow> ident \<Rightarrow> ident \<Rightarrow> string \<Rightarrow> platform \<Rightarrow>
     (failure + dict) \<times> platform" where
  "cancel_task env n H rh tid actor key p =
     (let endpoint = ''/tasks/'' @ tid @ ''/cancel''; body = [(''task_id'', JStr tid)]; db = begin_tx (pf_db p) in
      once H actor endpoint key body p
        (case and_then (cancel_target tid db) (\<lambda>(t, r).
                and_then (create_durable_command env n (pf_redis p) r actor ''cancel_task''
                            [(''task_id'', JStr (tk_id t))] (Some (tk_id t)) 30000 80 db) (\<lambda>(c, db1).
                  Inr (cancel_queued t, c, (put_task (cancel_queued t) db1)\<lparr>d_task_events :=
                         d_task_events db1 @ [created_event (cancel_queued t)]\<rparr>))) of
           Inl e \<Rightarrow> (Inl (Api e), p)
         | Inr (t, c, db2) \<Rightarrow>
             finish env H rh actor endpoint key body 202 ''task.updated'' (serialize_task env t)
               (task_response env t c) db2 p))"

end
