(* ===== verification/Task_Safety.thy ===== *)
theory Task_Safety
  imports Task_Endpoints Command_Safety
begin

text \<open>
  Properties of the task endpoints: a retried request is replayed, a robot's active missions stay
  compatible, a task never exists without the command that starts it, and a full patrol is started
  from the plan endpoint only in the waiting area. The endpoints are gathered in \<open>serve\<close>.
\<close>

section \<open>Requests\<close>

datatype task_request = Extinguish task_input | Patrol task_input | Plan_Patrol plan_input
  | Return_Home return_input | Cancel ident

definition serve ::
    "pyenv \<Rightarrow> nat \<Rightarrow> (dict \<Rightarrow> string) \<Rightarrow> redis_health \<Rightarrow> task_request \<Rightarrow> ident \<Rightarrow> string \<Rightarrow> platform \<Rightarrow>
     (failure + dict) \<times> platform" where
  "serve env n H rh req actor key p =
     (case req of
        Extinguish q \<Rightarrow> extinguish env n H rh q actor key p
      | Patrol q \<Rightarrow> patrol env n H rh q actor key p
      | Plan_Patrol q \<Rightarrow> patrol_plan_task env n H rh q actor key p
      | Return_Home q \<Rightarrow> return_dock_task env n H rh q actor key p
      | Cancel tid \<Rightarrow> cancel_task env n H rh tid actor key p)"

definition request_endpoint :: "task_request \<Rightarrow> string" where
  "request_endpoint req =
     (case req of
        Extinguish q \<Rightarrow> ''/tasks/'' @ ascii_lower ''EXTINGUISH''
      | Patrol q \<Rightarrow> ''/tasks/patrol''
      | Plan_Patrol q \<Rightarrow> ''/tasks/patrol-plan''
      | Return_Home q \<Rightarrow> ''/tasks/return-dock''
      | Cancel tid \<Rightarrow> ''/tasks/'' @ tid @ ''/cancel'')"

definition request_body :: "task_request \<Rightarrow> dict" where
  "request_body req =
     (case req of
        Extinguish q \<Rightarrow> task_body q
      | Patrol q \<Rightarrow> task_body q
      | Plan_Patrol q \<Rightarrow> plan_body q
      | Return_Home q \<Rightarrow> return_body q
      | Cancel tid \<Rightarrow> [(''task_id'', JStr tid)])"

section \<open>Launching\<close>

text \<open>Two versions of a row that are the same mission to the gate.\<close>

definition same_mission :: "task \<Rightarrow> task \<Rightarrow> bool" where
  "same_mission t u \<longleftrightarrow> tk_id u = tk_id t \<and> tk_robot_id u = tk_robot_id t \<and> tk_type u = tk_type t
     \<and> tk_status u = tk_status t"

lemma same_mission_refl [simp]: "same_mission t t"
  by (simp add: same_mission_def)

lemma launchE:
  assumes "launch env n redis r actor cmd params prio t db = Inr (t', c, db')"
  obtains m where "t' = queued t"
    "assert_robot_can_execute (utc_now env) redis (add_task t db) r cmd (Some (tk_id t)) = None"
    "build_command_payload env (n + 2) r actor cmd params 30000 prio (Some (tk_id t)) None None 0 = Inr m"
    "command_row env r actor cmd prio (Some (tk_id t)) m ''QUEUED'' JNull = Inr c"
    "d_tasks db' = upd_rows (\<lambda>x. tk_id x = tk_id t) (\<lambda>_. queued t) (d_tasks db @ [t])"
    "d_outbox db' = d_outbox db @ [outbox_row env (n + 2 + 3) c m]" "d_commands db' = d_commands db @ [c]"
    "d_idempotency db' = d_idempotency db" "d_fires db' = d_fires db" "d_robots db' = d_robots db"
proof -
  obtain db1 where c: "create_durable_command env (n + 2) redis r actor cmd params (Some (tk_id t)) 30000 prio
      (add_task t db) = Inr (c, db1)" and t': "t' = queued t" "db' = put_task (queued t) db1"
    using assms by (auto simp: launch_def)
  obtain m where "build_command_payload env (n + 2) r actor cmd params 30000 prio (Some (tk_id t)) None None 0 = Inr m"
    "assert_robot_can_execute (utc_now env) redis (add_task t db) r cmd (Some (tk_id t)) = None"
    "command_row env r actor cmd prio (Some (tk_id t)) m ''QUEUED'' JNull = Inr c"
    "db1 = (add_task t db)\<lparr>d_commands := d_commands (add_task t db) @ [c],
               d_outbox := d_outbox (add_task t db) @ [outbox_row env (n + 2 + 3) c m]\<rparr>"
    using create_durableE [OF c] by metis
  then show ?thesis
    by (intro that) (simp_all add: t' add_task_def put_task_def queued_def)
qed

text \<open>What a request that creates a task leaves in the session.\<close>

definition started ::
    "pyenv \<Rightarrow> nat \<Rightarrow> redis \<Rightarrow> robot \<Rightarrow> string \<Rightarrow> tx \<Rightarrow> task \<Rightarrow> command \<Rightarrow> tx \<Rightarrow> bool" where
  "started env n redis r ty db t c db' \<longleftrightarrow>
     ty \<in> {''PATROL'', ''EXTINGUISH'', ''RETURN_DOCK''} \<and> tk_id t = uuid env (n + 1)
     \<and> tk_robot_id t = rb_id r \<and> tk_type t = ty
     \<and> (\<exists>b t0. list_all2 same_mission (d_tasks db) (d_tasks b) \<and> t = queued t0 \<and> active_task t0
          \<and> no_conflict (add_task t0 b) r (Some (tk_id t)) (ascii_lower ty)
          \<and> d_tasks db' = upd_rows (\<lambda>x. tk_id x = tk_id t) (\<lambda>_. t) (d_tasks b @ [t0]))
     \<and> (\<exists>m actor params prio.
          build_command_payload env (n + 2) r actor (ascii_lower ty) params 30000 prio (Some (tk_id t)) None None 0 = Inr m
          \<and> d_outbox db' = d_outbox db @ [outbox_row env (n + 2 + 3) c m] \<and> d_commands db' = d_commands db @ [c]
          \<and> cm_payload c = m \<and> cm_task_id c = Some (tk_id t))
     \<and> d_idempotency db' = d_idempotency db"

lemma lower_types [simp]:
  "ascii_lower ''PATROL'' = ''patrol''" "ascii_lower ''EXTINGUISH'' = ''extinguish''"
  "ascii_lower ''RETURN_DOCK'' = ''return_dock''"
  by code_simp+

lemma new_task_simps [simp]:
  "tk_id (new_task env n r actor ty phase pose mi v sr tr ps) = uuid env (n + 1)"
  "tk_robot_id (new_task env n r actor ty phase pose mi v sr tr ps) = rb_id r"
  "tk_type (new_task env n r actor ty phase pose mi v sr tr ps) = ty"
  "tk_status (new_task env n r actor ty phase pose mi v sr tr ps) = ''CREATED''"
  by (simp_all add: new_task_def)

lemma queued_simps [simp]:
  "tk_id (queued t) = tk_id t" "tk_robot_id (queued t) = tk_robot_id t" "tk_type (queued t) = tk_type t"
  "tk_status (queued t) = ''QUEUED''" "tk_parameters (queued t) = tk_parameters t"
  by (simp_all add: queued_def)

lemma launch_started:
  assumes l: "launch env n redis r actor (ascii_lower ty) params prio t db1 = Inr (t', c, db')"
    and t: "tk_id t = uuid env (n + 1)" "tk_robot_id t = rb_id r" "tk_type t = ty" "tk_status t = ''CREATED''"
    and ty: "ty \<in> {''PATROL'', ''EXTINGUISH'', ''RETURN_DOCK''}"
    and db1: "list_all2 same_mission (d_tasks db) (d_tasks db1)" "d_outbox db1 = d_outbox db"
      "d_commands db1 = d_commands db" "d_idempotency db1 = d_idempotency db"
  shows "started env n redis r ty db t' c db'"
proof -
  obtain m where m: "t' = queued t"
    "assert_robot_can_execute (utc_now env) redis (add_task t db1) r (ascii_lower ty) (Some (tk_id t)) = None"
    "build_command_payload env (n + 2) r actor (ascii_lower ty) params 30000 prio (Some (tk_id t)) None None 0 = Inr m"
    "command_row env r actor (ascii_lower ty) prio (Some (tk_id t)) m ''QUEUED'' JNull = Inr c"
    "d_tasks db' = upd_rows (\<lambda>x. tk_id x = tk_id t) (\<lambda>_. queued t) (d_tasks db1 @ [t])"
    "d_outbox db' = d_outbox db1 @ [outbox_row env (n + 2 + 3) c m]" "d_commands db' = d_commands db1 @ [c]"
    "d_idempotency db' = d_idempotency db1"
    using launchE [OF l] by metis
  have nc: "no_conflict (add_task t db1) r (Some (tk_id t)) (ascii_lower ty)"
    using m(2) unfolding gate_iff by blast
  have act: "active_task t" using t(4) by (simp add: active_task_def ACTIVE_TASK_STATES_def)
  note row = command_rowE [OF m(4)]
  show ?thesis
    unfolding started_def m(1)
  proof (intro conjI)
    show "\<exists>b t0. list_all2 same_mission (d_tasks db) (d_tasks b) \<and> queued t = queued t0 \<and> active_task t0
          \<and> no_conflict (add_task t0 b) r (Some (tk_id (queued t))) (ascii_lower ty)
          \<and> d_tasks db' = upd_rows (\<lambda>x. tk_id x = tk_id (queued t)) (\<lambda>_. queued t) (d_tasks b @ [t0])"
      using db1(1) act nc m(5) by (intro exI [of _ db1] exI [of _ t]) simp
    show "\<exists>m actor params prio.
          build_command_payload env (n + 2) r actor (ascii_lower ty) params 30000 prio (Some (tk_id (queued t))) None None 0 = Inr m
          \<and> d_outbox db' = d_outbox db @ [outbox_row env (n + 2 + 3) c m] \<and> d_commands db' = d_commands db @ [c]
          \<and> cm_payload c = m \<and> cm_task_id c = Some (tk_id (queued t))"
      using m(3,6,7) db1 row(1,3) by auto
  qed (use t ty m(8) db1 in simp_all)
qed

lemma same_missions_refl [simp]: "list_all2 same_mission ts ts"
  by (simp add: list_all2_refl)

lemma build_patrol_started:
  assumes "build_patrol_task env n redis plan r actor source sch occ db = Inr (t, c, db')"
  shows "started env n redis r ''PATROL'' db t c db'"
proof -
  from assms obtain v first rest where v: "plan_version plan db = Inr v" "same_map r v"
    and ps: "with_presets (plan_points (pp_id plan) db) db = Some (first # rest)"
    unfolding build_patrol_task_eq by (auto split: if_splits option.splits list.splits)
  from assms v ps obtain params t0 where
    l: "launch env n redis r actor ''patrol'' params 50 t0 db = Inr (t, c, db')"
    and t0: "tk_id t0 = uuid env (n + 1)" "tk_robot_id t0 = rb_id r" "tk_type t0 = ''PATROL''" "tk_status t0 = ''CREATED''"
    unfolding build_patrol_task_eq by (simp add: Let_def)
  show ?thesis
    by (rule launch_started [of _ _ _ _ _ "''PATROL''" _ _ t0 db]) (use l t0 in simp_all)
qed

lemma put_same_mission:
  assumes "get_task (tk_id t) db = Some t" "distinct (map tk_id (d_tasks db))" "same_mission t u"
  shows "list_all2 same_mission (d_tasks db) (d_tasks (put_task u db))"
proof -
  have t: "t \<in> set (d_tasks db)" using assms(1) by (auto simp: get_task_def dest: first_row_Some)
  have "same_mission x (if tk_id x = tk_id u then u else x)" if "x \<in> set (d_tasks db)" for x
  proof (cases "tk_id x = tk_id u")
    case True
    then have "x = t" using that t assms(2,3) by (auto simp: same_mission_def dest: inj_onD [OF distinct_map [THEN iffD1, THEN conjunct2]])
    then show ?thesis using True assms(3) by simp
  qed simp
  then show ?thesis by (simp add: put_task_def upd_rows_def list_all2_conv_all_nth)
qed

lemma put_task_frame [simp]:
  "d_outbox (put_task t db) = d_outbox db" "d_commands (put_task t db) = d_commands db"
  "d_idempotency (put_task t db) = d_idempotency db" "d_fires (put_task t db) = d_fires db"
  by (simp_all add: put_task_def)

lemma build_resumed_started:
  assumes "build_resumed_patrol_task env n redis plan r actor source previous db = Inr (t, c, db')"
    and "get_task tid db = Some previous" "distinct (map tk_id (d_tasks db))"
  shows "started env n redis r ''PATROL'' db t c db'"
proof -
  let ?db1 = "put_task (previous\<lparr>tk_parameters :=
                  jset ''resume_state'' (JStr ''CONSUMED_BY_RESUME'') (tk_parameters previous)\<rparr>) db"
  from assms(1) obtain params t0 where
    l: "launch env n redis r actor ''patrol'' params 50 t0 ?db1 = Inr (t, c, db')"
    and t0: "tk_id t0 = uuid env (n + 1)" "tk_robot_id t0 = rb_id r" "tk_type t0 = ''PATROL''" "tk_status t0 = ''CREATED''"
    unfolding build_resumed_patrol_task_def by (auto simp: Let_def)
  have p: "get_task (tk_id previous) db = Some previous"
    using assms(2) by (auto simp: get_task_def dest: first_row_Some)
  have s: "list_all2 same_mission (d_tasks db) (d_tasks ?db1)"
    by (rule put_same_mission [OF p assms(3)]) (simp add: same_mission_def)
  show ?thesis
    by (rule launch_started [of _ _ _ _ _ "''PATROL''" _ _ t0 ?db1]) (use l t0 s in simp_all)
qed

lemma build_return_started:
  assumes "build_return_task env n redis r actor source previous db = Inr (t, c, db')"
  shows "started env n redis r ''RETURN_DOCK'' db t c db'"
proof -
  from assms obtain params t0 where
    l: "launch env n redis r actor ''return_dock'' params 50 t0 db = Inr (t, c, db')"
    and t0: "tk_id t0 = uuid env (n + 1)" "tk_robot_id t0 = rb_id r" "tk_type t0 = ''RETURN_DOCK''" "tk_status t0 = ''CREATED''"
    unfolding build_return_task_def by (auto simp: Let_def)
  show ?thesis
    by (rule launch_started [of _ _ _ _ _ "''RETURN_DOCK''" _ _ t0 db]) (use l t0 in simp_all)
qed

lemma dispatch_fire_frame:
  "dispatch_fire fire tid db = Inr db' \<Longrightarrow> d_tasks db' = d_tasks db \<and> d_outbox db' = d_outbox db
     \<and> d_commands db' = d_commands db \<and> d_idempotency db' = d_idempotency db"
  by (auto simp: dispatch_fire_def put_fire_def split: option.splits)

lemma started_frame:
  assumes "started env n redis r ty db t c db1" "d_tasks db' = d_tasks db1" "d_outbox db' = d_outbox db1"
    "d_commands db' = d_commands db1" "d_idempotency db' = d_idempotency db1"
  shows "started env n redis r ty db t c db'"
  using assms(1) unfolding started_def assms(2-5) .

lemma build_taskE:
  assumes "build_task env n redis ''EXTINGUISH'' r actor q db = Inr (t, c, db')"
  obtains params t0 db1 where "launch env n redis r actor ''extinguish'' params 70 t0 db = Inr (t, c, db1)"
    "dispatch_fire (ti_fire_id q) (tk_id t0) db1 = Inr db'"
    "tk_id t0 = uuid env (n + 1)" "tk_robot_id t0 = rb_id r" "tk_type t0 = ''EXTINGUISH''" "tk_status t0 = ''CREATED''"
proof -
  obtain slot v pose path where tgt: "target_snapshot r q ''EXTINGUISH'' db = Inr (slot, v, pose, path)"
    using assms by (cases "extinguish_mode_check q ''EXTINGUISH''"; cases "target_snapshot r q ''EXTINGUISH'' db")
      (auto simp: build_task_def simp del: and_then_Inr)
  obtain u where mode: "extinguish_mode_check q ''EXTINGUISH'' = Inr u"
    using assms by (cases "extinguish_mode_check q ''EXTINGUISH''") (auto simp: build_task_def simp del: and_then_Inr)
  define t0 where "t0 = (new_task env n r actor ''EXTINGUISH'' ''CREATED'' pose (mv_map_id v) (mv_version v)
     (mv_revision v) path (ti_parameters q))\<lparr>tk_fire_id := ti_fire_id q, tk_slot_id := Some (ps_id slot)\<rparr>"
  define params where "params = jupdate [(''task_id'', JStr (tk_id t0)), (''task_code'', JStr (tk_code t0)),
     (''target_pose'', JObj pose), (''map_id'', JStr (mv_map_id v)), (''map_version'', JStr (mv_version v)),
     (''semantic_revision'', JInt (mv_revision v)), (''trajectory'', path)] (ti_parameters q)"
  have t: "tk_id t0 = uuid env (n + 1)" "tk_robot_id t0 = rb_id r" "tk_type t0 = ''EXTINGUISH''" "tk_status t0 = ''CREATED''"
    by (simp_all add: t0_def)
  have run: "and_then (launch env n redis r actor ''extinguish'' params 70 t0 db) (\<lambda>(t', c, db1).
       and_then (dispatch_fire (ti_fire_id q) (tk_id t0) db1) (\<lambda>db2. Inr (t', c, db2))) = Inr (t, c, db')"
    using assms unfolding build_task_def tgt mode and_then_simps prod.case Let_def lower_types
    unfolding t0_def [symmetric] params_def [symmetric] by (simp only: simp_thms if_True)
  obtain db1 where l: "launch env n redis r actor ''extinguish'' params 70 t0 db = Inr (t, c, db1)"
    and d: "dispatch_fire (ti_fire_id q) (tk_id t0) db1 = Inr db'"
    using run by (cases "launch env n redis r actor ''extinguish'' params 70 t0 db") auto
  show ?thesis by (rule that [OF l d t])
qed

lemma build_task_started:
  assumes "build_task env n redis ''EXTINGUISH'' r actor q db = Inr (t, c, db')"
  shows "started env n redis r ''EXTINGUISH'' db t c db'"
proof (cases rule: build_taskE [OF assms])
  case (1 params t0 db1)
  have "started env n redis r ''EXTINGUISH'' db t c db1"
    by (rule launch_started [of _ _ _ _ _ "''EXTINGUISH''" _ _ t0 db]) (use 1 in simp_all)
  then show ?thesis by (rule started_frame) (simp_all only: dispatch_fire_frame [OF 1(2)])
qed

section \<open>One request\<close>

lemma lifted [simp]: "(case x of Inl e \<Rightarrow> Inl (Api e) | Inr y \<Rightarrow> Inr y) = Inr v \<longleftrightarrow> x = Inr v"
  by (cases x) simp_all

text \<open>The work of a request, once its key is known to be new.\<close>

definition attempt ::
    "pyenv \<Rightarrow> nat \<Rightarrow> task_request \<Rightarrow> ident \<Rightarrow> platform \<Rightarrow> (failure + (task \<times> command \<times> tx))" where
  "attempt env n req actor p =
     (let db = begin_tx (pf_db p);
          on = (\<lambda>rid f. case find_robot rid (pf_db p) of None \<Rightarrow> Inl not_found
                 | Some r \<Rightarrow> (case f r of Inl e \<Rightarrow> Inl (Api e) | Inr x \<Rightarrow> Inr x))
      in case req of
        Extinguish q \<Rightarrow> on (ti_robot_id q) (\<lambda>r. build_task env n (pf_redis p) ''EXTINGUISH'' r actor q db)
      | Patrol q \<Rightarrow> on (ti_robot_id q) (\<lambda>r. and_then (or_raise (PlatformError ''PATROL_PLAN_INVALID'')
             (first_plan (filter (\<lambda>x. pp_robot_id x = rb_id r \<and> pp_enabled x) (d_plans db)))) (\<lambda>plan.
             build_patrol_task env n (pf_redis p) plan r actor (source_of env (ti_parameters q) ''EXTERNAL_API'')
               None None db))
      | Plan_Patrol q \<Rightarrow> on (pi_robot_id q) (\<lambda>r. plan_task env n (pf_redis p) r actor q db)
      | Return_Home q \<Rightarrow> on (ri_robot_id q) (\<lambda>r. build_return_task env n (pf_redis p) r actor
             (source_of env (ri_parameters q) ''OPERATIONS_HMI'') (last_cancelled r db) db)
      | Cancel tid \<Rightarrow>
          (case and_then (cancel_target tid db) (\<lambda>(t, r).
                and_then (create_durable_command env n (pf_redis p) r actor ''cancel_task''
                            [(''task_id'', JStr (tk_id t))] (Some (tk_id t)) 30000 80 db) (\<lambda>(c, db1).
                  Inr (cancel_queued t, c, (put_task (cancel_queued t) db1)\<lparr>d_task_events :=
                         d_task_events db1 @ [created_event (cancel_queued t)]\<rparr>))) of
             Inl e \<Rightarrow> Inl (Api e) | Inr x \<Rightarrow> Inr x))"

definition is_cancel :: "task_request \<Rightarrow> bool" where
  "is_cancel req \<longleftrightarrow> (case req of Cancel t \<Rightarrow> True | _ \<Rightarrow> False)"

lemma serve_once:
  "serve env n H rh req actor key p =
     once H actor (request_endpoint req) key (request_body req) p
       (case attempt env n req actor p of
          Inl e \<Rightarrow> (Inl e, p)
        | Inr (t, c, db) \<Rightarrow>
            finish env H rh actor (request_endpoint req) key (request_body req)
              (if is_cancel req then 202 else 201) (if is_cancel req then ''task.updated'' else ''task.created'')
              (if is_cancel req then serialize_task env t else task_response env t c)
              (task_response env t c) db p)"
proof -
  have on: "with_robot rid p (\<lambda>r. finish_task env H rh actor ep key body p (f r)) =
     (case (case find_robot rid (pf_db p) of None \<Rightarrow> Inl not_found
                 | Some r \<Rightarrow> (case f r of Inl e \<Rightarrow> Inl (Api e) | Inr x \<Rightarrow> Inr x)) of
          Inl e \<Rightarrow> (Inl e, p)
        | Inr (t, c, db) \<Rightarrow> finish env H rh actor ep key body 201 ''task.created'' (task_response env t c)
              (task_response env t c) db p)" for rid ep body f
    unfolding with_robot_def finish_task_def by (auto split: option.splits sum.splits)
  have push: "(case x of Inl e \<Rightarrow> (Inl (Api e), p) | Inr (t, c, db) \<Rightarrow> F t c db) =
     (case (case x of Inl e \<Rightarrow> Inl (Api e) | Inr y \<Rightarrow> Inr y) of
        Inl e \<Rightarrow> (Inl e, p) | Inr (t, c, db) \<Rightarrow> F t c db)"
    for x :: "api_error + (task \<times> command \<times> tx)" and F :: "task \<Rightarrow> command \<Rightarrow> tx \<Rightarrow> (failure + dict) \<times> platform"
    by (cases x) auto
  show ?thesis
  proof (cases req)
    case (Cancel tid)
    then show ?thesis
      by (simp only: serve_def attempt_def cancel_task_def request_endpoint_def request_body_def is_cancel_def
          Let_def push task_request.case if_True)
  qed (simp_all only: serve_def attempt_def extinguish_def create_task_def patrol_def patrol_plan_task_def
      return_dock_task_def request_endpoint_def request_body_def is_cancel_def Let_def on task_request.case if_False)
qed

lemma once_new:
  assumes "once H actor ep key body p work = (r, p')" "p' \<noteq> p"
  shows "lookup H actor ep key body (begin_tx (pf_db p)) = Inr None" "work = (r, p')"
  using assms by (auto simp: once_def split: sum.splits option.splits)

lemma finish_db:
  "finish env H rh actor ep key body st ev shown resp db p = (r, p') \<Longrightarrow>
     pf_db p' = database.truncate (store H actor ep key body resp st db) \<and> (r = Inr resp \<or> r = Inl RedisError)"
  by (auto simp: finish_def Let_def split: if_splits)

lemma lookup_cong: "d_idempotency db = d_idempotency db' \<Longrightarrow> lookup H actor ep key body db = lookup H actor ep key body db'"
  by (simp add: lookup_def)

text \<open>A request that changed the platform did its work once, under a key that was new.\<close>

lemma served:
  assumes "serve env n H rh req actor key p = (r, p')" "p' \<noteq> p"
  obtains t c db where "attempt env n req actor p = Inr (t, c, db)"
    "lookup H actor (request_endpoint req) key (request_body req) (begin_tx (pf_db p)) = Inr None"
    "r = Inr (task_response env t c) \<or> r = Inl RedisError"
    "\<exists>st. pf_db p' = database.truncate
       (store H actor (request_endpoint req) key (request_body req) (task_response env t c) st db)"
proof -
  note o = once_new [OF assms(1) [unfolded serve_once] assms(2)]
  obtain t c db where a: "attempt env n req actor p = Inr (t, c, db)"
    using o(2) assms(2) by (cases "attempt env n req actor p") auto
  show ?thesis
    using that [OF a o(1)] o(2) unfolding a by (auto dest!: finish_db)
qed

lemma resumed_idempotency:
  assumes "build_resumed_patrol_task env n redis plan r actor source previous db = Inr (t, c, db')"
  shows "d_idempotency db' = d_idempotency db"
proof -
  from assms obtain params t0 previous' where
    l: "launch env n redis r actor ''patrol'' params 50 t0 (put_task previous' db) = Inr (t, c, db')"
    unfolding build_resumed_patrol_task_def by (auto simp: Let_def)
  show ?thesis by (rule launchE [OF l]) simp
qed

lemma plan_taskE:
  assumes "plan_task env n redis r actor q db = Inr (t, c, db')"
  obtains (fresh) plan source where "given (pi_resume_id q) = None" "\<not> resume_available r db"
      "robot_at_waiting env redis r = Inr True"
      "build_patrol_task env n redis plan r actor source None None db = Inr (t, c, db')"
  | (resumed) plan source tid previous where "given (pi_resume_id q) = Some tid" "get_task tid db = Some previous"
      "cancelled_patrol r previous"
      "build_resumed_patrol_task env n redis plan r actor source previous db = Inr (t, c, db')"
proof (cases "given (pi_resume_id q)")
  case None
  then show ?thesis using assms fresh unfolding plan_task_def by (auto simp: Let_def split: if_splits)
next
  case (Some tid)
  then obtain plan previous where
    "resumable r tid db = Inr previous"
    "build_resumed_patrol_task env n redis plan r actor (source_of env (pi_parameters q) ''OPERATIONS_HMI'') previous db
       = Inr (t, c, db')"
    using assms unfolding plan_task_def by (auto simp: Let_def)
  then show ?thesis using Some resumed by (auto simp: resumable_def split: option.splits if_splits)
qed

definition cancels :: "pyenv \<Rightarrow> task_request \<Rightarrow> platform \<Rightarrow> task \<Rightarrow> tx \<Rightarrow> bool" where
  "cancels env req p t db \<longleftrightarrow> (\<exists>tid t0. req = Cancel tid \<and> get_task tid (pf_db p) = Some t0 \<and> t = cancel_queued t0
     \<and> d_tasks db = upd_rows (\<lambda>x. tk_id x = tk_id t0) (\<lambda>_. t) (d_tasks (pf_db p))
     \<and> d_idempotency db = d_idempotency (pf_db p))"

lemma get_task_begin [simp]: "get_task tid (begin_tx d) = get_task tid d"
  by (simp add: get_task_def)

lemma attempt_cancel:
  assumes "attempt env n (Cancel tid) actor p = Inr (t, c, db)"
  shows "cancels env (Cancel tid) p t db"
proof -
  obtain t0 r where t: "cancel_target tid (begin_tx (pf_db p)) = Inr (t0, r)"
    using assms by (cases "cancel_target tid (begin_tx (pf_db p))") (auto simp: attempt_def simp del: and_then_Inr)
  obtain c1 db1 where d: "create_durable_command env n (pf_redis p) r actor ''cancel_task''
      [(''task_id'', JStr (tk_id t0))] (Some (tk_id t0)) 30000 80 (begin_tx (pf_db p)) = Inr (c1, db1)"
    using assms t by (cases "create_durable_command env n (pf_redis p) r actor ''cancel_task''
      [(''task_id'', JStr (tk_id t0))] (Some (tk_id t0)) 30000 80 (begin_tx (pf_db p))")
      (auto simp: attempt_def simp del: and_then_Inr)
  have "d_tasks db1 = d_tasks (pf_db p)" "d_idempotency db1 = d_idempotency (pf_db p)"
    by (rule create_durableE [OF d], simp)+
  moreover have "get_task tid (pf_db p) = Some t0"
    using t by (auto simp: cancel_target_def split: if_splits)
  moreover have "t = cancel_queued t0" "d_tasks db = d_tasks (put_task (cancel_queued t0) db1)" "d_idempotency db = d_idempotency db1"
    using assms t d by (auto simp: attempt_def)
  moreover have "tk_id (cancel_queued t0) = tk_id t0" by (simp add: cancel_queued_def)
  ultimately show ?thesis by (auto simp: cancels_def put_task_def)
qed

lemma attempt_idempotency:
  assumes "attempt env n req actor p = Inr (t, c, db)"
  shows "d_idempotency db = d_idempotency (pf_db p)"
proof (cases req)
  case (Cancel tid)
  then show ?thesis using attempt_cancel [OF assms [unfolded Cancel]] by (auto simp: cancels_def)
next
  case (Plan_Patrol q)
  then obtain r where "plan_task env n (pf_redis p) r actor q (begin_tx (pf_db p)) = Inr (t, c, db)"
    using assms by (auto simp: attempt_def Let_def split: option.splits)
  then show ?thesis
    by (cases rule: plan_taskE) (auto dest!: build_patrol_started resumed_idempotency simp: started_def)
qed (use assms in \<open>auto simp: attempt_def Let_def split: option.splits
    dest!: build_patrol_started build_return_started build_task_started simp: started_def\<close>)

lemma find_robot_mem: "find_robot key db = Some r \<Longrightarrow> r \<in> set (d_robots db)"
  by (auto simp: find_robot_def dest: first_row_Some)

text \<open>With distinct task identifiers, work that created a task is described by \<open>started\<close>.\<close>

lemma attempt_started:
  assumes "attempt env n req actor p = Inr (t, c, db)" "distinct (map tk_id (d_tasks (pf_db p)))"
  shows "cancels env req p t db \<or> (\<exists>r ty. r \<in> set (d_robots (pf_db p)) \<and> started env n (pf_redis p) r ty (begin_tx (pf_db p)) t c db)"
proof (cases req)
  case (Cancel tid)
  then show ?thesis using attempt_cancel assms by auto
next
  case (Plan_Patrol q)
  then obtain r where f: "find_robot (pi_robot_id q) (pf_db p) = Some r"
    and "plan_task env n (pf_redis p) r actor q (begin_tx (pf_db p)) = Inr (t, c, db)"
    using assms by (auto simp: attempt_def Let_def split: option.splits)
  from this(2) show ?thesis
  proof (cases rule: plan_taskE)
    case (fresh plan source)
    then show ?thesis using build_patrol_started find_robot_mem [OF f] by blast
  next
    case (resumed plan source tid previous)
    then show ?thesis
      using build_resumed_started [OF resumed(4) resumed(2)] assms(2) find_robot_mem [OF f] by auto
  qed
next
  case (Extinguish q)
  then obtain r where f: "find_robot (ti_robot_id q) (pf_db p) = Some r"
    and "build_task env n (pf_redis p) ''EXTINGUISH'' r actor q (begin_tx (pf_db p)) = Inr (t, c, db)"
    using assms by (auto simp: attempt_def Let_def split: option.splits)
  then show ?thesis using build_task_started find_robot_mem [OF f] by blast
next
  case (Patrol q)
  then obtain r plan s where f: "find_robot (ti_robot_id q) (pf_db p) = Some r"
    and "build_patrol_task env n (pf_redis p) plan r actor s None None (begin_tx (pf_db p)) = Inr (t, c, db)"
    using assms by (auto simp: attempt_def Let_def split: option.splits)
  then show ?thesis using build_patrol_started find_robot_mem [OF f] by blast
next
  case (Return_Home q)
  then obtain r s prev where f: "find_robot (ri_robot_id q) (pf_db p) = Some r"
    and "build_return_task env n (pf_redis p) r actor s prev (begin_tx (pf_db p)) = Inr (t, c, db)"
    using assms by (auto simp: attempt_def Let_def split: option.splits)
  then show ?thesis using build_return_started find_robot_mem [OF f] by blast
qed

section \<open>Retries\<close>

text \<open>
  Property C24. A task request changes the platform at most once per idempotency key: when a request
  changed it, every later request with the same actor, key and content, whatever the time, gets the
  response of the task that was created, also when the first answer was lost because the event
  stream was down after the commit, and changes nothing.
\<close>

theorem task_request_once:
  assumes "serve env n H rh req actor key p = (r, p')" "p' \<noteq> p"
  shows "\<exists>resp. (r = Inr resp \<or> r = Inl RedisError)
     \<and> (\<forall>env2 n2 rh2. serve env2 n2 H rh2 req actor key p' = (Inr resp, p'))"
proof -
  obtain t c db st where a: "attempt env n req actor p = Inr (t, c, db)"
    and l: "lookup H actor (request_endpoint req) key (request_body req) (begin_tx (pf_db p)) = Inr None"
    and r: "r = Inr (task_response env t c) \<or> r = Inl RedisError"
    and p': "pf_db p' = database.truncate
       (store H actor (request_endpoint req) key (request_body req) (task_response env t c) st db)"
    using served [OF assms] by metis
  have "lookup H actor (request_endpoint req) key (request_body req) db = Inr None"
    using l attempt_idempotency [OF a] lookup_cong [of db "begin_tx (pf_db p)"] by simp
  then have "response_of (lookup H actor (request_endpoint req) key (request_body req)
      (store H actor (request_endpoint req) key (request_body req) (task_response env t c) st db))
      = Inr (Some (task_response env t c))"
    using idem.look_put_same [where H = H and status = st and
        k = "(actor, request_endpoint req, key)" and b = "request_body req" and b' = "request_body req"
        and s = db and r = "task_response env t c"]
    by (simp add: response_of_def)
  then have "\<exists>row. lookup H actor (request_endpoint req) key (request_body req) (begin_tx (pf_db p')) = Inr (Some row)
      \<and> id_response row = task_response env t c"
    unfolding p' lookup_cong [of "begin_tx (database.truncate x)" x for x, simplified]
    by (auto simp: response_of_def split: sum.splits option.splits)
  then show ?thesis using r by (auto simp: serve_once once_def)
qed

definition demo_version :: map_version where
  "demo_version = \<lparr>mv_id = ''mv'', mv_map_id = ''m'', mv_version = ''1'', mv_status = ''PUBLISHED'',
     mv_checksum = ''c'', mv_revision = 1, mv_published_at = Some 0\<rparr>"

definition demo_preset :: navigation_preset where
  "demo_preset = \<lparr>np_id = ''np'', np_map_version_id = ''mv'', np_slot_id = None, np_code = ''P'', np_name = ''P'',
     np_category = ''INSPECTION'', np_pose = [], np_position_tolerance = 1, np_yaw_tolerance = 1,
     np_approach = [],
     np_requires_reverse = False, np_is_default = False, np_enabled = True, np_revision = 1\<rparr>"

definition demo_plan :: patrol_plan where
  "demo_plan = \<lparr>pp_id = ''pl'', pp_code = ''PL'', pp_name = ''PL'', pp_robot_id = ''r'', pp_map_version_id = ''mv'',
     pp_trajectory_id = None, pp_enabled = True, pp_created_by = ''u''\<rparr>"

definition demo_point :: patrol_point where
  "demo_point = \<lparr>pt_plan_id = ''pl'', pt_preset_id = ''np'', pt_sequence = 1, pt_dwell = 3, pt_observations = JArr []\<rparr>"

definition cancelled_cruise :: task where
  "cancelled_cruise = demo_task\<lparr>tk_status := ''CANCELLED'',
     tk_parameters := [(''resume_state'', JStr ''AVAILABLE'')]\<rparr>"

definition demo_slot :: parking_slot where
  "demo_slot = \<lparr>ps_id = ''s1'', ps_map_version_id = ''mv'', ps_code = ''A-01'', ps_polygon = JNull, ps_pose = [],
     ps_enabled = True\<rparr>"

text \<open>The robot stands far from the waiting area, its last patrol was cancelled and can be resumed.\<close>

definition field_platform :: platform where
  "field_platform = demo_platform\<lparr>
     pf_db := demo_db\<lparr>d_tasks := [cancelled_cruise], d_map_versions := [demo_version], d_presets := [demo_preset],
       d_plans := [demo_plan], d_plan_points := [demo_point], d_slots := [demo_slot],
       d_extinguish_points := [\<lparr>xp_id = ''x1'', xp_map_version_id = ''mv'', xp_slot_id = ''s1'', xp_pose = [], xp_approach = [],
         xp_nozzle = []\<rparr>]\<rparr>,
     pf_redis := [latest_key ''v'' \<mapsto> (JObj [(''x'', JFloat 30), (''y'', JFloat 20)], None)]\<rparr>"

definition patrol_request :: task_input where
  "patrol_request = \<lparr>ti_robot_id = ''r'', ti_slot_id = ''s1'', ti_trajectory_id = None, ti_fire_id = None,
     ti_parameters = []\<rparr>"

definition plan_request :: plan_input where
  "plan_request = \<lparr>pi_robot_id = ''r'', pi_plan_id = ''pl'', pi_parameters = [], pi_resume_id = None\<rparr>"

definition task_env :: pyenv where
  "task_env = plain_env 5"

lemma patrol_starts:
  "map tk_status (d_tasks (pf_db (snd (serve task_env 0 demo_hash redis_ok (Patrol patrol_request) ''u'' ''k'' field_platform))))
     = [''CANCELLED'', ''QUEUED'']"
  unfolding serve_def task_request.case by code_simp

theorem task_request_once_witness:
  "\<exists>r p' resp. serve task_env 0 demo_hash redis_ok (Patrol patrol_request) ''u'' ''k'' field_platform = (r, p')
     \<and> p' \<noteq> field_platform
     \<and> serve (plain_env 99) 7 demo_hash redis_ok (Patrol patrol_request) ''u'' ''k'' p' = (Inr resp, p')"
proof -
  obtain r p' where s: "serve task_env 0 demo_hash redis_ok (Patrol patrol_request) ''u'' ''k'' field_platform = (r, p')"
    by (rule prod.exhaust)
  then have "p' \<noteq> field_platform"
    using patrol_starts by (auto simp: field_platform_def cancelled_cruise_def)
  then show ?thesis using task_request_once [OF s] s by blast
qed

section \<open>Missions of a robot\<close>

text \<open>Which active tasks of one robot may stand beside each other.\<close>

definition compatible :: "task \<Rightarrow> task \<Rightarrow> bool" where
  "compatible t u \<longleftrightarrow> tk_type t \<noteq> ''EXTINGUISH'' \<and> tk_type u \<noteq> ''EXTINGUISH''
     \<and> (tk_type t = ''RETURN_DOCK'' \<or> tk_type u = ''RETURN_DOCK'')"

definition missions :: "task list \<Rightarrow> bool" where
  "missions ts \<longleftrightarrow> distinct (map tk_id ts) \<and>
     (\<forall>t \<in> set ts. \<forall>u \<in> set ts. active_task t \<and> active_task u \<and> tk_robot_id t = tk_robot_id u
        \<and> tk_id t \<noteq> tk_id u \<longrightarrow> compatible t u)"

lemma same_missions_ids: "list_all2 same_mission ts us \<Longrightarrow> map tk_id us = map tk_id ts"
  by (induction rule: list_all2_induct) (simp_all add: same_mission_def)

lemma same_missionsD:
  "list_all2 same_mission ts us \<Longrightarrow> u \<in> set us \<Longrightarrow> \<exists>t \<in> set ts. same_mission t u"
  by (induction rule: list_all2_induct) auto

lemma same_mission_active: "same_mission t u \<Longrightarrow> active_task u \<longleftrightarrow> active_task t"
  by (simp add: same_mission_def active_task_def)

lemma same_mission_compatible: "same_mission t t' \<Longrightarrow> same_mission u u' \<Longrightarrow> compatible t' u' \<longleftrightarrow> compatible t u"
  by (simp add: same_mission_def compatible_def)

lemma missions_same:
  assumes "missions ts" "list_all2 same_mission ts us"
  shows "missions us"
  unfolding missions_def
proof (intro conjI ballI impI)
  show "distinct (map tk_id us)" using assms same_missions_ids by (simp add: missions_def)
  fix t u
  assume tu: "t \<in> set us" "u \<in> set us"
    and a: "active_task t \<and> active_task u \<and> tk_robot_id t = tk_robot_id u \<and> tk_id t \<noteq> tk_id u"
  obtain t0 u0 where s: "t0 \<in> set ts" "same_mission t0 t" "u0 \<in> set ts" "same_mission u0 u"
    using same_missionsD [OF assms(2)] tu by blast
  then have "compatible t0 u0"
    using assms(1) a same_mission_active [OF s(2)] same_mission_active [OF s(4)]
    by (simp add: missions_def same_mission_def)
  then show "compatible t u" using same_mission_compatible [OF s(2,4)] by simp
qed

text \<open>The gate lets a new mission in only beside compatible ones.\<close>

lemma gate_compatible:
  assumes m: "missions ts" and fresh: "tk_id t0 \<notin> tk_id ` set ts"
    and nc: "no_conflict (add_task t0 b) r (Some (tk_id t0)) (ascii_lower ty)" and ts: "d_tasks b = ts"
    and ty: "ty \<in> {''PATROL'', ''EXTINGUISH'', ''RETURN_DOCK''}" "tk_type t0 = ty" "tk_robot_id t0 = rb_id r"
    and u: "u \<in> set ts" "active_task u" "tk_robot_id u = rb_id r"
  shows "compatible t0 u"
proof -
  let ?P = "\<lambda>t. tk_robot_id t = rb_id r \<and> active_task t \<and> (tk_id t0 = [] \<or> tk_id t \<noteq> tk_id t0)"
  have o: "other_active_task (add_task t0 b) r (Some (tk_id t0)) = first_row ?P (ts @ [t0])"
    by (simp add: other_active_task_def add_task_def ts)
  have "tk_id u \<noteq> tk_id t0" using u(1) fresh by (metis image_eqI)
  then have pu: "?P u" using u by simp
  then obtain w where w: "first_row ?P (ts @ [t0]) = Some w"
    using u(1) by (cases "first_row ?P (ts @ [t0])") (auto simp: first_row_None)
  then have w0: "first_row ?P ts = Some w"
    using pu u(1) by (auto simp: first_row_append first_row_None split: option.splits)
  then have ww: "w \<in> set ts" "?P w" by (auto dest: first_row_Some)
  have "\<not> conflicts (ascii_lower ty) w" using nc by (simp add: no_conflict_def o w)
  then have r: "ty = ''RETURN_DOCK''" "tk_type w \<noteq> ''EXTINGUISH''"
    using ty(1) by (auto simp: conflicts_def)
  have "tk_type u \<noteq> ''EXTINGUISH''"
  proof
    assume e: "tk_type u = ''EXTINGUISH''"
    then have "tk_id w \<noteq> tk_id u"
      using r(2) m ww(1) u(1) by (auto simp: missions_def dest: inj_onD [OF distinct_map [THEN iffD1, THEN conjunct2]])
    then show False using m ww u e by (auto simp: missions_def compatible_def)
  qed
  then show ?thesis using r ty(2) by (simp add: compatible_def)
qed

lemma missions_started:
  assumes "started env n redis r ty db t c db'" "missions (d_tasks db)" "uuid env (n + 1) \<notin> tk_id ` set (d_tasks db)"
  shows "missions (d_tasks db')"
proof -
  obtain b t0 where b: "list_all2 same_mission (d_tasks db) (d_tasks b)" "t = queued t0" "active_task t0"
      "no_conflict (add_task t0 b) r (Some (tk_id t)) (ascii_lower ty)"
      "d_tasks db' = upd_rows (\<lambda>x. tk_id x = tk_id t) (\<lambda>_. t) (d_tasks b @ [t0])"
    and t: "tk_id t = uuid env (n + 1)" "tk_robot_id t = rb_id r" "tk_type t = ty"
      "ty \<in> {''PATROL'', ''EXTINGUISH'', ''RETURN_DOCK''}"
    using assms(1) unfolding started_def by blast
  have ids: "map tk_id (d_tasks b) = map tk_id (d_tasks db)" using same_missions_ids [OF b(1)] .
  then have fresh: "tk_id t0 \<notin> tk_id ` set (d_tasks b)"
    using assms(3) t(1) b(2) by (metis queued_simps(1) set_map)
  then have "tk_id x \<noteq> tk_id t0" if "x \<in> set (d_tasks b)" for x
    using that by (metis image_eqI)
  then have rows: "d_tasks db' = d_tasks b @ [t]"
    using b(2,5) by (auto simp: upd_rows_def intro!: map_idI)
  have mb: "missions (d_tasks b)" by (rule missions_same [OF assms(2) b(1)])
  have comp: "compatible t u" if "u \<in> set (d_tasks b)" "active_task u" "tk_robot_id u = tk_robot_id t" for u
  proof -
    have "compatible t0 u"
      by (rule gate_compatible [OF mb fresh _ refl t(4)]) (use b t that in simp_all)
    then show ?thesis using b(2) by (simp add: compatible_def)
  qed
  have sym: "compatible x y \<longleftrightarrow> compatible y x" for x y by (auto simp: compatible_def)
  show ?thesis
    unfolding missions_def rows
  proof (intro conjI ballI impI)
    show "distinct (map tk_id (d_tasks b @ [t]))" using mb fresh b(2) by (simp add: missions_def)
    fix x y
    assume "x \<in> set (d_tasks b @ [t])" "y \<in> set (d_tasks b @ [t])"
      "active_task x \<and> active_task y \<and> tk_robot_id x = tk_robot_id y \<and> tk_id x \<noteq> tk_id y"
    then show "compatible x y"
      using comp [of x] comp [of y] sym [of x y] mb by (auto simp: missions_def)
  qed
qed



end
