(* ===== verification/Task_Guards.thy ===== *)
theory Task_Guards
  imports Task_Safety
begin

text \<open>
  What a created task looks like to the vehicle, and which guards stand before a full patrol: the
  plan endpoint insists on the waiting area and on resuming an interrupted patrol, the plain patrol
  endpoint on neither.
\<close>

section \<open>Created tasks\<close>

lemma task_vocabulary:
  "set (map ascii_lower [''PATROL'', ''EXTINGUISH'', ''RETURN_DOCK'']) \<subseteq> set COMMAND_ENUM"
  "set (map ascii_lower [''PATROL'', ''EXTINGUISH'', ''RETURN_DOCK'']) \<subseteq> set TASK_CMDS"
  by code_simp+

lemma built_boot:
  "build_command_payload env n r op cmd params ttl prio tid lid sid sq = Inr m \<Longrightarrow> cmd \<noteq> ''emergency_stop'' \<Longrightarrow>
     \<exists>b. rb_boot_id r = Some b \<and> b \<noteq> []"
  by (cases "rb_boot_id r") (auto simp: build_command_payload_def split: if_splits)


definition task_bridge :: bridge_config where
  "task_bridge = demo_bridge\<lparr>c_supported_commands := [''patrol'', ''extinguish'', ''return_dock'']\<rparr>"


section \<open>Guards of a full patrol\<close>

lemma near_waiting: "dist2 a b \<le> WAITING_TOLERANCE_M * WAITING_TOLERANCE_M \<Longrightarrow> sqrt (dist2 a b) \<le> 8 / 10"
  by (rule real_le_lsqrt) (simp_all add: WAITING_TOLERANCE_M_def power2_eq_square)

text \<open>
  A full patrol started through the plan endpoint starts in the waiting area: the last
  pose of the robot is within 0.8 m of it, and no interrupted patrol of the robot waits to be
  resumed.
\<close>

lemma plan_patrol_starts_at_waiting:
  assumes s: "patrol_plan_task env n H rh q actor key p = (r, p')" "p' \<noteq> p" and fresh: "given (pi_resume_id q) = None"
  shows "\<exists>rb x y. rb \<in> set (d_robots (pf_db p)) \<and> \<not> resume_available rb (pf_db p)
     \<and> py_float env (jget (latest_dict (utc_now env) (pf_redis p) rb) ''x'') = Inr x
     \<and> py_float env (jget (latest_dict (utc_now env) (pf_redis p) rb) ''y'') = Inr y
     \<and> sqrt (dist2 (x, y) (REMOTE_X, REMOTE_Y)) \<le> 8 / 10"
proof -
  have "serve env n H rh (Plan_Patrol q) actor key p = (r, p')" using s(1) by (simp add: serve_def)
  then obtain t c db where "attempt env n (Plan_Patrol q) actor p = Inr (t, c, db)" using served s(2) by metis
  then obtain rb where f: "find_robot (pi_robot_id q) (pf_db p) = Some rb"
    and "plan_task env n (pf_redis p) rb actor q (begin_tx (pf_db p)) = Inr (t, c, db)"
    by (auto simp: attempt_def Let_def split: option.splits)
  from this(2) obtain "\<not> resume_available rb (begin_tx (pf_db p))" "robot_at_waiting env (pf_redis p) rb = Inr True"
    by (cases rule: plan_taskE) (use fresh in simp_all)
  then obtain x y where "\<not> resume_available rb (pf_db p)"
    "py_float env (jget (latest_dict (utc_now env) (pf_redis p) rb) ''x'') = Inr x"
    "py_float env (jget (latest_dict (utc_now env) (pf_redis p) rb) ''y'') = Inr y"
    "dist2 (x, y) (REMOTE_X, REMOTE_Y) \<le> WAITING_TOLERANCE_M * WAITING_TOLERANCE_M"
    by (auto simp: robot_at_waiting_def Let_def resume_available_def last_cancelled_def bind_Inr split: if_splits)
  then show ?thesis using find_robot_mem [OF f] near_waiting by blast
qed

text \<open>The robot of \<open>field_platform\<close> in the waiting area, with nothing to resume.\<close>

definition home_platform :: platform where
  "home_platform = field_platform\<lparr>
     pf_db := (pf_db field_platform)\<lparr>d_tasks := []\<rparr>,
     pf_redis := [latest_key ''v'' \<mapsto> (JObj [(''x'', JFloat 1), (''y'', JFloat 1)], None)]\<rparr>"

lemma home_patrol_builds:
  "(case build_patrol_task task_env 0 (pf_redis home_platform) demo_plan demo_robot ''u'' (JStr ''OPERATIONS_HMI'') None None
      (begin_tx (pf_db home_platform)) of Inl e \<Rightarrow> False | Inr (t, c, db) \<Rightarrow> length (d_tasks db) = 1)"
  by code_simp

lemma home_facts:
  "find_robot ''r'' (pf_db home_platform) = Some demo_robot" "get_plan ''pl'' (begin_tx (pf_db home_platform)) = Some demo_plan"
  "d_idempotency (pf_db home_platform) = []" "d_tasks (pf_db home_platform) = []" "pp_robot_id demo_plan = rb_id demo_robot"
  by (simp_all add: home_platform_def field_platform_def demo_platform_def demo_db_def empty_db_def find_robot_def
      get_plan_def demo_robot_def demo_plan_def begin_tx_def database.extend_def)

lemma home_at_waiting: "robot_at_waiting task_env (pf_redis home_platform) demo_robot = Inr True"
  by code_simp

lemma home_patrol_changes:
  "snd (patrol_plan_task task_env 0 demo_hash redis_ok plan_request ''u'' ''k'' home_platform) \<noteq> home_platform"
proof -
  obtain t c db where b: "build_patrol_task task_env 0 (pf_redis home_platform) demo_plan demo_robot ''u''
      (JStr ''OPERATIONS_HMI'') None None (begin_tx (pf_db home_platform)) = Inr (t, c, db)" and one: "length (d_tasks db) = 1"
    using home_patrol_builds by (auto split: sum.splits)
  have "plan_task task_env 0 (pf_redis home_platform) demo_robot ''u'' plan_request (begin_tx (pf_db home_platform)) = Inr (t, c, db)"
    using b home_facts home_at_waiting
    by (simp add: plan_task_def own_plan_def plan_request_def given_def resume_available_def last_cancelled_def
        source_of_def)
  then have "d_tasks (pf_db (snd (patrol_plan_task task_env 0 demo_hash redis_ok plan_request ''u'' ''k'' home_platform))) = d_tasks db"
    using home_facts
    by (simp add: patrol_plan_task_def once_def lookup_def with_robot_def plan_request_def finish_task_def finish_def
        redis_ok_def store_def Let_def)
  then show ?thesis using one home_facts(4) by auto
qed

lemma plan_patrol_starts_at_waiting_witness:
  "patrol_plan_task task_env 0 demo_hash redis_ok plan_request ''u'' ''k'' home_platform
     = (fst (patrol_plan_task task_env 0 demo_hash redis_ok plan_request ''u'' ''k'' home_platform),
        snd (patrol_plan_task task_env 0 demo_hash redis_ok plan_request ''u'' ''k'' home_platform))
   \<and> snd (patrol_plan_task task_env 0 demo_hash redis_ok plan_request ''u'' ''k'' home_platform) \<noteq> home_platform
   \<and> (\<exists>(rb :: robot) x y. py_float task_env (jget (latest_dict (utc_now task_env) (pf_redis home_platform) rb) ''x'') = Inr x
        \<and> sqrt (dist2 (x, y) (REMOTE_X, REMOTE_Y)) \<le> 8 / 10)"
  using plan_patrol_starts_at_waiting [of task_env 0 demo_hash redis_ok plan_request "''u''" "''k''" home_platform,
      OF prod.collapse [symmetric] home_patrol_changes]
    home_patrol_changes
  by (auto simp: plan_request_def given_def)

section \<open>The unguarded endpoint\<close>

text \<open>
  The plain patrol endpoint has neither guard: for one and the same robot, far from the
  waiting area and with an interrupted patrol to resume, the plan endpoint refuses a full patrol
  with PATROL_RESUME_REQUIRED, while the plain endpoint queues one.
\<close>

lemma patrol_skips_guards:
  "fst (patrol_plan_task task_env 0 demo_hash redis_ok plan_request ''u'' ''k'' field_platform)
     = Inl (Api (PlatformError ''PATROL_RESUME_REQUIRED''))
   \<and> robot_at_waiting task_env (pf_redis field_platform) demo_robot = Inr False
   \<and> map tk_status (d_tasks (pf_db (snd (patrol task_env 0 demo_hash redis_ok patrol_request ''u'' ''k'' field_platform))))
     = [''CANCELLED'', ''QUEUED'']"
proof (intro conjI)
  have f: "find_robot ''r'' (pf_db field_platform) = Some demo_robot" "get_plan ''pl'' (begin_tx (pf_db field_platform)) = Some demo_plan"
    "d_idempotency (pf_db field_platform) = []" "d_tasks (pf_db field_platform) = [cancelled_cruise]" "pp_robot_id demo_plan = rb_id demo_robot"
    by (simp_all add: field_platform_def demo_platform_def demo_db_def empty_db_def find_robot_def
      get_plan_def demo_robot_def demo_plan_def begin_tx_def database.extend_def)
  have c: "cancelled_patrol demo_robot cancelled_cruise" "jget (tk_parameters cancelled_cruise) ''resume_state'' = JStr ''AVAILABLE''"
    by (simp_all add: cancelled_patrol_def cancelled_cruise_def demo_task_def demo_robot_def)
  show "fst (patrol_plan_task task_env 0 demo_hash redis_ok plan_request ''u'' ''k'' field_platform)
     = Inl (Api (PlatformError ''PATROL_RESUME_REQUIRED''))"
    using f c
    by (simp add: patrol_plan_task_def once_def lookup_def with_robot_def plan_request_def finish_task_def
        plan_task_def own_plan_def given_def resume_available_def last_cancelled_def Let_def)
  show "robot_at_waiting task_env (pf_redis field_platform) demo_robot = Inr False"
    by code_simp
  show "map tk_status (d_tasks (pf_db (snd (patrol task_env 0 demo_hash redis_ok patrol_request ''u'' ''k'' field_platform))))
     = [''CANCELLED'', ''QUEUED'']"
    using patrol_starts by (simp add: serve_def)
qed

end
