(* ===== verification/Alarms.thy ===== *)
theory Alarms
  imports Task_Endpoints
begin

text \<open>
  The alarm endpoints (\<open>alarms/router.py\<close>): reporting a fire by hand, moving a fire event along its
  life, and creating the extinguishing task of an alarm. The list, detail and timeline views read
  only and are left out, as are the audit rows. \<open>sha\<close> is the SHA-256 of a string.
\<close>

section \<open>Serialised fire events\<close>

definition serialize_fire :: "pyenv \<Rightarrow> fire_event \<Rightarrow> dict" where
  "serialize_fire env f =
     [(''id'', JStr (fe_id f)), (''event_code'', JStr (fe_code f)), (''robot_id'', jopt (fe_robot_id f)),
      (''parking_slot_id'', JStr (fe_slot_id f)), (''detection_method'', JStr (fe_method f)),
      (''fire_type'', JStr (fe_type f)), (''confidence'', fe_confidence f), (''severity'', JStr (fe_severity f)),
      (''fingerprint'', JStr (fe_fingerprint f)), (''source_message_id'', fe_source_message_id f),
      (''source_event_id'', fe_source_event_id f), (''state'', JStr (fe_state f)),
      (''first_seen_at'', iso_opt env (Some (fe_first_seen f))), (''last_seen_at'', iso_opt env (Some (fe_last_seen f))),
      (''occurrence_count'', JInt (fe_count f)), (''ack_by'', jopt (fe_ack_by f)), (''ack_at'', iso_opt env (fe_ack_at f)),
      (''confirmed_at'', iso_opt env (fe_confirmed_at f)), (''assigned_task_id'', jopt (fe_assigned_task f)),
      (''resolved_at'', iso_opt env (fe_resolved_at f)), (''closed_at'', iso_opt env (fe_closed_at f)),
      (''source_position_json'', fe_position f), (''media_snapshot_json'', fe_media f), (''note'', jopt (fe_note f))]"

section \<open>Manual alarms\<close>

record manual_alarm_input =
  ma_slot_id :: ident
  ma_fire_type :: string
  ma_note :: string
  ma_map_version :: string
  ma_severity :: string
  ma_media :: dict

definition valid_manual_alarm :: "manual_alarm_input \<Rightarrow> bool" where
  "valid_manual_alarm q \<longleftrightarrow> ma_fire_type q \<in> {''smoke'', ''flame'', ''unknown''} \<and> length (ma_note q) \<le> 2000
     \<and> ma_severity q \<in> {''LOW'', ''MEDIUM'', ''HIGH'', ''CRITICAL''}"

definition manual_alarm_body :: "manual_alarm_input \<Rightarrow> dict" where
  "manual_alarm_body q = [(''parking_slot_id'', JStr (ma_slot_id q)), (''fire_type'', JStr (ma_fire_type q)),
     (''note'', JStr (ma_note q)), (''map_version'', JStr (ma_map_version q)),
     (''severity'', JStr (ma_severity q)), (''media'', JObj (ma_media q))]"

text \<open>The fingerprint holds the minute of the report, the first twelve digits of the time stamp.\<close>

definition manual_fire :: "pyenv \<Rightarrow> nat \<Rightarrow> (string \<Rightarrow> string) \<Rightarrow> parking_slot \<Rightarrow> manual_alarm_input \<Rightarrow> fire_event" where
  "manual_fire env n sha slot q =
     (let now = utc_now env in
      \<lparr>fe_id = uuid env (n + 1), fe_code = ''FE-MANUAL-'' @ stamp env now @ ''-'' @ take 6 (uuid env n),
       fe_robot_id = None, fe_slot_id = ps_id slot, fe_method = ''MANUAL'', fe_type = ma_fire_type q,
       fe_confidence = JNull, fe_severity = ma_severity q,
       fe_fingerprint = sha (''MANUAL:'' @ ps_id slot @ '':'' @ ma_fire_type q @ '':'' @ take 12 (stamp env now)),
       fe_source_message_id = JNull, fe_source_event_id = JNull, fe_state = ''NEW'', fe_first_seen = now,
       fe_last_seen = now, fe_count = 1, fe_ack_by = None, fe_ack_at = None, fe_confirmed_at = None,
       fe_assigned_task = None, fe_resolved_at = None, fe_closed_at = None, fe_position = JObj (ps_pose slot),
       fe_media = JObj (ma_media q), fe_note = Some (ma_note q)\<rparr>)"

definition alarm_slot :: "manual_alarm_input \<Rightarrow> 'a database_scheme \<Rightarrow> api_error + parking_slot" where
  "alarm_slot q db =
     and_then (or_raise (HTTPException 404) (get_slot (ma_slot_id q) db)) (\<lambda>slot.
     and_then (or_raise (PlatformError ''MAP_VERSION_MISMATCH'') (get_map_version (ps_map_version_id slot) db)) (\<lambda>v.
       if mv_version v \<noteq> ma_map_version q then Inl (PlatformError ''MAP_VERSION_MISMATCH'') else Inr slot))"

definition manual_alarm ::
    "pyenv \<Rightarrow> nat \<Rightarrow> (dict \<Rightarrow> string) \<Rightarrow> (string \<Rightarrow> string) \<Rightarrow> redis_health \<Rightarrow> manual_alarm_input \<Rightarrow> ident \<Rightarrow> string \<Rightarrow>
     platform \<Rightarrow> (failure + dict) \<times> platform" where
  "manual_alarm env n H sha rh q actor key p =
     (if \<not> valid_manual_alarm q then (Inl (Api (HTTPException 422)), p)
      else
        let endpoint = ''/alarms/manual''; body = manual_alarm_body q; db = begin_tx (pf_db p) in
        once H actor endpoint key body p
          (case alarm_slot q db of
             Inl e \<Rightarrow> (Inl (Api e), p)
           | Inr slot \<Rightarrow>
             (let f = manual_fire env n sha slot q in
              finish env H rh actor endpoint key body 201 ''alarm.created'' (serialize_fire env f)
                (serialize_fire env f) (db\<lparr>d_fires := d_fires db @ [f]\<rparr>) p)))"

section \<open>The life of a fire event\<close>

definition ALLOWED :: "(string \<times> string list) list" where
  "ALLOWED =
     [(''NEW'', [''ACKNOWLEDGED'', ''CONFIRMED'', ''DISMISSED'']), (''ACKNOWLEDGED'', [''CONFIRMED'', ''DISMISSED'']),
      (''CONFIRMED'', [''RESOLVED'', ''DISMISSED'']), (''DISPATCHED'', [''IN_PROGRESS'', ''RESOLVED'']),
      (''IN_PROGRESS'', [''RESOLVED'']), (''RESOLVED'', [''CLOSED''])]"

definition allowed_targets :: "string \<Rightarrow> string list" where
  "allowed_targets s = (case map_of ALLOWED s of None \<Rightarrow> [] | Some ts \<Rightarrow> ts)"

definition moved_fire :: "micros \<Rightarrow> ident \<Rightarrow> string \<Rightarrow> fire_event \<Rightarrow> fire_event" where
  "moved_fire now actor target f =
     (let f0 = f\<lparr>fe_state := target\<rparr>;
          f1 = (if target = ''ACKNOWLEDGED'' then f0\<lparr>fe_ack_by := Some actor, fe_ack_at := Some now\<rparr> else f0);
          f2 = (if target = ''CONFIRMED'' then f1\<lparr>fe_confirmed_at := Some now\<rparr> else f1);
          f3 = (if target = ''RESOLVED'' then f2\<lparr>fe_resolved_at := Some now\<rparr> else f2)
      in if target = ''CLOSED'' then f3\<lparr>fe_closed_at := Some now\<rparr> else f3)"

definition transition ::
    "pyenv \<Rightarrow> redis_health \<Rightarrow> ident \<Rightarrow> string \<Rightarrow> ident \<Rightarrow> platform \<Rightarrow> (failure + dict) \<times> platform" where
  "transition env rh aid target actor p =
     (let db = begin_tx (pf_db p) in
      case get_fire aid db of
        None \<Rightarrow> (Inl not_found, p)
      | Some f \<Rightarrow>
        (if target \<notin> set (allowed_targets (fe_state f)) then (Inl (Api (HTTPException 409)), p)
         else
           let f' = moved_fire (utc_now env) actor target f; shown = serialize_fire env f';
               p' = commit (utc_now env) (put_fire f' db) p
           in if rh_event rh
              then (Inr shown, p'\<lparr>pf_events := pf_events p' @ [(''alarm.updated'', Ev_Json shown)]\<rparr>)
              else (Inl RedisError, p')))"

definition acknowledge :: "pyenv \<Rightarrow> redis_health \<Rightarrow> ident \<Rightarrow> ident \<Rightarrow> platform \<Rightarrow> (failure + dict) \<times> platform" where
  "acknowledge env rh aid actor p = transition env rh aid ''ACKNOWLEDGED'' actor p"

definition confirm :: "pyenv \<Rightarrow> redis_health \<Rightarrow> ident \<Rightarrow> ident \<Rightarrow> platform \<Rightarrow> (failure + dict) \<times> platform" where
  "confirm env rh aid actor p = transition env rh aid ''CONFIRMED'' actor p"

definition dismiss :: "pyenv \<Rightarrow> redis_health \<Rightarrow> ident \<Rightarrow> ident \<Rightarrow> platform \<Rightarrow> (failure + dict) \<times> platform" where
  "dismiss env rh aid actor p = transition env rh aid ''DISMISSED'' actor p"

definition resolve :: "pyenv \<Rightarrow> redis_health \<Rightarrow> ident \<Rightarrow> ident \<Rightarrow> platform \<Rightarrow> (failure + dict) \<times> platform" where
  "resolve env rh aid actor p = transition env rh aid ''RESOLVED'' actor p"

record alarm_task_input =
  at_robot_id :: ident
  at_trajectory_id :: "ident option"
  at_parameters :: dict

definition alarm_task :: "fire_event \<Rightarrow> alarm_task_input \<Rightarrow> task_input" where
  "alarm_task f q = \<lparr>ti_robot_id = at_robot_id q, ti_slot_id = fe_slot_id f, ti_trajectory_id = at_trajectory_id q,
     ti_fire_id = Some (fe_id f), ti_parameters = at_parameters q\<rparr>"

definition alarm_create_task ::
    "pyenv \<Rightarrow> nat \<Rightarrow> (dict \<Rightarrow> string) \<Rightarrow> redis_health \<Rightarrow> ident \<Rightarrow> alarm_task_input \<Rightarrow> ident \<Rightarrow> string \<Rightarrow> platform \<Rightarrow>
     (failure + dict) \<times> platform" where
  "alarm_create_task env n H rh aid q actor key p =
     (case get_fire aid (pf_db p) of
        None \<Rightarrow> (Inl not_found, p)
      | Some f \<Rightarrow>
        (if fe_state f \<notin> {''NEW'', ''ACKNOWLEDGED'', ''CONFIRMED''} then (Inl (Api (HTTPException 409)), p)
         else create_task env n H rh ''EXTINGUISH'' (alarm_task f q) actor key p))"

end
