(* ===== verification/Alarm_Safety.thy ===== *)
theory Alarm_Safety
  imports Alarms Task_Safety
begin

text \<open>
  The abstract life of a fire event, as a transition system on eight states, and the refinement: each
  request of the alarm endpoints moves every fire event of the table by at most one of its steps.
\<close>

section \<open>The abstract transition system\<close>

datatype fire_state = New | Acknowledged | Confirmed | Dispatched | In_Progress | Resolved | Dismissed | Closed

fun state_name :: "fire_state \<Rightarrow> string" where
  "state_name New = ''NEW''"
| "state_name Acknowledged = ''ACKNOWLEDGED''"
| "state_name Confirmed = ''CONFIRMED''"
| "state_name Dispatched = ''DISPATCHED''"
| "state_name In_Progress = ''IN_PROGRESS''"
| "state_name Resolved = ''RESOLVED''"
| "state_name Dismissed = ''DISMISSED''"
| "state_name Closed = ''CLOSED''"

text \<open>An operator looks at an alarm, a task is dispatched to it, the fire is dealt with.\<close>

inductive fire_step :: "fire_state \<Rightarrow> fire_state \<Rightarrow> bool" where
  see: "fire_step New Acknowledged"
| believe: "s \<in> {New, Acknowledged} \<Longrightarrow> fire_step s Confirmed"
| reject: "s \<in> {New, Acknowledged, Confirmed} \<Longrightarrow> fire_step s Dismissed"
| send: "s \<in> {New, Acknowledged, Confirmed} \<Longrightarrow> fire_step s Dispatched"
| arrive: "fire_step Dispatched In_Progress"
| deal: "s \<in> {Confirmed, Dispatched, In_Progress} \<Longrightarrow> fire_step s Resolved"
| close_out: "fire_step Resolved Closed"

inductive_simps fire_step_iff: "fire_step a b"

fun progress :: "fire_state \<Rightarrow> nat" where
  "progress New = 0"
| "progress Acknowledged = 1"
| "progress Confirmed = 2"
| "progress Dispatched = 3"
| "progress In_Progress = 4"
| "progress Resolved = 5"
| "progress Dismissed = 6"
| "progress Closed = 6"

text \<open>Every step makes progress, so an event takes at most six of them and never returns to a state.\<close>

lemma fire_step_progress: "fire_step a b \<Longrightarrow> progress a < progress b"
  by (induction rule: fire_step.induct) auto

lemma progress_le: "progress a \<le> 6"
  by (cases a) simp_all

lemma fire_steps_progress: "fire_step\<^sup>+\<^sup>+ a b \<Longrightarrow> progress a < progress b"
  by (induction rule: tranclp_induct) (auto dest: fire_step_progress)

lemma fire_never_returns: "\<not> fire_step\<^sup>+\<^sup>+ a a"
  using fire_steps_progress by blast

section \<open>The requests\<close>

datatype alarm_request = Acknowledge | Confirm | Dismiss | Resolve | Create_Task alarm_task_input
  | Report manual_alarm_input

definition alarm_serve ::
    "pyenv \<Rightarrow> nat \<Rightarrow> (dict \<Rightarrow> string) \<Rightarrow> (string \<Rightarrow> string) \<Rightarrow> redis_health \<Rightarrow> alarm_request \<Rightarrow> ident \<Rightarrow> ident \<Rightarrow>
     string \<Rightarrow> platform \<Rightarrow> (failure + dict) \<times> platform" where
  "alarm_serve env n H sha rh req aid actor key p =
     (case req of
        Acknowledge \<Rightarrow> acknowledge env rh aid actor p
      | Confirm \<Rightarrow> confirm env rh aid actor p
      | Dismiss \<Rightarrow> dismiss env rh aid actor p
      | Resolve \<Rightarrow> resolve env rh aid actor p
      | Create_Task q \<Rightarrow> alarm_create_task env n H rh aid q actor key p
      | Report q \<Rightarrow> manual_alarm env n H sha rh q actor key p)"

definition fire_states :: "'a database_scheme \<Rightarrow> ident \<Rightarrow> string option" where
  "fire_states d fid = map_option fe_state (get_fire fid d)"

lemma allowed_step:
  "target \<in> set (allowed_targets s) \<Longrightarrow>
     \<exists>a b. fire_step a b \<and> s = state_name a \<and> target = state_name b \<and> b \<noteq> Dispatched"
proof -
  assume "target \<in> set (allowed_targets s)"
  then have "(s, target) \<in> {(''NEW'', ''ACKNOWLEDGED''), (''NEW'', ''CONFIRMED''), (''NEW'', ''DISMISSED''),
      (''ACKNOWLEDGED'', ''CONFIRMED''), (''ACKNOWLEDGED'', ''DISMISSED''), (''CONFIRMED'', ''RESOLVED''),
      (''CONFIRMED'', ''DISMISSED''), (''DISPATCHED'', ''IN_PROGRESS''), (''DISPATCHED'', ''RESOLVED''),
      (''IN_PROGRESS'', ''RESOLVED''), (''RESOLVED'', ''CLOSED'')}"
    by (auto simp: allowed_targets_def ALLOWED_def split: if_splits)
  then show ?thesis
    by (elim insertE)
      (force intro: fire_step.intros exI [of _ New] exI [of _ Acknowledged] exI [of _ Confirmed] exI [of _ Dispatched]
         exI [of _ In_Progress] exI [of _ Resolved] exI [of _ Dismissed] exI [of _ Closed])+
qed

lemma step_allowed: "fire_step a b \<Longrightarrow> b \<noteq> Dispatched \<Longrightarrow> state_name b \<in> set (allowed_targets (state_name a))"
  by (induction rule: fire_step.induct) (auto simp: allowed_targets_def ALLOWED_def)

lemma get_fire_id: "get_fire fid d = Some f \<Longrightarrow> fe_id f = fid"
  by (auto simp: get_fire_def dest: first_row_Some)

lemma first_row_upd:
  "(\<And>r. P r \<Longrightarrow> Q (g r) = Q r) \<Longrightarrow>
     first_row Q (upd_rows P g rows) = map_option (\<lambda>r. if P r then g r else r) (first_row Q rows)"
  by (induction rows) auto

lemma fire_states_put:
  assumes "fe_id f' = fid0"
  shows "fire_states (put_fire f' db) fid =
     (if fid = fid0 then map_option (\<lambda>_. fe_state f') (get_fire fid db) else fire_states db fid)"
proof -
  have "get_fire fid (put_fire f' db) =
     map_option (\<lambda>r. if fe_id r = fe_id f' then f' else r) (get_fire fid db)"
    unfolding get_fire_def put_fire_def by (simp, rule first_row_upd) auto
  then show ?thesis
    unfolding fire_states_def using assms
    by (cases "get_fire fid db") (auto dest: get_fire_id)
qed

lemma moved_fire_simps [simp]: "fe_id (moved_fire now actor target f) = fe_id f"
  "fe_state (moved_fire now actor target f) = target"
  by (simp_all add: moved_fire_def Let_def)

lemma fire_states_truncate [simp]: "fire_states (database.truncate d) = fire_states d"
  by (simp add: fire_states_def get_fire_def fun_eq_iff)

lemma fire_states_begin [simp]: "fire_states (begin_tx d) = fire_states d" "get_fire fid (begin_tx d) = get_fire fid d"
  by (simp_all add: fire_states_def get_fire_def fun_eq_iff)

lemma fire_states_cong: "d_fires d = d_fires d' \<Longrightarrow> fire_states d = fire_states d'"
  by (simp add: fire_states_def get_fire_def fun_eq_iff)

text \<open>What a request may do to the state of one fire event.\<close>

definition fire_moves :: "string option \<Rightarrow> string option \<Rightarrow> bool" where
  "fire_moves x y \<longleftrightarrow> y = x \<or> (\<exists>a b. fire_step a b \<and> x = Some (state_name a) \<and> y = Some (state_name b))
     \<or> (x = None \<and> y = Some (state_name New))"

lemma transition_moves:
  assumes "transition env rh aid target actor p = (r, p')"
  shows "fire_moves (fire_states (pf_db p) fid) (fire_states (pf_db p') fid)"
proof (cases "p' = p")
  case False
  then obtain f where f: "get_fire aid (pf_db p) = Some f" "target \<in> set (allowed_targets (fe_state f))"
    and p': "pf_db p' = database.truncate (put_fire (moved_fire (utc_now env) actor target f) (begin_tx (pf_db p)))"
    using assms by (auto simp: transition_def Let_def split: option.splits if_splits)
  obtain a b where ab: "fire_step a b" "fe_state f = state_name a" "target = state_name b"
    using allowed_step [OF f(2)] by blast
  have "fire_states (pf_db p') fid = (if fid = aid then Some target else fire_states (pf_db p) fid)"
    unfolding p' using f(1) get_fire_id [OF f(1)] fire_states_put [of "moved_fire (utc_now env) actor target f" aid]
    by simp
  moreover have "fire_states (pf_db p) aid = Some (fe_state f)" using f(1) by (simp add: fire_states_def)
  ultimately show ?thesis using ab by (auto simp: fire_moves_def)
qed (simp add: fire_moves_def)

text \<open>An extinguishing task dispatches the fire it names, whatever that fire's state.\<close>

lemma extinguish_fires:
  assumes "create_task env n H rh ''EXTINGUISH'' q actor key p = (r, p')" "p' \<noteq> p" "ti_fire_id q = Some fid0" "fid0 \<noteq> []"
  shows "\<exists>f. get_fire fid0 (pf_db p) = Some f
     \<and> (\<forall>fid. fire_states (pf_db p') fid = (if fid = fid0 then Some ''DISPATCHED'' else fire_states (pf_db p) fid))"
proof -
  have "serve env n H rh (Extinguish q) actor key p = (r, p')" using assms(1) by (simp add: serve_def extinguish_def)
  then obtain t c db st where a: "attempt env n (Extinguish q) actor p = Inr (t, c, db)"
    and p': "pf_db p' = database.truncate
       (store H actor (request_endpoint (Extinguish q)) key (request_body (Extinguish q)) (task_response env t c) st db)"
    using served assms(2) by metis
  obtain rb where b: "build_task env n (pf_redis p) ''EXTINGUISH'' rb actor q (begin_tx (pf_db p)) = Inr (t, c, db)"
    using a by (auto simp: attempt_def Let_def split: option.splits)
  show ?thesis
  proof (cases rule: build_taskE [OF b])
    case (1 params t0 db1)
    have d1: "d_fires db1 = d_fires (pf_db p)" by (rule launchE [OF 1(1)]) simp
    then have g: "get_fire fid0 db1 = get_fire fid0 (pf_db p)" by (simp add: get_fire_def)
    obtain f where f: "get_fire fid0 (pf_db p) = Some f"
        "db = put_fire (f\<lparr>fe_assigned_task := Some (tk_id t0), fe_state := ''DISPATCHED''\<rparr>) db1"
      using 1(2) assms(3,4) g by (auto simp: dispatch_fire_def given_def split: option.splits if_splits)
    have "d_fires (store H actor (request_endpoint (Extinguish q)) key (request_body (Extinguish q)) (task_response env t c) st db)
        = d_fires db" by (simp add: store_def)
    then have s: "fire_states (pf_db p') = fire_states db" unfolding p' fire_states_truncate by (rule fire_states_cong)
    show ?thesis
      using f get_fire_id [OF f(1)] g fire_states_put [of "f\<lparr>fe_assigned_task := Some (tk_id t0), fe_state := ''DISPATCHED''\<rparr>" fid0 db1]
        fire_states_cong [OF d1]
      by (intro exI [of _ f]) (simp add: s)
  qed
qed

lemma alarm_task_moves:
  assumes "alarm_create_task env n H rh aid q actor key p = (r, p')" "aid \<noteq> []"
  shows "fire_moves (fire_states (pf_db p) fid) (fire_states (pf_db p') fid)"
proof (cases "p' = p")
  case False
  then obtain f where f: "get_fire aid (pf_db p) = Some f" "fe_state f \<in> {''NEW'', ''ACKNOWLEDGED'', ''CONFIRMED''}"
    and c: "create_task env n H rh ''EXTINGUISH'' (alarm_task f q) actor key p = (r, p')"
    using assms by (auto simp: alarm_create_task_def split: option.splits if_splits)
  have s: "fire_states (pf_db p') fid = (if fid = aid then Some ''DISPATCHED'' else fire_states (pf_db p) fid)"
    using extinguish_fires [OF c False, of aid] assms(2) get_fire_id [OF f(1)] by (auto simp: alarm_task_def)
  have "fire_states (pf_db p) aid = Some (fe_state f)" using f(1) by (simp add: fire_states_def)
  moreover have "\<exists>a. fe_state f = state_name a \<and> fire_step a Dispatched"
    using f(2) by (auto intro: exI [of _ New] exI [of _ Acknowledged] exI [of _ Confirmed] fire_step.intros)
  moreover have "''DISPATCHED'' = state_name Dispatched" by simp
  ultimately show ?thesis unfolding fire_moves_def s by metis
qed (simp add: fire_moves_def)

lemma report_moves:
  assumes "manual_alarm env n H sha rh q actor key p = (r, p')"
  shows "fire_moves (fire_states (pf_db p) fid) (fire_states (pf_db p') fid)"
proof (cases "p' = p")
  case False
  then obtain slot st where "pf_db p' = database.truncate (store H actor ''/alarms/manual'' key (manual_alarm_body q)
       (serialize_fire env (manual_fire env n sha slot q)) st
       ((begin_tx (pf_db p))\<lparr>d_fires := d_fires (pf_db p) @ [manual_fire env n sha slot q]\<rparr>))"
    using assms by (auto simp: manual_alarm_def once_def finish_def Let_def split: if_splits sum.splits option.splits)
  then have "d_fires (pf_db p') = d_fires (pf_db p) @ [manual_fire env n sha slot q]" by (simp add: store_def)
  then show ?thesis
    by (auto simp: fire_moves_def fire_states_def get_fire_def first_row_append manual_fire_def Let_def split: option.splits)
qed (simp add: fire_moves_def)

text \<open>
  Property C27. The alarm endpoints refine the abstract life of a fire event: whatever the request
  and its outcome, the state of every fire event of the table stays as it is or moves by one abstract
  step, and an event that appears is new. So through these endpoints no event ever returns to a state.
\<close>

theorem alarm_api_refines:
  assumes "alarm_serve env n H sha rh req aid actor key p = (r, p')" "aid \<noteq> []"
  shows "fire_states (pf_db p') fid = fire_states (pf_db p) fid
     \<or> (\<exists>a b. fire_step a b \<and> fire_states (pf_db p) fid = Some (state_name a)
          \<and> fire_states (pf_db p') fid = Some (state_name b))
     \<or> (fire_states (pf_db p) fid = None \<and> fire_states (pf_db p') fid = Some (state_name New))"
proof -
  have "fire_moves (fire_states (pf_db p) fid) (fire_states (pf_db p') fid)"
    using assms transition_moves alarm_task_moves report_moves
    by (cases req) (auto simp: alarm_serve_def acknowledge_def confirm_def dismiss_def resolve_def)
  then show ?thesis by (simp only: fire_moves_def)
qed

text \<open>And every step of an operator is served: the request exists and succeeds.\<close>

lemma transition_complete:
  assumes "fire_step a b" "b \<noteq> Dispatched" "fire_states (pf_db p) aid = Some (state_name a)" "rh_event rh"
  shows "\<exists>resp p'. transition env rh aid (state_name b) actor p = (Inr resp, p')
     \<and> fire_states (pf_db p') aid = Some (state_name b)"
proof -
  obtain f where f: "get_fire aid (pf_db p) = Some f" "fe_state f = state_name a"
    using assms(3) by (auto simp: fire_states_def)
  let ?f = "moved_fire (utc_now env) actor (state_name b) f"
  have "fire_states (put_fire ?f (begin_tx (pf_db p))) aid = Some (state_name b)"
    using f(1) get_fire_id [OF f(1)] fire_states_put [of ?f aid "begin_tx (pf_db p)" aid] by simp
  then show ?thesis
    using f step_allowed [OF assms(1,2)] assms(4) by (simp add: transition_def Let_def)
qed

section \<open>Concrete fires\<close>

definition some_fire :: "string \<Rightarrow> fire_event" where
  "some_fire state = \<lparr>fe_id = ''f'', fe_code = ''FE'', fe_robot_id = None, fe_slot_id = ''s1'', fe_method = ''MANUAL'',
     fe_type = ''smoke'', fe_confidence = JNull, fe_severity = ''HIGH'', fe_fingerprint = ''fp'',
     fe_source_message_id = JNull, fe_source_event_id = JNull, fe_state = state, fe_first_seen = 0, fe_last_seen = 0,
     fe_count = 1, fe_ack_by = None, fe_ack_at = None, fe_confirmed_at = None, fe_assigned_task = None,
     fe_resolved_at = None, fe_closed_at = None, fe_position = JNull, fe_media = JObj [], fe_note = None\<rparr>"

definition fire_platform :: "string \<Rightarrow> platform" where
  "fire_platform state = field_platform\<lparr>pf_db := (pf_db field_platform)\<lparr>d_fires := [some_fire state]\<rparr>\<rparr>"

definition spray :: alarm_task_input where
  "spray = \<lparr>at_robot_id = ''r'', at_trajectory_id = None, at_parameters = [(''extinguish_mode'', JStr ''SPRAY_AGENT'')]\<rparr>"

definition spray_task :: task_input where
  "spray_task = \<lparr>ti_robot_id = ''r'', ti_slot_id = ''s1'', ti_trajectory_id = None, ti_fire_id = Some ''f'',
     ti_parameters = [(''extinguish_mode'', JStr ''SPRAY_AGENT'')]\<rparr>"

lemma spray_dispatches:
  "map fe_state (d_fires (pf_db (snd (alarm_create_task task_env 0 demo_hash redis_ok ''f'' spray ''u'' ''k'' (fire_platform ''NEW'')))))
     = [''DISPATCHED'']"
  by code_simp

theorem alarm_api_refines_witness:
  "\<exists>r p'. alarm_serve task_env 0 demo_hash id redis_ok (Create_Task spray) ''f'' ''u'' ''k'' (fire_platform ''NEW'') = (r, p')
     \<and> fire_states (pf_db p') ''f'' = Some ''DISPATCHED''
     \<and> (\<exists>a b. fire_step a b \<and> state_name a = ''NEW'' \<and> state_name b = ''DISPATCHED'')"
proof -
  obtain r p' where s: "alarm_serve task_env 0 demo_hash id redis_ok (Create_Task spray) ''f'' ''u'' ''k'' (fire_platform ''NEW'') = (r, p')"
    by (rule prod.exhaust)
  then have m: "map fe_state (d_fires (pf_db p')) = [''DISPATCHED'']" using spray_dispatches by (simp add: alarm_serve_def)
  have before: "fire_states (pf_db (fire_platform ''NEW'')) ''f'' = Some ''NEW''"
    by (simp add: fire_states_def get_fire_def fire_platform_def some_fire_def)
  have cases: "fire_states (pf_db p') ''f'' = Some ''DISPATCHED'' \<or> fire_states (pf_db p') ''f'' = None"
    using m by (auto simp: fire_states_def get_fire_def split: if_splits)
  have n: "aid \<noteq> []" if "aid = ''f''" for aid using that by simp
  from alarm_api_refines [OF s n [OF refl], of "''f''"] show ?thesis
  proof (elim disjE exE conjE)
    fix a b
    assume "fire_step a b" "fire_states (pf_db (fire_platform ''NEW'')) ''f'' = Some (state_name a)"
      "fire_states (pf_db p') ''f'' = Some (state_name b)"
    then show ?thesis using s cases before by (metis option.distinct(1) option.inject)
  qed (use before cases in simp_all)
qed

section \<open>Where the contract is left\<close>

text \<open>
  The task endpoint of an alarm looks at the alarm's state before it looks at the
  idempotency key: once a request has created the task, every retry of it, with the same key and
  content, is refused with 409 instead of being answered with the task it created.
\<close>

lemma alarm_task_retry_refused:
  assumes "alarm_create_task env n H rh aid q actor key p = (r, p')" "p' \<noteq> p" "aid \<noteq> []"
  shows "alarm_create_task env2 n2 H rh2 aid q actor key p' = (Inl (Api (HTTPException 409)), p')"
proof -
  obtain f where f: "get_fire aid (pf_db p) = Some f"
    and c: "create_task env n H rh ''EXTINGUISH'' (alarm_task f q) actor key p = (r, p')"
    using assms(1,2) by (auto simp: alarm_create_task_def split: option.splits if_splits)
  have "fire_states (pf_db p') aid = Some ''DISPATCHED''"
    using extinguish_fires [OF c assms(2), of aid] assms(3) get_fire_id [OF f] by (auto simp: alarm_task_def)
  then obtain f' where "get_fire aid (pf_db p') = Some f'" "fe_state f' = ''DISPATCHED''" by (auto simp: fire_states_def)
  then show ?thesis by (simp add: alarm_create_task_def)
qed

lemma alarm_task_retry_refused_witness:
  "\<exists>p'. snd (alarm_create_task task_env 0 demo_hash redis_ok ''f'' spray ''u'' ''k'' (fire_platform ''NEW'')) = p'
     \<and> map fe_state (d_fires (pf_db p')) = [''DISPATCHED'']
     \<and> alarm_create_task (plain_env 9) 4 demo_hash redis_ok ''f'' spray ''u'' ''k'' p' = (Inl (Api (HTTPException 409)), p')"
proof -
  obtain r p' where s: "alarm_create_task task_env 0 demo_hash redis_ok ''f'' spray ''u'' ''k'' (fire_platform ''NEW'') = (r, p')"
    by (rule prod.exhaust)
  then have m: "map fe_state (d_fires (pf_db p')) = [''DISPATCHED'']" using spray_dispatches by simp
  then have "p' \<noteq> fire_platform ''NEW''" by (auto simp: fire_platform_def some_fire_def)
  then show ?thesis using alarm_task_retry_refused [OF s] m s by simp
qed

text \<open>
  The extinguishing endpoint itself has no guard on the fire: a resolved event is dispatched again,
  a step the abstract life does not have.
\<close>

lemma resolved_fire_redispatched:
  "map fe_state (d_fires (pf_db (snd (extinguish task_env 0 demo_hash redis_ok spray_task ''u'' ''k'' (fire_platform ''RESOLVED'')))))
     = [''DISPATCHED''] \<and> \<not> fire_step Resolved Dispatched"
  by (rule conjI, code_simp, simp add: fire_step_iff)

end
