(* ===== verification/Dispatcher.thy ===== *)
theory Dispatcher
  imports Safety_Commands Worker Ingress_Handlers
begin

text \<open>
  The command dispatcher (\<open>services/command-dispatcher/main.py\<close>): it publishes the commands of the
  outbox, the safety commands of the Redis stream and the pulses of manual control to the vehicles'
  MQTT topics. Publishing takes time, so reading a row, publishing, and committing what happened are
  separate steps; other services may commit in between. The JSON schema check and the MQTT client are
  a parameter (\<open>broker\<close>): whether a payload is valid, and how handing it to the client ends.
\<close>

section \<open>Publishing\<close>

text \<open>An exception is its type and its text.\<close>

type_synonym exn_text = "string \<times> string"

record broker =
  br_valid :: "dict \<Rightarrow> bool"
  br_publish :: "dict \<Rightarrow> exn_text option"
  br_text :: "string \<Rightarrow> string"

datatype publish_result = Sent | Timed_Out | Failed exn_text

record wire_message =
  wm_topic :: string
  wm_payload :: dict
  wm_qos :: int
  wm_at :: micros

definition expiry_of :: "pyenv \<Rightarrow> dict \<Rightarrow> string + micros" where
  "expiry_of env payload =
     (if \<not> jhas payload ''expires_at'' then Inl ''KeyError''
      else case jget payload ''expires_at'' of
        JStr s \<Rightarrow> (case iso_parse env s of
                     Iso_Aware t \<Rightarrow> Inr t | Iso_Naive t \<Rightarrow> Inl ''TypeError'' | Iso_Error \<Rightarrow> Inl ''ValueError'')
      | _ \<Rightarrow> Inl ''TypeError'')"

definition command_topic :: "pyenv \<Rightarrow> dict \<Rightarrow> string" where
  "command_topic env payload = ''robot/'' @ py_str env (jget payload ''vehicle_id'') @ ''/command''"

text \<open>The second component is what was handed to the MQTT client, also when it did not complete.\<close>

definition publish_command :: "pyenv \<Rightarrow> broker \<Rightarrow> dict \<Rightarrow> int \<Rightarrow> publish_result \<times> wire_message list" where
  "publish_command env br payload qos =
     (if \<not> br_valid br payload then (Failed (''ValidationError'', br_text br ''ValidationError''), [])
      else case expiry_of env payload of
        Inl e \<Rightarrow> (Failed (e, br_text br e), [])
      | Inr expires \<Rightarrow>
          (if expires \<le> utc_now env then (Timed_Out, [])
           else if \<not> jhas payload ''vehicle_id'' then (Failed (''KeyError'', br_text br ''KeyError''), [])
           else ((case br_publish br payload of None \<Rightarrow> Sent | Some e \<Rightarrow> Failed e),
                 [\<lparr>wm_topic = command_topic env payload, wm_payload = payload, wm_qos = qos, wm_at = utc_now env\<rparr>])))"

section \<open>The outbox\<close>

definition earliest_row :: "('r \<Rightarrow> int) \<Rightarrow> 'r list \<Rightarrow> 'r option" where
  "earliest_row key rows = latest_row (\<lambda>r. - key r) rows"

definition due :: "micros \<Rightarrow> outbox_event \<Rightarrow> bool" where
  "due now e \<longleftrightarrow> ob_status e = ''PENDING'' \<and> ob_available_at e \<le> now"

definition next_outbox :: "micros \<Rightarrow> 'a database_scheme \<Rightarrow> outbox_event option" where
  "next_outbox now d = earliest_row ob_created_at (filter (due now) (d_outbox d))"

definition put_outbox :: "outbox_event \<Rightarrow> tx \<Rightarrow> tx" where
  "put_outbox e s = s\<lparr>d_outbox := upd_rows (\<lambda>x. ob_id x = ob_id e) (\<lambda>_. e) (d_outbox s)\<rparr>"

definition published :: "micros \<Rightarrow> command \<Rightarrow> command" where
  "published now c = c\<lparr>cm_lifecycle := ''PUBLISHED'', cm_published_at := Some now\<rparr>"

definition lapsed :: "micros \<Rightarrow> command \<Rightarrow> command" where
  "lapsed now c = c\<lparr>cm_lifecycle := ''EXPIRED'', cm_terminal_at := Some now\<rparr>"

text \<open>
  The write-back of the attributes assigned to the command that was read: the columns that the
  assignment changed are set in the row as it is at the commit, whatever has become of it since.
\<close>

definition changed :: "(command \<Rightarrow> 'v) \<Rightarrow> (command \<Rightarrow> command) \<Rightarrow> command \<Rightarrow> command \<Rightarrow> 'v" where
  "changed column f read row = (if column (f read) \<noteq> column read then column (f read) else column row)"

definition write_columns :: "(command \<Rightarrow> command) \<Rightarrow> command \<Rightarrow> command \<Rightarrow> command" where
  "write_columns f read row =
     row\<lparr>cm_lifecycle := changed cm_lifecycle f read row, cm_published_at := changed cm_published_at f read row,
         cm_terminal_at := changed cm_terminal_at f read row, cm_ack_reason := changed cm_ack_reason f read row\<rparr>"

definition write_command :: "(command \<Rightarrow> command) \<Rightarrow> command option \<Rightarrow> tx \<Rightarrow> tx" where
  "write_command f read s =
     (case read of
        None \<Rightarrow> s
      | Some c \<Rightarrow> s\<lparr>d_commands := upd_rows (\<lambda>x. cm_command_id x = cm_command_id c) (write_columns f c) (d_commands s)\<rparr>)"

definition announce_command :: "(command \<Rightarrow> command) \<Rightarrow> command option \<Rightarrow> tx \<Rightarrow> tx" where
  "announce_command f read s =
     (case read of None \<Rightarrow> s | Some c \<Rightarrow> queue_event ''command.updated'' (Ev_Command (f c)) s)"

definition retry_seconds :: "int \<Rightarrow> int" where
  "retry_seconds attempts = min 30 (2 ^ nat (min attempts 5))"

definition outbox_after :: "micros \<Rightarrow> publish_result \<Rightarrow> outbox_event \<Rightarrow> outbox_event" where
  "outbox_after now result e =
     (case result of
        Sent \<Rightarrow> e\<lparr>ob_status := ''PUBLISHED'', ob_published_at := Some now, ob_attempts := ob_attempts e + 1\<rparr>
      | Timed_Out \<Rightarrow> e\<lparr>ob_status := ''EXPIRED'', ob_last_error := Some ''expired''\<rparr>
      | Failed err \<Rightarrow> e\<lparr>ob_attempts := ob_attempts e + 1, ob_last_error := Some (take 500 (snd err)),
                        ob_available_at := now + retry_seconds (ob_attempts e + 1) * 1000000\<rparr>)"

definition outbox_settle :: "micros \<Rightarrow> publish_result \<Rightarrow> outbox_event \<Rightarrow> command option \<Rightarrow> tx \<Rightarrow> tx" where
  "outbox_settle now result e read s =
     (let s1 = put_outbox (outbox_after now result e) s in
      case result of
        Sent \<Rightarrow> announce_command (published now) read (write_command (published now) read s1)
      | Timed_Out \<Rightarrow> write_command (lapsed now) read s1
      | Failed err \<Rightarrow> s1)"

record dispatcher =
  dp_platform :: platform
  dp_wire :: "wire_message list"

definition heartbeat :: "micros \<Rightarrow> string \<Rightarrow> pyenv \<Rightarrow> platform \<Rightarrow> platform" where
  "heartbeat now name env p =
     p\<lparr>pf_redis := redis_setex now (''service:command-dispatcher:'' @ name) 5 (JStr (iso_format env now)) (pf_redis p)\<rparr>"

text \<open>
  One round of \<open>outbox_loop\<close>: read the next row and its command, publish, and commit against the
  platform as it is then (\<open>between\<close> is what the other services did meanwhile; they leave the locked
  outbox row alone). A failed commit leaves the row pending although the message is out.
\<close>

definition outbox_round ::
    "pyenv \<Rightarrow> broker \<Rightarrow> micros \<Rightarrow> bool \<Rightarrow> (platform \<Rightarrow> platform) \<Rightarrow> dispatcher \<Rightarrow> dispatcher" where
  "outbox_round env br done commit_ok between d =
     (let now = utc_now env; p = heartbeat now ''outbox-heartbeat'' env (dp_platform d) in
      case next_outbox now (pf_db p) of
        None \<Rightarrow> d\<lparr>dp_platform := p\<rparr>
      | Some e \<Rightarrow>
        (let read = get_command (ob_aggregate_id e) (pf_db p);
             (result, sent) = publish_command env br (ob_payload e) 1;
             p1 = between p
         in \<lparr>dp_platform = (if commit_ok then commit done (outbox_settle done result e read (begin_tx (pf_db p1))) p1
                            else p1),
             dp_wire = dp_wire d @ sent\<rparr>))"

section \<open>The safety stream\<close>

text \<open>
  One entry of the stream: the database transaction around publishing it, and whether the entry is
  acknowledged. An entry that is not stays pending and is claimed again.
\<close>

definition safety_settle :: "micros \<Rightarrow> publish_result \<Rightarrow> command option \<Rightarrow> tx \<Rightarrow> tx" where
  "safety_settle now result read s =
     (case result of
        Sent \<Rightarrow> announce_command (published now) read (write_command (published now) read s)
      | Timed_Out \<Rightarrow> write_command (lapsed now) read s
      | Failed err \<Rightarrow> write_command (\<lambda>c. c\<lparr>cm_ack_reason := JStr (fst err)\<rparr>) read s)"

definition safety_event ::
    "pyenv \<Rightarrow> broker \<Rightarrow> micros \<Rightarrow> bool \<Rightarrow> dict \<Rightarrow> dispatcher \<Rightarrow> bool \<times> dispatcher" where
  "safety_event env br done commit_ok payload d =
     (if \<not> jhas payload ''command_id'' then (False, d)
      else
        let p = dp_platform d;
            read = first_row (\<lambda>c. JStr (cm_command_id c) = jget payload ''command_id'') (d_commands (pf_db p));
            (result, sent) = publish_command env br payload 1
        in (commit_ok \<and> (case result of Failed e \<Rightarrow> False | _ \<Rightarrow> True),
            \<lparr>dp_platform = (if commit_ok then commit done (safety_settle done result read (begin_tx (pf_db p))) p else p),
             dp_wire = dp_wire d @ sent\<rparr>))"

text \<open>
  \<open>process_safety_events\<close> returns the entries that stay pending. Each entry has its own clock: the
  environment when it is published, and the time and success of its commit.
\<close>

record entry_clock =
  ec_env :: pyenv
  ec_done :: micros
  ec_commit :: bool

fun process_safety_events ::
    "broker \<Rightarrow> (nat \<times> entry_clock \<times> dict) list \<Rightarrow> dispatcher \<Rightarrow> nat list \<times> dispatcher" where
  "process_safety_events br [] d = ([], d)"
| "process_safety_events br ((i, k, payload) # events) d =
     (let (ack, d1) = safety_event (ec_env k) br (ec_done k) (ec_commit k) payload d;
          (pending, d2) = process_safety_events br events d1
      in (if ack then pending else i # pending, d2))"

section \<open>Manual pulses\<close>

text \<open>A pulse that has expired, or fails in any way, is dropped.\<close>

definition manual_pulse :: "pyenv \<Rightarrow> broker \<Rightarrow> dict \<Rightarrow> dispatcher \<Rightarrow> dispatcher" where
  "manual_pulse env br payload d =
     (case expiry_of env payload of
        Inl e \<Rightarrow> d
      | Inr t \<Rightarrow> if t \<le> utc_now env then d
                 else d\<lparr>dp_wire := dp_wire d @ snd (publish_command env br payload 0)\<rparr>)"

definition next_backoff :: "real \<Rightarrow> real" where
  "next_backoff b = min 30 (b * 2)"

end
