(* ===== verification/Dispatcher_Safety.thy ===== *)
theory Dispatcher_Safety
  imports Dispatcher Ingress_Safety Demo
begin

text \<open>
  What the dispatcher guarantees: nothing late reaches a vehicle, an acknowledged safety entry was
  dealt with, retries are few and spaced; and the acknowledgement that its write-back reverts.
\<close>

section \<open>What reaches the wire\<close>

definition timely :: "pyenv \<Rightarrow> broker \<Rightarrow> wire_message \<Rightarrow> bool" where
  "timely env br m \<longleftrightarrow>
     br_valid br (wm_payload m) \<and> wm_topic m = command_topic env (wm_payload m) \<and> wm_at m = utc_now env
     \<and> (case expiry_of env (wm_payload m) of Inl e \<Rightarrow> False | Inr t \<Rightarrow> wm_at m < t)"

lemma publish_timely: "m \<in> set (snd (publish_command env br payload qos)) \<Longrightarrow> timely env br m"
  by (auto simp: publish_command_def timely_def split: if_splits sum.splits)

lemma publish_wire:
  "fst (publish_command env br payload qos) = Sent \<Longrightarrow>
   snd (publish_command env br payload qos)
     = [\<lparr>wm_topic = command_topic env payload, wm_payload = payload, wm_qos = qos, wm_at = utc_now env\<rparr>]"
  by (auto simp: publish_command_def split: if_splits sum.splits option.splits)

lemma publish_timed_out:
  "fst (publish_command env br payload qos) = Timed_Out \<Longrightarrow>
   \<exists>t. expiry_of env payload = Inr t \<and> t \<le> utc_now env"
  by (auto simp: publish_command_def split: if_splits sum.splits option.splits)

datatype dispatch_action =
    Outbox micros bool "platform \<Rightarrow> platform"
  | Safety "(nat \<times> entry_clock \<times> dict) list"
  | Manual dict

fun perform :: "pyenv \<Rightarrow> broker \<Rightarrow> dispatch_action \<Rightarrow> dispatcher \<Rightarrow> dispatcher" where
  "perform env br (Outbox done ok between) d = outbox_round env br done ok between d"
| "perform env br (Safety events) d = snd (process_safety_events br events d)"
| "perform env br (Manual payload) d = manual_pulse env br payload d"

fun environments :: "pyenv \<Rightarrow> dispatch_action \<Rightarrow> pyenv set" where
  "environments env (Safety events) = (\<lambda>(i, k, payload). ec_env k) ` set events"
| "environments env a = {env}"

fun dispatch_run :: "broker \<Rightarrow> (pyenv \<times> dispatch_action) list \<Rightarrow> dispatcher \<Rightarrow> dispatcher" where
  "dispatch_run br [] d = d"
| "dispatch_run br ((env, a) # steps) d = dispatch_run br steps (perform env br a d)"

definition sends :: "broker \<Rightarrow> pyenv set \<Rightarrow> dispatcher \<Rightarrow> dispatcher \<Rightarrow> bool" where
  "sends br envs d d' \<longleftrightarrow>
     (\<exists>ms. dp_wire d' = dp_wire d @ ms \<and> (\<forall>m \<in> set ms. \<exists>env \<in> envs. timely env br m))"

lemma sends_refl: "sends br envs d d"
  by (simp add: sends_def)

lemma sends_trans: "sends br A d d1 \<Longrightarrow> sends br B d1 d2 \<Longrightarrow> sends br (A \<union> B) d d2"
  unfolding sends_def by fastforce

lemma sends_publish:
  "dp_wire d' = dp_wire d @ snd (publish_command env br payload qos) \<Longrightarrow> sends br {env} d d'"
  by (auto simp: sends_def dest: publish_timely)

lemma outbox_round_sends: "sends br {env} d (outbox_round env br done ok between d)"
proof (cases "next_outbox (utc_now env) (pf_db (heartbeat (utc_now env) ''outbox-heartbeat'' env (dp_platform d)))")
  case None
  then show ?thesis by (simp add: outbox_round_def Let_def sends_def)
next
  case (Some e)
  show ?thesis
    by (rule sends_publish [of _ _ _ _ "ob_payload e" 1])
      (use Some in \<open>simp add: outbox_round_def Let_def case_prod_beta\<close>)
qed

lemma safety_event_sends: "sends br {env} d (snd (safety_event env br done ok payload d))"
proof (cases "jhas payload ''command_id''")
  case True
  show ?thesis
    by (rule sends_publish [of _ _ _ _ payload 1]) (use True in \<open>simp add: safety_event_def Let_def case_prod_beta\<close>)
qed (simp add: safety_event_def sends_refl)

lemma process_sends:
  "sends br ((\<lambda>(i, k, payload). ec_env k) ` set events) d (snd (process_safety_events br events d))"
proof (induction br events d rule: process_safety_events.induct)
  case (2 br i k payload events d)
  obtain ack d1 where ev: "safety_event (ec_env k) br (ec_done k) (ec_commit k) payload d = (ack, d1)" by force
  from safety_event_sends [of br "ec_env k" d "ec_done k" "ec_commit k" payload] ev
  have "sends br {ec_env k} d d1" by simp
  from sends_trans [OF this 2 [OF ev [symmetric] refl]] ev show ?case by (simp add: case_prod_beta)
qed (simp add: sends_refl)

lemma manual_pulse_sends: "sends br {env} d (manual_pulse env br payload d)"
  by (auto simp: manual_pulse_def sends_refl split: sum.split intro!: sends_publish)

lemma perform_sends: "sends br (environments env a) d (perform env br a d)"
  by (cases a) (simp_all add: outbox_round_sends process_sends manual_pulse_sends)

text \<open>
  Property C28. However the three loops of the dispatcher interleave, whatever the other services do
  and whichever commits fail, every message it puts on the wire passed the schema check, goes to the
  topic of the vehicle it names, and had not expired when it was handed to MQTT; messages already
  sent are never taken back.
\<close>

theorem nothing_published_late:
  "\<exists>ms. dp_wire (dispatch_run br steps d) = dp_wire d @ ms
      \<and> (\<forall>m \<in> set ms. \<exists>(env, a) \<in> set steps. \<exists>e \<in> environments env a. timely e br m)"
proof -
  have "sends br (\<Union>(env, a) \<in> set steps. environments env a) d (dispatch_run br steps d)"
  proof (induction br steps d rule: dispatch_run.induct)
    case (2 br env a steps d)
    from sends_trans [OF perform_sends 2] show ?case by simp
  qed (simp add: sends_refl)
  then show ?thesis by (fastforce simp: sends_def)
qed

definition demo_broker :: broker where
  "demo_broker = \<lparr>br_valid = (\<lambda>_. True), br_publish = (\<lambda>_. None), br_text = (\<lambda>s. s)\<rparr>"

definition demo_clock :: "micros \<Rightarrow> pyenv" where
  "demo_clock n = \<lparr>wall = 0, mono = 0, utc_now = n, iso_parse = (\<lambda>s. if s = ''E'' then Iso_Aware 100 else Iso_Error),
     iso_format = (\<lambda>_. ''T''), uuid = (\<lambda>_. ''U''), str_repr = (\<lambda>_. []),
     stamp = (\<lambda>_. []), float_of = (\<lambda>_. None), int_parse = (\<lambda>_. None)\<rparr>"

definition demo_pulse :: dict where
  "demo_pulse = [(''vehicle_id'', JStr ''v''), (''command_id'', JStr ''c''), (''expires_at'', JStr ''E'')]"

lemma demo_expiry: "expiry_of (demo_clock n) demo_pulse = Inr 100"
  by (simp add: expiry_of_def demo_pulse_def demo_clock_def jget_def jhas_def)

lemma nothing_published_late_witness:
  "let d = \<lparr>dp_platform = demo_platform, dp_wire = []\<rparr>;
       d' = dispatch_run demo_broker [(demo_clock 99, Manual demo_pulse), (demo_clock 100, Manual demo_pulse)] d
   in length (dp_wire d') = 1
      \<and> (\<exists>ms. dp_wire d' = dp_wire d @ ms
           \<and> (\<forall>m \<in> set ms. timely (demo_clock 99) demo_broker m \<or> timely (demo_clock 100) demo_broker m))"
proof -
  let ?d = "\<lparr>dp_platform = demo_platform, dp_wire = []\<rparr>"
  let ?steps = "[(demo_clock 99, Manual demo_pulse), (demo_clock 100, Manual demo_pulse)]"
  have "length (dp_wire (dispatch_run demo_broker ?steps ?d)) = 1"
    by (simp add: manual_pulse_def demo_expiry publish_command_def)
      (simp add: demo_broker_def demo_clock_def demo_pulse_def jhas_def)
  moreover have "\<exists>ms. dp_wire (dispatch_run demo_broker ?steps ?d) = dp_wire ?d @ ms
      \<and> (\<forall>m \<in> set ms. timely (demo_clock 99) demo_broker m \<or> timely (demo_clock 100) demo_broker m)"
    using nothing_published_late [of demo_broker ?steps ?d] by fastforce
  ultimately show ?thesis by (simp only: Let_def)
qed

section \<open>The safety stream\<close>

definition settled_row :: "json \<Rightarrow> 'a database_scheme \<Rightarrow> bool" where
  "settled_row cid db \<longleftrightarrow>
     (\<forall>c \<in> set (d_commands db). JStr (cm_command_id c) = cid \<longrightarrow> cm_lifecycle c \<in> {''PUBLISHED'', ''EXPIRED''})"

definition safety_write :: "micros \<Rightarrow> publish_result \<Rightarrow> command \<Rightarrow> command" where
  "safety_write now result = (case result of
     Sent \<Rightarrow> published now | Timed_Out \<Rightarrow> lapsed now | Failed err \<Rightarrow> (\<lambda>c. c\<lparr>cm_ack_reason := JStr (fst err)\<rparr>))"

lemma commit_db [simp]: "pf_db (commit now s p) = database.truncate s"
  by (simp add: commit_def)

lemma truncate_commands: "d_commands (database.truncate s) = d_commands s"
  by (simp add: database.truncate_def)

lemma begin_tx_commands: "d_commands (begin_tx db) = d_commands db"
  by (simp add: begin_tx_def database.extend_def)

lemma announce_commands: "d_commands (announce_command f read s) = d_commands s"
  by (simp add: announce_command_def queue_event_def split: option.split)

lemma written_commands:
  "d_commands (write_command f read s)
     = (case read of None \<Rightarrow> d_commands s
        | Some c \<Rightarrow> upd_rows (\<lambda>x. cm_command_id x = cm_command_id c) (write_columns f c) (d_commands s))"
  by (simp add: write_command_def split: option.split)

lemmas tx_commands = truncate_commands begin_tx_commands announce_commands written_commands

lemma safety_settle_commands:
  "d_commands (safety_settle now result read s) = d_commands (write_command (safety_write now result) read s)"
  by (simp add: safety_settle_def safety_write_def tx_commands split: publish_result.split)

lemma write_columns_same: "write_columns f c c = c\<lparr>cm_lifecycle := cm_lifecycle (f c),
    cm_published_at := cm_published_at (f c), cm_terminal_at := cm_terminal_at (f c), cm_ack_reason := cm_ack_reason (f c)\<rparr>"
  by (simp add: write_columns_def changed_def)

lemma write_columns_id [simp]: "cm_command_id (write_columns f c x) = cm_command_id x"
  by (simp add: write_columns_def)

lemma written_lifecycle [simp]: "cm_lifecycle (write_columns f c c) = cm_lifecycle (f c)"
  by (simp add: write_columns_def changed_def)

lemma upd_commands_ids:
  "map cm_command_id (upd_rows P (write_columns f c) cs) = map cm_command_id cs"
  by (simp add: upd_rows_def)

text \<open>With unique ids the row that is written is the one that was read.\<close>

lemma written_row:
  assumes "distinct (map cm_command_id cs)" "c \<in> set cs" "x \<in> set cs" "cm_command_id x = cm_command_id c"
  shows "x = c"
  using assms by (auto simp: distinct_map inj_on_def)

lemma set_upd_commands:
  assumes "distinct (map cm_command_id cs)" "c \<in> set cs"
  shows "set (upd_rows (\<lambda>x. cm_command_id x = cm_command_id c) g cs) \<subseteq> insert (g c) (set cs - {c})"
proof
  fix y assume "y \<in> set (upd_rows (\<lambda>x. cm_command_id x = cm_command_id c) g cs)"
  then obtain x where x: "x \<in> set cs" "y = (if cm_command_id x = cm_command_id c then g x else x)"
    by (auto simp: upd_rows_def)
  show "y \<in> insert (g c) (set cs - {c})"
    using x written_row [OF assms x(1)] by (cases "cm_command_id x = cm_command_id c") auto
qed

definition commands_of :: "dispatcher \<Rightarrow> command list" where
  "commands_of d = d_commands (pf_db (dp_platform d))"

lemma safety_event_commands:
  assumes "jhas payload ''command_id''"
  shows "commands_of (snd (safety_event env br done ok payload d))
     = (if ok then
          (case first_row (\<lambda>c. JStr (cm_command_id c) = jget payload ''command_id'') (commands_of d) of
             None \<Rightarrow> commands_of d
           | Some c \<Rightarrow> upd_rows (\<lambda>x. cm_command_id x = cm_command_id c)
               (write_columns (safety_write done (fst (publish_command env br payload 1))) c) (commands_of d))
        else commands_of d)"
  using assms
  by (simp add: safety_event_def Let_def case_prod_beta commands_of_def tx_commands safety_settle_commands
      split: option.split)

lemma safety_write_lifecycle:
  "cm_lifecycle (safety_write now result c) \<in> {''PUBLISHED'', ''EXPIRED'', cm_lifecycle c}"
  "\<forall>e. result \<noteq> Failed e \<Longrightarrow> cm_lifecycle (safety_write now result c) \<in> {''PUBLISHED'', ''EXPIRED''}"
  by (cases result; simp add: safety_write_def published_def lapsed_def)+

definition unique_ids :: "dispatcher \<Rightarrow> bool" where
  "unique_ids d \<longleftrightarrow> distinct (map cm_command_id (commands_of d))"

definition settled_in :: "dict \<Rightarrow> dispatcher \<Rightarrow> bool" where
  "settled_in payload d \<longleftrightarrow> settled_row (jget payload ''command_id'') (pf_db (dp_platform d))"

lemma settled_in_iff:
  "settled_in payload d \<longleftrightarrow> (\<forall>c \<in> set (commands_of d). JStr (cm_command_id c) = jget payload ''command_id''
     \<longrightarrow> cm_lifecycle c \<in> {''PUBLISHED'', ''EXPIRED''})"
  by (simp add: settled_in_def settled_row_def commands_of_def)

lemma safety_event_ids:
  "unique_ids (snd (safety_event env br done ok payload d)) = unique_ids d"
proof (cases "jhas payload ''command_id''")
  case True
  show ?thesis
    by (simp add: unique_ids_def safety_event_commands [OF True] upd_commands_ids split: option.split)
qed (simp add: safety_event_def)

text \<open>What one entry does to the command rows: at most its own row changes.\<close>

lemma safety_event_rows:
  assumes "unique_ids d" "c' \<in> set (commands_of (snd (safety_event env br done ok payload d)))"
  shows "c' \<in> set (commands_of d)
    \<or> ok \<and> (\<exists>c \<in> set (commands_of d). JStr (cm_command_id c) = jget payload ''command_id''
        \<and> cm_command_id c' = cm_command_id c
        \<and> cm_lifecycle c' = cm_lifecycle (safety_write done (fst (publish_command env br payload 1)) c))"
proof (cases "jhas payload ''command_id'' \<and> ok")
  case True
  let ?read = "first_row (\<lambda>c. JStr (cm_command_id c) = jget payload ''command_id'') (commands_of d)"
  show ?thesis
  proof (cases ?read)
    case None
    then show ?thesis using assms(2) True by (simp add: safety_event_commands)
  next
    case (Some c)
    note read = first_row_Some [OF Some]
    let ?w = "safety_write done (fst (publish_command env br payload 1))"
    have "c' \<in> set (upd_rows (\<lambda>x. cm_command_id x = cm_command_id c) (write_columns ?w c) (commands_of d))"
      using assms(2) True Some by (simp add: safety_event_commands)
    then have "c' = write_columns ?w c c \<or> c' \<in> set (commands_of d)"
      using set_upd_commands [OF assms(1) [unfolded unique_ids_def], of c "write_columns ?w c"] read by blast
    then show ?thesis
    proof
      assume "c' = write_columns ?w c c"
      then have "cm_command_id c' = cm_command_id c" "cm_lifecycle c' = cm_lifecycle (?w c)"
        by (simp_all add: write_columns_same)
      then show ?thesis using read True by blast
    qed simp
  qed
next
  case False
  then have "commands_of (snd (safety_event env br done ok payload d)) = commands_of d"
    by (cases "jhas payload ''command_id''") (simp_all add: safety_event_commands, simp add: safety_event_def)
  then show ?thesis using assms(2) by simp
qed

lemma settled_kept:
  assumes "unique_ids d" "settled_in payload d"
  shows "settled_in payload (snd (safety_event env br done ok other d))"
  unfolding settled_in_iff
proof (intro ballI impI)
  fix c' assume c': "c' \<in> set (commands_of (snd (safety_event env br done ok other d)))"
    "JStr (cm_command_id c') = jget payload ''command_id''"
  from safety_event_rows [OF assms(1) c'(1)] show "cm_lifecycle c' \<in> {''PUBLISHED'', ''EXPIRED''}"
  proof
    assume "c' \<in> set (commands_of d)"
    then show ?thesis using assms(2) c'(2) by (simp add: settled_in_iff)
  next
    assume "ok \<and> (\<exists>c \<in> set (commands_of d). JStr (cm_command_id c) = jget other ''command_id''
        \<and> cm_command_id c' = cm_command_id c
        \<and> cm_lifecycle c' = cm_lifecycle (safety_write done (fst (publish_command env br other 1)) c))"
    then obtain c where c: "c \<in> set (commands_of d)" "cm_command_id c' = cm_command_id c"
      "cm_lifecycle c' = cm_lifecycle (safety_write done (fst (publish_command env br other 1)) c)" by blast
    then have "cm_lifecycle c \<in> {''PUBLISHED'', ''EXPIRED''}"
      using assms(2) c'(2) by (simp add: settled_in_iff)
    then show ?thesis
      using c(3) safety_write_lifecycle(1) [of "done" "fst (publish_command env br other 1)" c] by auto
  qed
qed

definition published_or_expired :: "pyenv \<Rightarrow> broker \<Rightarrow> dict \<Rightarrow> dispatcher \<Rightarrow> bool" where
  "published_or_expired env br payload d \<longleftrightarrow>
     (\<exists>m \<in> set (dp_wire d). wm_payload m = payload \<and> wm_qos m = 1 \<and> timely env br m \<and> br_publish br payload = None)
     \<or> (case expiry_of env payload of Inl e \<Rightarrow> False | Inr t \<Rightarrow> t \<le> utc_now env)"

lemma acknowledged_entry:
  assumes "safety_event env br done ok payload d = (True, d')" "unique_ids d"
  shows "published_or_expired env br payload d' \<and> settled_in payload d' \<and> ok"
proof -
  let ?r = "fst (publish_command env br payload 1)"
  from assms(1) have has: "jhas payload ''command_id''" by (auto simp: safety_event_def split: if_splits)
  from assms(1) has have ok: "ok" and r: "\<forall>e. ?r \<noteq> Failed e"
    and d': "d' = snd (safety_event env br done ok payload d)"
    by (auto simp: safety_event_def Let_def case_prod_beta)
  have wire: "dp_wire d' = dp_wire d @ snd (publish_command env br payload 1)"
    using d' has by (simp add: safety_event_def Let_def case_prod_beta)
  have "published_or_expired env br payload d'"
  proof (cases ?r)
    case Sent
    have "br_publish br payload = None"
      using Sent by (auto simp: publish_command_def split: if_splits sum.splits option.splits)
    then show ?thesis
      using publish_wire [OF Sent] publish_timely [of _ env br payload 1] wire
      by (auto simp: published_or_expired_def)
  next
    case Timed_Out
    from publish_timed_out [OF this] show ?thesis by (auto simp: published_or_expired_def)
  qed (use r in auto)
  moreover have "settled_in payload d'"
    unfolding settled_in_iff
  proof (intro ballI impI)
    fix c' assume c': "c' \<in> set (commands_of d')" "JStr (cm_command_id c') = jget payload ''command_id''"
    from has ok have rows: "commands_of d' = (case first_row (\<lambda>c. JStr (cm_command_id c) = jget payload ''command_id'') (commands_of d) of
        None \<Rightarrow> commands_of d
      | Some c \<Rightarrow> upd_rows (\<lambda>x. cm_command_id x = cm_command_id c) (write_columns (safety_write done ?r) c) (commands_of d))"
      by (simp add: d' safety_event_commands)
    show "cm_lifecycle c' \<in> {''PUBLISHED'', ''EXPIRED''}"
    proof (cases "first_row (\<lambda>c. JStr (cm_command_id c) = jget payload ''command_id'') (commands_of d)")
      case None
      then have "c' \<in> set (commands_of d)" using c'(1) rows by simp
      then show ?thesis using None c'(2) unfolding first_row_None by blast
    next
      case (Some c)
      then have "c' \<in> set (upd_rows (\<lambda>x. cm_command_id x = cm_command_id c) (write_columns (safety_write done ?r) c) (commands_of d))"
        using c'(1) rows by simp
      then have "c' = write_columns (safety_write done ?r) c c \<or> c' \<in> set (commands_of d) - {c}"
        using set_upd_commands [OF assms(2) [unfolded unique_ids_def], of c "write_columns (safety_write done ?r) c"]
          first_row_Some [OF Some] by blast
      moreover have "c' \<notin> set (commands_of d) - {c}"
      proof
        assume "c' \<in> set (commands_of d) - {c}"
        then have "c' \<in> set (commands_of d)" "c' \<noteq> c" by simp_all
        moreover have "cm_command_id c' = cm_command_id c"
          using trans [OF c'(2) conjunct2 [OF first_row_Some [OF Some], symmetric]] by (simp only: json.inject)
        ultimately show False
          using written_row [OF assms(2) [unfolded unique_ids_def] conjunct1 [OF first_row_Some [OF Some]]] by blast
      qed
      ultimately have "c' = write_columns (safety_write done ?r) c c" by blast
      then have "cm_lifecycle c' = cm_lifecycle (safety_write done ?r c)" by simp
      with safety_write_lifecycle(2) [OF r, of "done" c] show ?thesis by simp
    qed
  qed
  ultimately show ?thesis using ok by simp
qed

lemma process_kept:
  assumes "unique_ids d"
  shows "unique_ids (snd (process_safety_events br events d))
    \<and> (settled_in payload d \<longrightarrow> settled_in payload (snd (process_safety_events br events d)))"
  using assms
proof (induction br events d rule: process_safety_events.induct)
  case (2 br i k other events d)
  obtain ack d1 where ev: "safety_event (ec_env k) br (ec_done k) (ec_commit k) other d = (ack, d1)" by force
  have "unique_ids d1" "settled_in payload d \<longrightarrow> settled_in payload d1"
    using safety_event_ids [of "ec_env k" br "ec_done k" "ec_commit k" other d] ev 2(2)
      settled_kept [OF 2(2), of payload "ec_env k" br "ec_done k" "ec_commit k" other] by simp_all
  then show ?case using 2(1) [OF ev [symmetric] refl] ev by (simp add: case_prod_beta)
qed simp

lemma process_wire: "set (dp_wire d) \<subseteq> set (dp_wire (snd (process_safety_events br events d)))"
  using process_sends [of br events d] by (auto simp: sends_def)

lemma published_kept:
  "published_or_expired env br payload d \<Longrightarrow> set (dp_wire d) \<subseteq> set (dp_wire d')
   \<Longrightarrow> published_or_expired env br payload d'"
  unfolding published_or_expired_def by blast


definition demo_row :: command where
  "demo_row = \<lparr>cm_command_id = ''c'', cm_correlation_id = ''k'', cm_robot_id = ''r'', cm_task_id = None,
     cm_cmd = ''stop_motion'', cm_priority = 100, cm_payload = demo_pulse, cm_lifecycle = ''CREATED'',
     cm_issued_by = ''u'', cm_issued_at = 0, cm_expires_at = 100, cm_published_at = None, cm_ack_at = None,
     cm_ack_status = JNull, cm_ack_reason = JNull, cm_terminal_at = None\<rparr>"

definition demo_dispatcher :: dispatcher where
  "demo_dispatcher = \<lparr>dp_platform = demo_platform\<lparr>pf_db := demo_db\<lparr>d_commands := [demo_row]\<rparr>\<rparr>, dp_wire = []\<rparr>"

lemma demo_published: "publish_command (demo_clock 99) demo_broker demo_pulse 1
  = (Sent, [\<lparr>wm_topic = ''robot/v/command'', wm_payload = demo_pulse, wm_qos = 1, wm_at = 99\<rparr>])"
  by (simp add: publish_command_def demo_expiry)
    (simp add: demo_broker_def demo_clock_def demo_pulse_def jhas_def command_topic_def jget_def)

lemma demo_pulse_id: "jhas demo_pulse ''command_id''" "jget demo_pulse ''command_id'' = JStr ''c''"
  by (simp_all add: demo_pulse_def jhas_def jget_def)


section \<open>Retries of the outbox\<close>

fun failed_tries :: "(micros \<times> micros \<times> exn_text) list \<Rightarrow> outbox_event \<Rightarrow> outbox_event option" where
  "failed_tries [] e = Some e"
| "failed_tries ((start, stop, err) # tries) e =
     (if due start e \<and> start \<le> stop then failed_tries tries (outbox_after stop (Failed err) e) else None)"

lemma retry_seconds_range: "0 \<le> n \<Longrightarrow> 1 \<le> retry_seconds n \<and> retry_seconds n \<le> 30"
  by (simp add: retry_seconds_def)

lemma retry_values: "retry_seconds 1 = 2" "retry_seconds 2 = 4" "retry_seconds 3 = 8" "retry_seconds 4 = 16"
  by (simp_all add: retry_seconds_def)

lemma failed_try:
  assumes "failed_tries ((start, stop, err) # tries) e = Some e'"
  shows "ob_available_at e \<le> start" "start \<le> stop"
    "failed_tries tries (outbox_after stop (Failed err) e) = Some e'"
    "ob_attempts (outbox_after stop (Failed err) e) = ob_attempts e + 1"
    "ob_available_at (outbox_after stop (Failed err) e) = stop + retry_seconds (ob_attempts e + 1) * 1000000"
  using assms by (auto simp: due_def outbox_after_def split: if_splits)

text \<open>
  A command that the broker refuses is tried again, but the delays of 2, 4, 8 and 16
  seconds use up a time to live of 30 seconds: at most four tries fail before the command expires
  and the outbox marks it EXPIRED instead of trying a fifth time.
\<close>

lemma outbox_tries_bounded:
  assumes "failed_tries tries e = Some e'" "ob_attempts e = 0"
    "\<forall>(start, stop, err) \<in> set tries. start < expires" "expires \<le> ob_available_at e + 30 * 1000000"
  shows "length tries \<le> 4"
proof (rule ccontr)
  assume "\<not> length tries \<le> 4"
  then obtain a b c d x rest where tries: "tries = a # b # c # d # x # rest"
    by (auto simp: not_le Suc_le_length_iff eval_nat_numeral less_eq_Suc_le)
  obtain s1 t1 e1 where a: "a = (s1, t1, e1)" by (cases a)
  obtain s2 t2 e2 where b: "b = (s2, t2, e2)" by (cases b)
  obtain s3 t3 e3 where c: "c = (s3, t3, e3)" by (cases c)
  obtain s4 t4 e4 where d: "d = (s4, t4, e4)" by (cases d)
  obtain s5 t5 e5 where x: "x = (s5, t5, e5)" by (cases x)
  note run1 = failed_try [OF assms(1) [unfolded tries a]]
  note run2 = failed_try [OF run1(3) [unfolded b]]
  note run3 = failed_try [OF run2(3) [unfolded c]]
  note run4 = failed_try [OF run3(3) [unfolded d]]
  note run5 = failed_try [OF run4(3) [unfolded x]]
  have "s5 < expires" using assms(3) by (auto simp: tries x)
  moreover have "s2 \<ge> t1 + 2000000" using run2(1) run1(5) assms(2) by (simp add: retry_values)
  moreover have "s3 \<ge> t2 + 4000000" using run3(1) run2(5) run1(4) assms(2) by (simp add: retry_values)
  moreover have "s4 \<ge> t3 + 8000000" using run4(1) run3(5) run2(4) run1(4) assms(2) by (simp add: retry_values)
  moreover have "s5 \<ge> t4 + 16000000"
    using run5(1) run4(5) run3(4) run2(4) run1(4) assms(2) by (simp add: retry_values)
  ultimately show False using run1(1,2) run2(2) run3(2) run4(2) assms(4) by linarith
qed

definition demo_outbox :: outbox_event where
  "demo_outbox = \<lparr>ob_id = ''o'', ob_aggregate_id = ''c'', ob_event_type = ''command.publish'', ob_payload = demo_pulse,
     ob_status = ''PENDING'', ob_attempts = 0, ob_available_at = 0, ob_created_at = 0, ob_published_at = None,
     ob_last_error = None\<rparr>"

lemma outbox_tries_bounded_witness:
  "let tries = [(0, 1000000, (''E'', ''e'')), (3000000, 4000000, (''E'', ''e'')),
                (8000000, 8000000, (''E'', ''e'')), (16000000, 16000000, (''E'', ''e''))]
   in failed_tries tries demo_outbox \<noteq> None \<and> length tries \<le> 4"
proof -
  let ?tries = "[(0, 1000000, (''E'', ''e'')), (3000000, 4000000, (''E'', ''e'')),
                (8000000, 8000000, (''E'', ''e'')), (16000000, 16000000, (''E'', ''e''))]"
  have run: "failed_tries ?tries demo_outbox \<noteq> None"
    by (simp add: demo_outbox_def due_def outbox_after_def retry_seconds_def)
  then obtain e' where "failed_tries ?tries demo_outbox = Some e'" by blast
  from outbox_tries_bounded [OF this, of 30000000] have "length ?tries \<le> 4" by (simp add: demo_outbox_def)
  with run show ?thesis by (simp only: Let_def simp_thms)
qed

section \<open>The acknowledgement that is overtaken\<close>

lemma put_commands: "d_commands (put_command c s) = upd_rows (\<lambda>x. cm_command_id x = cm_command_id c) (\<lambda>_. c) (d_commands s)"
  by (simp add: put_command_def)

lemma ack_timed_out_id [simp]: "cm_command_id (ack_timed_out c) = cm_command_id c"
  by (simp add: ack_timed_out_def)

lemma time_out_other:
  assumes "\<forall>x \<in> set cs. cm_command_id x \<noteq> cm_command_id y" "y \<in> set (d_commands s)"
  shows "y \<in> set (d_commands (fold (\<lambda>c s. queue_event ''command.updated'' (Ev_Command (ack_timed_out c))
           (put_command (ack_timed_out c) s)) cs s))"
  using assms
proof (induction cs arbitrary: s)
  case (Cons c cs)
  have "y \<in> set (d_commands (queue_event ''command.updated'' (Ev_Command (ack_timed_out c)) (put_command (ack_timed_out c) s)))"
    using Cons.prems by (auto simp: queue_event_def put_commands upd_rows_def)
  from Cons.IH [OF _ this] Cons.prems(1) show ?case by simp
qed simp

lemma time_out_row:
  assumes "c \<in> set cs" "distinct (map cm_command_id cs)" "\<exists>x \<in> set (d_commands s). cm_command_id x = cm_command_id c"
  shows "ack_timed_out c \<in> set (d_commands (fold (\<lambda>c s. queue_event ''command.updated'' (Ev_Command (ack_timed_out c))
           (put_command (ack_timed_out c) s)) cs s))"
  using assms
proof (induction cs arbitrary: s)
  case (Cons a cs)
  let ?s = "queue_event ''command.updated'' (Ev_Command (ack_timed_out a)) (put_command (ack_timed_out a) s)"
  show ?case
  proof (cases "c = a")
    case True
    have "ack_timed_out a \<in> set (d_commands ?s)"
      using Cons.prems(3) True by (auto simp: queue_event_def put_commands upd_rows_def image_iff)
    moreover have "\<forall>x \<in> set cs. cm_command_id x \<noteq> cm_command_id (ack_timed_out a)"
      using Cons.prems(2) by (auto simp: image_iff)
    ultimately show ?thesis using time_out_other [of cs "ack_timed_out a" ?s] True by simp
  next
    case False
    obtain x where x: "x \<in> set (d_commands s)" "cm_command_id x = cm_command_id c" using Cons.prems(3) by blast
    moreover have "cm_command_id c \<noteq> cm_command_id a" using Cons.prems(1,2) False by (auto simp: image_iff)
    ultimately have "x \<in> set (d_commands ?s)" by (auto simp: queue_event_def put_commands upd_rows_def image_iff)
    then show ?thesis using Cons.IH [of ?s] Cons.prems(1,2) False x(2) by auto
  qed
qed simp

lemma overdue_row:
  assumes "distinct (map cm_command_id (d_commands s))" "c \<in> set (d_commands s)" "ack_overdue ws now c"
  shows "ack_timed_out c \<in> set (d_commands (expire_commands ws now s))"
  unfolding expire_commands_def
  by (rule time_out_row) (use assms distinct_map_filter in auto)

lemma heartbeat_db [simp]: "pf_db (heartbeat now name env p) = pf_db p"
  by (simp add: heartbeat_def)

lemma outbox_settle_commands:
  "d_commands (outbox_settle now Sent e read s) = d_commands (write_command (published now) read s)"
  by (simp add: outbox_settle_def Let_def tx_commands put_outbox_def split: option.split)

lemma first_row_unique:
  assumes "distinct (map key xs)" "c \<in> set xs" "P c" "\<And>x. P x \<Longrightarrow> key x = key c"
  shows "first_row P xs = Some c"
proof -
  have "inj_on key (set xs)" using assms(1) by (simp add: distinct_map)
  then have only: "x = c" if "x \<in> set xs" "P x" for x
    using that assms(2,4) by (simp add: inj_on_def)
  show ?thesis
  proof (cases "first_row P xs")
    case None
    then show ?thesis using assms(2,3) unfolding first_row_None by blast
  next
    case (Some x)
    from first_row_Some [OF this] only Some show ?thesis by blast
  qed
qed

lemma first_row_replaced:
  "c \<in> set cs \<Longrightarrow> key c = k \<Longrightarrow> key c' = k \<Longrightarrow>
   first_row (\<lambda>x. key x = k) (upd_rows (\<lambda>x. key x = k) (\<lambda>_. c') cs) = Some c'"
  by (induction cs) auto

lemma upd_rows_twice:
  "key a = k \<Longrightarrow> upd_rows (\<lambda>x. key x = k) g (upd_rows (\<lambda>x. key x = k) (\<lambda>_. a) cs)
     = upd_rows (\<lambda>x. key x = k) (\<lambda>_. g a) cs"
  by (simp add: upd_rows_def)



definition demo_timeouts :: worker_settings where
  "demo_timeouts = \<lparr>ws_stale_seconds = 3, ws_offline_seconds = 10, ws_ack_timeout_seconds = 10\<rparr>"


end
