(* ===== verification/Maps.thy ===== *)
theory Maps
  imports Task_Endpoints
begin

text \<open>
  The map editor (\<open>maps/router.py\<close>): sites, maps and their versions, and what a version holds - the
  parking slots, inspection and extinguishing points and trajectories. A version is edited as a
  DRAFT, published, and archived. The unique constraints of the tables raise on the flush of a
  commit; permissions, audit and the upload of background images are left out.
\<close>

section \<open>Results\<close>

text \<open>An endpoint that raises rolls its session back; one that commits replaces the database.\<close>

definition committed :: "micros \<Rightarrow> platform \<Rightarrow> api_error + tx \<Rightarrow> (failure + unit) \<times> platform" where
  "committed now p result =
     (case result of Inl e \<Rightarrow> (Inl (Api e), p) | Inr db \<Rightarrow> (Inr (), commit now db p))"

text \<open>A unique or foreign key that does not hold: the flush raises (\<open>IntegrityError\<close>).\<close>

definition integrity :: "bool \<Rightarrow> api_error + unit" where
  "integrity holds = (if holds then Inr () else Inl (PyError ValueError))"

definition draft :: "ident \<Rightarrow> 'a database_scheme \<Rightarrow> api_error + map_version" where
  "draft vid db =
     and_then (or_raise (HTTPException 404) (get_map_version vid db)) (\<lambda>v.
       if mv_status v \<noteq> ''DRAFT'' then Inl (HTTPException 409) else Inr v)"

section \<open>Sites and maps\<close>

definition create_site :: "pyenv \<Rightarrow> nat \<Rightarrow> string \<Rightarrow> string \<Rightarrow> string \<Rightarrow> platform \<Rightarrow> (failure + unit) \<times> platform" where
  "create_site env n code name tz p =
     committed (utc_now env) p
       (let db = begin_tx (pf_db p) in
        if first_row (\<lambda>s. st_code s = code) (d_sites db) \<noteq> None then Inl (HTTPException 409)
        else Inr (db\<lparr>d_sites := d_sites db @ [\<lparr>st_id = uuid env n, st_code = code, st_name = name,
                     st_timezone = tz\<rparr>]\<rparr>))"

record map_input =
  mi_site_id :: ident
  mi_code :: string
  mi_name :: string

definition same_map_code :: "map_input \<Rightarrow> map_row \<Rightarrow> bool" where
  "same_map_code q m \<longleftrightarrow> mr_site_id m = mi_site_id q \<and> mr_code m = mi_code q"

definition create_map :: "pyenv \<Rightarrow> nat \<Rightarrow> map_input \<Rightarrow> platform \<Rightarrow> (failure + unit) \<times> platform" where
  "create_map env n q p =
     committed (utc_now env) p
       (let db = begin_tx (pf_db p) in
        and_then (integrity ((\<exists>s \<in> set (d_sites db). st_id s = mi_site_id q) \<and> first_row (same_map_code q) (d_maps db) = None)) (\<lambda>_.
          Inr (db\<lparr>d_maps := d_maps db @ [\<lparr>mr_id = uuid env n, mr_site_id = mi_site_id q, mr_code = mi_code q,
                   mr_name = mi_name q, mr_active_version = None\<rparr>]\<rparr>)))"

definition get_map :: "ident \<Rightarrow> 'a database_scheme \<Rightarrow> map_row option" where
  "get_map mid db = first_row (\<lambda>m. mr_id m = mid) (d_maps db)"

definition update_map :: "pyenv \<Rightarrow> ident \<Rightarrow> map_input \<Rightarrow> platform \<Rightarrow> (failure + unit) \<times> platform" where
  "update_map env mid q p =
     committed (utc_now env) p
       (let db = begin_tx (pf_db p) in
        and_then (or_raise (HTTPException 404) (get_map mid db)) (\<lambda>row.
        and_then (integrity ((\<exists>s \<in> set (d_sites db). st_id s = mi_site_id q)
                    \<and> first_row (\<lambda>m. same_map_code q m \<and> mr_id m \<noteq> mid) (d_maps db) = None)) (\<lambda>_.
          Inr (db\<lparr>d_maps := upd_rows (\<lambda>m. mr_id m = mid)
                 (\<lambda>m. m\<lparr>mr_site_id := mi_site_id q, mr_code := mi_code q, mr_name := mi_name q\<rparr>) (d_maps db)\<rparr>))))"

section \<open>Versions\<close>

record version_input =
  vi_map_id :: ident
  vi_version :: string
  vi_revision :: int

definition create_version :: "pyenv \<Rightarrow> nat \<Rightarrow> version_input \<Rightarrow> platform \<Rightarrow> (failure + unit) \<times> platform" where
  "create_version env n q p =
     committed (utc_now env) p
       (let db = begin_tx (pf_db p) in
        and_then (integrity (get_map (vi_map_id q) db \<noteq> None
                    \<and> first_row (\<lambda>v. mv_map_id v = vi_map_id q \<and> mv_version v = vi_version q) (d_map_versions db) = None)) (\<lambda>_.
          Inr (db\<lparr>d_map_versions := d_map_versions db @ [\<lparr>mv_id = uuid env n, mv_map_id = vi_map_id q,
                   mv_version = vi_version q, mv_status = ''DRAFT'', mv_checksum = [],
                   mv_revision = vi_revision q, mv_published_at = None\<rparr>]\<rparr>)))"

definition put_version :: "map_version \<Rightarrow> tx \<Rightarrow> tx" where
  "put_version v s = s\<lparr>d_map_versions := upd_rows (\<lambda>x. mv_id x = mv_id v) (\<lambda>_. v) (d_map_versions s)\<rparr>"

definition publish_version :: "pyenv \<Rightarrow> redis_health \<Rightarrow> ident \<Rightarrow> platform \<Rightarrow> (failure + unit) \<times> platform" where
  "publish_version env rh vid p =
     (let db = begin_tx (pf_db p) in
      case and_then (draft vid db) (\<lambda>v.
             if first_row (\<lambda>s. ps_map_version_id s = vid) (d_slots db) = None then Inl (HTTPException 409)
             else and_then (or_raise (HTTPException 409) (get_map (mv_map_id v) db)) (\<lambda>m.
               let v' = v\<lparr>mv_status := ''PUBLISHED'', mv_published_at := Some (utc_now env)\<rparr> in
               Inr (v', put_version v' (db\<lparr>d_maps := upd_rows (\<lambda>x. mr_id x = mr_id m)
                          (\<lambda>x. x\<lparr>mr_active_version := Some vid\<rparr>) (d_maps db)\<rparr>)))) of
        Inl e \<Rightarrow> (Inl (Api e), p)
      | Inr (v, db1) \<Rightarrow>
          (let p1 = commit (utc_now env) db1 p in
           if rh_event rh
           then (Inr (), p1\<lparr>pf_events := pf_events p1 @ [(''map.version.published'', Ev_Json [(''id'', JStr vid)])]\<rparr>)
           else (Inl RedisError, p1)))"

definition archive_version :: "pyenv \<Rightarrow> ident \<Rightarrow> platform \<Rightarrow> (failure + unit) \<times> platform" where
  "archive_version env vid p =
     committed (utc_now env) p
       (let db = begin_tx (pf_db p) in
        and_then (or_raise (HTTPException 404) (get_map_version vid db)) (\<lambda>v.
          if mv_status v \<noteq> ''PUBLISHED'' then Inl (HTTPException 409)
          else Inr (put_version (v\<lparr>mv_status := ''ARCHIVED''\<rparr>) db)))"

section \<open>What a version holds\<close>

text \<open>
  The four tables have the same three operations: create checks that the version named in the
  payload is a draft, update checks the version the row belongs to and then assigns every column
  of the payload, delete (of slots only) checks the version of the row.
\<close>

definition create_row ::
    "('p \<Rightarrow> ident) \<Rightarrow> ('p \<Rightarrow> 'r) \<Rightarrow> ('r \<Rightarrow> tx \<Rightarrow> api_error + tx) \<Rightarrow> pyenv \<Rightarrow> 'p \<Rightarrow> platform \<Rightarrow>
     (failure + unit) \<times> platform" where
  "create_row target new add env q p =
     committed (utc_now env) p
       (let db = begin_tx (pf_db p) in
        and_then (draft (target q) db) (\<lambda>_. add (new q) db))"

definition update_row ::
    "(ident \<Rightarrow> tx \<Rightarrow> 'r option) \<Rightarrow> ('r \<Rightarrow> ident) \<Rightarrow> ('p \<Rightarrow> 'r \<Rightarrow> 'r) \<Rightarrow> ('r \<Rightarrow> tx \<Rightarrow> api_error + tx) \<Rightarrow>
     pyenv \<Rightarrow> ident \<Rightarrow> 'p \<Rightarrow> platform \<Rightarrow> (failure + unit) \<times> platform" where
  "update_row get version assign put env rid q p =
     committed (utc_now env) p
       (let db = begin_tx (pf_db p) in
        and_then (or_raise (HTTPException 404) (get rid db)) (\<lambda>row.
        and_then (draft (version row) db) (\<lambda>_. put (assign q row) db)))"

definition known_version :: "ident \<Rightarrow> 'a database_scheme \<Rightarrow> bool" where
  "known_version vid db \<longleftrightarrow> get_map_version vid db \<noteq> None"

subsection \<open>Parking slots\<close>

record slot_input =
  si_map_version_id :: ident
  si_code :: string
  si_polygon :: dict
  si_pose :: dict
  si_enabled :: bool

definition slot_of :: "ident \<Rightarrow> slot_input \<Rightarrow> parking_slot" where
  "slot_of rid q = \<lparr>ps_id = rid, ps_map_version_id = si_map_version_id q, ps_code = si_code q,
     ps_polygon = JObj (si_polygon q), ps_pose = si_pose q, ps_enabled = si_enabled q\<rparr>"

definition slot_integrity :: "parking_slot \<Rightarrow> 'a database_scheme \<Rightarrow> bool" where
  "slot_integrity s db \<longleftrightarrow> known_version (ps_map_version_id s) db
     \<and> (\<forall>x \<in> set (d_slots db). ps_id x \<noteq> ps_id s \<and> ps_map_version_id x = ps_map_version_id s \<longrightarrow> ps_code x \<noteq> ps_code s)"

definition add_slot :: "parking_slot \<Rightarrow> tx \<Rightarrow> api_error + tx" where
  "add_slot s db = and_then (integrity (slot_integrity s db)) (\<lambda>_. Inr (db\<lparr>d_slots := d_slots db @ [s]\<rparr>))"

definition put_slot :: "parking_slot \<Rightarrow> tx \<Rightarrow> api_error + tx" where
  "put_slot s db = and_then (integrity (slot_integrity s db)) (\<lambda>_.
     Inr (db\<lparr>d_slots := upd_rows (\<lambda>x. ps_id x = ps_id s) (\<lambda>_. s) (d_slots db)\<rparr>))"

definition create_slot :: "pyenv \<Rightarrow> nat \<Rightarrow> slot_input \<Rightarrow> platform \<Rightarrow> (failure + unit) \<times> platform" where
  "create_slot env n = create_row si_map_version_id (slot_of (uuid env n)) add_slot env"

definition update_slot :: "pyenv \<Rightarrow> ident \<Rightarrow> slot_input \<Rightarrow> platform \<Rightarrow> (failure + unit) \<times> platform" where
  "update_slot = update_row get_slot ps_map_version_id (\<lambda>q s. slot_of (ps_id s) q) put_slot"

definition slot_referenced :: "ident \<Rightarrow> 'a database_scheme \<Rightarrow> bool" where
  "slot_referenced sid db \<longleftrightarrow> (\<exists>t \<in> set (d_tasks db). tk_slot_id t = Some sid) \<or> (\<exists>f \<in> set (d_fires db). fe_slot_id f = sid)"

definition remove_slot :: "ident \<Rightarrow> tx \<Rightarrow> tx" where
  "remove_slot sid db = db\<lparr>d_slots := filter (\<lambda>s. ps_id s \<noteq> sid) (d_slots db),
     d_inspection_points := filter (\<lambda>i. in_slot_id i \<noteq> sid) (d_inspection_points db),
     d_extinguish_points := filter (\<lambda>x. xp_slot_id x \<noteq> sid) (d_extinguish_points db),
     d_presets := upd_rows (\<lambda>n. np_slot_id n = Some sid) (\<lambda>n. n\<lparr>np_slot_id := None\<rparr>) (d_presets db)\<rparr>"

definition delete_slot :: "pyenv \<Rightarrow> ident \<Rightarrow> platform \<Rightarrow> (failure + unit) \<times> platform" where
  "delete_slot env sid p =
     (let db = begin_tx (pf_db p) in
      case get_slot sid db of
        None \<Rightarrow> (Inr (), p)
      | Some s \<Rightarrow> committed (utc_now env) p
          (and_then (draft (ps_map_version_id s) db) (\<lambda>_.
           and_then (integrity (\<not> slot_referenced sid db)) (\<lambda>_. Inr (remove_slot sid db)))))"

subsection \<open>Inspection points\<close>

record inspection_input =
  ii_map_version_id :: ident
  ii_slot_id :: ident
  ii_pose :: dict
  ii_orientation :: dict
  ii_priority :: int

definition inspection_of :: "ident \<Rightarrow> inspection_input \<Rightarrow> inspection_point" where
  "inspection_of rid q = \<lparr>in_id = rid, in_map_version_id = ii_map_version_id q, in_slot_id = ii_slot_id q,
     in_pose = ii_pose q, in_orientation = ii_orientation q, in_priority = ii_priority q\<rparr>"

definition get_inspection :: "ident \<Rightarrow> 'a database_scheme \<Rightarrow> inspection_point option" where
  "get_inspection rid db = first_row (\<lambda>i. in_id i = rid) (d_inspection_points db)"

definition inspection_integrity :: "inspection_point \<Rightarrow> 'a database_scheme \<Rightarrow> bool" where
  "inspection_integrity i db \<longleftrightarrow> known_version (in_map_version_id i) db \<and> get_slot (in_slot_id i) db \<noteq> None"

definition add_inspection :: "inspection_point \<Rightarrow> tx \<Rightarrow> api_error + tx" where
  "add_inspection i db = and_then (integrity (inspection_integrity i db)) (\<lambda>_.
     Inr (db\<lparr>d_inspection_points := d_inspection_points db @ [i]\<rparr>))"

definition put_inspection :: "inspection_point \<Rightarrow> tx \<Rightarrow> api_error + tx" where
  "put_inspection i db = and_then (integrity (inspection_integrity i db)) (\<lambda>_.
     Inr (db\<lparr>d_inspection_points := upd_rows (\<lambda>x. in_id x = in_id i) (\<lambda>_. i) (d_inspection_points db)\<rparr>))"

definition create_inspection :: "pyenv \<Rightarrow> nat \<Rightarrow> inspection_input \<Rightarrow> platform \<Rightarrow> (failure + unit) \<times> platform" where
  "create_inspection env n = create_row ii_map_version_id (inspection_of (uuid env n)) add_inspection env"

definition update_inspection :: "pyenv \<Rightarrow> ident \<Rightarrow> inspection_input \<Rightarrow> platform \<Rightarrow> (failure + unit) \<times> platform" where
  "update_inspection = update_row get_inspection in_map_version_id (\<lambda>q i. inspection_of (in_id i) q) put_inspection"

subsection \<open>Extinguishing points\<close>

record extinguish_input =
  xi_map_version_id :: ident
  xi_slot_id :: ident
  xi_pose :: dict
  xi_approach :: dict
  xi_nozzle :: dict

definition extinguish_of :: "ident \<Rightarrow> extinguish_input \<Rightarrow> extinguish_point" where
  "extinguish_of rid q = \<lparr>xp_id = rid, xp_map_version_id = xi_map_version_id q, xp_slot_id = xi_slot_id q,
     xp_pose = xi_pose q, xp_approach = xi_approach q, xp_nozzle = xi_nozzle q\<rparr>"

definition get_extinguish :: "ident \<Rightarrow> 'a database_scheme \<Rightarrow> extinguish_point option" where
  "get_extinguish rid db = first_row (\<lambda>x. xp_id x = rid) (d_extinguish_points db)"

definition extinguish_integrity :: "extinguish_point \<Rightarrow> 'a database_scheme \<Rightarrow> bool" where
  "extinguish_integrity x db \<longleftrightarrow> known_version (xp_map_version_id x) db \<and> get_slot (xp_slot_id x) db \<noteq> None"

definition add_extinguish :: "extinguish_point \<Rightarrow> tx \<Rightarrow> api_error + tx" where
  "add_extinguish x db = and_then (integrity (extinguish_integrity x db)) (\<lambda>_.
     Inr (db\<lparr>d_extinguish_points := d_extinguish_points db @ [x]\<rparr>))"

definition put_extinguish :: "extinguish_point \<Rightarrow> tx \<Rightarrow> api_error + tx" where
  "put_extinguish x db = and_then (integrity (extinguish_integrity x db)) (\<lambda>_.
     Inr (db\<lparr>d_extinguish_points := upd_rows (\<lambda>y. xp_id y = xp_id x) (\<lambda>_. x) (d_extinguish_points db)\<rparr>))"

definition create_extinguish :: "pyenv \<Rightarrow> nat \<Rightarrow> extinguish_input \<Rightarrow> platform \<Rightarrow> (failure + unit) \<times> platform" where
  "create_extinguish env n = create_row xi_map_version_id (extinguish_of (uuid env n)) add_extinguish env"

definition update_extinguish :: "pyenv \<Rightarrow> ident \<Rightarrow> extinguish_input \<Rightarrow> platform \<Rightarrow> (failure + unit) \<times> platform" where
  "update_extinguish = update_row get_extinguish xp_map_version_id (\<lambda>q x. extinguish_of (xp_id x) q) put_extinguish"

subsection \<open>Trajectories\<close>

record trajectory_input =
  ji_map_version_id :: ident
  ji_code :: string
  ji_version :: string
  ji_path :: "dict list"
  ji_enabled :: bool

definition trajectory_of :: "ident \<Rightarrow> trajectory_input \<Rightarrow> trajectory" where
  "trajectory_of rid q = \<lparr>tj_id = rid, tj_map_version_id = ji_map_version_id q, tj_code = ji_code q,
     tj_version = ji_version q, tj_path = map JObj (ji_path q), tj_enabled = ji_enabled q\<rparr>"

definition find_trajectory :: "ident \<Rightarrow> 'a database_scheme \<Rightarrow> trajectory option" where
  "find_trajectory rid db = first_row (\<lambda>t. tj_id t = rid) (d_trajectories db)"

definition add_trajectory :: "trajectory \<Rightarrow> tx \<Rightarrow> api_error + tx" where
  "add_trajectory t db = and_then (integrity (known_version (tj_map_version_id t) db)) (\<lambda>_.
     Inr (db\<lparr>d_trajectories := d_trajectories db @ [t]\<rparr>))"

definition put_trajectory :: "trajectory \<Rightarrow> tx \<Rightarrow> api_error + tx" where
  "put_trajectory t db = and_then (integrity (known_version (tj_map_version_id t) db)) (\<lambda>_.
     Inr (db\<lparr>d_trajectories := upd_rows (\<lambda>x. tj_id x = tj_id t) (\<lambda>_. t) (d_trajectories db)\<rparr>))"

definition create_trajectory :: "pyenv \<Rightarrow> nat \<Rightarrow> trajectory_input \<Rightarrow> platform \<Rightarrow> (failure + unit) \<times> platform" where
  "create_trajectory env n = create_row ji_map_version_id (trajectory_of (uuid env n)) add_trajectory env"

definition update_trajectory :: "pyenv \<Rightarrow> ident \<Rightarrow> trajectory_input \<Rightarrow> platform \<Rightarrow> (failure + unit) \<times> platform" where
  "update_trajectory = update_row find_trajectory tj_map_version_id (\<lambda>q t. trajectory_of (tj_id t) q) put_trajectory"

end
