(* ===== verification/Map_Safety.thy ===== *)
theory Map_Safety
  imports Maps Task_Safety
begin

text \<open>
  The life of a map version and the immutability of what is published: which requests keep it, and
  the two gaps through which the content of a published version changes after all.
\<close>

section \<open>Requests\<close>

datatype map_request =
    New_Site string string string
  | New_Map map_input
  | Edit_Map ident map_input
  | New_Version version_input
  | Publish ident
  | Archive ident
  | New_Slot slot_input
  | Edit_Slot ident slot_input
  | Delete_Slot ident
  | New_Inspection inspection_input
  | Edit_Inspection ident inspection_input
  | New_Extinguish extinguish_input
  | Edit_Extinguish ident extinguish_input
  | New_Trajectory trajectory_input
  | Edit_Trajectory ident trajectory_input

fun map_serve :: "pyenv \<Rightarrow> nat \<Rightarrow> redis_health \<Rightarrow> map_request \<Rightarrow> platform \<Rightarrow> (failure + unit) \<times> platform" where
  "map_serve env n rh (New_Site code name tz) p = create_site env n code name tz p"
| "map_serve env n rh (New_Map q) p = create_map env n q p"
| "map_serve env n rh (Edit_Map mid q) p = update_map env mid q p"
| "map_serve env n rh (New_Version q) p = create_version env n q p"
| "map_serve env n rh (Publish vid) p = publish_version env rh vid p"
| "map_serve env n rh (Archive vid) p = archive_version env vid p"
| "map_serve env n rh (New_Slot q) p = create_slot env n q p"
| "map_serve env n rh (Edit_Slot rid q) p = update_slot env rid q p"
| "map_serve env n rh (Delete_Slot rid) p = delete_slot env rid p"
| "map_serve env n rh (New_Inspection q) p = create_inspection env n q p"
| "map_serve env n rh (Edit_Inspection rid q) p = update_inspection env rid q p"
| "map_serve env n rh (New_Extinguish q) p = create_extinguish env n q p"
| "map_serve env n rh (Edit_Extinguish rid q) p = update_extinguish env rid q p"
| "map_serve env n rh (New_Trajectory q) p = create_trajectory env n q p"
| "map_serve env n rh (Edit_Trajectory rid q) p = update_trajectory env rid q p"

text \<open>The version an edit moves its row to.\<close>

fun moves_to :: "map_request \<Rightarrow> ident option" where
  "moves_to (Edit_Slot rid q) = Some (si_map_version_id q)"
| "moves_to (Edit_Inspection rid q) = Some (ii_map_version_id q)"
| "moves_to (Edit_Extinguish rid q) = Some (xi_map_version_id q)"
| "moves_to (Edit_Trajectory rid q) = Some (ji_map_version_id q)"
| "moves_to req = None"

definition content ::
    "ident \<Rightarrow> 'a database_scheme \<Rightarrow>
     parking_slot list \<times> inspection_point list \<times> extinguish_point list \<times> trajectory list" where
  "content vid db =
     (filter (\<lambda>s. ps_map_version_id s = vid) (d_slots db),
      filter (\<lambda>i. in_map_version_id i = vid) (d_inspection_points db),
      filter (\<lambda>x. xp_map_version_id x = vid) (d_extinguish_points db),
      filter (\<lambda>t. tj_map_version_id t = vid) (d_trajectories db))"

definition map_keys :: "'a database_scheme \<Rightarrow> bool" where
  "map_keys db \<longleftrightarrow> distinct (map ps_id (d_slots db)) \<and> distinct (map in_id (d_inspection_points db))
     \<and> distinct (map xp_id (d_extinguish_points db)) \<and> distinct (map tj_id (d_trajectories db))
     \<and> distinct (map mv_id (d_map_versions db))"

text \<open>The points of a version lie at slots of the version.\<close>

definition local_points :: "ident \<Rightarrow> 'a database_scheme \<Rightarrow> bool" where
  "local_points vid db \<longleftrightarrow>
     (\<forall>i \<in> set (d_inspection_points db). in_map_version_id i = vid \<longrightarrow>
        (\<forall>s \<in> set (d_slots db). ps_id s = in_slot_id i \<longrightarrow> ps_map_version_id s = vid))
   \<and> (\<forall>x \<in> set (d_extinguish_points db). xp_map_version_id x = vid \<longrightarrow>
        (\<forall>s \<in> set (d_slots db). ps_id s = xp_slot_id x \<longrightarrow> ps_map_version_id s = vid))"

definition closed_version :: "ident \<Rightarrow> 'a database_scheme \<Rightarrow> bool" where
  "closed_version vid db \<longleftrightarrow> (case get_map_version vid db of None \<Rightarrow> False | Some v \<Rightarrow> mv_status v \<noteq> ''DRAFT'')"

lemma closed_not_draft: "closed_version vid db \<Longrightarrow> draft vid db \<noteq> Inr v"
  by (auto simp: closed_version_def draft_def split: option.splits)

lemma begin_tx_tables [simp]:
  "d_slots (begin_tx db) = d_slots db" "d_inspection_points (begin_tx db) = d_inspection_points db"
  "d_extinguish_points (begin_tx db) = d_extinguish_points db" "d_trajectories (begin_tx db) = d_trajectories db"
  "d_map_versions (begin_tx db) = d_map_versions db"
  by (simp_all add: begin_tx_def database.extend_def)

lemma truncate_maps [simp]:
  "d_slots (database.truncate s) = d_slots s" "d_inspection_points (database.truncate s) = d_inspection_points s"
  "d_extinguish_points (database.truncate s) = d_extinguish_points s"
  "d_trajectories (database.truncate s) = d_trajectories s"
  "d_map_versions (database.truncate s) = d_map_versions s"
  by (simp_all add: database.truncate_def)

lemma content_cong:
  "d_slots a = d_slots b \<Longrightarrow> d_inspection_points a = d_inspection_points b \<Longrightarrow>
   d_extinguish_points a = d_extinguish_points b \<Longrightarrow> d_trajectories a = d_trajectories b \<Longrightarrow>
   content vid a = content vid b"
  by (simp add: content_def)

lemma closed_begin_tx [simp]: "closed_version vid (begin_tx db) = closed_version vid db"
  by (simp add: closed_version_def get_map_version_def)

lemma commit_tables: "pf_db (commit now s p) = database.truncate s"
  by (simp add: commit_def)

section \<open>The tables of a version\<close>

text \<open>
  The contract of a table whose rows belong to map versions: adding appends, writing back replaces
  the row of the key, both leave everything else alone.
\<close>

locale version_table =
  fixes rows :: "tx \<Rightarrow> 'r list"
    and key :: "'r \<Rightarrow> ident"
    and version :: "'r \<Rightarrow> ident"
    and rest :: "tx \<Rightarrow> 'o"
    and look :: "ident \<Rightarrow> tx \<Rightarrow> 'r option"
    and add :: "'r \<Rightarrow> tx \<Rightarrow> api_error + tx"
    and put :: "'r \<Rightarrow> tx \<Rightarrow> api_error + tx"
  assumes add_rows: "add r db = Inr db' \<Longrightarrow> rows db' = rows db @ [r] \<and> rest db' = rest db"
    and put_rows: "put r db = Inr db' \<Longrightarrow>
      rows db' = upd_rows (\<lambda>x. key x = key r) (\<lambda>_. r) (rows db) \<and> rest db' = rest db"
    and look_row: "look k db = Some r \<Longrightarrow> r \<in> set (rows db) \<and> key r = k"
begin

lemma replaced_elsewhere:
  assumes "distinct (map key xs)" "r \<in> set xs" "version r \<noteq> vid" "version r' \<noteq> vid" "key r' = key r"
  shows "filter (\<lambda>x. version x = vid) (upd_rows (\<lambda>x. key x = key r') (\<lambda>_. r') xs) = filter (\<lambda>x. version x = vid) xs"
  using assms
proof (induction xs)
  case (Cons a xs)
  show ?case
  proof (cases "a = r")
    case True
    then have "\<forall>x \<in> set xs. key x \<noteq> key r'" using Cons.prems(1,5) by (auto simp: image_iff)
    then have "upd_rows (\<lambda>x. key x = key r') (\<lambda>_. r') xs = xs" by (simp add: upd_rows_def map_idI)
    then show ?thesis using True Cons.prems by simp
  next
    case False
    then have "r \<in> set xs" "key a \<noteq> key r'" using Cons.prems by (auto simp: image_iff)
    then show ?thesis using Cons False by simp
  qed
qed simp

lemma created_elsewhere:
  assumes "closed_version vid db" "and_then (draft w db) (\<lambda>_. add r db) = Inr db'" "w = version r"
  shows "filter (\<lambda>r. version r = vid) (rows db') = filter (\<lambda>r. version r = vid) (rows db) \<and> rest db' = rest db"
proof -
  from assms(2,3) obtain v where v: "draft (version r) db = Inr v" "add r db = Inr db'" by auto
  then have "version r \<noteq> vid" using closed_not_draft [OF assms(1)] by auto
  then show "filter (\<lambda>r. version r = vid) (rows db') = filter (\<lambda>r. version r = vid) (rows db) \<and> rest db' = rest db"
    using add_rows [OF v(2)] by simp_all
qed

lemma moved_elsewhere:
  assumes "closed_version vid db" "distinct (map key (rows db))" "version (assign q r) \<noteq> vid" "\<And>x. key (assign q x) = key x"
    "and_then (or_raise e (look k db)) (\<lambda>x. and_then (draft (version x) db) (\<lambda>_. put (assign q x) db)) = Inr db'"
    "\<And>x. version (assign q x) = version (assign q r)"
  shows "filter (\<lambda>r. version r = vid) (rows db') = filter (\<lambda>r. version r = vid) (rows db) \<and> rest db' = rest db"
proof -
  from assms(5) obtain x v where x: "look k db = Some x" "draft (version x) db = Inr v" "put (assign q x) db = Inr db'"
    by auto
  have "version x \<noteq> vid" using closed_not_draft [OF assms(1)] x(2) by auto
  moreover have "version (assign q x) \<noteq> vid" using assms(3,6) by metis
  ultimately show "filter (\<lambda>r. version r = vid) (rows db') = filter (\<lambda>r. version r = vid) (rows db) \<and> rest db' = rest db"
    using put_rows [OF x(3)] replaced_elsewhere [OF assms(2), of x vid "assign q x"] look_row [OF x(1)] assms(4)
    by simp_all
qed

end

text \<open>What the operations on one table leave alone: the other tables and the versions.\<close>

interpretation slots: version_table d_slots ps_id ps_map_version_id
  "\<lambda>db. (d_inspection_points db, d_extinguish_points db, d_trajectories db, d_map_versions db)" get_slot add_slot put_slot
  by unfold_locales (auto simp: add_slot_def put_slot_def integrity_def get_slot_def split: if_splits dest: first_row_Some)

interpretation inspections: version_table d_inspection_points in_id in_map_version_id
  "\<lambda>db. (d_slots db, d_extinguish_points db, d_trajectories db, d_map_versions db)" get_inspection add_inspection put_inspection
  by unfold_locales
    (auto simp: add_inspection_def put_inspection_def integrity_def get_inspection_def split: if_splits dest: first_row_Some)

interpretation extinguishing: version_table d_extinguish_points xp_id xp_map_version_id
  "\<lambda>db. (d_slots db, d_inspection_points db, d_trajectories db, d_map_versions db)" get_extinguish add_extinguish put_extinguish
  by unfold_locales
    (auto simp: add_extinguish_def put_extinguish_def integrity_def get_extinguish_def split: if_splits dest: first_row_Some)

interpretation paths: version_table d_trajectories tj_id tj_map_version_id
  "\<lambda>db. (d_slots db, d_inspection_points db, d_extinguish_points db, d_map_versions db)" find_trajectory add_trajectory put_trajectory
  by unfold_locales
    (auto simp: add_trajectory_def put_trajectory_def integrity_def find_trajectory_def split: if_splits dest: first_row_Some)

section \<open>Published content\<close>

lemma committed_frozen:
  assumes "\<And>db. result = Inr db \<Longrightarrow> content vid db = content vid (pf_db p)"
  shows "content vid (pf_db (snd (committed now p result))) = content vid (pf_db p)"
proof (cases result)
  case (Inr db)
  then show ?thesis
    using assms [OF Inr] by (simp add: committed_def commit_def content_def)
qed (simp add: committed_def)

lemma content_begin_tx [simp]: "content vid (begin_tx db) = content vid db"
  by (simp add: content_def)

lemma created_frozen:
  assumes "closed_version vid (pf_db p)"
    "\<And>db db'. closed_version vid db \<Longrightarrow> and_then (draft (target q) db) (\<lambda>_. add (new q) db) = Inr db'
       \<Longrightarrow> content vid db' = content vid db"
  shows "content vid (pf_db (snd (create_row target new add env q p))) = content vid (pf_db p)"
  unfolding create_row_def Let_def
proof (rule committed_frozen)
  fix db assume "and_then (draft (target q) (begin_tx (pf_db p))) (\<lambda>_. add (new q) (begin_tx (pf_db p))) = Inr db"
  from assms(2) [OF _ this] assms(1) show "content vid db = content vid (pf_db p)" by simp
qed

lemma updated_frozen:
  assumes "closed_version vid (pf_db p)" "map_keys (pf_db p)"
    "\<And>db db'. closed_version vid db \<Longrightarrow> map_keys db \<Longrightarrow>
       and_then (or_raise (HTTPException 404) (look rid db)) (\<lambda>row. and_then (draft (version row) db)
         (\<lambda>_. put (assign q row) db)) = Inr db' \<Longrightarrow> content vid db' = content vid db"
  shows "content vid (pf_db (snd (update_row look version assign put env rid q p))) = content vid (pf_db p)"
  unfolding update_row_def Let_def
proof (rule committed_frozen)
  fix db assume "and_then (or_raise (HTTPException 404) (look rid (begin_tx (pf_db p))))
      (\<lambda>row. and_then (draft (version row) (begin_tx (pf_db p))) (\<lambda>_. put (assign q row) (begin_tx (pf_db p)))) = Inr db"
  from assms(3) [OF _ _ this] assms(1,2) show "content vid db = content vid (pf_db p)" by (simp add: map_keys_def)
qed

lemma edited_frozen:
  assumes "closed_version vid (pf_db p)" "map_keys (pf_db p)"
  shows "si_map_version_id s \<noteq> vid \<Longrightarrow> content vid (pf_db (snd (update_slot env rid s p))) = content vid (pf_db p)"
    "ii_map_version_id i \<noteq> vid \<Longrightarrow> content vid (pf_db (snd (update_inspection env rid i p))) = content vid (pf_db p)"
    "xi_map_version_id x \<noteq> vid \<Longrightarrow> content vid (pf_db (snd (update_extinguish env rid x p))) = content vid (pf_db p)"
    "ji_map_version_id j \<noteq> vid \<Longrightarrow> content vid (pf_db (snd (update_trajectory env rid j p))) = content vid (pf_db p)"
proof -
  show "content vid (pf_db (snd (update_slot env rid s p))) = content vid (pf_db p)" if "si_map_version_id s \<noteq> vid"
    unfolding update_slot_def
    by (rule updated_frozen [OF assms])
      (drule slots.moved_elsewhere [where assign = "\<lambda>q s. slot_of (ps_id s) q", rotated -2],
        use that in \<open>auto simp: slot_of_def map_keys_def content_def\<close>)
  show "content vid (pf_db (snd (update_inspection env rid i p))) = content vid (pf_db p)" if "ii_map_version_id i \<noteq> vid"
    unfolding update_inspection_def
    by (rule updated_frozen [OF assms])
      (drule inspections.moved_elsewhere [where assign = "\<lambda>q i. inspection_of (in_id i) q", rotated -2],
        use that in \<open>auto simp: inspection_of_def map_keys_def content_def\<close>)
  show "content vid (pf_db (snd (update_extinguish env rid x p))) = content vid (pf_db p)" if "xi_map_version_id x \<noteq> vid"
    unfolding update_extinguish_def
    by (rule updated_frozen [OF assms])
      (drule extinguishing.moved_elsewhere [where assign = "\<lambda>q x. extinguish_of (xp_id x) q", rotated -2],
        use that in \<open>auto simp: extinguish_of_def map_keys_def content_def\<close>)
  show "content vid (pf_db (snd (update_trajectory env rid j p))) = content vid (pf_db p)" if "ji_map_version_id j \<noteq> vid"
    unfolding update_trajectory_def
    by (rule updated_frozen [OF assms])
      (drule paths.moved_elsewhere [where assign = "\<lambda>q t. trajectory_of (tj_id t) q", rotated -2],
        use that in \<open>auto simp: trajectory_of_def map_keys_def content_def\<close>)
qed

lemma added_frozen:
  assumes "closed_version vid (pf_db p)"
  shows "content vid (pf_db (snd (create_slot env n s p))) = content vid (pf_db p)"
    "content vid (pf_db (snd (create_inspection env n i p))) = content vid (pf_db p)"
    "content vid (pf_db (snd (create_extinguish env n x p))) = content vid (pf_db p)"
    "content vid (pf_db (snd (create_trajectory env n j p))) = content vid (pf_db p)"
proof -
  show "content vid (pf_db (snd (create_slot env n s p))) = content vid (pf_db p)"
    unfolding create_slot_def
    by (rule created_frozen [OF assms])
      (drule slots.created_elsewhere [where r = "slot_of (uuid env n) s"],
        auto simp: slot_of_def content_def)
  show "content vid (pf_db (snd (create_inspection env n i p))) = content vid (pf_db p)"
    unfolding create_inspection_def
    by (rule created_frozen [OF assms])
      (drule inspections.created_elsewhere [where r = "inspection_of (uuid env n) i"],
        auto simp: inspection_of_def content_def)
  show "content vid (pf_db (snd (create_extinguish env n x p))) = content vid (pf_db p)"
    unfolding create_extinguish_def
    by (rule created_frozen [OF assms])
      (drule extinguishing.created_elsewhere [where r = "extinguish_of (uuid env n) x"],
        auto simp: extinguish_of_def content_def)
  show "content vid (pf_db (snd (create_trajectory env n j p))) = content vid (pf_db p)"
    unfolding create_trajectory_def
    by (rule created_frozen [OF assms])
      (drule paths.created_elsewhere [where r = "trajectory_of (uuid env n) j"],
        auto simp: trajectory_of_def content_def)
qed

lemma filter_kept: "(\<And>x. x \<in> set xs \<Longrightarrow> P x \<Longrightarrow> Q x) \<Longrightarrow> filter P (filter Q xs) = filter P xs"
  by (induction xs) auto

text \<open>Deleting a slot of a draft does not cascade into a version whose points are local.\<close>

lemma deleted_frozen:
  assumes "closed_version vid (pf_db p)" "local_points vid (pf_db p)" "map_keys (pf_db p)"
  shows "content vid (pf_db (snd (delete_slot env sid p))) = content vid (pf_db p)"
proof (cases "get_slot sid (begin_tx (pf_db p))")
  case None
  then show ?thesis by (simp add: delete_slot_def)
next
  case (Some s)
  have s: "s \<in> set (d_slots (pf_db p))" "ps_id s = sid"
    using first_row_Some [OF Some [unfolded get_slot_def]] by simp_all
  have gone: "content vid (remove_slot sid (begin_tx (pf_db p))) = content vid (pf_db p)"
    if "draft (ps_map_version_id s) (begin_tx (pf_db p)) = Inr v" for v
  proof -
    have other: "ps_map_version_id s \<noteq> vid"
      using closed_not_draft [of vid "begin_tx (pf_db p)"] assms(1) that by auto
    have "inj_on ps_id (set (d_slots (pf_db p)))" using assms(3) by (simp add: map_keys_def distinct_map)
    then have "ps_map_version_id x \<noteq> vid" if "x \<in> set (d_slots (pf_db p))" "ps_id x = sid" for x
      using that s other by (metis inj_onD)
    then have "filter (\<lambda>s. ps_map_version_id s = vid) (filter (\<lambda>s. ps_id s \<noteq> sid) (d_slots (pf_db p)))
        = filter (\<lambda>s. ps_map_version_id s = vid) (d_slots (pf_db p))"
      by (intro filter_kept) blast
    moreover have "filter (\<lambda>i. in_map_version_id i = vid) (filter (\<lambda>i. in_slot_id i \<noteq> sid) (d_inspection_points (pf_db p)))
        = filter (\<lambda>i. in_map_version_id i = vid) (d_inspection_points (pf_db p))"
      using assms(2) s other by (intro filter_kept) (auto simp: local_points_def)
    moreover have "filter (\<lambda>x. xp_map_version_id x = vid) (filter (\<lambda>x. xp_slot_id x \<noteq> sid) (d_extinguish_points (pf_db p)))
        = filter (\<lambda>x. xp_map_version_id x = vid) (d_extinguish_points (pf_db p))"
      using assms(2) s other by (intro filter_kept) (auto simp: local_points_def)
    ultimately show ?thesis by (simp add: content_def remove_slot_def)
  qed
  show ?thesis
    unfolding delete_slot_def Let_def Some option.case
    by (rule committed_frozen) (use gone in \<open>auto simp: integrity_def split: if_splits\<close>)
qed

lemma version_kept:
  "content vid (pf_db (snd (create_site env n code name tz p))) = content vid (pf_db p)"
  "content vid (pf_db (snd (create_map env n mq p))) = content vid (pf_db p)"
  "content vid (pf_db (snd (update_map env mid mq p))) = content vid (pf_db p)"
  "content vid (pf_db (snd (create_version env n vq p))) = content vid (pf_db p)"
  "content vid (pf_db (snd (archive_version env wid p))) = content vid (pf_db p)"
  unfolding create_site_def create_map_def update_map_def create_version_def archive_version_def Let_def
  by (rule committed_frozen; auto simp: put_version_def integrity_def content_def split: if_splits)+

lemma publish_kept: "content vid (pf_db (snd (publish_version env rh wid p))) = content vid (pf_db p)"
  by (auto simp: publish_version_def Let_def put_version_def commit_def content_def split: sum.splits if_splits)


definition drafted :: map_version where
  "drafted = demo_version\<lparr>mv_id := ''dv'', mv_version := ''2'', mv_status := ''DRAFT'', mv_published_at := None\<rparr>"

definition draft_slot :: parking_slot where
  "draft_slot = demo_slot\<lparr>ps_id := ''s2'', ps_map_version_id := ''dv'', ps_code := ''B-01''\<rparr>"

definition demo_map :: map_row where
  "demo_map = \<lparr>mr_id = ''m'', mr_site_id = ''s'', mr_code = ''M'', mr_name = ''M'', mr_active_version = Some ''mv''\<rparr>"

text \<open>A published version with one slot, and a draft with another.\<close>

definition editor_platform :: platform where
  "editor_platform = demo_platform\<lparr>pf_db := demo_db\<lparr>d_maps := [demo_map], d_map_versions := [demo_version, drafted],
     d_slots := [demo_slot, draft_slot]\<rparr>\<rparr>"

definition slot_edit :: "ident \<Rightarrow> slot_input" where
  "slot_edit vid = \<lparr>si_map_version_id = vid, si_code = ''B-01'', si_polygon = [], si_pose = [], si_enabled = True\<rparr>"

lemmas editor_defs = editor_platform_def drafted_def draft_slot_def demo_map_def demo_platform_def demo_db_def
  demo_version_def demo_slot_def slot_edit_def empty_db_def


section \<open>The life of a version\<close>

definition status_of :: "ident \<Rightarrow> 'a database_scheme \<Rightarrow> string option" where
  "status_of vid db = map_option mv_status (get_map_version vid db)"

lemma rows_keep_versions:
  "d_map_versions (pf_db (snd (create_slot env n s p))) = d_map_versions (pf_db p)"
  "d_map_versions (pf_db (snd (create_inspection env n i p))) = d_map_versions (pf_db p)"
  "d_map_versions (pf_db (snd (create_extinguish env n x p))) = d_map_versions (pf_db p)"
  "d_map_versions (pf_db (snd (create_trajectory env n j p))) = d_map_versions (pf_db p)"
  "d_map_versions (pf_db (snd (update_slot env rid s p))) = d_map_versions (pf_db p)"
  "d_map_versions (pf_db (snd (update_inspection env rid i p))) = d_map_versions (pf_db p)"
  "d_map_versions (pf_db (snd (update_extinguish env rid x p))) = d_map_versions (pf_db p)"
  "d_map_versions (pf_db (snd (update_trajectory env rid j p))) = d_map_versions (pf_db p)"
  by (auto simp: create_slot_def create_inspection_def create_extinguish_def create_trajectory_def
      update_slot_def update_inspection_def update_extinguish_def update_trajectory_def
      create_row_def update_row_def Let_def committed_def commit_def and_then_def or_raise_def integrity_def
      add_slot_def add_inspection_def add_extinguish_def add_trajectory_def
      put_slot_def put_inspection_def put_extinguish_def put_trajectory_def split: sum.split option.split)

lemma delete_keeps_versions: "d_map_versions (pf_db (snd (delete_slot env rid p))) = d_map_versions (pf_db p)"
  by (auto simp: delete_slot_def Let_def committed_def commit_def and_then_def integrity_def remove_slot_def
      split: sum.split option.split)

lemma maps_keep_versions:
  "d_map_versions (pf_db (snd (create_site env n code name tz p))) = d_map_versions (pf_db p)"
  "d_map_versions (pf_db (snd (create_map env n mq p))) = d_map_versions (pf_db p)"
  "d_map_versions (pf_db (snd (update_map env mid mq p))) = d_map_versions (pf_db p)"
  by (auto simp: create_site_def create_map_def update_map_def Let_def committed_def commit_def and_then_def
      or_raise_def integrity_def split: sum.split option.split)

lemma first_row_put:
  "key r = k \<Longrightarrow> first_row (\<lambda>x. key x = vid) (upd_rows (\<lambda>x. key x = k) (\<lambda>_. r) xs)
     = (if vid = k \<and> first_row (\<lambda>x. key x = k) xs \<noteq> None then Some r else first_row (\<lambda>x. key x = vid) xs)"
  by (induction xs) auto

lemma status_put:
  "get_map_version k db = Some v \<Longrightarrow> mv_id v' = k \<Longrightarrow>
   status_of vid (put_version v' db) = (if vid = k then Some (mv_status v') else status_of vid db)"
  using first_row_put [where key = mv_id and r = v' and k = k and vid = vid and xs = "d_map_versions db"]
  by (simp add: status_of_def get_map_version_def put_version_def)

lemma status_cong: "d_map_versions a = d_map_versions b \<Longrightarrow> status_of vid a = status_of vid b"
  by (simp add: status_of_def get_map_version_def)

definition has_slot :: "ident \<Rightarrow> 'a database_scheme \<Rightarrow> bool" where
  "has_slot vid db \<longleftrightarrow> (\<exists>s \<in> set (d_slots db). ps_map_version_id s = vid)"

definition active_somewhere :: "ident \<Rightarrow> 'a database_scheme \<Rightarrow> bool" where
  "active_somewhere vid db \<longleftrightarrow> (\<exists>m \<in> set (d_maps db). mr_active_version m = Some vid)"

text \<open>The abstract life of a version.\<close>

inductive version_step :: "string option \<Rightarrow> string option \<Rightarrow> bool" where
  unchanged: "version_step s s"
| created: "version_step None (Some ''DRAFT'')"
| published_now: "version_step (Some ''DRAFT'') (Some ''PUBLISHED'')"
| archived: "version_step (Some ''PUBLISHED'') (Some ''ARCHIVED'')"

lemma new_version_status:
  "version_step (status_of vid (pf_db p)) (status_of vid (pf_db (snd (create_version env n q p))))
   \<and> \<not> (status_of vid (pf_db p) = Some ''DRAFT'' \<and> status_of vid (pf_db (snd (create_version env n q p))) = Some ''PUBLISHED'')"
proof -
  let ?db = "begin_tx (pf_db p)"
  let ?new = "\<lparr>mv_id = uuid env n, mv_map_id = vi_map_id q, mv_version = vi_version q, mv_status = ''DRAFT'',
      mv_checksum = [], mv_revision = vi_revision q, mv_published_at = None\<rparr>"
  have "d_map_versions (pf_db (snd (create_version env n q p)))
      \<in> {d_map_versions (pf_db p), d_map_versions (pf_db p) @ [?new]}"
    by (cases "integrity (get_map (vi_map_id q) ?db \<noteq> None
          \<and> first_row (\<lambda>v. mv_map_id v = vi_map_id q \<and> mv_version v = vi_version q) (d_map_versions ?db) = None)")
      (simp_all only: create_version_def Let_def committed_def and_then_simps sum.case snd_conv commit_tables insert_iff,
        simp_all)
  then have "status_of vid (pf_db (snd (create_version env n q p))) = status_of vid (pf_db p)
      \<or> status_of vid (pf_db p) = None \<and> status_of vid (pf_db (snd (create_version env n q p))) = Some ''DRAFT''"
  proof (elim insertE emptyE)
    assume "d_map_versions (pf_db (snd (create_version env n q p))) = d_map_versions (pf_db p)"
    then show ?thesis by (simp only: status_cong [of "pf_db (snd (create_version env n q p))"] simp_thms)
  next
    assume new: "d_map_versions (pf_db (snd (create_version env n q p))) = d_map_versions (pf_db p) @ [?new]"
    show ?thesis
      unfolding status_of_def get_map_version_def new first_row_append
      by (cases "first_row (\<lambda>v. mv_id v = vid) (d_map_versions (pf_db p))") simp_all
  qed
  then show ?thesis by (auto intro: version_step.intros)
qed

lemma archive_status:
  "version_step (status_of vid (pf_db p)) (status_of vid (pf_db (snd (archive_version env wid p))))
   \<and> \<not> (status_of vid (pf_db p) = Some ''DRAFT'' \<and> status_of vid (pf_db (snd (archive_version env wid p))) = Some ''PUBLISHED'')"
proof (cases "get_map_version wid (begin_tx (pf_db p))")
  case None
  then show ?thesis by (simp add: archive_version_def committed_def version_step.unchanged)
next
  case (Some v)
  have v: "mv_id v = wid" using first_row_Some [OF Some [unfolded get_map_version_def]] by simp
  have old: "status_of wid (pf_db p) = Some (mv_status v)" using Some by (simp add: status_of_def get_map_version_def)
  show ?thesis
  proof (cases "mv_status v = ''PUBLISHED''")
    case True
    then have "pf_db (snd (archive_version env wid p))
        = database.truncate (put_version (v\<lparr>mv_status := ''ARCHIVED''\<rparr>) (begin_tx (pf_db p)))"
      using Some by (simp add: archive_version_def committed_def commit_def)
    then have "status_of vid (pf_db (snd (archive_version env wid p)))
        = status_of vid (put_version (v\<lparr>mv_status := ''ARCHIVED''\<rparr>) (begin_tx (pf_db p)))"
      by (intro status_cong) simp
    then have "status_of vid (pf_db (snd (archive_version env wid p)))
        = (if vid = wid then Some ''ARCHIVED'' else status_of vid (pf_db p))"
      using status_put [OF Some, of "v\<lparr>mv_status := ''ARCHIVED''\<rparr>" vid] v
        status_cong [of "begin_tx (pf_db p)" "pf_db p" vid] by simp
    then show ?thesis using old True by (auto intro: version_step.intros)
  qed (use Some in \<open>simp add: archive_version_def committed_def version_step.unchanged\<close>)
qed

lemma publish_cases:
  assumes "d_map_versions (pf_db (snd (publish_version env rh wid p))) \<noteq> d_map_versions (pf_db p)"
  obtains v where "get_map_version wid (pf_db p) = Some v" "mv_status v = ''DRAFT''" "has_slot wid (pf_db p)"
    "d_map_versions (pf_db (snd (publish_version env rh wid p)))
       = d_map_versions (put_version (v\<lparr>mv_status := ''PUBLISHED'', mv_published_at := Some (utc_now env)\<rparr>) (begin_tx (pf_db p)))"
    "d_slots (pf_db (snd (publish_version env rh wid p))) = d_slots (pf_db p)"
    "active_somewhere wid (pf_db (snd (publish_version env rh wid p)))"
proof -
  let ?db = "begin_tx (pf_db p)"
  have eq: "get_map_version wid ?db = get_map_version wid (pf_db p)" by (simp add: get_map_version_def)
  obtain v where v: "draft wid ?db = Inr v"
    using assms by (cases "draft wid ?db") (simp_all add: publish_version_def Let_def)
  then have draft: "get_map_version wid (pf_db p) = Some v" "mv_status v = ''DRAFT''"
    by (simp_all add: draft_def eq split: if_splits)
  obtain s where s: "first_row (\<lambda>s. ps_map_version_id s = wid) (d_slots ?db) = Some s"
    using assms v by (cases "first_row (\<lambda>s. ps_map_version_id s = wid) (d_slots ?db)")
      (simp_all add: publish_version_def Let_def)
  then have slot: "has_slot wid (pf_db p)" using first_row_Some [OF s] by (auto simp: has_slot_def)
  obtain m where m: "get_map (mv_map_id v) ?db = Some m"
    using assms v s by (cases "get_map (mv_map_id v) ?db") (simp_all add: publish_version_def Let_def)
  let ?v = "v\<lparr>mv_status := ''PUBLISHED'', mv_published_at := Some (utc_now env)\<rparr>"
  let ?db1 = "put_version ?v (?db\<lparr>d_maps := upd_rows (\<lambda>x. mr_id x = mr_id m)
                (\<lambda>x. x\<lparr>mr_active_version := Some wid\<rparr>) (d_maps ?db)\<rparr>)"
  have db': "pf_db (snd (publish_version env rh wid p)) = database.truncate ?db1"
    using v s m by (simp add: publish_version_def Let_def commit_def)
  have "m \<in> set (d_maps ?db)" using first_row_Some [OF m [unfolded get_map_def]] by simp
  then have "active_somewhere wid (pf_db (snd (publish_version env rh wid p)))"
    unfolding active_somewhere_def db'
    by (intro bexI [of _ "m\<lparr>mr_active_version := Some wid\<rparr>"])
      (auto simp: put_version_def database.truncate_def upd_rows_def image_iff)
  then show thesis using that [OF draft slot] db' by (simp add: put_version_def)
qed

text \<open>
  Property C32. The life of a map version: it appears as a DRAFT, is published once and archived
  once, and nothing else ever happens to its status; it is only published with at least one slot,
  and then it is the active version of a map.
\<close>

theorem version_life:
  fixes env :: pyenv
  defines "next_p n rh req p \<equiv> snd (map_serve env n rh req p)"
  shows "version_step (status_of vid (pf_db p)) (status_of vid (pf_db (next_p n rh req p)))
    \<and> (status_of vid (pf_db p) = Some ''DRAFT'' \<and> status_of vid (pf_db (next_p n rh req p)) = Some ''PUBLISHED''
       \<longrightarrow> req = Publish vid \<and> has_slot vid (pf_db (next_p n rh req p)) \<and> active_somewhere vid (pf_db (next_p n rh req p)))"
proof -
  note keep = status_cong [OF rows_keep_versions(1)] status_cong [OF rows_keep_versions(2)]
    status_cong [OF rows_keep_versions(3)] status_cong [OF rows_keep_versions(4)] status_cong [OF rows_keep_versions(5)]
    status_cong [OF rows_keep_versions(6)] status_cong [OF rows_keep_versions(7)] status_cong [OF rows_keep_versions(8)]
    status_cong [OF delete_keeps_versions] status_cong [OF maps_keep_versions(1)]
    status_cong [OF maps_keep_versions(2)] status_cong [OF maps_keep_versions(3)]
  have published: "version_step (status_of vid (pf_db p)) (status_of vid (pf_db (snd (publish_version env rh wid p))))
    \<and> (status_of vid (pf_db (snd (publish_version env rh wid p))) \<noteq> status_of vid (pf_db p) \<longrightarrow>
        wid = vid \<and> has_slot vid (pf_db (snd (publish_version env rh wid p)))
        \<and> active_somewhere vid (pf_db (snd (publish_version env rh wid p))))" for wid
  proof (cases "d_map_versions (pf_db (snd (publish_version env rh wid p))) = d_map_versions (pf_db p)")
    case True
    then show ?thesis using status_cong [OF True, of vid] by (simp add: version_step.unchanged)
  next
    case False
    then show ?thesis
    proof (rule publish_cases)
      fix v :: map_version
      let ?v = "v\<lparr>mv_status := ''PUBLISHED'', mv_published_at := Some (utc_now env)\<rparr>"
      assume v: "get_map_version wid (pf_db p) = Some v" "mv_status v = ''DRAFT''" "has_slot wid (pf_db p)"
        "d_map_versions (pf_db (snd (publish_version env rh wid p))) = d_map_versions (put_version ?v (begin_tx (pf_db p)))"
        "d_slots (pf_db (snd (publish_version env rh wid p))) = d_slots (pf_db p)"
        "active_somewhere wid (pf_db (snd (publish_version env rh wid p)))"
      have id: "mv_id v = wid" using first_row_Some [OF v(1) [unfolded get_map_version_def]] by simp
      have "get_map_version wid (begin_tx (pf_db p)) = Some v" using v(1) by (simp add: get_map_version_def)
      from status_put [OF this, of ?v vid] id status_cong [OF v(4), of vid]
      have "status_of vid (pf_db (snd (publish_version env rh wid p)))
          = (if vid = wid then Some ''PUBLISHED'' else status_of vid (pf_db p))"
        using status_cong [of "begin_tx (pf_db p)" "pf_db p" vid] by simp
      moreover have "status_of wid (pf_db p) = Some ''DRAFT''" using v(1,2) by (simp add: status_of_def)
      moreover have "has_slot wid (pf_db (snd (publish_version env rh wid p)))"
        using v(3,5) by (simp add: has_slot_def)
      ultimately show ?thesis using v(6) by (auto intro: version_step.intros)
    qed
  qed
  show ?thesis
  proof (cases req)
    case (Publish wid)
    then show ?thesis using published [of wid] unfolding next_p_def by auto
  next
    case (New_Version q)
    then show ?thesis using new_version_status [of vid p env n q] unfolding next_p_def
      by simp
  next
    case (Archive wid)
    then show ?thesis using archive_status [of vid p env wid] unfolding next_p_def
      by simp
  qed (simp_all add: next_p_def keep version_step.unchanged)
qed

lemma version_life_witness:
  "version_step (status_of ''dv'' (pf_db editor_platform))
     (status_of ''dv'' (pf_db (snd (map_serve task_env 0 redis_ok (Publish ''dv'') editor_platform))))
   \<and> status_of ''dv'' (pf_db (snd (map_serve task_env 0 redis_ok (Publish ''dv'') editor_platform))) = Some ''PUBLISHED''
   \<and> has_slot ''dv'' (pf_db (snd (map_serve task_env 0 redis_ok (Publish ''dv'') editor_platform)))"
proof -
  let ?p' = "snd (map_serve task_env 0 redis_ok (Publish ''dv'') editor_platform)"
  have before: "status_of ''dv'' (pf_db editor_platform) = Some ''DRAFT''"
    by (simp add: status_of_def get_map_version_def editor_defs)
  have after: "status_of ''dv'' (pf_db ?p') = Some ''PUBLISHED''"
    by (simp add: status_of_def get_map_version_def editor_defs publish_version_def draft_def get_map_def
        put_version_def redis_ok_def begin_tx_def database.extend_def database.truncate_def Let_def)
  from version_life [of "''dv''" editor_platform task_env 0 redis_ok "Publish ''dv''"] before after show ?thesis by simp
qed

section \<open>The gaps\<close>

text \<open>
  The gap of the update endpoints: they check that the version a slot belongs to is a
  draft, not the one named in the payload. An edit of a draft slot that names a published version
  succeeds and adds the slot to the published map, which the endpoints say is immutable.
\<close>

lemma slot_moved_into_published:
  assumes "closed_version vid (pf_db p)" "map_keys (pf_db p)" "get_slot rid (pf_db p) = Some s"
    "draft (ps_map_version_id s) (pf_db p) = Inr w" "si_map_version_id q = vid"
    "\<forall>x \<in> set (d_slots (pf_db p)). ps_map_version_id x = vid \<longrightarrow> ps_code x \<noteq> si_code q"
  shows "fst (map_serve env n rh (Edit_Slot rid q) p) = Inr ()
    \<and> slot_of rid q \<in> set (fst (content vid (pf_db (snd (map_serve env n rh (Edit_Slot rid q) p)))))
    \<and> slot_of rid q \<notin> set (fst (content vid (pf_db p)))"
proof -
  let ?db = "begin_tx (pf_db p)"
  have s: "s \<in> set (d_slots (pf_db p))" "ps_id s = rid"
    using first_row_Some [OF assms(3) [unfolded get_slot_def]] by simp_all
  have look: "get_slot rid ?db = Some s" "draft (ps_map_version_id s) ?db = Inr w"
    using assms(3,4) by (simp_all add: get_slot_def draft_def get_map_version_def)
  have known: "known_version vid ?db"
    using assms(1) by (auto simp: closed_version_def known_version_def get_map_version_def split: option.splits)
  have put: "put_slot (slot_of rid q) ?db
      = Inr (?db\<lparr>d_slots := upd_rows (\<lambda>x. ps_id x = rid) (\<lambda>_. slot_of rid q) (d_slots ?db)\<rparr>)"
    using known assms(5,6) by (auto simp: put_slot_def integrity_def slot_integrity_def slot_of_def)
  have moved: "map_serve env n rh (Edit_Slot rid q) p = (Inr (),
      commit (utc_now env) (?db\<lparr>d_slots := upd_rows (\<lambda>x. ps_id x = rid) (\<lambda>_. slot_of rid q) (d_slots ?db)\<rparr>) p)"
    using look put s(2) by (simp add: update_slot_def update_row_def committed_def)
  have "slot_of rid q \<in> set (upd_rows (\<lambda>x. ps_id x = rid) (\<lambda>_. slot_of rid q) (d_slots (pf_db p)))"
    using s by (auto simp: upd_rows_def image_iff)
  moreover have "ps_map_version_id (slot_of rid q) = vid" using assms(5) by (simp add: slot_of_def)
  moreover have "slot_of rid q \<notin> set (d_slots (pf_db p))"
    using assms(6) calculation(2) by (auto simp: slot_of_def)
  ultimately show ?thesis using moved by (simp add: content_def)
qed

lemma slot_moved_into_published_witness:
  "\<exists>s \<in> set (fst (content ''mv'' (pf_db (snd (map_serve task_env 0 redis_ok (Edit_Slot ''s2'' (slot_edit ''mv'')) editor_platform))))).
     ps_id s = ''s2''"
proof -
  have "slot_of ''s2'' (slot_edit ''mv'') \<in> set (fst (content ''mv''
      (pf_db (snd (map_serve task_env 0 redis_ok (Edit_Slot ''s2'' (slot_edit ''mv'')) editor_platform)))))"
    using slot_moved_into_published [of "''mv''" editor_platform "''s2''" draft_slot drafted "slot_edit ''mv''" task_env 0 redis_ok]
    by (simp add: closed_version_def get_map_version_def map_keys_def get_slot_def draft_def editor_defs)
  then show ?thesis by (rule rev_bexI) (simp add: slot_of_def)
qed

text \<open>Archiving a version leaves it the active version of its map.\<close>

lemma archived_stays_active:
  assumes "active_somewhere vid (pf_db p)"
  shows "active_somewhere vid (pf_db (snd (archive_version env vid p)))"
  using assms
  by (auto simp: archive_version_def Let_def committed_def and_then_def or_raise_def put_version_def active_somewhere_def
      begin_tx_def database.extend_def database.truncate_def split: sum.split option.split)

text \<open>
  A point drafted for the next version at a slot of the published one is what a task drives to: the
  task looks the point up by its slot only.
\<close>

lemma draft_point_reaches_robot:
  assumes "map_serve env n rh (New_Extinguish q) p = (Inr (), p')"
    "\<forall>x \<in> set (d_extinguish_points (pf_db p)). xp_slot_id x \<noteq> xi_slot_id q"
    "ti_slot_id t = xi_slot_id q" "target_snapshot r t ''EXTINGUISH'' (begin_tx (pf_db p')) = Inr (slot, v, pose, path)"
  shows "pose = xi_pose q \<and> draft (xi_map_version_id q) (pf_db p) \<noteq> Inl (HTTPException 409)"
proof -
  let ?db = "begin_tx (pf_db p)"
  obtain w where w: "draft (xi_map_version_id q) ?db = Inr w"
    and db': "d_extinguish_points (pf_db p') = d_extinguish_points (pf_db p) @ [extinguish_of (uuid env n) q]"
    using assms(1) by (auto simp: create_extinguish_def create_row_def committed_def add_extinguish_def integrity_def
        and_then_def Let_def split: sum.splits if_splits)
  have "draft (xi_map_version_id q) (pf_db p) = Inr w" using w by (simp add: draft_def get_map_version_def)
  moreover have "ps_id slot = ti_slot_id t"
    using assms(4) by (auto simp: target_snapshot_def Let_def get_slot_def dest!: first_row_Some split: if_splits)
  then have slot: "ps_id slot = xi_slot_id q" using assms(3) by simp
  have "first_row (\<lambda>x. xp_slot_id x = ps_id slot) (d_extinguish_points (pf_db p)) = None"
    unfolding first_row_None slot using assms(2) by blast
  then have "first_row (\<lambda>x. xp_slot_id x = ps_id slot) (d_extinguish_points (pf_db p')) = Some (extinguish_of (uuid env n) q)"
    by (simp add: db' first_row_append extinguish_of_def slot)
  then have "pose = xi_pose q"
    using assms(4) by (auto simp: target_snapshot_def extinguish_of_def Let_def split: if_splits)
  ultimately show ?thesis by simp
qed

end
