(* ===== verification/Operations.thy ===== *)
theory Operations
  imports Maps
begin

text \<open>
  The operations endpoints (\<open>operations/router.py\<close>): navigation presets and driving to one, patrol
  plans and their schedules, and the profiles of a robot - integration, motion envelope, sensor,
  external alias. The compound stop of the same file is in theory \<open>Safety_Commands\<close>, the detection
  coverage in theory \<open>Coverage\<close>. The declared ranges of a request body are the predicates
  \<open>*_input_ok\<close>; a body outside them is answered by the framework before the endpoint runs. Time
  zones and cron expressions belong to libraries and are a parameter (\<open>calendar\<close>).
\<close>

section \<open>Navigation presets\<close>

record preset_input =
  ni_map_version_id :: ident
  ni_slot_id :: "ident option"
  ni_code :: string
  ni_name :: string
  ni_category :: string
  ni_pose :: dict
  ni_position_tolerance :: real
  ni_yaw_tolerance :: real
  ni_approach :: dict
  ni_requires_reverse :: bool
  ni_is_default :: bool
  ni_enabled :: bool

definition CATEGORIES :: "string list" where
  "CATEGORIES = [''INSPECTION'', ''EXTINGUISH'', ''WAITING_AREA'', ''DOCK'']"

definition preset_input_ok :: "preset_input \<Rightarrow> bool" where
  "preset_input_ok q \<longleftrightarrow> ni_category q \<in> set CATEGORIES
     \<and> 0 < ni_position_tolerance q \<and> ni_position_tolerance q \<le> 2
     \<and> 0 < ni_yaw_tolerance q \<and> ni_yaw_tolerance q \<le> pi"

definition draft_version :: "ident \<Rightarrow> 'a database_scheme \<Rightarrow> api_error + map_version" where
  "draft_version vid db =
     and_then (or_raise (PlatformError ''RESOURCE_NOT_FOUND'') (get_map_version vid db)) (\<lambda>v.
       if mv_status v \<noteq> ''DRAFT'' then Inl (PlatformError ''MAP_VERSION_IMMUTABLE'') else Inr v)"

definition preset_integrity :: "navigation_preset \<Rightarrow> 'a database_scheme \<Rightarrow> bool" where
  "preset_integrity n db \<longleftrightarrow>
     (case np_slot_id n of None \<Rightarrow> True | Some s \<Rightarrow> get_slot s db \<noteq> None)
   \<and> (\<forall>x \<in> set (d_presets db). np_map_version_id x = np_map_version_id n \<longrightarrow>
        np_code x \<noteq> np_code n
        \<and> (np_slot_id n = None \<or> np_slot_id x \<noteq> np_slot_id n \<or> np_category x \<noteq> np_category n))"

definition preset_of :: "ident \<Rightarrow> int \<Rightarrow> preset_input \<Rightarrow> navigation_preset" where
  "preset_of nid revision q =
     \<lparr>np_id = nid, np_map_version_id = ni_map_version_id q, np_slot_id = ni_slot_id q, np_code = ni_code q,
      np_name = ni_name q, np_category = ni_category q, np_pose = ni_pose q,
      np_position_tolerance = ni_position_tolerance q, np_yaw_tolerance = ni_yaw_tolerance q,
      np_approach = ni_approach q, np_requires_reverse = ni_requires_reverse q, np_is_default = ni_is_default q,
      np_enabled = ni_enabled q, np_revision = revision\<rparr>"

definition create_preset :: "pyenv \<Rightarrow> nat \<Rightarrow> preset_input \<Rightarrow> platform \<Rightarrow> (failure + unit) \<times> platform" where
  "create_preset env n q p =
     committed (utc_now env) p
       (let db = begin_tx (pf_db p) in
        and_then (draft_version (ni_map_version_id q) db) (\<lambda>v.
          if ni_requires_reverse q then Inl (PlatformError ''REVERSE_PRECISION_UNSUPPORTED'')
          else let row = preset_of (uuid env n) (mv_revision v) q in
            and_then (integrity (preset_integrity row db)) (\<lambda>_. Inr (db\<lparr>d_presets := d_presets db @ [row]\<rparr>))))"

section \<open>Driving to a preset\<close>

definition preset_version :: "robot \<Rightarrow> ident \<Rightarrow> 'a database_scheme \<Rightarrow> api_error + (navigation_preset \<times> map_version)" where
  "preset_version r nid db =
     (case get_preset nid db of
        None \<Rightarrow> Inl (PlatformError ''RESOURCE_NOT_FOUND'')
      | Some s \<Rightarrow>
        (if \<not> np_enabled s then Inl (PlatformError ''RESOURCE_NOT_FOUND'')
         else case get_map_version (np_map_version_id s) db of
           None \<Rightarrow> Inl (PlatformError ''MAP_VERSION_NOT_PUBLISHED'')
         | Some v \<Rightarrow>
           (if mv_status v \<noteq> ''PUBLISHED'' then Inl (PlatformError ''MAP_VERSION_NOT_PUBLISHED'')
            else if \<not> same_map r v then Inl (PlatformError ''MAP_VERSION_MISMATCH'')
            else if np_requires_reverse s \<and> \<not> opt_holds ip_reverse_precision (get_integration (rb_id r) db)
            then Inl (PlatformError ''REVERSE_PRECISION_UNSUPPORTED'')
            else Inr (s, v))))"

definition navigation_parameters :: "navigation_preset \<Rightarrow> dict" where
  "navigation_parameters s =
     [(''mission_kind'', JStr ''NAVIGATE_TO_PRESET''), (''navigation_preset_id'', JStr (np_id s)),
      (''position_tolerance_m'', JFloat (np_position_tolerance s)), (''yaw_tolerance_rad'', JFloat (np_yaw_tolerance s)),
      (''pose_freshness_ms'', JInt 1000), (''required_verification_frames'', JInt 3),
      (''verification_timeout_seconds'', JInt 30)]"

definition build_navigation ::
    "pyenv \<Rightarrow> nat \<Rightarrow> redis \<Rightarrow> robot \<Rightarrow> ident \<Rightarrow> ident \<Rightarrow> tx \<Rightarrow> api_error + (task \<times> command \<times> tx)" where
  "build_navigation env n redis r actor nid db =
     and_then (preset_version r nid db) (\<lambda>(s, v).
       let t = (new_task env n r actor ''NAVIGATE_TO_PRESET'' ''CREATED'' (np_pose s) (mv_map_id v) (mv_version v)
                  (np_revision s) JNull (navigation_parameters s))\<lparr>tk_code := task_code env n ''N''\<rparr>
       in launch env n redis r actor ''patrol''
            [(''task_id'', JStr (tk_id t)), (''mission_kind'', JStr ''NAVIGATE_TO_PRESET''),
             (''navigation_preset_id'', JStr (np_id s)), (''target_pose'', JObj (np_pose s)),
             (''map_id'', JStr (mv_map_id v)), (''map_version'', JStr (mv_version v)),
             (''semantic_revision'', JInt (np_revision s))] 55 t db)"

definition navigate_to_preset ::
    "pyenv \<Rightarrow> nat \<Rightarrow> (dict \<Rightarrow> string) \<Rightarrow> redis_health \<Rightarrow> string \<Rightarrow> ident \<Rightarrow> ident \<Rightarrow> string \<Rightarrow> platform \<Rightarrow>
     (failure + dict) \<times> platform" where
  "navigate_to_preset env n H rh rid nid actor key p = with_robot rid p (\<lambda>r.
     let endpoint = robot_endpoint r ''/navigate-preset''; body = [(''navigation_preset_id'', JStr nid)] in
     once H actor endpoint key body p
       (finish_task env H rh actor endpoint key body p
          (build_navigation env n (pf_redis p) r actor nid (begin_tx (pf_db p)))))"

section \<open>Patrol plans\<close>

record point_input =
  qi_preset_id :: ident
  qi_sequence :: int
  qi_dwell :: int
  qi_observations :: "string list"

record plan_creation =
  ci_code :: string
  ci_name :: string
  ci_robot_id :: ident
  ci_map_version_id :: ident
  ci_trajectory_id :: "ident option"
  ci_enabled :: bool
  ci_points :: "point_input list"

definition plan_point :: "ident \<Rightarrow> point_input \<Rightarrow> patrol_point" where
  "plan_point pid q = \<lparr>pt_plan_id = pid, pt_preset_id = qi_preset_id q, pt_sequence = qi_sequence q,
     pt_dwell = qi_dwell q, pt_observations = JArr (map JStr (qi_observations q))\<rparr>"

fun check_points :: "ident \<Rightarrow> point_input list \<Rightarrow> 'a database_scheme \<Rightarrow> api_error + unit" where
  "check_points vid [] db = Inr ()"
| "check_points vid (q # qs) db =
     (case get_preset (qi_preset_id q) db of
        None \<Rightarrow> Inl (PlatformError ''MAP_VERSION_MISMATCH'')
      | Some s \<Rightarrow> if np_map_version_id s \<noteq> vid then Inl (PlatformError ''MAP_VERSION_MISMATCH'')
                  else check_points vid qs db)"

definition plan_of :: "ident \<Rightarrow> robot \<Rightarrow> map_version \<Rightarrow> ident \<Rightarrow> plan_creation \<Rightarrow> patrol_plan" where
  "plan_of pid r v actor q =
     \<lparr>pp_id = pid, pp_code = ci_code q, pp_name = ci_name q, pp_robot_id = rb_id r, pp_map_version_id = mv_id v,
      pp_trajectory_id = ci_trajectory_id q, pp_enabled = ci_enabled q, pp_created_by = actor\<rparr>"

definition plan_integrity :: "patrol_plan \<Rightarrow> 'a database_scheme \<Rightarrow> bool" where
  "plan_integrity x db \<longleftrightarrow> (\<forall>y \<in> set (d_plans db). pp_code y \<noteq> pp_code x) \<and> pp_trajectory_id x \<noteq> Some []"

definition create_patrol_plan ::
    "pyenv \<Rightarrow> nat \<Rightarrow> plan_creation \<Rightarrow> ident \<Rightarrow> platform \<Rightarrow> (failure + unit) \<times> platform" where
  "create_patrol_plan env n q actor p =
     (case find_robot (ci_robot_id q) (pf_db p) of
        None \<Rightarrow> (Inl not_found, p)
      | Some r \<Rightarrow> committed (utc_now env) p
          (let db = begin_tx (pf_db p) in
           and_then (or_raise (PlatformError ''RESOURCE_NOT_FOUND'') (get_map_version (ci_map_version_id q) db)) (\<lambda>v.
           if given (ci_trajectory_id q) \<noteq> None \<and> get_trajectory (ci_trajectory_id q) db = None
           then Inl (PlatformError ''RESOURCE_NOT_FOUND'')
           else let row = plan_of (uuid env n) r v actor q in
             and_then (integrity (plan_integrity row db)) (\<lambda>_.
             and_then (check_points (mv_id v) (ci_points q) db) (\<lambda>_.
             and_then (integrity (distinct (map qi_sequence (ci_points q)))) (\<lambda>_.
               Inr (db\<lparr>d_plans := d_plans db @ [row],
                       d_plan_points := d_plan_points db @ map (plan_point (pp_id row)) (ci_points q)\<rparr>)))))))"

section \<open>Schedules\<close>

record calendar =
  ca_zone :: "string \<Rightarrow> bool"
  ca_valid :: "string \<Rightarrow> bool"
  ca_next :: "string \<Rightarrow> string \<Rightarrow> micros \<Rightarrow> micros"

definition next_schedule_run :: "calendar \<Rightarrow> string \<Rightarrow> string \<Rightarrow> micros \<Rightarrow> api_error + micros" where
  "next_schedule_run ca expression tz start =
     (if \<not> ca_zone ca tz then Inl (PlatformError ''INVALID_TIMEZONE'')
      else if \<not> ca_valid ca expression then Inl (PlatformError ''INVALID_CRON'')
      else Inr (ca_next ca expression tz start))"

record schedule_input =
  hi_plan_id :: ident
  hi_cron :: string
  hi_timezone :: string
  hi_enabled :: bool
  hi_misfire_policy :: string
  hi_misfire_grace :: int
  hi_overlap_policy :: string
  hi_queue_expiry :: int
  hi_require_online :: bool
  hi_require_control :: bool
  hi_require_map :: bool

definition schedule_input_ok :: "schedule_input \<Rightarrow> bool" where
  "schedule_input_ok q \<longleftrightarrow> hi_misfire_policy q \<in> {''SKIP'', ''RUN_IF_WITHIN_WINDOW''}
     \<and> hi_overlap_policy q \<in> {''SKIP'', ''QUEUE'', ''REJECT''}
     \<and> 0 \<le> hi_misfire_grace q \<and> hi_misfire_grace q \<le> 86400 \<and> 1 \<le> hi_queue_expiry q \<and> hi_queue_expiry q \<le> 86400"

definition schedule_of :: "ident \<Rightarrow> micros \<Rightarrow> ident \<Rightarrow> schedule_input \<Rightarrow> patrol_schedule" where
  "schedule_of sid t actor q =
     \<lparr>sc_id = sid, sc_plan_id = hi_plan_id q, sc_cron = hi_cron q, sc_timezone = hi_timezone q, sc_enabled = hi_enabled q,
      sc_misfire_policy = hi_misfire_policy q, sc_misfire_grace = hi_misfire_grace q,
      sc_overlap_policy = hi_overlap_policy q, sc_queue_expiry = hi_queue_expiry q,
      sc_require_online = hi_require_online q, sc_require_control = hi_require_control q,
      sc_require_map = hi_require_map q, sc_next_run = Some t, sc_last_run = None, sc_created_by = actor\<rparr>"

definition create_schedule ::
    "pyenv \<Rightarrow> nat \<Rightarrow> calendar \<Rightarrow> schedule_input \<Rightarrow> ident \<Rightarrow> platform \<Rightarrow> (failure + unit) \<times> platform" where
  "create_schedule env n ca q actor p =
     committed (utc_now env) p
       (let db = begin_tx (pf_db p) in
        and_then (or_raise (PlatformError ''RESOURCE_NOT_FOUND'') (get_plan (hi_plan_id q) db)) (\<lambda>_.
        and_then (next_schedule_run ca (hi_cron q) (hi_timezone q) (utc_now env)) (\<lambda>t.
          Inr (db\<lparr>d_schedules := d_schedules db @ [schedule_of (uuid env n) t actor q]\<rparr>))))"

section \<open>Profiles of a robot\<close>

record integration_input =
  gi_source_kind :: string
  gi_control_verified :: bool
  gi_ack_verified :: bool
  gi_map_verified :: bool
  gi_bidirectional_verified :: bool
  gi_path_verified :: bool
  gi_arbitration_verified :: bool
  gi_ros_control_mode :: "int option"
  gi_stale_seconds :: int
  gi_offline_seconds :: int
  gi_forward_only :: bool
  gi_reverse_precision :: bool

definition integration_input_ok :: "integration_input \<Rightarrow> bool" where
  "integration_input_ok q \<longleftrightarrow> gi_source_kind q \<in> {''CANONICAL_MQTT'', ''ROS_COMPAT'', ''MOCK''}
     \<and> 2 \<le> gi_stale_seconds q \<and> gi_stale_seconds q \<le> 120 \<and> 3 \<le> gi_offline_seconds q \<and> gi_offline_seconds q \<le> 600
     \<and> (case gi_ros_control_mode q of None \<Rightarrow> True | Some m \<Rightarrow> 0 \<le> m \<and> m \<le> 255)"

definition assign_integration :: "micros \<Rightarrow> integration_input \<Rightarrow> integration \<Rightarrow> integration" where
  "assign_integration now q i =
     i\<lparr>ip_source_kind := gi_source_kind q, ip_control_verified := gi_control_verified q,
       ip_ack_verified := gi_ack_verified q, ip_map_verified := gi_map_verified q,
       ip_bidirectional_verified := gi_bidirectional_verified q, ip_path_verified := gi_path_verified q,
       ip_arbitration_verified := gi_arbitration_verified q, ip_ros_control_mode := gi_ros_control_mode q,
       ip_stale_seconds := gi_stale_seconds q, ip_offline_seconds := gi_offline_seconds q,
       ip_forward_only := gi_forward_only q, ip_reverse_precision := gi_reverse_precision q,
       ip_verified_at := (if gi_control_verified q \<and> gi_ack_verified q \<and> gi_map_verified q then Some now else None)\<rparr>"

text \<open>The columns of a new profile that the request does not name.\<close>

definition new_integration :: "ident \<Rightarrow> integration" where
  "new_integration rid =
     \<lparr>ip_robot_id = rid, ip_source_kind = ''CANONICAL_MQTT'', ip_bridge_boot_id = None, ip_availability = None,
      ip_control_verified = False, ip_ack_verified = False, ip_map_verified = False,
      ip_bidirectional_verified = False, ip_path_verified = False, ip_arbitration_verified = False,
      ip_ros_control_mode = None, ip_stale_seconds = 3, ip_offline_seconds = 10, ip_last_source = None,
      ip_last_received = None, ip_compat_sequence = [], ip_forward_only = True, ip_reverse_precision = False,
      ip_verified_at = None\<rparr>"

definition update_integration ::
    "pyenv \<Rightarrow> string \<Rightarrow> integration_input \<Rightarrow> platform \<Rightarrow> (failure + unit) \<times> platform" where
  "update_integration env rid q p =
     (case find_robot rid (pf_db p) of
        None \<Rightarrow> (Inl not_found, p)
      | Some r \<Rightarrow> committed (utc_now env) p
          (let db = begin_tx (pf_db p) in
           case get_integration (rb_id r) db of
             None \<Rightarrow> Inr (db\<lparr>d_integrations :=
                       d_integrations db @ [assign_integration (utc_now env) q (new_integration (rb_id r))]\<rparr>)
           | Some i \<Rightarrow> Inr (db\<lparr>d_integrations := upd_rows (\<lambda>x. ip_robot_id x = rb_id r)
                          (assign_integration (utc_now env) q) (d_integrations db)\<rparr>)))"

record motion_input =
  oi_forward :: "real option"
  oi_reverse :: "real option"
  oi_angular :: "real option"
  oi_watchdog_verified :: bool
  oi_reverse_allowed :: bool
  oi_reverse_precision :: bool

definition limit_ok :: "real \<Rightarrow> real option \<Rightarrow> bool" where
  "limit_ok m x \<longleftrightarrow> (case x of None \<Rightarrow> True | Some v \<Rightarrow> 0 < v \<and> v \<le> m)"

definition motion_input_ok :: "motion_input \<Rightarrow> bool" where
  "motion_input_ok q \<longleftrightarrow> limit_ok 2 (oi_forward q) \<and> limit_ok 2 (oi_reverse q) \<and> limit_ok 3 (oi_angular q)"

definition motion_of :: "ident \<Rightarrow> motion_input \<Rightarrow> motion_profile" where
  "motion_of rid q = \<lparr>mp_robot_id = rid, mp_forward = oi_forward q, mp_reverse = oi_reverse q,
     mp_angular = oi_angular q, mp_watchdog_verified = oi_watchdog_verified q,
     mp_reverse_allowed = oi_reverse_allowed q, mp_reverse_precision = oi_reverse_precision q\<rparr>"

definition put_motion :: "motion_profile \<Rightarrow> tx \<Rightarrow> tx" where
  "put_motion m db =
     (case get_motion (mp_robot_id m) db of
        None \<Rightarrow> db\<lparr>d_motion := d_motion db @ [m]\<rparr>
      | Some _ \<Rightarrow> db\<lparr>d_motion := upd_rows (\<lambda>x. mp_robot_id x = mp_robot_id m) (\<lambda>_. m) (d_motion db)\<rparr>)"

definition update_motion_profile ::
    "pyenv \<Rightarrow> string \<Rightarrow> motion_input \<Rightarrow> platform \<Rightarrow> (failure + unit) \<times> platform" where
  "update_motion_profile env rid q p =
     (case find_robot rid (pf_db p) of
        None \<Rightarrow> (Inl not_found, p)
      | Some r \<Rightarrow> committed (utc_now env) p
          (if oi_watchdog_verified q \<and> (oi_forward q = None \<or> oi_angular q = None)
           then Inl (PlatformError ''MOTION_PROFILE_INCOMPLETE'')
           else if oi_reverse_allowed q \<and> oi_reverse q = None
           then Inl (PlatformError ''MOTION_PROFILE_INCOMPLETE'')
           else Inr (put_motion (motion_of (rb_id r) q) (begin_tx (pf_db p)))))"

definition put_sensor :: "sensor_profile \<Rightarrow> tx \<Rightarrow> tx" where
  "put_sensor s db =
     (let same = (\<lambda>x. sp_robot_id x = sp_robot_id s \<and> sp_channel x = sp_channel s) in
      case first_row same (d_sensor_profiles db) of
        None \<Rightarrow> db\<lparr>d_sensor_profiles := d_sensor_profiles db @ [s]\<rparr>
      | Some _ \<Rightarrow> db\<lparr>d_sensor_profiles := upd_rows same (\<lambda>_. s) (d_sensor_profiles db)\<rparr>)"

definition sensor_input_ok :: "sensor_profile \<Rightarrow> bool" where
  "sensor_input_ok s \<longleftrightarrow>
     sp_support s \<in> {''CONNECTED'', ''STALE'', ''NOT_CONNECTED'', ''ERROR'', ''UNSUPPORTED''}
     \<and> sp_nominal_side s \<in> {''RIGHT'', ''LEFT'', ''FRONT'', ''REAR''}
     \<and> 0 < sp_range s \<and> sp_range s \<le> 100 \<and> 0 < sp_fov s \<and> sp_fov s \<le> pi * 2"

text \<open>The request body has the columns of the profile but the robot.\<close>

definition update_sensor_profile ::
    "pyenv \<Rightarrow> string \<Rightarrow> string \<Rightarrow> sensor_profile \<Rightarrow> platform \<Rightarrow> (failure + unit) \<times> platform" where
  "update_sensor_profile env rid channel q p =
     (case find_robot rid (pf_db p) of
        None \<Rightarrow> (Inl not_found, p)
      | Some r \<Rightarrow> committed (utc_now env) p
          (if sp_channel q \<noteq> channel then Inl (PlatformError ''CHANNEL_MISMATCH'')
           else Inr (put_sensor (q\<lparr>sp_robot_id := rb_id r\<rparr>) (begin_tx (pf_db p)))))"

definition discovery_key :: "string \<Rightarrow> string" where
  "discovery_key external = ''ros_compat:discovery:'' @ external"

definition confirm_alias ::
    "pyenv \<Rightarrow> string \<Rightarrow> string \<Rightarrow> ident \<Rightarrow> platform \<Rightarrow> (failure + unit) \<times> platform" where
  "confirm_alias env rid external actor p =
     (case find_robot rid (pf_db p) of
        None \<Rightarrow> (Inl not_found, p)
      | Some r \<Rightarrow>
        (let db = begin_tx (pf_db p); found = first_row (\<lambda>x. ea_external_id x = external) (d_aliases db);
             p1 = p\<lparr>pf_redis := redis_delete (discovery_key external) (pf_redis p)\<rparr>
         in case found of
              None \<Rightarrow> (Inr (), commit (utc_now env) (db\<lparr>d_aliases := d_aliases db @
                        [\<lparr>ea_robot_id = rb_id r, ea_external_id = external, ea_state = ''CONFIRMED'',
                          ea_confirmed_by = Some actor, ea_confirmed_at = Some (utc_now env)\<rparr>]\<rparr>) p1)
            | Some a \<Rightarrow> (if ea_robot_id a \<noteq> rb_id r then (Inl (Api (PlatformError ''EXTERNAL_ID_CONFLICT'')), p)
                         else (Inr (), commit (utc_now env) db p1))))"

end
