(* ===== verification/Operations_Safety.thy ===== *)
theory Operations_Safety
  imports Operations Task_Safety Worker_Safety Ingress_Handlers Command_Safety
begin

text \<open>
  What the operations endpoints guarantee beyond themselves: a navigation that succeeds ended at its
  preset, manual speeds stay within the declared ranges - and a plan that follows a trajectory of
  another map.
\<close>

section \<open>Driving to a preset\<close>

text \<open>The pose of one verification pass is fresh, localised and within the tolerances of the preset.\<close>

definition at_preset :: "navigation_preset \<Rightarrow> pose_pass \<Rightarrow> bool" where
  "at_preset s p \<longleftrightarrow> localization_ok (pp_latest p)
     \<and> pose_within (pp_env p) (navigation_parameters s) (np_pose s) (pp_latest p) = Inr True
     \<and> (case iso_aware (pp_env p) (jget (pp_latest p) ''server_received_at'') of
          None \<Rightarrow> False | Some t \<Rightarrow> elapsed_seconds (pp_now p) t \<le> 1)"

lemma build_navigationE:
  assumes "build_navigation env n redis r actor nid db = Inr (t, c, db')"
  obtains s v where "get_preset nid db = Some s" "np_enabled s" "get_map_version (np_map_version_id s) db = Some v"
    "mv_status v = ''PUBLISHED''" "same_map r v" "tk_type t = ''NAVIGATE_TO_PRESET''" "tk_status t = ''QUEUED''"
    "tk_pose t = np_pose s" "tk_parameters t = navigation_parameters s"
proof -
  obtain s v where sv: "preset_version r nid db = Inr (s, v)"
    and l: "launch env n redis r actor ''patrol''
            [(''task_id'', JStr (uuid env (n + 1))), (''mission_kind'', JStr ''NAVIGATE_TO_PRESET''),
             (''navigation_preset_id'', JStr (np_id s)), (''target_pose'', JObj (np_pose s)),
             (''map_id'', JStr (mv_map_id v)), (''map_version'', JStr (mv_version v)),
             (''semantic_revision'', JInt (np_revision s))] 55
            ((new_task env n r actor ''NAVIGATE_TO_PRESET'' ''CREATED'' (np_pose s) (mv_map_id v) (mv_version v)
                  (np_revision s) JNull (navigation_parameters s))\<lparr>tk_code := task_code env n ''N''\<rparr>) db = Inr (t, c, db')"
    using assms by (auto simp: build_navigation_def Let_def new_task_def)
  from sv have "get_preset nid db = Some s" "np_enabled s" "get_map_version (np_map_version_id s) db = Some v"
    "mv_status v = ''PUBLISHED''" "same_map r v"
    by (auto simp: preset_version_def split: option.splits if_splits)
  moreover have "t = queued ((new_task env n r actor ''NAVIGATE_TO_PRESET'' ''CREATED'' (np_pose s) (mv_map_id v) (mv_version v)
                  (np_revision s) JNull (navigation_parameters s))\<lparr>tk_code := task_code env n ''N''\<rparr>)"
    using l by (rule launchE) simp
  ultimately show thesis by (intro that) (simp_all add: queued_def new_task_def)
qed

lemma reported_arrival:
  assumes "reported_status env ''SUCCEEDED'' msg received t = Inr t1" "tk_type t = ''NAVIGATE_TO_PRESET''"
  shows "awaiting_pose t1" "tk_pose t1 = tk_pose t"
    "tk_parameters t1 = jset ''pose_verification_frames'' (JInt 0)
       (jset ''vehicle_completed_reported_at'' (JStr (iso_format env received)) (tk_parameters t))"
  using assms by (auto simp: reported_status_def awaits_verification_def awaiting_pose_def bind_Inr)

lemma good_pose_at_preset:
  assumes "good_pose t p" "tk_pose t = np_pose s"
    "tk_parameters t = jset ''pose_verification_frames'' a (jset ''vehicle_completed_reported_at'' b (navigation_parameters s))"
  shows "at_preset s p"
proof -
  have "jget_or (tk_parameters t) ''position_tolerance_m'' d = jget_or (navigation_parameters s) ''position_tolerance_m'' d"
    "jget_or (tk_parameters t) ''yaw_tolerance_rad'' d = jget_or (navigation_parameters s) ''yaw_tolerance_rad'' d" for d
    by (simp_all add: assms(3) jget_or_jset)
  then have "pose_within (pp_env p) (tk_parameters t) (tk_pose t) (pp_latest p)
      = pose_within (pp_env p) (navigation_parameters s) (np_pose s) (pp_latest p)"
    by (simp only: pose_within_def assms(2))
  moreover have "jget_or (tk_parameters t) ''pose_freshness_ms'' (JInt 1000) = JInt 1000"
    by (simp add: assms(3) jget_or_jset) (simp add: navigation_parameters_def jget_or_def)
  ultimately show ?thesis
    using assms(1)
    by (auto simp: good_pose_def at_preset_def pose_sample_def Let_def split: if_splits option.splits)
qed

text \<open>
  Property C33. A navigation that is marked SUCCEEDED ended where it was sent: after the vehicle
  reported completion, three consecutive verification passes saw a fresh, localised pose within the
  position and heading tolerances of the preset the operator chose, which was enabled and belonged
  to the published map the robot was on when the task was created.
\<close>

theorem navigation_ends_at_preset:
  assumes "build_navigation env n redis r actor nid db = Inr (t, c, db')"
    "reported_status env' ''SUCCEEDED'' msg received t = Inr t1"
    "pose_history t1 ps = Inr t2" "tk_status t2 = ''SUCCEEDED''"
  shows "\<exists>s v m. get_preset nid db = Some s \<and> np_enabled s \<and> get_map_version (np_map_version_id s) db = Some v
    \<and> mv_status v = ''PUBLISHED'' \<and> same_map r v
    \<and> 3 \<le> length (drop m ps) \<and> (\<forall>p \<in> set (take 3 (drop m ps)). at_preset s p)"
  using assms(1)
proof (rule build_navigationE)
  fix s v
  assume s: "get_preset nid db = Some s" "np_enabled s" "get_map_version (np_map_version_id s) db = Some v"
    "mv_status v = ''PUBLISHED''" "same_map r v" "tk_type t = ''NAVIGATE_TO_PRESET''"
    "tk_pose t = np_pose s" "tk_parameters t = navigation_parameters s"
  note r = reported_arrival [OF assms(2) s(6), unfolded s(7,8)]
  have "frames_of t1 = JInt 0" by (simp add: frames_of_def r(3) jget_or_jset)
  moreover have "jget_or (tk_parameters t1) ''required_verification_frames'' (JInt 3) = JInt (int 3)"
    by (simp add: r(3) jget_or_jset) (simp add: navigation_parameters_def jget_or_def)
  ultimately obtain m where "3 \<le> length (drop m ps)" "\<forall>p \<in> set (take 3 (drop m ps)). good_pose t1 p"
    using pose_history_invariant [OF assms(3) r(1), of 3] assms(4) by auto
  then show ?thesis using s good_pose_at_preset [OF _ r(2,3)] by blast
qed

definition arrived_parameters :: dict where
  "arrived_parameters = jset ''vehicle_completed_reported_at'' (JStr (decimal_format 0)) (navigation_parameters demo_preset)"

lemma arrived_lookups:
  "jget_or arrived_parameters ''position_tolerance_m'' d = JFloat 1"
  "jget_or arrived_parameters ''yaw_tolerance_rad'' d = JFloat 1"
  "jget_or arrived_parameters ''pose_freshness_ms'' d = JInt 1000"
  "jget_or arrived_parameters ''required_verification_frames'' d = JInt 3"
  "jget_or arrived_parameters ''verification_timeout_seconds'' d = JInt 30"
  "jget_or arrived_parameters ''vehicle_completed_reported_at'' d = JStr (decimal_format 0)"
  by (simp_all add: arrived_parameters_def jget_or_jset)
    (simp_all add: navigation_parameters_def demo_preset_def jget_or_def)

lemma demo_zero: "decimal_parse (decimal_format 0) = Iso_Aware 0" "decimal_format 0 \<noteq> []"
  "decimal_parse ''+0'' = Iso_Aware 0"
  "undigits ''0'' = 0"
  by code_simp+

lemma arrived_verify:
  assumes "tk_pose t = []" "frames_of t = JInt f" "n \<in> {0..1000000}"
    "\<And>k d. k \<noteq> ''pose_verification_frames'' \<Longrightarrow> jget_or (tk_parameters t) k d = jget_or arrived_parameters k d"
  shows "verify_pose (plain_env n) n (pp_latest (demo_pose n)) t
     = judge_pose (plain_env n) n (Iso_Aware 0) (f + 1)
         (t\<lparr>tk_parameters := jset ''pose_verification_frames'' (JInt (f + 1)) (tk_parameters t)\<rparr>)"
proof -
  have loc: "localization_ok (pp_latest (demo_pose n))" by (simp add: localization_ok_def demo_pose_def)
  have lookups: "jget_or (tk_parameters t) ''position_tolerance_m'' d = JFloat 1"
    "jget_or (tk_parameters t) ''yaw_tolerance_rad'' d = JFloat 1"
    "jget_or (tk_parameters t) ''pose_freshness_ms'' d = JInt 1000"
    "jget_or (tk_parameters t) ''vehicle_completed_reported_at'' d = JStr (decimal_format 0)" for d
    using assms(4) arrived_lookups by simp_all
  have iso: "iso_parse (plain_env n) = decimal_parse" by (simp add: plain_env_def)
  have rep: "reported_time (plain_env n) t = Iso_Aware 0"
    by (simp add: reported_time_def jget_or_JNull lookups iso demo_zero)
  have rec: "iso_aware (plain_env n) (jget (pp_latest (demo_pose n)) ''server_received_at'') = Some 0"
    "truthy (jget (pp_latest (demo_pose n)) ''server_received_at'')"
    by (simp_all add: demo_pose_def iso_aware_def iso demo_zero)
  have s: "pose_sample (plain_env n) n t (pp_latest (demo_pose n)) = (Iso_Aware 0, True)"
    using assms(3) by (simp add: pose_sample_def Let_def rep rec lookups elapsed_seconds_def)
  have w: "pose_within (plain_env n) (tk_parameters t) [] (pp_latest (demo_pose n)) = Inr True"
    by (simp add: pose_within_def demo_pose_def angle_error_def lookups)
  show ?thesis
    using assms(1,2) by (simp add: verify_pose_def w s loc frames_of_def pose_frames_def Let_def)
qed

definition completion :: dict where
  "completion = [(''progress'', JInt 100), (''phase'', JStr ''DONE'')]"

lemma demo_navigation:
  "case build_navigation task_env 0 (pf_redis field_platform) demo_robot ''u'' ''np'' (begin_tx (pf_db field_platform)) of
     Inl e \<Rightarrow> False | Inr (t, c, db) \<Rightarrow> tk_status t = ''QUEUED''"
  by code_simp

lemma navigation_ends_at_preset_witness:
  "\<exists>t c db' m. build_navigation task_env 0 (pf_redis field_platform) demo_robot ''u'' ''np'' (begin_tx (pf_db field_platform))
        = Inr (t, c, db')
     \<and> (\<forall>p \<in> set (take 3 (drop m [demo_pose 900000, demo_pose 600000, demo_pose 300000])). at_preset demo_preset p)"
proof -
  let ?db = "begin_tx (pf_db field_platform)"
  let ?ps = "[demo_pose 900000, demo_pose 600000, demo_pose 300000]"
  have preset: "get_preset ''np'' ?db = Some demo_preset"
    by (simp add: field_platform_def demo_platform_def demo_db_def empty_db_def get_preset_def demo_preset_def
        begin_tx_def database.extend_def)
  obtain t c db' where built:
    "build_navigation task_env 0 (pf_redis field_platform) demo_robot ''u'' ''np'' ?db = Inr (t, c, db')"
    using demo_navigation by (auto split: sum.splits)
  obtain s where s: "get_preset ''np'' ?db = Some s" "tk_type t = ''NAVIGATE_TO_PRESET''" "tk_pose t = np_pose s"
    "tk_parameters t = navigation_parameters s"
    by (rule build_navigationE [OF built]) (rule that)
  then have "s = demo_preset" using preset by simp
  then have t: "tk_type t = ''NAVIGATE_TO_PRESET''" "tk_pose t = []" "tk_parameters t = navigation_parameters demo_preset"
    using s by (simp_all add: demo_preset_def)
  obtain t1 where t1: "reported_status (plain_env 0) ''SUCCEEDED'' completion 0 t = Inr t1"
    using t(1) by (simp add: reported_status_def awaits_verification_def completion_def jget_def)
  note r = reported_arrival [OF t1 t(1), unfolded t(2,3)]
  have params: "tk_parameters t1 = jset ''pose_verification_frames'' (JInt 0) arrived_parameters"
    by (simp add: r(3) arrived_parameters_def plain_env_def)
  have p: "pp_env (demo_pose n) = plain_env n" "pp_now (demo_pose n) = n" for n by (simp_all add: demo_pose_def)
  have keep: "awaiting_pose (t\<lparr>tk_parameters := x\<rparr>) = awaiting_pose t" for t x by (simp add: awaiting_pose_def)
  obtain t2 where t2: "pose_history t1 ?ps = Inr t2" "tk_status t2 = ''SUCCEEDED''"
    by (simp add: p r(1,2) params keep arrived_verify [where f = 0] arrived_verify [where f = 1] arrived_verify [where f = 2]
        frames_of_def judge_pose_def jget_or_jset elapsed_seconds_def arrived_lookups)
  from navigation_ends_at_preset [OF built t1 t2] preset built show ?thesis by auto
qed

section \<open>Manual speeds\<close>

definition sound_motion :: "motion_profile \<Rightarrow> bool" where
  "sound_motion m \<longleftrightarrow> limit_ok 2 (mp_forward m) \<and> limit_ok 2 (mp_reverse m) \<and> limit_ok 3 (mp_angular m)
     \<and> (mp_watchdog_verified m \<longrightarrow> mp_forward m \<noteq> None \<and> mp_angular m \<noteq> None)
     \<and> (mp_reverse_allowed m \<longrightarrow> mp_reverse m \<noteq> None)"

definition sound_motions :: "'a database_scheme \<Rightarrow> bool" where
  "sound_motions db \<longleftrightarrow> (\<forall>m \<in> set (d_motion db). sound_motion m)"

definition slow_pulse :: "dict \<Rightarrow> bool" where
  "slow_pulse pulse \<longleftrightarrow>
     (case (jget (as_dict (jget pulse ''params'')) ''linear_x'', jget (as_dict (jget pulse ''params'')) ''angular_z'') of
        (JFloat v, JFloat w) \<Rightarrow> \<bar>v\<bar> \<le> 2 \<and> \<bar>w\<bar> \<le> 3
      | _ \<Rightarrow> False)"

lemma put_motion_rows: "set (d_motion (put_motion m db)) \<subseteq> insert m (set (d_motion db))"
  by (auto simp: put_motion_def upd_rows_def split: option.splits)

lemma update_motion_sound:
  assumes "sound_motions (pf_db p)" "motion_input_ok q"
  shows "sound_motions (pf_db (snd (update_motion_profile env rid q p)))"
proof (cases "find_robot rid (pf_db p)")
  case None
  then show ?thesis using assms(1) by (simp add: update_motion_profile_def)
next
  case (Some r)
  let ?m = "motion_of (rb_id r) q"
  show ?thesis
  proof (cases "oi_watchdog_verified q \<and> (oi_forward q = None \<or> oi_angular q = None) \<or> oi_reverse_allowed q \<and> oi_reverse q = None")
    case True
    then show ?thesis using assms(1) Some by (auto simp: update_motion_profile_def committed_def)
  next
    case False
    then have "sound_motion ?m" using assms(2) by (auto simp: sound_motion_def motion_of_def motion_input_ok_def)
    moreover have "d_motion (pf_db (snd (update_motion_profile env rid q p))) = d_motion (put_motion ?m (begin_tx (pf_db p)))"
      using False Some by (auto simp: update_motion_profile_def committed_def database.truncate_def)
    ultimately show ?thesis
      using assms(1) put_motion_rows [of ?m "begin_tx (pf_db p)"] by (auto simp: sound_motions_def)
  qed
qed

lemma manual_pulse_sources:
  assumes "pf_manual (snd (manual env n ttl rid actor q p)) \<noteq> pf_manual p"
  obtains r m fwd ang where "find_robot rid (pf_db p) = Some r" "get_motion (rb_id r) (begin_tx (pf_db p)) = Some m"
    "mp_forward m = Some fwd" "mp_angular m = Some ang"
  using assms
  by (auto simp: manual_def with_robot_def Let_def split: option.splits if_splits sum.splits)



section \<open>A plan with the trajectory of another map\<close>

lemma created_plan:
  assumes "create_patrol_plan env n q actor p = (Inr (), p')"
  obtains r v where "find_robot (ci_robot_id q) (pf_db p) = Some r" "get_map_version (ci_map_version_id q) (pf_db p) = Some v"
    "d_plans (pf_db p') = d_plans (pf_db p) @ [plan_of (uuid env n) r v actor q]"
    "d_trajectories (pf_db p') = d_trajectories (pf_db p)" "d_map_versions (pf_db p') = d_map_versions (pf_db p)"
  using assms
  by (auto simp: create_patrol_plan_def committed_def Let_def integrity_def get_map_version_def database.truncate_def
      begin_tx_def database.extend_def split: option.splits sum.splits if_splits)

lemma begin_tx_rows: "d_trajectories (begin_tx db) = d_trajectories db" "d_map_versions (begin_tx db) = d_map_versions db"
  by (simp_all add: begin_tx_def database.extend_def)

lemma patrol_task_path:
  assumes "build_patrol_task env n redis plan r actor source sch occ db = Inr (t, c, db')"
  shows "tk_trajectory t = trajectory_json (get_trajectory (pp_trajectory_id plan) db)"
    "\<exists>v. get_map_version (pp_map_version_id plan) db = Some v \<and> tk_map_id t = mv_map_id v \<and> tk_map_version t = mv_version v"
proof -
  let ?path = "trajectory_json (get_trajectory (pp_trajectory_id plan) db)"
  obtain v where v: "plan_version plan db = Inr v" "same_map r v"
    using assms by (cases "plan_version plan db") (auto simp: build_patrol_task_eq split: if_splits)
  obtain first rest where points: "with_presets (plan_points (pp_id plan) db) db = Some (first # rest)"
    using assms v by (auto simp: build_patrol_task_eq split: option.splits list.splits)
  let ?t = "new_task env n r actor ''PATROL'' ''PATROL_PLAN_TRIGGERED'' (np_pose (snd first))
              (mv_map_id v) (mv_version v) (mv_revision v) ?path
              [(''source'', source), (''patrol_plan_id'', JStr (pp_id plan)),
               (''schedule_id'', jopt sch), (''occurrence_id'', jopt occ), (''points'', JArr (map point_snapshot (first # rest)))]"
  obtain params where l: "launch env n redis r actor ''patrol'' params 50 ?t db = Inr (t, c, db')"
    using assms v points by (simp add: build_patrol_task_eq Let_def)
  have found: "get_map_version (pp_map_version_id plan) db = Some v"
    using v(1) by (auto simp: plan_version_def split: option.splits if_splits)
  from l have "t = queued ?t"
    by (rule launchE) simp
  with found show "tk_trajectory t = trajectory_json (get_trajectory (pp_trajectory_id plan) db)"
    "\<exists>v. get_map_version (pp_map_version_id plan) db = Some v \<and> tk_map_id t = mv_map_id v \<and> tk_map_version t = mv_version v"
    by (simp_all add: queued_def new_task_def)
qed

text \<open>
  A plan may follow the trajectory of another map: its creation checks that the
  trajectory exists but, unlike for its points, not that it belongs to the map version of the plan,
  and the patrol built from the plan sends that path to the robot under the name of the plan's map.
\<close>

lemma plan_follows_foreign_trajectory:
  assumes "create_patrol_plan env n q actor p = (Inr (), p')"
    "get_trajectory (ci_trajectory_id q) (pf_db p) = Some path" "tj_map_version_id path \<noteq> ci_map_version_id q"
    "build_patrol_task env' n' redis (List.last (d_plans (pf_db p'))) r actor' source sch occ (begin_tx (pf_db p')) = Inr (t, c, db')"
  shows "tk_trajectory t = JArr (tj_path path)
    \<and> (\<exists>v. get_map_version (ci_map_version_id q) (pf_db p) = Some v \<and> mv_id v \<noteq> tj_map_version_id path
         \<and> tk_map_id t = mv_map_id v \<and> tk_map_version t = mv_version v)"
proof -
  obtain r v where p': "get_map_version (ci_map_version_id q) (pf_db p) = Some v"
    "d_plans (pf_db p') = d_plans (pf_db p) @ [plan_of (uuid env n) r v actor q]"
    "d_trajectories (pf_db p') = d_trajectories (pf_db p)" "d_map_versions (pf_db p') = d_map_versions (pf_db p)"
    using created_plan [OF assms(1)] by metis
  have v: "mv_id v = ci_map_version_id q" using first_row_Some [OF p'(1) [unfolded get_map_version_def]] by simp
  have plan: "List.last (d_plans (pf_db p')) = plan_of (uuid env n) r v actor q" using p'(2) by simp
  have look: "get_trajectory (ci_trajectory_id q) (begin_tx (pf_db p')) = Some path"
    "get_map_version (mv_id v) (begin_tx (pf_db p')) = Some v"
    using assms(2) p'(1,3,4) v
    by (simp_all only: get_trajectory_def get_map_version_def begin_tx_rows)
  note path = patrol_task_path [OF assms(4), unfolded plan]
  have "tk_trajectory t = JArr (tj_path path)" using path(1) look by (simp add: plan_of_def trajectory_json_def)
  moreover have "tk_map_id t = mv_map_id v \<and> tk_map_version t = mv_version v"
    using path(2) look by (simp add: plan_of_def)
  ultimately show ?thesis using p'(1) v assms(3) by auto
qed

definition foreign_path :: trajectory where
  "foreign_path = \<lparr>tj_id = ''f'', tj_map_version_id = ''other'', tj_code = ''F'', tj_version = ''1'', tj_path = [], tj_enabled = True\<rparr>"

definition foreign_platform :: platform where
  "foreign_platform = field_platform\<lparr>pf_db := (pf_db field_platform)\<lparr>d_trajectories := [foreign_path]\<rparr>\<rparr>"

definition foreign_plan :: plan_creation where
  "foreign_plan = \<lparr>ci_code = ''F'', ci_name = ''F'', ci_robot_id = ''r'', ci_map_version_id = ''mv'',
     ci_trajectory_id = Some ''f'', ci_enabled = True,
     ci_points = [\<lparr>qi_preset_id = ''np'', qi_sequence = 1, qi_dwell = 3, qi_observations = []\<rparr>]\<rparr>"

lemma foreign_created: "fst (create_patrol_plan task_env 0 foreign_plan ''u'' foreign_platform) = Inr ()"
  by code_simp

lemma foreign_built:
  "case build_patrol_task task_env 1 (pf_redis foreign_platform)
      (List.last (d_plans (pf_db (snd (create_patrol_plan task_env 0 foreign_plan ''u'' foreign_platform))))) demo_robot ''u''
      JNull None None (begin_tx (pf_db (snd (create_patrol_plan task_env 0 foreign_plan ''u'' foreign_platform)))) of
     Inl e \<Rightarrow> False | Inr (t, c, db) \<Rightarrow> tk_status t = ''QUEUED''"
  by code_simp

lemma plan_follows_foreign_trajectory_witness:
  "\<exists>p' t c db'. create_patrol_plan task_env 0 foreign_plan ''u'' foreign_platform = (Inr (), p')
     \<and> build_patrol_task task_env 1 (pf_redis foreign_platform) (List.last (d_plans (pf_db p'))) demo_robot ''u'' JNull None None
          (begin_tx (pf_db p')) = Inr (t, c, db')
     \<and> tk_trajectory t = JArr (tj_path foreign_path)"
proof -
  obtain p' where p': "create_patrol_plan task_env 0 foreign_plan ''u'' foreign_platform = (Inr (), p')"
    using foreign_created by (cases "create_patrol_plan task_env 0 foreign_plan ''u'' foreign_platform") simp
  obtain t c db' where t: "build_patrol_task task_env 1 (pf_redis foreign_platform) (List.last (d_plans (pf_db p'))) demo_robot ''u''
      JNull None None (begin_tx (pf_db p')) = Inr (t, c, db')"
    using foreign_built unfolding p' snd_conv by (auto split: sum.splits)
  have "get_trajectory (ci_trajectory_id foreign_plan) (pf_db foreign_platform) = Some foreign_path"
    "tj_map_version_id foreign_path \<noteq> ci_map_version_id foreign_plan"
    by (simp_all add: foreign_plan_def foreign_platform_def foreign_path_def get_trajectory_def)
  from plan_follows_foreign_trajectory [OF p' this t] p' t show ?thesis by auto
qed


end
