(* ===== verification/Coverage.thy ===== *)
theory Coverage
  imports Operations Worker
begin

text \<open>
  The detection coverage of the right-hand fire sensor (\<open>calculate_detection_coverage\<close> and
  \<open>detection_coverage\<close> of \<open>operations/router.py\<close>): the sector in front of the sensor as a polygon of
  26 points, and the parking slots whose polygon meets it. Coordinates are real numbers.
\<close>

section \<open>Plane geometry\<close>

definition turn :: "real \<Rightarrow> real \<Rightarrow> real \<Rightarrow> point" where
  "turn x y yaw = (x * cos yaw - y * sin yaw, x * sin yaw + y * cos yaw)"

definition edges :: "point list \<Rightarrow> (point \<times> point) list" where
  "edges poly = zip poly (rotate1 poly)"

text \<open>One edge is crossed by the ray from the point to the right.\<close>

fun crossed :: "point \<Rightarrow> point \<times> point \<Rightarrow> bool" where
  "crossed (x, y) ((x1, y1), (x2, y2)) =
     ((y1 > y) \<noteq> (y2 > y) \<and> x < (x2 - x1) * (y - y1) / (y2 - y1) + x1)"

definition point_in_polygon :: "point \<Rightarrow> point list \<Rightarrow> bool" where
  "point_in_polygon q poly = fold (\<lambda>e inside. if crossed q e then \<not> inside else inside) (edges poly) False"

definition orientation :: "point \<Rightarrow> point \<Rightarrow> point \<Rightarrow> real" where
  "orientation a b c = (fst b - fst a) * (snd c - snd a) - (snd b - snd a) * (fst c - fst a)"

definition segments_intersect :: "point \<times> point \<Rightarrow> point \<times> point \<Rightarrow> bool" where
  "segments_intersect s t \<longleftrightarrow>
     orientation (fst s) (snd s) (fst t) * orientation (fst s) (snd s) (snd t) \<le> 0
   \<and> orientation (fst t) (snd t) (fst s) * orientation (fst t) (snd t) (snd s) \<le> 0"

definition polygons_intersect :: "point list \<Rightarrow> point list \<Rightarrow> bool" where
  "polygons_intersect left right \<longleftrightarrow>
     (\<exists>q \<in> set left. point_in_polygon q right) \<or> (\<exists>q \<in> set right. point_in_polygon q left)
   \<or> (\<exists>s \<in> set (edges left). \<exists>t \<in> set (edges right). segments_intersect s t)"

section \<open>The sector\<close>

record pose =
  po_x :: real
  po_y :: real
  po_theta :: real

definition sensor_origin :: "pose \<Rightarrow> sensor_profile \<Rightarrow> point" where
  "sensor_origin ro sp =
     (po_x ro + fst (turn (sp_mount_x sp) (sp_mount_y sp) (po_theta ro)),
      po_y ro + snd (turn (sp_mount_x sp) (sp_mount_y sp) (po_theta ro)))"

definition center_yaw :: "pose \<Rightarrow> sensor_profile \<Rightarrow> real" where
  "center_yaw ro sp = po_theta ro + sp_mount_yaw sp"

definition ray_yaw :: "pose \<Rightarrow> sensor_profile \<Rightarrow> nat \<Rightarrow> real" where
  "ray_yaw ro sp i = center_yaw ro sp - sp_fov sp / 2 + sp_fov sp * real i / 24"

definition arc_point :: "pose \<Rightarrow> sensor_profile \<Rightarrow> nat \<Rightarrow> point" where
  "arc_point ro sp i =
     (fst (sensor_origin ro sp) + sp_range sp * cos (ray_yaw ro sp i),
      snd (sensor_origin ro sp) + sp_range sp * sin (ray_yaw ro sp i))"

definition sector :: "pose \<Rightarrow> sensor_profile \<Rightarrow> point list" where
  "sector ro sp = sensor_origin ro sp # map (arc_point ro sp) [0..<25]"

definition mean :: "real list \<Rightarrow> real" where
  "mean xs = sum_list xs / real (length xs)"

definition sector_is_on_vehicle_right :: "pose \<Rightarrow> point list \<Rightarrow> bool" where
  "sector_is_on_vehicle_right ro sec \<longleftrightarrow>
     (let arc = tl sec in
      (mean (map fst arc) - po_x ro) * sin (po_theta ro) + (mean (map snd arc) - po_y ro) * (- cos (po_theta ro)) > 0)"

section \<open>Slots in the sector\<close>

text \<open>The polygon of a slot: an object with \<open>points\<close>, or a list of points.\<close>

fun polygon_items :: "json \<Rightarrow> api_error + json list" where
  "polygon_items (JObj d) =
     (if jhas d ''points'' then (case jget d ''points'' of JArr vs \<Rightarrow> Inr vs | v \<Rightarrow> Inl (PyError TypeError)) else Inr [])"
| "polygon_items (JArr vs) = Inr vs"
| "polygon_items v = Inl (PyError TypeError)"

definition polygon_point :: "pyenv \<Rightarrow> json \<Rightarrow> api_error + point" where
  "polygon_point env v =
     (case v of
        JObj d \<Rightarrow>
          (if \<not> jhas d ''x'' then Inl (PyError KeyError)
           else and_then (raised (py_float env (jget d ''x''))) (\<lambda>x.
             if \<not> jhas d ''y'' then Inl (PyError KeyError)
             else and_then (raised (py_float env (jget d ''y''))) (\<lambda>y. Inr (x, y))))
      | w \<Rightarrow> Inl (PyError TypeError))"

fun all_points :: "pyenv \<Rightarrow> json list \<Rightarrow> api_error + point list" where
  "all_points env [] = Inr []"
| "all_points env (v # vs) =
     and_then (polygon_point env v) (\<lambda>q. and_then (all_points env vs) (\<lambda>qs. Inr (q # qs)))"

definition slot_polygon :: "pyenv \<Rightarrow> parking_slot \<Rightarrow> api_error + point list" where
  "slot_polygon env s = and_then (polygon_items (ps_polygon s)) (all_points env)"

fun covered_slots :: "pyenv \<Rightarrow> point list \<Rightarrow> parking_slot list \<Rightarrow> api_error + ident list" where
  "covered_slots env sec [] = Inr []"
| "covered_slots env sec (s # ss) =
     and_then (slot_polygon env s) (\<lambda>poly.
     and_then (covered_slots env sec ss) (\<lambda>rest.
       Inr (if poly \<noteq> [] \<and> polygons_intersect sec poly then ps_id s # rest else rest)))"

datatype coverage =
    Orientation_Invalid
  | Not_Fresh
  | Not_Connected string
  | Covered "point list" "ident list"

definition calculate_detection_coverage ::
    "pyenv \<Rightarrow> pose \<Rightarrow> sensor_profile \<Rightarrow> parking_slot list \<Rightarrow> api_error + coverage" where
  "calculate_detection_coverage env ro sp slots =
     (let sec = sector ro sp in
      if \<not> sector_is_on_vehicle_right ro sec then Inr Orientation_Invalid
      else and_then (covered_slots env sec slots) (\<lambda>ids. Inr (Covered sec ids)))"

section \<open>The endpoint\<close>

definition pose_fresh :: "pyenv \<Rightarrow> dict \<Rightarrow> bool" where
  "pose_fresh env latest =
     (case iso_aware env (jget latest ''server_received_at'') of
        None \<Rightarrow> False | Some t \<Rightarrow> elapsed_seconds (utc_now env) t \<le> 2)"

definition pose_of :: "pyenv \<Rightarrow> dict \<Rightarrow> api_error + pose" where
  "pose_of env latest =
     and_then (raised (py_float env (jget latest ''theta''))) (\<lambda>t.
     and_then (raised (py_float env (jget latest ''x''))) (\<lambda>x.
     and_then (raised (py_float env (jget latest ''y''))) (\<lambda>y. Inr \<lparr>po_x = x, po_y = y, po_theta = t\<rparr>)))"

definition slots_of_robot :: "robot \<Rightarrow> 'a database_scheme \<Rightarrow> parking_slot list" where
  "slots_of_robot r db =
     filter (\<lambda>s. \<exists>v \<in> set (d_map_versions db). mv_id v = ps_map_version_id s \<and> same_map r v) (d_slots db)"

definition right_profile :: "robot \<Rightarrow> 'a database_scheme \<Rightarrow> sensor_profile option" where
  "right_profile r db =
     first_row (\<lambda>x. sp_robot_id x = rb_id r \<and> sp_channel x = ''right_fire_detection'') (d_sensor_profiles db)"

definition detection_coverage :: "pyenv \<Rightarrow> string \<Rightarrow> platform \<Rightarrow> failure + coverage" where
  "detection_coverage env rid p =
     (case find_robot rid (pf_db p) of
        None \<Rightarrow> Inl not_found
      | Some r \<Rightarrow>
        (case right_profile r (pf_db p) of
           None \<Rightarrow> Inr (Not_Connected ''NOT_CONNECTED'')
         | Some sp \<Rightarrow>
           (if sp_support sp \<noteq> ''CONNECTED'' then Inr (Not_Connected (sp_support sp))
            else
              let latest = latest_dict (utc_now env) (pf_redis p) r in
              if rb_online_state r \<noteq> ''ONLINE'' \<or> \<not> pose_fresh env latest \<or> \<not> localization_ok latest
                 \<or> \<not> (jhas latest ''x'' \<and> jhas latest ''y'' \<and> jhas latest ''theta'')
              then Inr Not_Fresh
              else case and_then (pose_of env latest) (\<lambda>ro.
                     calculate_detection_coverage env ro sp (slots_of_robot r (pf_db p))) of
                     Inl e \<Rightarrow> Inl (Api e) | Inr c \<Rightarrow> Inr c)))"

end
