(* ===== verification/Coverage_Safety.thy ===== *)
theory Coverage_Safety
  imports Coverage Task_Safety
begin

text \<open>
  What the coverage computation promises: the ray test is exact on rectangles, whatever touches the
  sector is reported, a sensor on the right is accepted - and where the tests go too far.
\<close>

section \<open>The ray test on rectangles\<close>

definition rectangle :: "real \<Rightarrow> real \<Rightarrow> real \<Rightarrow> real \<Rightarrow> point list" where
  "rectangle x0 y0 x1 y1 = [(x0, y0), (x1, y0), (x1, y1), (x0, y1)]"

lemma rectangle_edges:
  "edges (rectangle x0 y0 x1 y1)
     = [((x0, y0), (x1, y0)), ((x1, y0), (x1, y1)), ((x1, y1), (x0, y1)), ((x0, y1), (x0, y0))]"
  by (simp add: edges_def rectangle_def)

text \<open>
  The ray test is exact on the rectangles the slots are drawn as: a point is inside iff
  it lies between the sides, the left and lower ones included.
\<close>

lemma point_in_rectangle:
  assumes "x0 < x1" "y0 < y1"
  shows "point_in_polygon (x, y) (rectangle x0 y0 x1 y1) \<longleftrightarrow> x0 \<le> x \<and> x < x1 \<and> y0 \<le> y \<and> y < y1"
  using assms by (auto simp: point_in_polygon_def rectangle_edges)

lemma point_in_rectangle_witness: "point_in_polygon (1, 1) (rectangle 0 0 2 2) \<and> \<not> point_in_polygon (2, 1) (rectangle 0 0 2 2)"
  using point_in_rectangle [of 0 2 0 2 1 1] point_in_rectangle [of 0 2 0 2 2 1] by simp

section \<open>Segments\<close>

definition on_segment :: "point \<Rightarrow> point \<times> point \<Rightarrow> bool" where
  "on_segment q s \<longleftrightarrow> (\<exists>k. 0 \<le> k \<and> k \<le> 1
     \<and> fst q = fst (fst s) + k * (fst (snd s) - fst (fst s)) \<and> snd q = snd (fst s) + k * (snd (snd s) - snd (fst s)))"

lemma opposite_sides:
  fixes u v k :: real
  assumes "(1 - k) * u + k * v = 0" "0 \<le> k" "k \<le> 1"
  shows "u * v \<le> 0"
proof -
  have "(1 - k) * (u * v) = - (k * (v * v))" "k * (u * v) = - ((1 - k) * (u * u))"
    using assms(1) by algebra+
  then have "u * v = - (k * (v * v)) - (1 - k) * (u * u)" by algebra
  moreover have "0 \<le> k * (v * v)" "0 \<le> (1 - k) * (u * u)" using assms(2,3) by simp_all
  ultimately show ?thesis by linarith
qed

lemma orientation_on:
  assumes "on_segment q s"
  shows "orientation (fst s) (snd s) q = 0"
proof -
  obtain k where k: "fst q = fst (fst s) + k * (fst (snd s) - fst (fst s))"
    "snd q = snd (fst s) + k * (snd (snd s) - snd (fst s))" using assms by (auto simp: on_segment_def)
  show ?thesis unfolding orientation_def k by (simp add: algebra_simps)
qed

lemma orientation_affine:
  assumes "fst q = fst c + k * (fst d - fst c)" "snd q = snd c + k * (snd d - snd c)"
  shows "orientation a b q = (1 - k) * orientation a b c + k * orientation a b d"
  unfolding orientation_def assms by (simp add: algebra_simps)

lemma shared_point_sides:
  assumes "on_segment q s" "on_segment q t"
  shows "orientation (fst s) (snd s) (fst t) * orientation (fst s) (snd s) (snd t) \<le> 0"
proof -
  obtain k where k: "0 \<le> k" "k \<le> 1" "fst q = fst (fst t) + k * (fst (snd t) - fst (fst t))"
    "snd q = snd (fst t) + k * (snd (snd t) - snd (fst t))" using assms(2) by (auto simp: on_segment_def)
  from orientation_affine [OF k(3,4), of "fst s" "snd s"] orientation_on [OF assms(1)] k(1,2) show ?thesis
    by (intro opposite_sides [of k]) simp_all
qed

lemma segments_meet: "on_segment q s \<Longrightarrow> on_segment q t \<Longrightarrow> segments_intersect s t"
  by (simp add: segments_intersect_def shared_point_sides)

lemma slot_reported:
  assumes "covered_slots env sec ss = Inr ids" "s \<in> set ss" "slot_polygon env s = Inr poly"
    "poly \<noteq> []" "polygons_intersect sec poly"
  shows "ps_id s \<in> set ids"
  using assms
proof (induction ss arbitrary: ids)
  case (Cons a ss)
  obtain apoly rest where a: "slot_polygon env a = Inr apoly" "covered_slots env sec ss = Inr rest"
    "ids = (if apoly \<noteq> [] \<and> polygons_intersect sec apoly then ps_id a # rest else rest)"
    using Cons.prems(1) by auto
  show ?case
  proof (cases "s = a")
    case True
    then show ?thesis using a Cons.prems(3-5) by simp
  next
    case False
    then have "ps_id s \<in> set rest" using Cons.IH [OF a(2)] Cons.prems(2-5) by simp
    then show ?thesis using a(3) by simp
  qed
qed simp

text \<open>
  Property C35. The coverage misses nothing it touches: a slot whose outline shares a point with the
  outline of the sector, that has a corner in the sector, or that holds the sensor, is reported.
\<close>

theorem touched_slot_is_reported:
  assumes "calculate_detection_coverage env ro sp slots = Inr (Covered sec ids)" "s \<in> set slots"
    "slot_polygon env s = Inr poly" "poly \<noteq> []"
    "(\<exists>q. \<exists>e \<in> set (edges sec). \<exists>f \<in> set (edges poly). on_segment q e \<and> on_segment q f)
     \<or> (\<exists>q \<in> set poly. point_in_polygon q sec) \<or> point_in_polygon (sensor_origin ro sp) poly"
  shows "ps_id s \<in> set ids"
proof -
  have sec: "sec = sector ro sp" "covered_slots env sec slots = Inr ids"
    using assms(1) by (auto simp: calculate_detection_coverage_def Let_def split: if_splits)
  have "polygons_intersect sec poly"
    using assms(5)
  proof (elim disjE)
    assume "\<exists>q. \<exists>e \<in> set (edges sec). \<exists>f \<in> set (edges poly). on_segment q e \<and> on_segment q f"
    then show ?thesis using segments_meet unfolding polygons_intersect_def by blast
  next
    assume "point_in_polygon (sensor_origin ro sp) poly"
    moreover have "sensor_origin ro sp \<in> set sec" by (simp add: sec(1) sector_def)
    ultimately show ?thesis unfolding polygons_intersect_def by blast
  qed (simp add: polygons_intersect_def)
  then show ?thesis using slot_reported [OF sec(2) assms(2-4)] by simp
qed

text \<open>
  The test of two segments also says yes for disjoint segments on one line, so a slot may be reported
  that the sector does not reach.
\<close>

lemma collinear_segments_reported:
  "segments_intersect ((0, 0), (1, 0)) ((2, 0), (3, 0)) \<and> \<not> (\<exists>q. on_segment q ((0, 0), (1, 0)) \<and> on_segment q ((2, 0), (3, 0)))"
  by (auto simp: segments_intersect_def orientation_def on_segment_def)

section \<open>The right-hand side\<close>

lemma mount_right:
  "(fst (turn u v a)) * sin a + (snd (turn u v a)) * (- cos a) = - v"
proof -
  have "(u * cos a - v * sin a) * sin a - (u * sin a + v * cos a) * cos a = - v * ((sin a)\<^sup>2 + (cos a)\<^sup>2)"
    by (simp only: power2_eq_square) algebra
  then show ?thesis by (simp add: turn_def)
qed

lemma sum_list_affine: "(\<Sum>i\<leftarrow>xs. c + k * f i) = real (length xs) * c + k * (\<Sum>i\<leftarrow>xs. f i)" for f :: "nat \<Rightarrow> real"
  by (induction xs) (simp_all add: algebra_simps)

text \<open>How far the arc lies to the right of the robot, on average.\<close>

lemma right_component:
  "sector_is_on_vehicle_right ro (sector ro sp) \<longleftrightarrow>
     0 < sp_range sp * (\<Sum>i\<leftarrow>[0..<25]. sin (po_theta ro - ray_yaw ro sp i)) / 25 - sp_mount_y sp"
proof -
  let ?t = "po_theta ro" and ?o = "sensor_origin ro sp" and ?R = "sp_range sp"
  let ?c = "\<Sum>i\<leftarrow>[0..<25]. cos (ray_yaw ro sp i)" and ?s = "\<Sum>i\<leftarrow>[0..<25]. sin (ray_yaw ro sp i)"
  have mx: "mean (map fst (map (arc_point ro sp) [0..<25])) = fst ?o + ?R * ?c / 25"
    using sum_list_affine [of "fst ?o" ?R "\<lambda>i. cos (ray_yaw ro sp i)" "[0..<25]"]
    by (simp add: mean_def arc_point_def comp_def field_simps)
  have my: "mean (map snd (map (arc_point ro sp) [0..<25])) = snd ?o + ?R * ?s / 25"
    using sum_list_affine [of "snd ?o" ?R "\<lambda>i. sin (ray_yaw ro sp i)" "[0..<25]"]
    by (simp add: mean_def arc_point_def comp_def field_simps)
  have sum: "(\<Sum>i\<leftarrow>[0..<25]. sin (?t - ray_yaw ro sp i)) = sin ?t * ?c - cos ?t * ?s"
    by (simp only: sin_diff sum_list_subtractf sum_list_const_mult)
  have origin: "(fst ?o - po_x ro) * sin ?t + (snd ?o - po_y ro) * (- cos ?t) = - sp_mount_y sp"
    using mount_right [of "sp_mount_x sp" "sp_mount_y sp" ?t] by (simp add: sensor_origin_def)
  have "(fst ?o + ?R * ?c / 25 - po_x ro) * sin ?t + (snd ?o + ?R * ?s / 25 - po_y ro) * (- cos ?t)
      = ((fst ?o - po_x ro) * sin ?t + (snd ?o - po_y ro) * (- cos ?t)) + ?R * (sin ?t * ?c - cos ?t * ?s) / 25"
    by (simp add: field_simps)
  then show ?thesis
    unfolding sector_is_on_vehicle_right_def sector_def Let_def list.sel mx my sum origin by simp
qed

lemma right_angle:
  assumes "sp_mount_yaw sp = - pi / 2"
  shows "sin (po_theta ro - ray_yaw ro sp i) = cos (sp_fov sp / 2 - sp_fov sp * real i / 24)"
proof -
  have "po_theta ro - ray_yaw ro sp i = pi / 2 - (sp_fov sp * real i / 24 - sp_fov sp / 2)"
    by (simp add: ray_yaw_def center_yaw_def assms(1))
  then have "sin (po_theta ro - ray_yaw ro sp i) = cos (sp_fov sp * real i / 24 - sp_fov sp / 2)"
    by (simp add: sin_diff)
  then show ?thesis using cos_minus [of "sp_fov sp / 2 - sp_fov sp * real i / 24"] by simp
qed

lemma right_mount:
  assumes "sp_mount_yaw sp = - pi / 2" "0 < sp_range sp" "0 < sp_fov sp" "sp_fov sp \<le> pi" "sp_mount_y sp \<le> 0"
  shows "sector_is_on_vehicle_right ro (sector ro sp)"
proof -
  let ?f = "\<lambda>i. cos (sp_fov sp / 2 - sp_fov sp * real i / 24)"
  have nonneg: "0 \<le> ?f i" if "i < 25" for i
  proof (rule cos_ge_zero)
    have "0 \<le> sp_fov sp * real i / 24" "sp_fov sp * real i / 24 \<le> sp_fov sp"
      using that assms(3) by (simp_all add: field_simps)
    then show "- (pi / 2) \<le> sp_fov sp / 2 - sp_fov sp * real i / 24" "sp_fov sp / 2 - sp_fov sp * real i / 24 \<le> pi / 2"
      using assms(4) by linarith+
  qed
  have "?f 12 = 1" by simp
  have "(\<Sum>i\<leftarrow>[0..<25]. ?f i) = (\<Sum>i\<in>{0..<25}. ?f i)"
    by (simp only: sum_list_distinct_conv_sum_set [OF distinct_upt] set_upt)
  also have "\<dots> \<ge> ?f 12"
    by (rule member_le_sum) (use nonneg in auto)
  finally have "0 < (\<Sum>i\<leftarrow>[0..<25]. ?f i)" using \<open>?f 12 = 1\<close> by linarith
  then have "0 < sp_range sp * (\<Sum>i\<leftarrow>[0..<25]. ?f i) / 25" using assms(2) by simp
  then show ?thesis unfolding right_component right_angle [OF assms(1)] using assms(5) by linarith
qed

text \<open>
  A sensor mounted on the right is accepted: with the default heading of a quarter turn
  to the right, a field of view of at most half a circle and a mount not left of the robot's axis,
  the check of the side passes whatever the pose of the robot, its range and the mount along the axis.
\<close>

lemma right_mount_accepted:
  assumes "sp_mount_yaw sp = - pi / 2" "0 < sp_range sp" "0 < sp_fov sp" "sp_fov sp \<le> pi" "sp_mount_y sp \<le> 0"
  shows "sector_is_on_vehicle_right ro (sector ro sp)"
  by (rule right_mount [OF assms])

text \<open>
  A full circle is a valid field of view, but 25 rays close it with the backward one twice, and a
  sensor on the right is then refused as not on the right.
\<close>

lemma full_circle_refused:
  assumes "sp_mount_yaw sp = - pi / 2" "0 < sp_range sp" "sp_fov sp = 2 * pi" "sp_mount_y sp = 0"
  shows "\<not> sector_is_on_vehicle_right ro (sector ro sp)"
proof -
  let ?g = "\<lambda>i. cos (pi - pi * real i / 12)"
  have half: "?g (i + 12) = - ?g i" for i
  proof -
    have "pi - pi * real (i + 12) / 12 = (pi - pi * real i / 12) - pi" by (simp add: field_simps)
    then show ?thesis by (simp only: cos_diff) simp
  qed
  have "(\<Sum>i\<leftarrow>[0..<25]. ?g i) = (\<Sum>i\<in>{0..<24}. ?g i) + ?g 24"
    by (simp only: sum_list_distinct_conv_sum_set [OF distinct_upt] set_upt) (simp add: eval_nat_numeral)
  also have "(\<Sum>i\<in>{0..<24}. ?g i) = (\<Sum>i\<in>{0..<12}. ?g i) + (\<Sum>i\<in>{12..<24}. ?g i)"
    by (rule sum.atLeastLessThan_concat [symmetric]) simp_all
  also have "(\<Sum>i\<in>{12..<24}. ?g i) = (\<Sum>i\<in>{0..<12}. ?g (i + 12))"
    using sum.shift_bounds_nat_ivl [of ?g 0 12 12] by simp
  also have "\<dots> = - (\<Sum>i\<in>{0..<12}. ?g i)" by (simp only: half sum_negf)
  finally have "(\<Sum>i\<leftarrow>[0..<25]. ?g i) = - 1" by (simp add: cos_diff)
  moreover have "cos (sp_fov sp / 2 - sp_fov sp * real i / 24) = ?g i" for i by (simp add: assms(3))
  ultimately show ?thesis unfolding right_component right_angle [OF assms(1)] using assms(2,4) by simp
qed

definition demo_sensor :: sensor_profile where
  "demo_sensor = \<lparr>sp_robot_id = ''r'', sp_channel = ''right_fire_detection'', sp_support = ''CONNECTED'',
     sp_nominal_side = ''RIGHT'', sp_mount_x = 0, sp_mount_y = 0, sp_mount_yaw = - pi / 2, sp_range = 5,
     sp_fov = pi / 3, sp_source = ''PLATFORM_DEFAULT''\<rparr>"

definition demo_stand :: pose where
  "demo_stand = \<lparr>po_x = 1, po_y = 1, po_theta = 0\<rparr>"

definition demo_outline :: parking_slot where
  "demo_outline = demo_slot\<lparr>ps_polygon := JArr (map (\<lambda>q. JObj [(''x'', JFloat (fst q)), (''y'', JFloat (snd q))]) (rectangle 0 0 2 2))\<rparr>"

lemma right_mount_accepted_witness: "sector_is_on_vehicle_right demo_stand (sector demo_stand demo_sensor)"
  by (rule right_mount_accepted) (simp_all add: demo_sensor_def)

lemma demo_outline_polygon: "slot_polygon env demo_outline = Inr (rectangle 0 0 2 2)"
  by (simp add: slot_polygon_def demo_outline_def demo_slot_def rectangle_def polygon_point_def jget_def jhas_def)

lemma touched_slot_is_reported_witness:
  "\<exists>sec ids. calculate_detection_coverage (plain_env 0) demo_stand demo_sensor [demo_outline] = Inr (Covered sec ids)
     \<and> ''s1'' \<in> set ids"
proof -
  let ?sec = "sector demo_stand demo_sensor"
  have right: "sector_is_on_vehicle_right demo_stand ?sec" by (rule right_mount) (simp_all add: demo_sensor_def)
  obtain ids where ids: "covered_slots (plain_env 0) ?sec [demo_outline] = Inr ids"
    by (simp add: demo_outline_polygon)
  have run: "calculate_detection_coverage (plain_env 0) demo_stand demo_sensor [demo_outline] = Inr (Covered ?sec ids)"
    using right ids by (simp add: calculate_detection_coverage_def Let_def)
  have "sensor_origin demo_stand demo_sensor = (1, 1)"
    by (simp add: sensor_origin_def demo_stand_def demo_sensor_def turn_def)
  then have "point_in_polygon (sensor_origin demo_stand demo_sensor) (rectangle 0 0 2 2)"
    by (simp add: point_in_polygon_def rectangle_edges)
  then have "ps_id demo_outline \<in> set ids"
    using touched_slot_is_reported [OF run, of demo_outline "rectangle 0 0 2 2"] demo_outline_polygon
    by (simp add: rectangle_def)
  then show ?thesis using run by (simp add: demo_outline_def demo_slot_def)
qed

end
