(* ===== verification/Scheduler.thy ===== *)
theory Scheduler
  imports Worker Operations
begin

text \<open>
  The patrol scheduler of the task worker (\<open>services/task-worker/main.py\<close>) and the whole cycle of
  the worker. Every due schedule gets one occurrence; an occurrence is skipped, rejected, queued or
  dispatched as a patrol task. An exception of the task builder is caught, and what the builder
  added to the session before it raised stays there (\<open>attempt_patrol\<close>); any other exception aborts
  the cycle. Each occurrence draws its identifiers from seven UUIDs. Retention is not modelled.
\<close>

section \<open>Occurrences\<close>

definition get_schedule :: "ident \<Rightarrow> 'a database_scheme \<Rightarrow> patrol_schedule option" where
  "get_schedule sid d = first_row (\<lambda>s. sc_id s = sid) (d_schedules d)"

definition put_schedule :: "patrol_schedule \<Rightarrow> tx \<Rightarrow> tx" where
  "put_schedule s db = db\<lparr>d_schedules := upd_rows (\<lambda>x. sc_id x = sc_id s) (\<lambda>_. s) (d_schedules db)\<rparr>"

definition put_occurrence :: "schedule_occurrence \<Rightarrow> tx \<Rightarrow> tx" where
  "put_occurrence oc db = db\<lparr>d_occurrences := upd_rows (\<lambda>x. oc_id x = oc_id oc) (\<lambda>_. oc) (d_occurrences db)\<rparr>"

definition conclude :: "schedule_occurrence \<Rightarrow> string \<Rightarrow> string \<Rightarrow> tx \<Rightarrow> tx" where
  "conclude oc state reason db = put_occurrence (oc\<lparr>oc_state := state, oc_reason := Some reason\<rparr>) db"

text \<open>The rows an occurrence refers to; \<open>None\<close> is \<open>CONFIGURATION_INVALID\<close>.\<close>

definition occurrence_rows ::
    "schedule_occurrence \<Rightarrow> tx \<Rightarrow> (patrol_schedule \<times> patrol_plan \<times> robot \<times> map_version) option" where
  "occurrence_rows oc db =
     (case get_schedule (oc_schedule_id oc) db of None \<Rightarrow> None
      | Some s \<Rightarrow> (case get_plan (sc_plan_id s) db of None \<Rightarrow> None
      | Some p \<Rightarrow> (case get_robot (pp_robot_id p) db of None \<Rightarrow> None
      | Some r \<Rightarrow> (case get_map_version (pp_map_version_id p) db of None \<Rightarrow> None
      | Some v \<Rightarrow> if pp_enabled p then Some (s, p, r, v) else None))))"

text \<open>
  The session does not flush by itself (\<open>autoflush=False\<close>), so the query for an active task sees the task
  rows of the last flush, \<open>seen\<close>; rows found by their key come from the session.
\<close>

definition busy :: "robot \<Rightarrow> task list \<Rightarrow> bool" where
  "busy r seen \<longleftrightarrow> first_row (\<lambda>t. tk_robot_id t = rb_id r \<and> active_task t) seen \<noteq> None"

text \<open>The state and reason of an occurrence that is not dispatched.\<close>

definition refusal ::
    "pyenv \<Rightarrow> schedule_occurrence \<Rightarrow> patrol_schedule \<Rightarrow> robot \<Rightarrow> map_version \<Rightarrow> task list \<Rightarrow> tx \<Rightarrow>
     (string \<times> string) option" where
  "refusal env oc s r v seen db =
     (let i = get_integration (rb_id r) db in
      if oc_state oc = ''QUEUED'' \<and> real_of_int (sc_queue_expiry s) < elapsed_seconds (utc_now env) (oc_scheduled_for oc)
      then Some (''SKIPPED'', ''QUEUE_WINDOW_EXPIRED'')
      else if sc_require_online s \<and> rb_online_state r \<noteq> ''ONLINE'' then Some (''SKIPPED'', ''ROBOT_'' @ rb_online_state r)
      else if sc_require_control s \<and> \<not> opt_holds (\<lambda>x. ip_control_verified x \<and> ip_ack_verified x) i
      then Some (''SKIPPED'', ''CONTROL_CONTRACT_NOT_VERIFIED'')
      else if sc_require_map s \<and> \<not> opt_holds ip_map_verified i
      then Some (''SKIPPED'', ''MAP_CONTRACT_NOT_VERIFIED'')
      else if \<not> flag (rd_autonomous (robot_readiness db r)) ''patrol'' then Some (''SKIPPED'', ''AUTONOMOUS_TASK_NOT_READY'')
      else if \<not> same_map r v then Some (''SKIPPED'', ''MAP_VERSION_MISMATCH'')
      else if busy r seen
      then (if sc_overlap_policy s = ''QUEUE'' then Some (''QUEUED'', ''WAITING_FOR_ACTIVE_TASK'')
            else Some (if sc_overlap_policy s = ''REJECT'' then ''REJECTED'' else ''SKIPPED'', ''ACTIVE_TASK_OVERLAP''))
      else None)"

section \<open>Dispatching\<close>

text \<open>The builder and the session it leaves: a task whose command was refused is already added.\<close>

definition attempt_patrol ::
    "pyenv \<Rightarrow> nat \<Rightarrow> redis \<Rightarrow> patrol_plan \<Rightarrow> robot \<Rightarrow> ident \<Rightarrow> ident \<Rightarrow> ident \<Rightarrow> tx \<Rightarrow>
     (api_error + (task \<times> command)) \<times> tx" where
  "attempt_patrol env n redis plan r actor schedule occurrence db =
     (case build_patrol_task env n redis plan r actor (JStr ''SCHEDULER'') (Some schedule) (Some occurrence) db of
        Inr (t, c, db') \<Rightarrow> (Inr (t, c), db')
      | Inl e \<Rightarrow>
        (case prepare_patrol env n plan r actor (JStr ''SCHEDULER'') (Some schedule) (Some occurrence) db of
           Inl e' \<Rightarrow> (Inl e, db)
         | Inr (t, params) \<Rightarrow> (Inl e, add_task t db)))"

fun error_code :: "api_error \<Rightarrow> string" where
  "error_code (PlatformError code) = code"
| "error_code _ = ''PATROL_BUILD_FAILED''"

definition dispatch_occurrence ::
    "pyenv \<Rightarrow> nat \<Rightarrow> redis \<Rightarrow> task list \<Rightarrow> schedule_occurrence \<Rightarrow> tx \<Rightarrow> tx" where
  "dispatch_occurrence env n redis seen oc db =
     (case occurrence_rows oc db of
        None \<Rightarrow> conclude oc ''REJECTED'' ''CONFIGURATION_INVALID'' db
      | Some (s, p, r, v) \<Rightarrow>
        (case refusal env oc s r v seen db of
           Some (state, reason) \<Rightarrow> conclude oc state reason db
         | None \<Rightarrow>
           (case attempt_patrol env n redis p r (sc_created_by s) (sc_id s) (oc_id oc) db of
              (Inl e, db') \<Rightarrow> conclude oc ''REJECTED'' (error_code e) db'
            | (Inr (t, c), db') \<Rightarrow>
                queue_event ''task.created'' (Ev_Task_Created t (cm_command_id c))
                  (put_occurrence (oc\<lparr>oc_state := ''DISPATCHED'', oc_reason := None, oc_task_id := Some (tk_id t)\<rparr>) db'))))"

text \<open>The builder flushes when it adds its task.\<close>

definition seen_after :: "task list \<Rightarrow> tx \<Rightarrow> tx \<Rightarrow> task list" where
  "seen_after seen db db' = (if length (d_tasks db') = length (d_tasks db) then seen else d_tasks db')"

fun dispatch_queued :: "pyenv \<Rightarrow> nat \<Rightarrow> redis \<Rightarrow> task list \<Rightarrow> schedule_occurrence list \<Rightarrow> tx \<Rightarrow> tx" where
  "dispatch_queued env n redis seen [] db = db"
| "dispatch_queued env n redis seen (oc # ocs) db =
     (let db' = dispatch_occurrence env (n + 1) redis seen oc db
      in dispatch_queued env (n + 7) redis (seen_after seen db db') ocs db')"

section \<open>Due schedules\<close>

definition following_run :: "calendar \<Rightarrow> patrol_schedule \<Rightarrow> micros \<Rightarrow> py_exn + micros" where
  "following_run ca s start =
     (if \<not> ca_zone ca (sc_timezone s) then Inl KeyError
      else if \<not> ca_valid ca (sc_cron s) then Inl ValueError
      else Inr (ca_next ca (sc_cron s) (sc_timezone s) start))"

definition due :: "micros \<Rightarrow> patrol_schedule \<Rightarrow> bool" where
  "due now s \<longleftrightarrow> sc_enabled s \<and> (case sc_next_run s of None \<Rightarrow> False | Some t \<Rightarrow> t \<le> now)"

definition new_occurrence :: "ident \<Rightarrow> patrol_schedule \<Rightarrow> micros \<Rightarrow> schedule_occurrence" where
  "new_occurrence k s t = \<lparr>oc_id = k, oc_schedule_id = sc_id s, oc_scheduled_for = t, oc_state = ''PENDING'',
     oc_reason = None, oc_task_id = None\<rparr>"

text \<open>The flush checks the unique constraint on schedule and time.\<close>

definition add_occurrence :: "schedule_occurrence \<Rightarrow> tx \<Rightarrow> py_exn + tx" where
  "add_occurrence oc db =
     (if \<exists>x \<in> set (d_occurrences db). oc_schedule_id x = oc_schedule_id oc \<and> oc_scheduled_for x = oc_scheduled_for oc
      then Inl ValueError else Inr (db\<lparr>d_occurrences := d_occurrences db @ [oc]\<rparr>))"

definition misfire_expired :: "micros \<Rightarrow> patrol_schedule \<Rightarrow> micros \<Rightarrow> bool" where
  "misfire_expired now s t \<longleftrightarrow>
     (let delay = elapsed_seconds now t in
      5 < delay \<and> \<not> (sc_misfire_policy s = ''RUN_IF_WITHIN_WINDOW'' \<and> delay \<le> real_of_int (sc_misfire_grace s)))"

definition run_schedule :: "calendar \<Rightarrow> pyenv \<Rightarrow> nat \<Rightarrow> redis \<Rightarrow> patrol_schedule \<Rightarrow> tx \<Rightarrow> py_exn + tx" where
  "run_schedule ca env n redis s db =
     (case sc_next_run s of
        None \<Rightarrow> Inr db
      | Some t \<Rightarrow>
        bind (following_run ca s t) (\<lambda>t'.
        let now = utc_now env; oc = new_occurrence (uuid env n) s t in
        bind (add_occurrence oc (put_schedule (s\<lparr>sc_next_run := Some t', sc_last_run := Some now\<rparr>) db)) (\<lambda>db'.
          Inr (if misfire_expired now s t then conclude oc ''SKIPPED'' ''MISFIRE_EXPIRED'' db'
               else dispatch_occurrence env (n + 1) redis (d_tasks db') oc db'))))"

fun run_schedules :: "calendar \<Rightarrow> pyenv \<Rightarrow> nat \<Rightarrow> redis \<Rightarrow> patrol_schedule list \<Rightarrow> tx \<Rightarrow> py_exn + tx" where
  "run_schedules ca env n redis [] db = Inr db"
| "run_schedules ca env n redis (s # ss) db =
     bind (run_schedule ca env n redis s db) (run_schedules ca env (n + 7) redis ss)"

definition run_patrol_scheduler ::
    "calendar \<Rightarrow> pyenv \<Rightarrow> nat \<Rightarrow> redis \<Rightarrow> task list \<Rightarrow> tx \<Rightarrow> py_exn + tx" where
  "run_patrol_scheduler ca env n redis seen db =
     (let queued = filter (\<lambda>oc. oc_state oc = ''QUEUED'') (d_occurrences db);
          db' = dispatch_queued env n redis seen queued db
      in run_schedules ca env (n + 7 * length queued) redis (filter (due (utc_now env)) (d_schedules db')) db')"

text \<open>
  One cycle of the worker: one transaction; an exception drops it. None of the calls before the
  scheduler flushes.
\<close>

definition worker_cycle :: "worker_settings \<Rightarrow> calendar \<Rightarrow> pyenv \<Rightarrow> nat \<Rightarrow> platform \<Rightarrow> platform" where
  "worker_cycle ws ca env n p =
     (case bind (worker_steps ws env (pf_redis p) (begin_tx (pf_db p)))
              (run_patrol_scheduler ca env n (pf_redis p) (d_tasks (pf_db p))) of
        Inl e \<Rightarrow> p
      | Inr db \<Rightarrow> commit (utc_now env) db p)"

end
