(* ===== verification/Scheduler_Safety.thy ===== *)
theory Scheduler_Safety
  imports Scheduler Worker_Safety Task_Safety
begin

text \<open>
  The patrol scheduler: every instant of a schedule fires once, a scheduled patrol passes the guards of
  the schedule and the gate, and a patrol the gate refuses leaves its task behind. At the end the whole
  cycle of the worker: a silent robot loses its lease.
\<close>

section \<open>What dispatching leaves alone\<close>

definition instant :: "schedule_occurrence \<Rightarrow> ident \<times> micros" where
  "instant oc = (oc_schedule_id oc, oc_scheduled_for oc)"

definition slots_of :: "'a database_scheme \<Rightarrow> (ident \<times> ident \<times> micros) list" where
  "slots_of db = map (\<lambda>oc. (oc_id oc, instant oc)) (d_occurrences db)"

lemma build_patrol_frame:
  assumes "build_patrol_task env n redis plan r actor source sch occ db = Inr (t, c, db')"
  shows "d_occurrences db' = d_occurrences db" "d_schedules db' = d_schedules db" "tx_ops db' = tx_ops db"
proof -
  obtain t0 params where l: "launch env n redis r actor ''patrol'' params 50 t0 db = Inr (t, c, db')"
    using assms by (auto simp: build_patrol_task_def)
  then obtain db1 where c: "create_durable_command env (n + 2) redis r actor ''patrol'' params (Some (tk_id t0)) 30000 50
      (add_task t0 db) = Inr (c, db1)" and db': "db' = put_task (queued t0) db1"
    by (auto simp: launch_def)
  obtain m where "db1 = (add_task t0 db)\<lparr>d_commands := d_commands (add_task t0 db) @ [c],
               d_outbox := d_outbox (add_task t0 db) @ [outbox_row env (n + 2 + 3) c m]\<rparr>"
    using create_durableE [OF c] by metis
  then show "d_occurrences db' = d_occurrences db" "d_schedules db' = d_schedules db" "tx_ops db' = tx_ops db"
    by (simp_all add: db' put_task_def add_task_def)
qed

lemma attempt_frame:
  assumes "attempt_patrol env n redis plan r actor sch occ db = (res, db')"
  shows "d_occurrences db' = d_occurrences db \<and> d_schedules db' = d_schedules db \<and> tx_ops db' = tx_ops db"
  using assms build_patrol_frame unfolding attempt_patrol_def
  by (fastforce simp: add_task_def split: sum.splits prod.splits)

lemma put_occurrence_frame [simp]:
  "d_schedules (put_occurrence oc db) = d_schedules db" "tx_ops (put_occurrence oc db) = tx_ops db"
  "d_tasks (put_occurrence oc db) = d_tasks db" "d_commands (put_occurrence oc db) = d_commands db"
  by (simp_all add: put_occurrence_def)

lemma queue_occurrences [simp]:
  "d_occurrences (queue_event ty pl db) = d_occurrences db" "d_schedules (queue_event ty pl db) = d_schedules db"
  by (simp_all add: queue_event_def)

text \<open>Occurrences that were read from the table, or are about to enter it.\<close>

definition known :: "schedule_occurrence \<Rightarrow> 'a database_scheme \<Rightarrow> bool" where
  "known oc db \<longleftrightarrow> (\<forall>e \<in> set (slots_of db). fst e = oc_id oc \<longrightarrow> snd e = instant oc)"

lemma put_occurrence_slots:
  assumes "known oc db"
  shows "slots_of (put_occurrence (oc\<lparr>oc_state := st, oc_reason := re, oc_task_id := ti\<rparr>) db) = slots_of db"
    "slots_of (conclude oc st' re' db) = slots_of db"
  using assms by (auto simp: slots_of_def put_occurrence_def conclude_def upd_rows_def known_def instant_def)

lemma dispatch_cases:
  obtains (refused) st re where "st \<noteq> ''DISPATCHED''" "dispatch_occurrence env n redis seen oc db = conclude oc st re db"
  | (failed) s p r v e db' where "occurrence_rows oc db = Some (s, p, r, v)" "refusal env oc s r v seen db = None"
      "attempt_patrol env n redis p r (sc_created_by s) (sc_id s) (oc_id oc) db = (Inl e, db')"
      "dispatch_occurrence env n redis seen oc db = conclude oc ''REJECTED'' (error_code e) db'"
  | (dispatched) s p r v t c db' where "occurrence_rows oc db = Some (s, p, r, v)" "refusal env oc s r v seen db = None"
      "attempt_patrol env n redis p r (sc_created_by s) (sc_id s) (oc_id oc) db = (Inr (t, c), db')"
      "dispatch_occurrence env n redis seen oc db = queue_event ''task.created'' (Ev_Task_Created t (cm_command_id c))
         (put_occurrence (oc\<lparr>oc_state := ''DISPATCHED'', oc_reason := None, oc_task_id := Some (tk_id t)\<rparr>) db')"
proof (cases "occurrence_rows oc db")
  case None
  then show ?thesis by (intro refused [of "''REJECTED''"]) (simp_all add: dispatch_occurrence_def)
next
  case (Some x)
  obtain s p r v where x: "x = (s, p, r, v)" by (cases x)
  show ?thesis
  proof (cases "refusal env oc s r v seen db")
    case (Some y)
    moreover obtain st re where y: "y = (st, re)" by (cases y)
    ultimately have "st \<noteq> ''DISPATCHED''" by (auto simp: refusal_def Let_def split: if_splits)
    then show ?thesis
      by (rule refused [of _ re]) (use \<open>occurrence_rows oc db = Some x\<close> Some x y in \<open>simp add: dispatch_occurrence_def\<close>)
  next
    case None
    obtain res db' where a: "attempt_patrol env n redis p r (sc_created_by s) (sc_id s) (oc_id oc) db = (res, db')"
      by (rule prod.exhaust)
    note rows = \<open>occurrence_rows oc db = Some x\<close> [unfolded x]
    show ?thesis
    proof (cases res)
      case (Inl e)
      show ?thesis by (rule failed [OF rows None a [unfolded Inl]]) (simp add: dispatch_occurrence_def rows None a Inl)
    next
      case (Inr tc)
      obtain t c where tc: "tc = (t, c)" by (cases tc)
      show ?thesis
        by (rule dispatched [OF rows None a [unfolded Inr tc]]) (simp add: dispatch_occurrence_def rows None a Inr tc)
    qed
  qed
qed

lemma conclude_frame [simp]:
  "d_schedules (conclude oc st re db) = d_schedules db" "tx_ops (conclude oc st re db) = tx_ops db"
  "d_tasks (conclude oc st re db) = d_tasks db" "d_commands (conclude oc st re db) = d_commands db"
  by (simp_all add: conclude_def)

lemma slots_cong: "d_occurrences a = d_occurrences b \<Longrightarrow> slots_of a = slots_of b"
  by (simp add: slots_of_def)

lemma known_cong: "slots_of a = slots_of b \<Longrightarrow> known oc b \<Longrightarrow> known oc a"
  by (simp add: known_def)

lemma dispatch_frame:
  assumes k: "known oc db"
  shows "slots_of (dispatch_occurrence env n redis seen oc db) = slots_of db"
    "d_schedules (dispatch_occurrence env n redis seen oc db) = d_schedules db"
    "tx_ops (dispatch_occurrence env n redis seen oc db) = tx_ops db"
proof -
  have "slots_of (dispatch_occurrence env n redis seen oc db) = slots_of db
    \<and> d_schedules (dispatch_occurrence env n redis seen oc db) = d_schedules db
    \<and> tx_ops (dispatch_occurrence env n redis seen oc db) = tx_ops db"
  proof (rule dispatch_cases [of env n redis seen oc db])
    fix st re assume "dispatch_occurrence env n redis seen oc db = conclude oc st re db"
    then show ?thesis using put_occurrence_slots(2) [OF k] by simp
  next
    fix s p r e and db' :: tx
    assume a: "attempt_patrol env n redis p r (sc_created_by s) (sc_id s) (oc_id oc) db = (Inl e, db')"
      and d: "dispatch_occurrence env n redis seen oc db = conclude oc ''REJECTED'' (error_code e) db'"
    have s: "slots_of db' = slots_of db" using slots_cong attempt_frame [OF a] by blast
    show ?thesis using put_occurrence_slots(2) [OF known_cong [OF s k]] s attempt_frame [OF a] by (simp add: d)
  next
    fix s p r t c and db' :: tx
    assume a: "attempt_patrol env n redis p r (sc_created_by s) (sc_id s) (oc_id oc) db = (Inr (t, c), db')"
      and d: "dispatch_occurrence env n redis seen oc db = queue_event ''task.created'' (Ev_Task_Created t (cm_command_id c))
         (put_occurrence (oc\<lparr>oc_state := ''DISPATCHED'', oc_reason := None, oc_task_id := Some (tk_id t)\<rparr>) db')"
    have s: "slots_of db' = slots_of db" using slots_cong attempt_frame [OF a] by blast
    have "slots_of (dispatch_occurrence env n redis seen oc db)
        = slots_of (put_occurrence (oc\<lparr>oc_state := ''DISPATCHED'', oc_reason := None, oc_task_id := Some (tk_id t)\<rparr>) db')"
      by (rule slots_cong) (simp add: d)
    then show ?thesis using put_occurrence_slots(1) [OF known_cong [OF s k]] s attempt_frame [OF a] by (simp add: d)
  qed
  then show "slots_of (dispatch_occurrence env n redis seen oc db) = slots_of db"
    "d_schedules (dispatch_occurrence env n redis seen oc db) = d_schedules db"
    "tx_ops (dispatch_occurrence env n redis seen oc db) = tx_ops db" by blast+
qed

lemma queued_frame:
  "\<forall>oc \<in> set ocs. known oc db \<Longrightarrow>
     slots_of (dispatch_queued env n redis seen ocs db) = slots_of db
     \<and> d_schedules (dispatch_queued env n redis seen ocs db) = d_schedules db
     \<and> tx_ops (dispatch_queued env n redis seen ocs db) = tx_ops db"
proof (induction ocs arbitrary: n seen db)
  case (Cons oc ocs)
  let ?db = "dispatch_occurrence env (n + 1) redis seen oc db"
  have k: "known oc db" using Cons.prems by simp
  have "\<forall>oc \<in> set ocs. known oc ?db"
    using Cons.prems known_cong [OF dispatch_frame(1) [OF k]] by simp
  from Cons.IH [OF this] show ?case using dispatch_frame [OF k] by (simp add: Let_def)
qed simp

section \<open>Every instant fires once\<close>

text \<open>
  No two occurrences of a schedule share their time, all of them lie before its next run, and
  identifiers are distinct.
\<close>

definition schedules_ok :: "'a database_scheme \<Rightarrow> bool" where
  "schedules_ok db \<longleftrightarrow> distinct (map fst (slots_of db)) \<and> distinct (map snd (slots_of db))
     \<and> distinct (map sc_id (d_schedules db))
     \<and> (\<forall>e \<in> set (slots_of db). \<forall>s \<in> set (d_schedules db). \<forall>t.
          sc_id s = fst (snd e) \<and> sc_next_run s = Some t \<longrightarrow> snd (snd e) < t)"

lemma ok_known:
  assumes "distinct (map fst (slots_of db))" "oc \<in> set (d_occurrences db)"
  shows "known oc db"
  unfolding known_def
proof (intro ballI impI)
  fix e assume e: "e \<in> set (slots_of db)" "fst e = oc_id oc"
  have "(oc_id oc, instant oc) \<in> set (slots_of db)" using assms(2) by (auto simp: slots_of_def)
  moreover have "inj_on fst (set (slots_of db))" using assms(1) by (simp add: distinct_map)
  ultimately have "e = (oc_id oc, instant oc)" using e by (intro inj_onD [of fst "set (slots_of db)"]) auto
  then show "snd e = instant oc" by simp
qed

lemma run_schedule_cases:
  assumes ok: "schedules_ok db" and s: "s \<in> set (d_schedules db)" "sc_next_run s = Some t"
    and t': "following_run ca s t = Inr t'" and fresh: "uuid env n \<notin> fst ` set (slots_of db)"
  obtains db' where "run_schedule ca env n redis s db = Inr db'"
    "slots_of db' = slots_of db @ [(uuid env n, sc_id s, t)]"
    "d_schedules db' = upd_rows (\<lambda>x. sc_id x = sc_id s)
       (\<lambda>_. s\<lparr>sc_next_run := Some t', sc_last_run := Some (utc_now env)\<rparr>) (d_schedules db)" "tx_ops db' = tx_ops db"
proof -
  let ?oc = "new_occurrence (uuid env n) s t"
  let ?db1 = "put_schedule (s\<lparr>sc_next_run := Some t', sc_last_run := Some (utc_now env)\<rparr>) db"
  let ?db2 = "?db1\<lparr>d_occurrences := d_occurrences ?db1 @ [?oc]\<rparr>"
  let ?db3 = "if misfire_expired (utc_now env) s t then conclude ?oc ''SKIPPED'' ''MISFIRE_EXPIRED'' ?db2
              else dispatch_occurrence env (n + 1) redis (d_tasks ?db2) ?oc ?db2"
  have "oc_scheduled_for x \<noteq> t" if "x \<in> set (d_occurrences db)" "oc_schedule_id x = sc_id s" for x
    using ok s that by (force simp: schedules_ok_def slots_of_def instant_def)
  then have "add_occurrence ?oc ?db1 = Inr ?db2"
    by (auto simp: add_occurrence_def new_occurrence_def put_schedule_def)
  then have r: "run_schedule ca env n redis s db = Inr ?db3"
    using s(2) t' by (simp add: run_schedule_def Let_def)
  have sl: "slots_of ?db2 = slots_of db @ [(uuid env n, sc_id s, t)]"
    by (simp add: slots_of_def put_schedule_def new_occurrence_def instant_def)
  have k: "known ?oc ?db2"
    using fresh unfolding known_def sl by (auto simp: new_occurrence_def instant_def image_iff)
  have "slots_of ?db3 = slots_of ?db2 \<and> d_schedules ?db3 = d_schedules ?db2 \<and> tx_ops ?db3 = tx_ops ?db2"
    using put_occurrence_slots(2) [OF k] dispatch_frame [OF k] by simp
  then show ?thesis using r sl by (intro that [of ?db3]) (simp_all add: put_schedule_def)
qed

text \<open>What is left to fire is in the table and due, and the identifiers still to be drawn are new.\<close>

definition pending :: "pyenv \<Rightarrow> nat \<Rightarrow> patrol_schedule list \<Rightarrow> tx \<Rightarrow> bool" where
  "pending env n ss db \<longleftrightarrow> schedules_ok db \<and> set ss \<subseteq> set (d_schedules db) \<and> distinct (map sc_id ss)
     \<and> list_all (due (utc_now env)) ss \<and> (\<forall>k \<ge> n. uuid env k \<notin> fst ` set (slots_of db))"

lemma upd_schedule_ids:
  "map sc_id (upd_rows (\<lambda>x. sc_id x = sc_id s) (\<lambda>_. s\<lparr>sc_next_run := a, sc_last_run := b\<rparr>) ss) = map sc_id ss"
  by (simp add: upd_rows_def)

lemma fired_ok:
  assumes ok: "schedules_ok db" and s: "s \<in> set (d_schedules db)" "sc_next_run s = Some t" and less: "t < t'"
    and fresh: "i \<notin> fst ` set (slots_of db)"
    and db': "slots_of db' = slots_of db @ [(i, sc_id s, t)]"
      "d_schedules db' = upd_rows (\<lambda>x. sc_id x = sc_id s) (\<lambda>_. s\<lparr>sc_next_run := Some t', sc_last_run := b\<rparr>) (d_schedules db)"
  shows "schedules_ok db'"
  unfolding schedules_ok_def
proof (intro conjI ballI allI impI)
  have old: "snd (snd e) < u" if "e \<in> set (slots_of db)" "x \<in> set (d_schedules db)" "sc_id x = fst (snd e)"
    "sc_next_run x = Some u" for e x u
    using ok that by (auto simp: schedules_ok_def)
  then have "(sc_id s, t) \<notin> snd ` set (slots_of db)" using s by fastforce
  then show "distinct (map fst (slots_of db'))" "distinct (map snd (slots_of db'))"
    "distinct (map sc_id (d_schedules db'))"
    using ok fresh by (simp_all add: schedules_ok_def db' upd_schedule_ids)
  fix e x u
  assume e: "e \<in> set (slots_of db')" and x: "x \<in> set (d_schedules db')" and m: "sc_id x = fst (snd e) \<and> sc_next_run x = Some u"
  show "snd (snd e) < u"
  proof (cases "sc_id x = sc_id s")
    case True
    then have "u = t'" using x m by (auto simp: db' elim!: set_upd_rowsE)
    moreover have "snd (snd e) \<le> t" using e m True old [OF _ s(1) _ s(2)] by (fastforce simp: db')
    ultimately show ?thesis using less by simp
  next
    case False
    then have "x \<in> set (d_schedules db)" using x by (auto simp: db' elim!: set_upd_rowsE)
    moreover have "e \<in> set (slots_of db)" using e m False by (auto simp: db')
    ultimately show ?thesis using old m by blast
  qed
qed

lemma run_schedules_fire:
  assumes "pending env n ss db" "inj (uuid env)" and advance: "\<forall>c z t. t < ca_next ca c z t"
    and valid: "\<forall>s \<in> set ss. ca_zone ca (sc_timezone s) \<and> ca_valid ca (sc_cron s)"
  shows "\<exists>db'. run_schedules ca env n redis ss db = Inr db' \<and> schedules_ok db' \<and> tx_ops db' = tx_ops db
    \<and> map snd (slots_of db') = map snd (slots_of db) @ map (\<lambda>s. (sc_id s, the (sc_next_run s))) ss"
  using assms(1) valid
proof (induction ss arbitrary: n db)
  case (Cons s ss)
  obtain t where t: "sc_next_run s = Some t" using Cons.prems(1) by (auto simp: pending_def due_def split: option.splits)
  have run: "following_run ca s t = Inr (ca_next ca (sc_cron s) (sc_timezone s) t)"
    using Cons.prems(2) by (simp add: following_run_def)
  have ok: "schedules_ok db" and s: "s \<in> set (d_schedules db)" and fresh: "uuid env n \<notin> fst ` set (slots_of db)"
    using Cons.prems(1) by (auto simp: pending_def)
  obtain db1 where db1: "run_schedule ca env n redis s db = Inr db1"
    "slots_of db1 = slots_of db @ [(uuid env n, sc_id s, t)]"
    "d_schedules db1 = upd_rows (\<lambda>x. sc_id x = sc_id s)
       (\<lambda>_. s\<lparr>sc_next_run := Some (ca_next ca (sc_cron s) (sc_timezone s) t), sc_last_run := Some (utc_now env)\<rparr>) (d_schedules db)"
    "tx_ops db1 = tx_ops db"
    using run_schedule_cases [OF ok s t run fresh] by metis
  have ok1: "schedules_ok db1" by (rule fired_ok [OF ok s t _ fresh db1(2,3)]) (use advance in blast)
  have "x \<in> set (d_schedules db1)" if "x \<in> set ss" for x
  proof -
    have "sc_id s \<notin> sc_id ` set ss" "x \<in> set (d_schedules db)"
      using Cons.prems(1) that by (auto simp: pending_def)
    then have "x \<in> set (d_schedules db)" "sc_id x \<noteq> sc_id s" using that by (metis image_eqI)+
    then show ?thesis unfolding db1(3) by (intro upd_rows_other) auto
  qed
  moreover have "uuid env k \<notin> fst ` set (slots_of db1)" if "n + 7 \<le> k" for k
  proof -
    have "uuid env k \<noteq> uuid env n" using that inj_eq [OF assms(2)] by simp
    then show ?thesis using Cons.prems(1) that by (auto simp: pending_def db1(2))
  qed
  ultimately have "pending env (n + 7) ss db1" using Cons.prems(1) ok1 by (auto simp: pending_def)
  from Cons.IH [OF this] Cons.prems(2) show ?case using db1(1,2,4) t by auto
qed (auto simp: pending_def)

text \<open>The other parts of the cycle leave the schedules alone.\<close>

definition schedule_tables :: "'a database_scheme \<Rightarrow> schedule_occurrence list \<times> patrol_schedule list" where
  "schedule_tables db = (d_occurrences db, d_schedules db)"

lemma put_schedule_tables [simp]:
  "schedule_tables (put_robot r db) = schedule_tables db" "schedule_tables (put_task t db) = schedule_tables db"
  "schedule_tables (put_command c db) = schedule_tables db" "schedule_tables (put_stop op db) = schedule_tables db"
  "schedule_tables (queue_event ty pl db) = schedule_tables db"
  "schedule_tables (queue_redis_set k v ttl db) = schedule_tables db"
  "schedule_tables (queue_redis_delete k db) = schedule_tables db"
  "schedule_tables (d_op_events_update f db) = schedule_tables db"
  "schedule_tables (d_task_events_update g db) = schedule_tables db"
  "schedule_tables (d_manual_update h db) = schedule_tables db"
  by (simp_all add: schedule_tables_def put_robot_def put_task_def put_command_def put_stop_def queue_event_def
      queue_redis_set_def queue_redis_delete_def)

lemma fold_tables: "(\<And>x s. schedule_tables (f x s) = schedule_tables s) \<Longrightarrow> schedule_tables (fold f xs s) = schedule_tables s"
  by (induction xs arbitrary: s) simp_all

lemma reconcile_robots_tables [simp]:
  "schedule_tables (reconcile_robot_states ws now redis db) = schedule_tables db"
  unfolding reconcile_robot_states_def
  by (rule fold_tables)
    (simp add: reconcile_robot_def Let_def announce_state_def drop_lease_def expire_session_def split: option.split)

lemma expire_tables [simp]: "schedule_tables (expire_sessions_and_commands ws now redis db) = schedule_tables db"
proof -
  have "schedule_tables (expire_commands ws now s) = schedule_tables s" for s
    unfolding expire_commands_def by (rule fold_tables) simp
  then show ?thesis by (simp add: expire_sessions_and_commands_def expire_sessions_def)
qed

lemma stops_tables: "reconcile_stops env now redis ops db = Inr db' \<Longrightarrow> schedule_tables db' = schedule_tables db"
proof (induction ops arbitrary: db)
  case (Cons op ops)
  have "schedule_tables (store_stop x s) = schedule_tables s" for x s by (simp add: store_stop_def)
  with Cons show ?case by (force split: prod.split_asm sum.split_asm)
qed simp

lemma verify_tables: "verify_poses env now redis ts db = Inr db' \<Longrightarrow> schedule_tables db' = schedule_tables db"
proof (induction ts arbitrary: db)
  case (Cons t ts)
  have "schedule_tables (store_verified env now l x x' s) = schedule_tables s" for l x x' s
    by (simp add: store_verified_def Let_def finish_command_def split: option.split)
  with Cons show ?case by (auto simp: Let_def bind_Inr)
qed simp

lemma steps_tables: "worker_steps ws env redis db = Inr db' \<Longrightarrow> schedule_tables db' = schedule_tables db"
  using stops_tables verify_tables
  unfolding worker_steps_def Let_def bind_Inr reconcile_stop_operations_def reconcile_navigation_verification_def
  by fastforce

lemma schedule_tables_slots:
  "schedule_tables a = schedule_tables b \<Longrightarrow> slots_of a = slots_of b \<and> d_schedules a = d_schedules b"
  by (simp add: schedule_tables_def slots_of_def)

lemma occurrence_tables [simp]:
  "d_occurrences (begin_tx d) = d_occurrences d" "d_schedules (begin_tx d) = d_schedules d"
  "d_occurrences (database.truncate s) = d_occurrences s" "d_schedules (database.truncate s) = d_schedules s"
  by (simp_all add: begin_tx_def database.extend_def database.truncate_def)

lemma slots_tx [simp]:
  "slots_of (begin_tx d) = slots_of d" "slots_of (database.truncate s) = slots_of s"
  "schedules_ok (begin_tx d) = schedules_ok d" "schedules_ok (database.truncate s) = schedules_ok s"
  by (simp_all add: slots_of_def schedules_ok_def)

lemma slot_ids: "fst ` set (slots_of db) = oc_id ` set (d_occurrences db)"
  by (auto simp: slots_of_def image_iff)

lemma slot_instants: "map snd (slots_of db) = map instant (d_occurrences db)"
  by (simp add: slots_of_def)

lemma scheduler_fires:
  assumes ok: "schedules_ok db" and uuids: "inj (uuid env)" "\<forall>k. uuid env k \<notin> fst ` set (slots_of db)"
    and advance: "\<forall>c z t. t < ca_next ca c z t"
    and valid: "\<forall>s \<in> set (d_schedules db). ca_zone ca (sc_timezone s) \<and> ca_valid ca (sc_cron s)"
  shows "\<exists>db'. run_patrol_scheduler ca env n redis seen db = Inr db' \<and> schedules_ok db' \<and> tx_ops db' = tx_ops db
    \<and> map snd (slots_of db') = map snd (slots_of db)
        @ map (\<lambda>s. (sc_id s, the (sc_next_run s))) (filter (due (utc_now env)) (d_schedules db))"
proof -
  let ?queued = "filter (\<lambda>oc. oc_state oc = ''QUEUED'') (d_occurrences db)"
  let ?db = "dispatch_queued env n redis seen ?queued db"
  have "\<forall>oc \<in> set ?queued. known oc db" using ok unfolding schedules_ok_def by (auto intro: ok_known)
  note q = queued_frame [OF this, of env n redis seen]
  have d: "distinct (map sc_id (filter (due (utc_now env)) (d_schedules db)))"
    using ok by (auto simp: schedules_ok_def intro: distinct_map_filter)
  have "schedules_ok ?db" using ok q by (simp add: schedules_ok_def)
  then have "pending env (n + 7 * length ?queued) (filter (due (utc_now env)) (d_schedules ?db)) ?db"
    using q uuids(2) d by (auto simp: pending_def list_all_iff)
  from run_schedules_fire [OF this uuids(1) advance] show ?thesis
    using valid q by (simp add: run_patrol_scheduler_def Let_def)
qed

text \<open>
  Property C13. Every instant of a schedule fires exactly once: a cycle of the worker whose other steps
  do not fail appends exactly one occurrence for every schedule that is due, at the time it was due,
  keeps every older one, moves the schedule past it, and so never violates the unique constraint,
  which would abort the whole cycle. Cron expressions and time zones of stored schedules are valid
  (the endpoint that stores them checks) and croniter's next time lies after its start.
\<close>

theorem instants_fire_once:
  assumes "schedules_ok (pf_db p)" and "inj (uuid env)" "\<forall>k. uuid env k \<notin> oc_id ` set (d_occurrences (pf_db p))"
    and "\<forall>c z t. t < ca_next ca c z t"
    and "\<forall>s \<in> set (d_schedules (pf_db p)). ca_zone ca (sc_timezone s) \<and> ca_valid ca (sc_cron s)"
    and steps: "worker_steps ws env (pf_redis p) (begin_tx (pf_db p)) = Inr db"
  shows "schedules_ok (pf_db (worker_cycle ws ca env n p))
    \<and> map instant (d_occurrences (pf_db (worker_cycle ws ca env n p)))
      = map instant (d_occurrences (pf_db p))
        @ map (\<lambda>s. (sc_id s, the (sc_next_run s))) (filter (due (utc_now env)) (d_schedules (pf_db p)))"
proof -
  have same: "slots_of db = slots_of (pf_db p)" "d_schedules db = d_schedules (pf_db p)"
    using schedule_tables_slots [OF steps_tables [OF steps]] by simp_all
  have "schedules_ok db" using assms(1) same by (simp add: schedules_ok_def)
  moreover have "\<forall>k. uuid env k \<notin> fst ` set (slots_of db)" using assms(3) by (simp add: same slot_ids)
  ultimately obtain db' where "run_patrol_scheduler ca env n (pf_redis p) (d_tasks (pf_db p)) db = Inr db'" "schedules_ok db'"
    "map snd (slots_of db') = map snd (slots_of (pf_db p))
        @ map (\<lambda>s. (sc_id s, the (sc_next_run s))) (filter (due (utc_now env)) (d_schedules (pf_db p)))"
    using scheduler_fires [of db env ca n "pf_redis p" "d_tasks (pf_db p)"] assms(2,4,5) same by auto
  then show ?thesis using steps by (simp add: worker_cycle_def slot_instants)
qed

text \<open>A schedule of the demo plan that is due now.\<close>

definition demo_settings :: worker_settings where
  "demo_settings = \<lparr>ws_stale_seconds = 3, ws_offline_seconds = 10, ws_ack_timeout_seconds = 3\<rparr>"

definition demo_schedule :: patrol_schedule where
  "demo_schedule = \<lparr>sc_id = ''sc'', sc_plan_id = ''pl'', sc_cron = ''* * * * *'', sc_timezone = ''UTC'', sc_enabled = True,
     sc_misfire_policy = ''SKIP'', sc_misfire_grace = 0, sc_overlap_policy = ''SKIP'', sc_queue_expiry = 300,
     sc_require_online = True, sc_require_control = True, sc_require_map = True, sc_next_run = Some 0,
     sc_last_run = None, sc_created_by = ''u''\<rparr>"

definition every_minute :: calendar where
  "every_minute = \<lparr>ca_zone = (\<lambda>_. True), ca_valid = (\<lambda>_. True), ca_next = (\<lambda>_ _ t. t + 60000000)\<rparr>"

definition cron_platform :: platform where
  "cron_platform = field_platform\<lparr>pf_db := (pf_db field_platform)\<lparr>d_schedules := [demo_schedule]\<rparr>\<rparr>"

lemma cron_facts:
  "d_schedules (pf_db cron_platform) = [demo_schedule]" "d_occurrences (pf_db cron_platform) = []"
  "slots_of (pf_db cron_platform) = []"
  by (simp_all add: cron_platform_def field_platform_def slots_of_def demo_platform_def demo_db_def empty_db_def)

lemma cron_steps:
  "\<exists>db. worker_steps demo_settings task_env (pf_redis cron_platform) (begin_tx (pf_db cron_platform)) = Inr db"
proof -
  let ?db = "expire_sessions_and_commands demo_settings 5 (pf_redis cron_platform)
     (reconcile_robot_states demo_settings 5 (pf_redis cron_platform) (begin_tx (pf_db cron_platform)))"
  have "d_stops ?db = []" "filter awaiting_pose (d_tasks ?db) = []" by code_simp+
  moreover have "utc_now task_env = 5" by (simp add: task_env_def plain_env_def)
  ultimately show ?thesis
    by (simp add: worker_steps_def reconcile_stop_operations_def reconcile_navigation_verification_def)
qed

lemma task_env_uuids: "inj (uuid task_env)"
proof (rule injI)
  fix a b assume "uuid task_env a = uuid task_env b"
  then have "length (replicate a CHR ''x'') = length (replicate b CHR ''x'')" by (simp add: task_env_def plain_env_def)
  then show "a = b" by simp
qed

theorem instants_fire_once_witness:
  "map instant (d_occurrences (pf_db (worker_cycle demo_settings every_minute task_env 0 cron_platform))) = [(''sc'', 0)]"
proof -
  obtain db where db: "worker_steps demo_settings task_env (pf_redis cron_platform) (begin_tx (pf_db cron_platform)) = Inr db"
    using cron_steps by blast
  have "schedules_ok (pf_db cron_platform)" by (simp add: schedules_ok_def cron_facts)
  from instants_fire_once [OF this task_env_uuids _ _ _ db, of every_minute 0] show ?thesis
    by (simp add: cron_facts every_minute_def due_def demo_schedule_def task_env_def plain_env_def)
qed

section \<open>What a scheduled patrol went through\<close>

lemma attempt_built:
  "attempt_patrol env n redis plan r actor sch occ db = (Inr (t, c), db') \<Longrightarrow>
     build_patrol_task env n redis plan r actor (JStr ''SCHEDULER'') (Some sch) (Some occ) db = Inr (t, c, db')"
  by (auto simp: attempt_patrol_def split: sum.splits prod.splits)

lemma put_occurrence_row:
  "x \<in> set (d_occurrences (put_occurrence oc db)) \<Longrightarrow> oc_id x = oc_id oc \<Longrightarrow> x = oc"
  by (auto simp: put_occurrence_def elim!: set_upd_rowsE)

lemma conclude_row:
  "x \<in> set (d_occurrences (conclude oc st re db)) \<Longrightarrow> oc_id x = oc_id oc \<Longrightarrow> oc_state x = st"
  unfolding conclude_def by (drule put_occurrence_row) simp_all

lemma refusal_None:
  assumes "refusal env oc s r v seen db = None"
  shows "oc_state oc = ''QUEUED'' \<Longrightarrow> elapsed_seconds (utc_now env) (oc_scheduled_for oc) \<le> real_of_int (sc_queue_expiry s)"
    "flag (rd_autonomous (robot_readiness db r)) ''patrol''" "same_map r v" "\<not> busy r seen"
  using assms by (auto simp: refusal_def Let_def split: if_splits)

text \<open>
  Property C14. A scheduled patrol went through every guard: when handling an occurrence makes it
  DISPATCHED, then the plan is enabled, its robot enabled, online, with the emergency stop released
  and on the map version of the plan, without an active task and without a manual lease, a queued
  occurrence is within its window, and the occurrence names a queued patrol of that robot for which
  exactly one command was stored.
\<close>

theorem scheduled_patrol_guarded:
  assumes x: "x \<in> set (d_occurrences (dispatch_occurrence env n redis seen oc db))" "oc_id x = oc_id oc"
    and d: "oc_state x = ''DISPATCHED''"
  shows "\<exists>s p r v t c db'. occurrence_rows oc db = Some (s, p, r, v) \<and> pp_enabled p
    \<and> rb_enabled r \<and> rb_online_state r = ''ONLINE'' \<and> rb_estop r = Some False \<and> same_map r v
    \<and> \<not> (\<exists>u \<in> set (d_tasks db). tk_robot_id u = rb_id r \<and> active_task u \<and> tk_id u \<noteq> tk_id t)
    \<and> \<not> redis_exists (utc_now env) redis (lease_key (rb_id r))
    \<and> (oc_state oc = ''QUEUED'' \<longrightarrow> elapsed_seconds (utc_now env) (oc_scheduled_for oc) \<le> real_of_int (sc_queue_expiry s))
    \<and> dispatch_occurrence env n redis seen oc db = db' \<and> oc_task_id x = Some (tk_id t)
    \<and> t \<in> set (d_tasks db') \<and> tk_robot_id t = rb_id r \<and> tk_type t = ''PATROL'' \<and> tk_status t = ''QUEUED''
    \<and> d_commands db' = d_commands db @ [c] \<and> cm_task_id c = Some (tk_id t)"
proof (rule dispatch_cases [of env n redis seen oc db])
  fix st re
  assume "st \<noteq> ''DISPATCHED''" "dispatch_occurrence env n redis seen oc db = conclude oc st re db"
  then show ?thesis using x d conclude_row by metis
next
  fix e and db' :: tx
  assume "dispatch_occurrence env n redis seen oc db = conclude oc ''REJECTED'' (error_code e) db'"
  then show ?thesis using x d conclude_row [of x oc "''REJECTED''"] by auto
next
  fix s p r v t c and db' :: tx
  assume rows: "occurrence_rows oc db = Some (s, p, r, v)" and none: "refusal env oc s r v seen db = None"
    and a: "attempt_patrol env n redis p r (sc_created_by s) (sc_id s) (oc_id oc) db = (Inr (t, c), db')"
    and eq: "dispatch_occurrence env n redis seen oc db = queue_event ''task.created'' (Ev_Task_Created t (cm_command_id c))
         (put_occurrence (oc\<lparr>oc_state := ''DISPATCHED'', oc_reason := None, oc_task_id := Some (tk_id t)\<rparr>) db')"
  have st: "started env n redis r ''PATROL'' db t c db'" using build_patrol_started [OF attempt_built [OF a]] .
  obtain t0 params where l: "launch env n redis r (sc_created_by s) ''patrol'' params 50 t0 db = Inr (t, c, db')"
    using attempt_built [OF a] by (auto simp: build_patrol_task_def)
  obtain m where t: "t = queued t0"
    and gate: "assert_robot_can_execute (utc_now env) redis (add_task t0 db) r ''patrol'' (Some (tk_id t0)) = None"
    and tasks: "d_tasks db' = upd_rows (\<lambda>y. tk_id y = tk_id t0) (\<lambda>_. queued t0) (d_tasks db @ [t0])"
    using launchE [OF l] by metis
  have "t \<in> set (d_tasks db')" by (simp add: tasks t upd_rows_def)
  moreover have "\<not> redis_exists (utc_now env) redis (lease_key (rb_id r))" using gate by (auto simp: gate_iff AUTONOMOUS_COMMANDS_def)
  moreover have "pp_enabled p" using rows by (auto simp: occurrence_rows_def split: option.splits if_splits)
  moreover have "no_conflict (add_task t0 db) r (Some (tk_id t0)) ''patrol''" using gate unfolding gate_iff by blast
  then have "other_active_task (add_task t0 db) r (Some (tk_id t0)) = None"
    by (auto simp: no_conflict_def conflicts_def split: option.splits)
  then have "\<not> (\<exists>u \<in> set (d_tasks db). tk_robot_id u = rb_id r \<and> active_task u \<and> tk_id u \<noteq> tk_id t)"
    by (auto simp: other_active_task_def first_row_None add_task_def t)
  moreover have "oc_task_id x = Some (tk_id t)"
    using x unfolding eq queue_occurrences by (auto dest!: put_occurrence_row)
  ultimately show ?thesis
    using rows refusal_None [OF none] st unfolding rd_autonomous_iff
    by (intro exI [of _ s] exI [of _ p] exI [of _ r] exI [of _ v] exI [of _ t] exI [of _ c] exI [of _ "dispatch_occurrence env n redis seen oc db"])
      (auto simp: eq started_def)
qed

definition demo_occurrence :: schedule_occurrence where
  "demo_occurrence = new_occurrence ''oc'' demo_schedule 0"

definition cron_tx :: tx where
  "cron_tx = (begin_tx (pf_db cron_platform))\<lparr>d_occurrences := [demo_occurrence]\<rparr>"

lemma demo_dispatch:
  "map (\<lambda>oc. (oc_id oc, oc_state oc)) (d_occurrences (dispatch_occurrence task_env 0 (pf_redis cron_platform) (d_tasks cron_tx) demo_occurrence cron_tx))
     = [(''oc'', ''DISPATCHED'')]"
  by code_simp

theorem scheduled_patrol_guarded_witness:
  "\<exists>t \<in> set (d_tasks (dispatch_occurrence task_env 0 (pf_redis cron_platform) (d_tasks cron_tx) demo_occurrence cron_tx)).
     tk_type t = ''PATROL'' \<and> tk_status t = ''QUEUED''"
proof -
  obtain x where "x \<in> set (d_occurrences (dispatch_occurrence task_env 0 (pf_redis cron_platform) (d_tasks cron_tx) demo_occurrence cron_tx))"
    "oc_id x = oc_id demo_occurrence" "oc_state x = ''DISPATCHED''"
    using demo_dispatch by (auto simp: map_eq_Cons_conv demo_occurrence_def new_occurrence_def)
  from scheduled_patrol_guarded [OF this] show ?thesis by blast
qed

section \<open>A refused patrol leaves its task\<close>

text \<open>The gate before a patrol of a ready robot that is under manual control.\<close>

lemma gate_lease:
  assumes "flag (rd_autonomous (robot_readiness db r)) ''patrol''" "redis_exists now redis (lease_key (rb_id r))"
  shows "assert_robot_can_execute now redis db r ''patrol'' ignore = Some (PlatformError ''MANUAL_LEASE_CONFLICT'')"
proof -
  note f = assms(1) [unfolded rd_autonomous_iff]
  obtain i where i: "get_integration (rb_id r) db = Some i" "ip_control_verified i" "ip_ack_verified i"
      "ip_map_verified i" "\<not> ros_compat_read_only i"
    using f by (auto simp: opt_holds_def ros_compat_read_only_def split: option.splits)
  obtain c where "get_capability (rb_id r) db = Some c"
    using f by (auto simp: supports_def opt_holds_def split: option.splits)
  then show ?thesis
    using i f assms by (simp add: assert_robot_can_execute_def Let_def AUTONOMOUS_COMMANDS_def SAFETY_COMMANDS_def)
qed

lemma add_task_frame [simp]:
  "d_commands (add_task t db) = d_commands db" "d_occurrences (add_task t db) = d_occurrences db"
  "d_tasks (add_task t db) = d_tasks db @ [t]" "d_outbox (add_task t db) = d_outbox db"
  "robot_readiness (add_task t db) r = robot_readiness db r"
  by (simp_all add: add_task_def robot_readiness_def get_integration_def get_capability_def get_motion_def)

lemma prepared_task:
  assumes "prepare_patrol env n plan r actor source sch occ db = Inr (t, params)"
  shows "tk_robot_id t = rb_id r" "tk_status t = ''CREATED''" "tk_type t = ''PATROL''" "tk_id t = uuid env (n + 1)"
  using assms by (auto simp: prepare_patrol_def Let_def split: if_splits option.splits list.splits)

lemma attempt_under_lease:
  assumes p: "prepare_patrol env n plan r actor (JStr ''SCHEDULER'') (Some sch) (Some occ) db = Inr (t, params)"
    and "flag (rd_autonomous (robot_readiness db r)) ''patrol''" "redis_exists (utc_now env) redis (lease_key (rb_id r))"
  shows "attempt_patrol env n redis plan r actor sch occ db = (Inl (PlatformError ''MANUAL_LEASE_CONFLICT''), add_task t db)"
proof -
  have "launch env n redis r actor ''patrol'' params 50 t db = Inl (PlatformError ''MANUAL_LEASE_CONFLICT'')"
    using gate_lease [of "add_task t db" r "utc_now env" redis] assms(2,3)
    by (simp add: launch_def create_durable_command_def)
  then show ?thesis by (simp add: attempt_patrol_def build_patrol_task_def p)
qed

text \<open>
  Property C15. A scheduled patrol that meets a manual lease wedges the robot: the scheduler does not look
  at the lease, the gate inside the task builder does and raises, the scheduler catches the exception
  and rejects the occurrence - but the task was already added and is committed with the cycle, as
  CREATED, with no command. From then on the robot counts as busy, and every later patrol of it is refused,
  also after the lease is gone.
\<close>

theorem refused_patrol_leaves_task:
  assumes rows: "occurrence_rows oc db = Some (s, p, r, v)" and pass: "refusal env oc s r v seen db = None"
    and prep: "prepare_patrol env n p r (sc_created_by s) (JStr ''SCHEDULER'') (Some (sc_id s)) (Some (oc_id oc)) db
         = Inr (t, params)"
    and lease: "redis_exists (utc_now env) redis (lease_key (rb_id r))"
    and db': "db' = dispatch_occurrence env n redis seen oc db"
  shows "db' = conclude oc ''REJECTED'' ''MANUAL_LEASE_CONFLICT'' (add_task t db)
    \<and> d_tasks db' = d_tasks db @ [t] \<and> tk_status t = ''CREATED''
    \<and> d_commands db' = d_commands db \<and> d_outbox db' = d_outbox db
    \<and> (\<forall>env' oc' s' v'. refusal env' oc' s' r v' (d_tasks db') db' \<noteq> None)
    \<and> (\<forall>now redis'. assert_robot_can_execute now redis' db' r ''patrol'' None \<noteq> None)"
proof -
  note t = prepared_task [OF prep]
  have d: "db' = conclude oc ''REJECTED'' ''MANUAL_LEASE_CONFLICT'' (add_task t db)"
    using attempt_under_lease [OF prep refusal_None(2) [OF pass] lease]
    by (simp add: db' dispatch_occurrence_def rows pass)
  have tasks: "d_tasks db' = d_tasks db @ [t]" by (simp add: d)
  have act: "active_task t" using t(2) by (simp add: active_task_def ACTIVE_TASK_STATES_def)
  then have "busy r (d_tasks db')" using t(1) by (auto simp: busy_def first_row_None tasks)
  then have "refusal env' oc' s' r v' (d_tasks db') db' \<noteq> None" for env' oc' s' v' using refusal_None(4) by blast
  moreover have "assert_robot_can_execute now redis' db' r ''patrol'' None \<noteq> None" for now redis'
  proof
    assume "assert_robot_can_execute now redis' db' r ''patrol'' None = None"
    then have "no_conflict db' r None ''patrol''" unfolding gate_iff by blast
    then have "other_active_task db' r None = None"
      by (auto simp: no_conflict_def conflicts_def split: option.splits)
    then show False using t(1) act by (auto simp: other_active_task_def first_row_None tasks)
  qed
  moreover have "d_outbox db' = d_outbox db" by (simp add: d conclude_def put_occurrence_def)
  ultimately show ?thesis using d tasks t(2) by simp
qed

definition leased_redis :: redis where
  "leased_redis = (pf_redis cron_platform)(lease_key ''r'' \<mapsto> (JObj [(''user_id'', JStr ''w'')], None))"

lemma demo_rows:
  "case occurrence_rows demo_occurrence cron_tx of None \<Rightarrow> False
   | Some (s, p, r, v) \<Rightarrow> refusal task_env demo_occurrence s r v (d_tasks cron_tx) cron_tx = None \<and> redis_exists (utc_now task_env) leased_redis (lease_key (rb_id r))
      \<and> (case prepare_patrol task_env 0 p r (sc_created_by s) (JStr ''SCHEDULER'') (Some (sc_id s)) (Some (oc_id demo_occurrence)) cron_tx of
           Inl e \<Rightarrow> False | Inr (t, params) \<Rightarrow> True)"
  by code_simp

theorem refused_patrol_leaves_task_witness:
  "\<exists>t. d_tasks (dispatch_occurrence task_env 0 leased_redis (d_tasks cron_tx) demo_occurrence cron_tx) = d_tasks cron_tx @ [t] \<and> tk_status t = ''CREATED''
     \<and> d_commands (dispatch_occurrence task_env 0 leased_redis (d_tasks cron_tx) demo_occurrence cron_tx) = d_commands cron_tx"
proof -
  obtain s p r v t params where "occurrence_rows demo_occurrence cron_tx = Some (s, p, r, v)"
    "refusal task_env demo_occurrence s r v (d_tasks cron_tx) cron_tx = None"
    "prepare_patrol task_env 0 p r (sc_created_by s) (JStr ''SCHEDULER'') (Some (sc_id s)) (Some (oc_id demo_occurrence)) cron_tx = Inr (t, params)"
    "redis_exists (utc_now task_env) leased_redis (lease_key (rb_id r))"
    using demo_rows by (auto split: option.splits sum.splits prod.splits)
  from refused_patrol_leaves_task [OF this refl] show ?thesis by blast
qed

section \<open>Silent robots lose their lease\<close>

text \<open>The scheduler queues no Redis operation.\<close>

lemma dispatch_ops: "tx_ops (dispatch_occurrence env n redis seen oc db) = tx_ops db"
  by (rule dispatch_cases [of env n redis seen oc db]) (auto dest: attempt_frame)

lemma queued_ops: "tx_ops (dispatch_queued env n redis seen ocs db) = tx_ops db"
  by (induction ocs arbitrary: n seen db) (simp_all add: dispatch_ops Let_def)

lemma run_schedule_ops: "run_schedule ca env n redis s db = Inr db' \<Longrightarrow> tx_ops db' = tx_ops db"
  by (auto simp: run_schedule_def Let_def bind_Inr add_occurrence_def put_schedule_def dispatch_ops
      split: option.splits if_splits)

lemma run_schedules_ops: "run_schedules ca env n redis ss db = Inr db' \<Longrightarrow> tx_ops db' = tx_ops db"
proof (induction ss arbitrary: n db)
  case (Cons s ss)
  then show ?case using run_schedule_ops by (fastforce simp: bind_Inr)
qed simp

lemma scheduler_ops: "run_patrol_scheduler ca env n redis seen db = Inr db' \<Longrightarrow> tx_ops db' = tx_ops db"
  unfolding run_patrol_scheduler_def Let_def using run_schedules_ops queued_ops by metis

text \<open>
  A robot that fell silent loses its manual lease: a cycle of the worker either aborts and changes
  nothing, or afterwards no robot whose last message is older than its stale limit (or that never
  reported) has a live lease, whoever held it.
\<close>

lemma silent_robot_loses_lease:
  assumes "r \<in> set (d_robots (pf_db p))"
    and "online_state_at (utc_now env) (silence_limits ws (get_integration (rb_id r) (pf_db p))) (rb_last_seen_at r)
           \<noteq> ''ONLINE''"
  shows "worker_cycle ws ca env n p = p
    \<or> redis_get (utc_now env) (pf_redis (worker_cycle ws ca env n p)) (lease_key (rb_id r)) = None"
proof -
  let ?now = "utc_now env" and ?redis = "pf_redis p"
  let ?db = "reconcile_robot_states ws ?now ?redis (begin_tx (pf_db p))"
  let ?run = "bind (worker_steps ws env ?redis (begin_tx (pf_db p))) (run_patrol_scheduler ca env n ?redis (d_tasks (pf_db p)))"
  have same: "get_integration k (begin_tx (pf_db p)) = get_integration k (pf_db p)" for k
    by (simp add: get_integration_def)
  obtain ops where ops: "tx_ops ?db = ops" "list_all harmless ops"
    "redis_get ?now ?redis (lease_key (rb_id r)) = None \<or> Redis_Delete (lease_key (rb_id r)) \<in> set ops"
    using reconcile_robots_ops [of ws ?now ?redis "d_robots (pf_db p)" "begin_tx (pf_db p)"] assms
    unfolding same reconcile_robot_states_def begin_tables by auto
  show ?thesis
  proof (cases ?run)
    case (Inl e)
    then show ?thesis by (simp add: worker_cycle_def)
  next
    case (Inr db')
    then obtain db1 where "worker_steps ws env ?redis (begin_tx (pf_db p)) = Inr db1"
      "run_patrol_scheduler ca env n ?redis (d_tasks (pf_db p)) db1 = Inr db'" by (auto simp: bind_Inr)
    then have "tx_ops db' = tx_ops db1" "tx_ops db1 = ops"
      using scheduler_ops stops_ops verify_ops ops(1)
      unfolding worker_steps_def Let_def bind_Inr reconcile_stop_operations_def reconcile_navigation_verification_def
      by fastforce+
    then have "pf_redis (worker_cycle ws ca env n p) = fold (redis_apply ?now) ops ?redis"
      using Inr by (simp add: worker_cycle_def commit_def)
    moreover have "redis_get ?now (fold (redis_apply ?now) ops ?redis) (lease_key (rb_id r)) = None"
      using ops(3)
    proof
      assume "Redis_Delete (lease_key (rb_id r)) \<in> set ops"
      then have "fold (redis_apply ?now) ops ?redis (lease_key (rb_id r)) = None"
        by (intro apply_harmless [OF ops(2)]) simp
      then show ?thesis by (simp add: redis_get_def)
    qed (rule apply_harmless_other [OF ops(2)])
    ultimately show ?thesis by simp
  qed
qed

end
