(* ===== verification/Fleet.thy ===== *)
theory Fleet
  imports Safety_Commands
begin

text \<open>
  The fleet side of a robot: enrolling a device with a one-time token (\<open>enrollment/router.py\<close>,
  \<open>enrollment/token_store.py\<close>), the assignment a vehicle reads and changes with its device token, and the
  switch that opens or closes the platform for a robot (\<open>robots/router.py\<close>). \<open>sha\<close> is SHA-256 in hex.
  Permissions and audit rows are left out. The session of a request is closed without a commit unless
  the endpoint commits, which drops what it changed.
\<close>

section \<open>Enrollment tokens\<close>

definition issue_token ::
    "pyenv \<Rightarrow> (string \<Rightarrow> string) \<Rightarrow> string \<Rightarrow> string \<Rightarrow> dict \<Rightarrow> int \<Rightarrow> tx \<Rightarrow> string \<times> tx" where
  "issue_token env sha token device credential ttl db =
     (token, db\<lparr>d_enrollments := filter (\<lambda>e. en_device_id e \<noteq> device) (d_enrollments db) @
        [\<lparr>en_device_id = device, en_token_hash = sha token, en_credential = credential,
          en_issued_at = utc_now env, en_expires_at = utc_now env + ttl * 1000000, en_consumed_at = None\<rparr>]\<rparr>)"

definition open_enrollment :: "micros \<Rightarrow> string \<Rightarrow> enrollment \<Rightarrow> bool" where
  "open_enrollment now device e \<longleftrightarrow> en_device_id e = device \<and> en_consumed_at e = None \<and> now < en_expires_at e"

text \<open>The row is locked (\<open>FOR UPDATE\<close>) until the commit; the device is unique.\<close>

definition consume_token ::
    "pyenv \<Rightarrow> (string \<Rightarrow> string) \<Rightarrow> string \<Rightarrow> string \<Rightarrow> tx \<Rightarrow> dict option \<times> tx" where
  "consume_token env sha device token db =
     (case first_row (open_enrollment (utc_now env) device) (d_enrollments db) of
        None \<Rightarrow> (None, db)
      | Some e \<Rightarrow>
        (if en_token_hash e \<noteq> sha token then (None, db)
         else (Some (en_credential e),
               db\<lparr>d_enrollments := upd_rows (\<lambda>x. en_device_id x = device)
                    (\<lambda>x. x\<lparr>en_consumed_at := Some (utc_now env)\<rparr>) (d_enrollments db)\<rparr>)))"

definition blank :: "char \<Rightarrow> bool" where
  "blank c \<longleftrightarrow> (let k = (of_char c :: nat) in 9 \<le> k \<and> k \<le> 13 \<or> 28 \<le> k \<and> k \<le> 32 \<or> k = 133 \<or> k = 160)"

definition strip :: "string \<Rightarrow> string" where
  "strip s = List.rev (dropWhile blank (List.rev (dropWhile blank s)))"

definition device_char :: "char \<Rightarrow> bool" where
  "device_char c \<longleftrightarrow> (let k = (of_char c :: nat) in
     65 \<le> k \<and> k \<le> 90 \<or> 97 \<le> k \<and> k \<le> 122 \<or> 48 \<le> k \<and> k \<le> 57 \<or> k = 95 \<or> k = 45)"

definition device_id_ok :: "string \<Rightarrow> bool" where
  "device_id_ok s \<longleftrightarrow> list_all device_char s \<and> 1 \<le> length s \<and> length s \<le> 64"

definition activate_response :: "pyenv \<Rightarrow> string \<Rightarrow> dict \<Rightarrow> py_exn + dict" where
  "activate_response env device cred =
     bind (py_int env (jget_or cred ''mqtt_port'' (JInt 8883))) (\<lambda>port.
       if \<not> jhas cred ''mqtt_password'' then Inl KeyError
       else Inr
         [(''device_id'', JStr device),
          (''profile_id'', jget_or cred ''profile_id'' (JStr ''firebot_ros1_standard_v1'')),
          (''mqtt_host'', jget_or cred ''mqtt_host'' (JStr [])), (''mqtt_port'', JInt port),
          (''mqtt_username'', JStr device), (''mqtt_password'', jget cred ''mqtt_password''),
          (''device_token'', jget_or cred ''device_token'' (JStr [])),
          (''ca_cert'', jget_or cred ''ca_cert'' (JStr ''/etc/firebot/production-ca.crt'')),
          (''site_code'', jget_or cred ''site_code'' (JStr [])), (''map_code'', jget_or cred ''map_code'' (JStr [])),
          (''map_version'', jget_or cred ''map_version'' (JStr [])),
          (''map_checksum'', jget_or cred ''map_checksum'' (JStr []))])"

text \<open>The transaction commits before the response is built.\<close>

definition activate ::
    "pyenv \<Rightarrow> (string \<Rightarrow> string) \<Rightarrow> string \<Rightarrow> string \<Rightarrow> platform \<Rightarrow> (failure + dict) \<times> platform" where
  "activate env sha device_id token p =
     (let device = strip device_id in
      if \<not> device_id_ok device then (Inl (Api (HTTPException 400)), p)
      else case consume_token env sha device token (begin_tx (pf_db p)) of
        (None, db) \<Rightarrow> (Inl (Api (HTTPException 401)), commit (utc_now env) db p)
      | (Some cred, db) \<Rightarrow>
          ((case activate_response env device cred of Inl e \<Rightarrow> Inl (Api (PyError e)) | Inr d \<Rightarrow> Inr d),
           commit (utc_now env) db p))"

section \<open>The assignment of a robot\<close>

definition get_assignment :: "ident \<Rightarrow> 'a database_scheme \<Rightarrow> fleet_assignment option" where
  "get_assignment rid db = first_row (\<lambda>a. fa_robot_id a = rid) (d_assignments db)"

text \<open>\<open>order_by(terminal_at.desc().nullslast())\<close>\<close>

definition newest_stop :: "stop_operation list \<Rightarrow> stop_operation option" where
  "newest_stop ops =
     (case latest_row (\<lambda>x. case so_terminal_at x of None \<Rightarrow> 0 | Some t \<Rightarrow> t) (filter (\<lambda>x. so_terminal_at x \<noteq> None) ops) of
        Some x \<Rightarrow> Some x
      | None \<Rightarrow> (case ops of [] \<Rightarrow> None | x # xs \<Rightarrow> Some x))"

definition verified_stop :: "robot \<Rightarrow> 'a database_scheme \<Rightarrow> stop_operation option" where
  "verified_stop r db =
     newest_stop (filter (\<lambda>x. so_robot_id x = rb_id r \<and> so_motion x = ''STATIONARY_CONFIRMED'' \<and> 5 \<le> so_frames x)
       (d_stops db))"

definition stop_field_verified :: "'a database_scheme \<Rightarrow> robot \<Rightarrow> bool" where
  "stop_field_verified db r \<longleftrightarrow>
     (case verified_stop r db of
        None \<Rightarrow> False
      | Some x \<Rightarrow> (case so_boot x of None \<Rightarrow> False | Some b \<Rightarrow> b \<noteq> [] \<and> rb_boot_id r = Some b))"

definition active_version :: "robot \<Rightarrow> 'a database_scheme \<Rightarrow> map_row option \<times> map_version option" where
  "active_version r db =
     (case rb_map_id r of
        None \<Rightarrow> (None, None)
      | Some k \<Rightarrow>
        (if k = [] then (None, None)
         else case first_row (\<lambda>m. mr_id m = k) (d_maps db) of
           None \<Rightarrow> (None, None)
         | Some m \<Rightarrow> (Some m, case mr_active_version m of None \<Rightarrow> None
                              | Some v \<Rightarrow> if v = [] then None else get_map_version v db)))"

definition str_or_empty :: "('a \<Rightarrow> string) \<Rightarrow> 'a option \<Rightarrow> json" where
  "str_or_empty f x = (case x of None \<Rightarrow> JStr [] | Some a \<Rightarrow> JStr (f a))"

definition build_robot_assignment :: "pyenv \<Rightarrow> 'a database_scheme \<Rightarrow> robot \<Rightarrow> dict" where
  "build_robot_assignment env db r =
     (let a = get_assignment (rb_id r) db;
          s = (if rb_site_id r = [] then None else first_row (\<lambda>x. st_id x = rb_site_id r) (d_sites db));
          (m, v) = active_version r db;
          stop = (if stop_field_verified db r then verified_stop r db else None)
      in [(''device_id'', JStr (rb_vehicle_id r)),
          (''profile_id'', case a of None \<Rightarrow> JStr ''firebot_ros1_standard_v1'' | Some x \<Rightarrow> JStr (fa_profile_id x)),
          (''site_code'', str_or_empty st_code s), (''map_code'', str_or_empty mr_code m),
          (''map_version'', str_or_empty mv_version v), (''map_checksum'', str_or_empty mv_checksum v),
          (''location_enabled'', JBool (case a of None \<Rightarrow> False | Some x \<Rightarrow> fa_location_enabled x)),
          (''supported_commands'', JArr (case a of None \<Rightarrow> [] | Some x \<Rightarrow> map JStr (fa_commands x))),
          (''assignment_revision'', JInt (case a of None \<Rightarrow> 0 | Some x \<Rightarrow> fa_revision x)),
          (''stop_field_verified'', JBool (stop_field_verified db r)),
          (''stop_operation_id'', case stop of None \<Rightarrow> JNull | Some x \<Rightarrow> JStr (so_id x)),
          (''stop_verified_at'', case stop of None \<Rightarrow> JNull | Some x \<Rightarrow> iso_opt env (so_terminal_at x))])"

definition verify_device_token :: "(string \<Rightarrow> string) \<Rightarrow> 'a database_scheme \<Rightarrow> robot \<Rightarrow> string \<Rightarrow> bool" where
  "verify_device_token sha db r token \<longleftrightarrow> token \<noteq> [] \<and>
     (case get_assignment (rb_id r) db of
        None \<Rightarrow> False
      | Some a \<Rightarrow> (case fa_token_hash a of None \<Rightarrow> False | Some h \<Rightarrow> h \<noteq> [] \<and> h = sha token))"

text \<open>A new row has no revision before its flush, and \<open>None + 1\<close> raises.\<close>

definition bump_assignment :: "tx \<Rightarrow> robot \<Rightarrow> api_error + (fleet_assignment \<times> tx)" where
  "bump_assignment db r =
     (case get_assignment (rb_id r) db of
        None \<Rightarrow> Inl (PyError TypeError)
      | Some a \<Rightarrow>
        (let a' = a\<lparr>fa_revision := fa_revision a + 1\<rparr>
         in Inr (a', db\<lparr>d_assignments := upd_rows (\<lambda>x. fa_robot_id x = rb_id r) (\<lambda>_. a') (d_assignments db)\<rparr>)))"

text \<open>
  An endpoint of the device ends by closing its session (\<open>get_db\<close>). The session the request worked on
  is dropped here.
\<close>

definition session_closed :: "api_error + (dict \<times> tx) \<Rightarrow> platform \<Rightarrow> (failure + dict) \<times> platform" where
  "session_closed result p = (case result of Inl e \<Rightarrow> (Inl (Api e), p) | Inr (d, db) \<Rightarrow> (Inr d, p))"

definition put_assignment :: "fleet_assignment \<Rightarrow> tx \<Rightarrow> tx" where
  "put_assignment a db =
     db\<lparr>d_assignments := upd_rows (\<lambda>x. fa_robot_id x = fa_robot_id a) (\<lambda>_. a) (d_assignments db)\<rparr>"

definition location_change :: "(string \<Rightarrow> string) \<Rightarrow> robot \<Rightarrow> bool \<Rightarrow> string \<Rightarrow> tx \<Rightarrow> api_error + (dict \<times> tx)" where
  "location_change sha r enabled token db =
     (if \<not> verify_device_token sha db r token then Inl (HTTPException 401)
      else case bump_assignment db r of
        Inl e \<Rightarrow> Inl e
      | Inr (a, db') \<Rightarrow>
          Inr ([(''assignment_revision'', JInt (fa_revision a)), (''location_enabled'', JBool enabled)],
               put_assignment (a\<lparr>fa_location_enabled := enabled\<rparr>) db'))"

definition set_location_enabled ::
    "(string \<Rightarrow> string) \<Rightarrow> string \<Rightarrow> bool \<Rightarrow> string \<Rightarrow> platform \<Rightarrow> (failure + dict) \<times> platform" where
  "set_location_enabled sha rid enabled token p = with_robot rid p (\<lambda>r.
     session_closed (location_change sha r enabled token (begin_tx (pf_db p))) p)"

definition capability_change ::
    "(string \<Rightarrow> string) \<Rightarrow> robot \<Rightarrow> string list \<Rightarrow> string \<Rightarrow> tx \<Rightarrow> api_error + (dict \<times> tx)" where
  "capability_change sha r commands token db =
     (if \<not> verify_device_token sha db r token then Inl (HTTPException 401)
      else if ''patrol'' \<in> set commands \<and> \<not> stop_field_verified db r
      then Inl (PlatformError ''STOP_FIELD_VERIFIED_REQUIRED'')
      else case bump_assignment db r of
        Inl e \<Rightarrow> Inl e
      | Inr (a, db') \<Rightarrow>
          Inr ([(''assignment_revision'', JInt (fa_revision a)), (''supported_commands'', JArr (map JStr commands))],
               put_assignment (a\<lparr>fa_commands := commands\<rparr>) db'))"

definition set_capability ::
    "(string \<Rightarrow> string) \<Rightarrow> string \<Rightarrow> string list \<Rightarrow> string \<Rightarrow> platform \<Rightarrow> (failure + dict) \<times> platform" where
  "set_capability sha rid commands token p = with_robot rid p (\<lambda>r.
     session_closed (capability_change sha r commands token (begin_tx (pf_db p))) p)"

definition robot_assignment_device ::
    "pyenv \<Rightarrow> (string \<Rightarrow> string) \<Rightarrow> string \<Rightarrow> string \<Rightarrow> platform \<Rightarrow> (failure + dict) \<times> platform" where
  "robot_assignment_device env sha rid token p = with_robot rid p (\<lambda>r.
     if \<not> verify_device_token sha (pf_db p) r token then (Inl (Api (HTTPException 401)), p)
     else (Inr (build_robot_assignment env (pf_db p) r), p))"

section \<open>Opening and closing the platform for a robot\<close>

definition lease_held :: "micros \<Rightarrow> redis \<Rightarrow> robot \<Rightarrow> bool" where
  "lease_held now redis r \<longleftrightarrow>
     (case redis_get now redis (lease_key (rb_id r)) of None \<Rightarrow> False | Some v \<Rightarrow> truthy v)"

definition assert_robot_can_disable ::
    "redis_health \<Rightarrow> micros \<Rightarrow> redis \<Rightarrow> 'a database_scheme \<Rightarrow> robot \<Rightarrow> failure option" where
  "assert_robot_can_disable rh now redis db r =
     (if first_row (\<lambda>t. tk_robot_id t = rb_id r \<and> tk_status t \<in> {''CREATED'', ''QUEUED'', ''ACCEPTED'', ''EXECUTING''})
           (d_tasks db) \<noteq> None then Some (Api (PlatformError ''ROBOT_DISABLE_ACTIVE_TASK''))
      else if rb_estop r = Some True then Some (Api (PlatformError ''ROBOT_DISABLE_ESTOP_ACTIVE''))
      else if rb_online_state r = ''ONLINE'' \<and> rb_mode r \<notin> {''IDLE'', ''STANDBY''}
      then Some (Api (PlatformError ''ROBOT_DISABLE_NOT_IDLE''))
      else if \<not> rh_read rh then Some RedisError
      else if lease_held now redis r then Some (Api (PlatformError ''ROBOT_DISABLE_MANUAL_LEASE''))
      else None)"

text \<open>The columns of the model; \<open>name\<close>, \<open>model\<close> and the row's own time stamps are not carried.\<close>

definition serialize_robot :: "pyenv \<Rightarrow> robot \<Rightarrow> dict" where
  "serialize_robot env r =
     [(''id'', JStr (rb_id r)), (''vehicle_id'', JStr (rb_vehicle_id r)), (''site_id'', JStr (rb_site_id r)),
      (''enabled'', JBool (rb_enabled r)), (''online_state'', JStr (rb_online_state r)),
      (''last_seen_at'', iso_opt env (rb_last_seen_at r)), (''current_map_id'', jopt (rb_map_id r)),
      (''current_map_version'', jopt (rb_map_version r)), (''current_mode'', JStr (rb_mode r)), (''current_task_id'', jopt (rb_task_id r)),
      (''battery'', case rb_battery r of None \<Rightarrow> JNull | Some b \<Rightarrow> JFloat b),
      (''estop_active'', case rb_estop r of None \<Rightarrow> JNull | Some b \<Rightarrow> JBool b),
      (''boot_id'', jopt (rb_boot_id r))]"

text \<open>The event is appended after the commit; when that fails the request fails, but the change stays.\<close>

definition set_platform_enabled ::
    "pyenv \<Rightarrow> redis_health \<Rightarrow> string \<Rightarrow> bool \<Rightarrow> platform \<Rightarrow> (failure + dict) \<times> platform" where
  "set_platform_enabled env rh rid enabled p = with_robot rid p (\<lambda>r.
     let done = (let r' = r\<lparr>rb_enabled := enabled\<rparr>;
                     p' = commit (utc_now env) (put_robot r' (begin_tx (pf_db p))) p
                 in if rh_event rh
                    then (Inr (serialize_robot env r'), p'\<lparr>pf_events := pf_events p' @ [(''robot.updated'', Ev_Robot r')]\<rparr>)
                    else (Inl RedisError, p'))
     in if enabled then done
        else case assert_robot_can_disable rh (utc_now env) (pf_redis p) (pf_db p) r of
          Some e \<Rightarrow> (Inl e, p)
        | None \<Rightarrow> done)"

end
