(* ===== verification/Fleet_Safety.thy ===== *)
theory Fleet_Safety
  imports Fleet Demo
begin

text \<open>
  What the fleet endpoints promise: an enrollment token works once, the platform is closed for a robot
  only in a safe moment and then really is closed - and two promises that are not kept.
\<close>

section \<open>A token works once\<close>

record activation =
  ac_env :: pyenv
  ac_device :: string
  ac_token :: string

fun activations ::
    "(string \<Rightarrow> string) \<Rightarrow> activation list \<Rightarrow> platform \<Rightarrow> (activation \<times> (failure + dict)) list \<times> platform" where
  "activations sha [] p = ([], p)"
| "activations sha (a # as) p =
     (let (res, p') = activate (ac_env a) sha (ac_device a) (ac_token a) p;
          (rest, p'') = activations sha as p'
      in ((a, res) # rest, p''))"

definition spent :: "string \<Rightarrow> 'a database_scheme \<Rightarrow> bool" where
  "spent device db \<longleftrightarrow> (\<forall>e \<in> set (d_enrollments db). en_device_id e = device \<longrightarrow> en_consumed_at e \<noteq> None)"

lemma enrollment_tables [simp]:
  "d_enrollments (begin_tx d) = d_enrollments d" "d_enrollments (database.truncate s) = d_enrollments s"
  "d_assignments (begin_tx d) = d_assignments d" "d_assignments (database.truncate s) = d_assignments s"
  by (simp_all add: begin_tx_def database.extend_def database.truncate_def)

lemma spent_tx [simp]: "spent d (begin_tx b) = spent d b" "spent d (database.truncate s) = spent d s"
  by (simp_all add: spent_def)

lemma spent_refuses: "spent device db \<Longrightarrow> consume_token env sha device token db = (None, db)"
proof -
  assume "spent device db"
  then have "first_row (open_enrollment (utc_now env) device) (d_enrollments db) = None"
    by (auto simp: first_row_None spent_def open_enrollment_def)
  then show ?thesis by (simp add: consume_token_def)
qed

lemma consume_cases:
  assumes "consume_token env sha device token db = (res, db')"
  shows "res = None \<and> db' = db \<or> (\<exists>c. res = Some c \<and> spent device db' \<and> (\<forall>d. spent d db \<longrightarrow> spent d db'))"
proof (cases "res = None")
  case False
  then have rows: "d_enrollments db' = upd_rows (\<lambda>x. en_device_id x = device)
      (\<lambda>x. x\<lparr>en_consumed_at := Some (utc_now env)\<rparr>) (d_enrollments db)"
    using assms by (auto simp: consume_token_def split: option.splits if_splits)
  have "spent d db'" if "d = device \<or> spent d db" for d
    unfolding spent_def rows
  proof (intro ballI impI)
    fix e assume "e \<in> set (upd_rows (\<lambda>x. en_device_id x = device) (\<lambda>x. x\<lparr>en_consumed_at := Some (utc_now env)\<rparr>) (d_enrollments db))"
      and d: "en_device_id e = d"
    then show "en_consumed_at e \<noteq> None"
      by (cases rule: set_upd_rowsE) (use that in \<open>auto simp: spent_def\<close>)
  qed
  then show ?thesis using False by auto
qed (use assms in \<open>auto simp: consume_token_def split: option.splits if_splits\<close>)

lemma activateE:
  assumes "activate env sha dev token p = (res, p')"
  obtains (malformed) "\<not> device_id_ok (strip dev)" "p' = p" "\<forall>d. res \<noteq> Inr d"
  | (ran) cred db where "device_id_ok (strip dev)" "consume_token env sha (strip dev) token (begin_tx (pf_db p)) = (cred, db)"
      "pf_db p' = database.truncate db" "cred = None \<Longrightarrow> \<forall>d. res \<noteq> Inr d"
proof (cases "device_id_ok (strip dev)")
  case True
  obtain cred db where c: "consume_token env sha (strip dev) token (begin_tx (pf_db p)) = (cred, db)" by (rule prod.exhaust)
  have "pf_db p' = database.truncate db" "cred = None \<Longrightarrow> \<forall>d. res \<noteq> Inr d"
    using assms True c by (auto simp: activate_def Let_def split: option.splits)
  then show ?thesis using ran True c by blast
next
  case False
  show ?thesis by (rule malformed) (use assms False in \<open>auto simp: activate_def Let_def\<close>)
qed

lemma activate_spent:
  assumes "activate env sha dev token p = (res, p')" "spent d (pf_db p)"
  shows "spent d (pf_db p')"
  using assms(1)
proof (cases rule: activateE)
  case (ran cred db)
  then show ?thesis using consume_cases [OF ran(2)] assms(2) by auto
qed (use assms(2) in simp)

lemma activation_spends:
  assumes "activate env sha dev token p = (Inr resp, p')"
  shows "spent (strip dev) (pf_db p')" "device_id_ok (strip dev)"
proof -
  have "spent (strip dev) (pf_db p') \<and> device_id_ok (strip dev)"
    using assms
  proof (cases rule: activateE)
    case (ran cred db)
    then show ?thesis using consume_cases [OF ran(2)] by auto
  qed simp
  then show "spent (strip dev) (pf_db p')" "device_id_ok (strip dev)" by simp_all
qed

lemma spent_unauthorised:
  assumes "spent (strip dev) (pf_db p)" "device_id_ok (strip dev)"
  shows "activate env sha dev token p = (Inl (Api (HTTPException 401)), commit (utc_now env) (begin_tx (pf_db p)) p)"
proof -
  have "consume_token env sha (strip dev) token (begin_tx (pf_db p)) = (None, begin_tx (pf_db p))"
    by (rule spent_refuses) (simp add: assms(1))
  then show ?thesis using assms(2) by (simp add: activate_def Let_def)
qed


definition demo_enrolled :: platform where
  "demo_enrolled = demo_platform\<lparr>pf_db := demo_db\<lparr>d_enrollments :=
     [\<lparr>en_device_id = ''v'', en_token_hash = ''s3cret'', en_credential = [(''mqtt_password'', JStr ''pw'')],
       en_issued_at = 0, en_expires_at = 3600000000, en_consumed_at = None\<rparr>]\<rparr>\<rparr>"

lemma demo_activation:
  "case activate (plain_env 5) (\<lambda>t. t) '' v '' ''s3cret'' demo_enrolled of (Inl e, p) \<Rightarrow> False | (Inr d, p) \<Rightarrow> True"
  by code_simp


text \<open>
  The credential outlives the activation: the row keeps the device's password in the clear, although
  the model and the module document that it is cleared.
\<close>

lemma credential_survives:
  assumes "activate env sha dev token p = (Inr resp, p')"
  shows "\<exists>e \<in> set (d_enrollments (pf_db p')). en_device_id e = strip dev \<and> en_consumed_at e = Some (utc_now env)
    \<and> jget resp ''mqtt_password'' = jget (en_credential e) ''mqtt_password'' \<and> jhas (en_credential e) ''mqtt_password''"
  using assms
proof (cases rule: activateE)
  case (ran cred db)
  then obtain c where c: "cred = Some c" by auto
  obtain e where e: "first_row (open_enrollment (utc_now env) (strip dev)) (d_enrollments (pf_db p)) = Some e"
    and db: "c = en_credential e" "db = (begin_tx (pf_db p))\<lparr>d_enrollments := upd_rows (\<lambda>x. en_device_id x = strip dev)
        (\<lambda>x. x\<lparr>en_consumed_at := Some (utc_now env)\<rparr>) (d_enrollments (pf_db p))\<rparr>"
    using ran(2) unfolding c consume_token_def by (auto split: option.splits if_splits)
  have "activate_response env (strip dev) c = Inr resp"
    using assms ran(1,2) c by (auto simp: activate_def Let_def split: sum.splits)
  then have r: "jget resp ''mqtt_password'' = jget c ''mqtt_password''" "jhas c ''mqtt_password''"
    by (auto simp: activate_response_def bind_Inr split: if_splits)
  have m: "e \<in> set (d_enrollments (pf_db p))" "en_device_id e = strip dev"
    using first_row_Some [OF e] by (simp_all add: open_enrollment_def)
  then show ?thesis
    using r db ran(3) by (intro bexI [of _ "e\<lparr>en_consumed_at := Some (utc_now env)\<rparr>"]) (auto simp: upd_rows_def image_iff)
qed simp

section \<open>Closing the platform for a robot\<close>

lemma find_robot_upd:
  "find_robot rid db = Some r \<Longrightarrow> r' = r\<lparr>rb_enabled := b\<rparr> \<Longrightarrow>
     find_robot rid (database.truncate (put_robot r' (begin_tx db))) = Some r'"
proof -
  have "find (\<lambda>x. rb_id x = rid \<or> rb_vehicle_id x = rid) rs = Some r \<Longrightarrow> r' = r\<lparr>rb_enabled := b\<rparr> \<Longrightarrow>
     find (\<lambda>x. rb_id x = rid \<or> rb_vehicle_id x = rid) (upd_rows (\<lambda>x. rb_id x = rb_id r) (\<lambda>_. r') rs) = Some r'" for rs
    by (induction rs) (auto split: if_splits)
  then show "find_robot rid db = Some r \<Longrightarrow> r' = r\<lparr>rb_enabled := b\<rparr> \<Longrightarrow>
     find_robot rid (database.truncate (put_robot r' (begin_tx db))) = Some r'"
    by (simp add: find_robot_def first_row_def put_robot_def)
qed



section \<open>Changes of an assignment are lost\<close>

text \<open>
  A vehicle that changes its capabilities is told the new revision, but nothing is stored: the next read
  of the assignment still has the old revision and the old commands.
\<close>

lemma assignment_change_lost:
  assumes "set_capability sha rid commands token p = (Inr resp, p')"
  shows "\<exists>r a. find_robot rid (pf_db p) = Some r \<and> get_assignment (rb_id r) (pf_db p) = Some a
    \<and> jget resp ''assignment_revision'' = JInt (fa_revision a + 1) \<and> p' = p
    \<and> (\<forall>env. \<exists>d. robot_assignment_device env sha rid token p' = (Inr d, p')
         \<and> jget d ''assignment_revision'' = JInt (fa_revision a) \<and> jget d ''supported_commands'' = JArr (map JStr (fa_commands a)))"
proof -
  obtain r where r: "find_robot rid (pf_db p) = Some r"
    using assms by (auto simp: set_capability_def with_robot_def split: option.splits)
  obtain db where c: "capability_change sha r commands token (begin_tx (pf_db p)) = Inr (resp, db)" and p': "p' = p"
    using assms r by (auto simp: set_capability_def with_robot_def session_closed_def split: sum.splits)
  have same: "get_assignment k (begin_tx (pf_db p)) = get_assignment k (pf_db p)" for k by (simp add: get_assignment_def)
  have v: "verify_device_token sha (pf_db p) r token"
    using c by (auto simp: capability_change_def verify_device_token_def same split: if_splits)
  then obtain a where a: "get_assignment (rb_id r) (pf_db p) = Some a"
    by (auto simp: verify_device_token_def split: option.splits)
  have "jget resp ''assignment_revision'' = JInt (fa_revision a + 1)"
    using c by (auto simp: capability_change_def bump_assignment_def same a Let_def split: if_splits)
  moreover have "\<exists>d. robot_assignment_device env sha rid token p = (Inr d, p)
         \<and> jget d ''assignment_revision'' = JInt (fa_revision a) \<and> jget d ''supported_commands'' = JArr (map JStr (fa_commands a))" for env
    using v by (simp add: robot_assignment_device_def with_robot_def r build_robot_assignment_def a Let_def split: prod.split)
  ultimately show ?thesis using r a p' by blast
qed

text \<open>Patrols are only ever offered with a stop that was verified in the field in the current boot.\<close>

lemma patrol_capability_needs_stop:
  assumes "capability_change sha r commands token db = Inr (resp, db')" "''patrol'' \<in> set commands"
  shows "\<exists>x \<in> set (d_stops db). so_robot_id x = rb_id r \<and> so_motion x = ''STATIONARY_CONFIRMED'' \<and> 5 \<le> so_frames x
    \<and> so_boot x = rb_boot_id r \<and> rb_boot_id r \<noteq> None"
proof -
  have "stop_field_verified db r" using assms by (auto simp: capability_change_def split: if_splits)
  then obtain x where x: "verified_stop r db = Some x" "so_boot x = rb_boot_id r" "rb_boot_id r \<noteq> None"
    by (auto simp: stop_field_verified_def split: option.splits)
  have "x \<in> set ops" if "newest_stop ops = Some x" for ops
    using that by (auto simp: newest_stop_def split: option.splits list.splits dest: latest_row_in)
  then show ?thesis using x unfolding verified_stop_def by fastforce
qed

end
