(* ===== verification/Compat.thy ===== *)
theory Compat
  imports Operations Ingress
begin

text \<open>
  The ROS compatibility adapter (\<open>services/ros-compat-adapter/main.py\<close>): it takes what a ROS1 vehicle
  publishes in its own vocabulary, checks envelope, binding and order, and republishes it in the
  platform's internal contract (theory \<open>Ingress\<close> reads it). A message that raises half-way leaves what it
  already changed in the adapter. \<open>ns_uuid\<close> says what \<open>UUID()\<close> parses, \<open>ns_valid\<close> is the JSON schema check.
  The raw capture stream, the service heartbeat and the entry of \<open>normalize\<close> for test fixtures
  (\<open>external_id=None\<close>) are left out.
\<close>

section \<open>State\<close>

record native_settings =
  ns_enabled :: bool
  ns_internal :: string
  ns_expected :: string
  ns_pose_age :: real
  ns_heartbeat_age :: real
  ns_future_skew :: real
  ns_uuid :: "string \<Rightarrow> bool"
  ns_valid :: "dict \<Rightarrow> bool"

record publication =
  pb_kind :: string
  pb_message :: dict
  pb_qos :: int

record adapter =
  na_latest :: dict
  na_sequences :: "(string \<times> string) \<rightharpoonup> int"
  na_times :: "(string \<times> string) \<rightharpoonup> micros"
  na_map :: "dict option"
  na_sent :: "publication list"

definition new_adapter :: adapter where
  "new_adapter = \<lparr>na_latest = [], na_sequences = Map.empty, na_times = Map.empty, na_map = None, na_sent = []\<rparr>"

section \<open>Topics and binding\<close>

fun split_slash :: "string \<Rightarrow> string list" where
  "split_slash [] = [[]]"
| "split_slash (c # s) =
     (if c = CHR ''/'' then [] # split_slash s
      else (case split_slash s of [] \<Rightarrow> [[c]] | w # ws \<Rightarrow> (c # w) # ws))"

definition external_id :: "string \<Rightarrow> string option" where
  "external_id topic =
     (case split_slash topic of
        [a, b, c] \<Rightarrow> if a = ''robot'' then Some b else None
      | [a, b, c, d] \<Rightarrow> if a = ''robot'' then Some b else None
      | _ \<Rightarrow> None)"

definition topic_suffix :: "string \<Rightarrow> string" where
  "topic_suffix topic =
     (case split_slash topic of
        [a, b, c, d] \<Rightarrow> if c = ''nav'' then ''nav_'' @ d else d
      | ws \<Rightarrow> List.last ws)"

text \<open>What the first sighting of a vehicle leaves for the operator, for a day.\<close>

definition discovery :: "native_settings \<Rightarrow> pyenv \<Rightarrow> string \<Rightarrow> string \<Rightarrow> redis \<Rightarrow> redis" where
  "discovery ns env external state r =
     (let now = JStr (iso_format env (utc_now env));
          data = (case redis_get (utc_now env) r (discovery_key external) of
                    Some v \<Rightarrow> as_dict v
                  | None \<Rightarrow> [(''external_id'', JStr external), (''first_seen_at'', now)])
      in redis_setex (utc_now env) (discovery_key external) 86400
           (JObj (jupdate data [(''state'', JStr state), (''last_seen_at'', now),
                                (''internal_candidate'', JStr (ns_internal ns))])) r)"

definition confirmed_alias :: "string \<Rightarrow> 'a database_scheme \<Rightarrow> external_alias option" where
  "confirmed_alias external db =
     first_row (\<lambda>x. ea_external_id x = external \<and> ea_state x = ''CONFIRMED'') (d_aliases db)"

definition binding :: "native_settings \<Rightarrow> pyenv \<Rightarrow> string \<Rightarrow> 'a database_scheme \<Rightarrow> redis \<Rightarrow> bool \<times> redis" where
  "binding ns env external db r =
     (if ns_expected ns \<noteq> [] \<and> external \<noteq> ns_expected ns
      then (False, discovery ns env external ''EXPECTED_ID_MISMATCH'' r)
      else case first_row (\<lambda>x. rb_vehicle_id x = ns_internal ns) (d_robots db) of
        None \<Rightarrow> (False, r)
      | Some robot \<Rightarrow>
        (let own = (\<lambda>a. ea_robot_id a = rb_id robot) in
         if ns_expected ns \<noteq> []
         then ((case confirmed_alias external db of None \<Rightarrow> True | Some a \<Rightarrow> own a), r)
         else if (case confirmed_alias external db of None \<Rightarrow> False | Some a \<Rightarrow> own a) then (True, r)
         else (False, discovery ns env external ''AWAITING_ADMIN_CONFIRMATION'' r)))"

section \<open>The envelope\<close>

text \<open>\<open>datetime.fromtimestamp(_, UTC)\<close>; it raises outside the years 1 to 9999.\<close>

definition from_timestamp :: "real \<Rightarrow> py_exn + micros" where
  "from_timestamp s =
     (let t = round_half_even (s * 1000000)
      in if - 62135596800000000 \<le> t \<and> t < 253402300800000000 then Inr t else Inl ValueError)"

fun source_time :: "pyenv \<Rightarrow> json \<Rightarrow> py_exn + micros" where
  "source_time env (JStr s) = (case iso_parse env (replace_Z s) of Iso_Aware t \<Rightarrow> Inr t | _ \<Rightarrow> Inl ValueError)"
| "source_time env (JInt i) = from_timestamp (real_of_int i)"
| "source_time env (JFloat x) = from_timestamp x"
| "source_time env (JBool b) = from_timestamp (if b then 1 else 0)"
| "source_time env v = Inl ValueError"

fun native_seq :: "json \<Rightarrow> py_exn + int" where
  "native_seq (JInt i) = (if i < 0 then Inl ValueError else Inr i)"
| "native_seq v = Inl ValueError"

definition max_age :: "native_settings \<Rightarrow> string \<Rightarrow> real" where
  "max_age ns sfx = (if sfx \<in> {''heartbeat'', ''availability''} then ns_heartbeat_age ns else ns_pose_age ns)"

definition boot_text :: "pyenv \<Rightarrow> dict \<Rightarrow> string" where
  "boot_text env payload = py_str env (jget_or payload ''bridge_boot_id'' (JStr []))"

definition validate_envelope ::
    "native_settings \<Rightarrow> pyenv \<Rightarrow> string \<Rightarrow> string \<Rightarrow> dict \<Rightarrow> adapter \<Rightarrow> py_exn + (micros \<times> adapter)" where
  "validate_envelope ns env external sfx payload a =
     (if jget payload ''compat_schema_version'' \<noteq> JStr ''1.1'' then Inl ValueError
      else if jget payload ''external_id'' \<noteq> JStr external then Inl ValueError
      else if \<not> ns_uuid ns (boot_text env payload) then Inl ValueError
      else
        bind (native_seq (jget payload ''seq'')) (\<lambda>seq.
        bind (source_time env (jget payload ''ts'')) (\<lambda>t.
        let age = elapsed_seconds (utc_now env) t; key = (boot_text env payload, sfx) in
        if max_age ns sfx < age then Inl ValueError
        else if age < - ns_future_skew ns then Inl ValueError
        else if seq \<le> (case na_sequences a key of None \<Rightarrow> -1 | Some s \<Rightarrow> s) then Inl ValueError
        else if (case na_times a key of None \<Rightarrow> False | Some s \<Rightarrow> t < s) then Inl ValueError
        else Inr (t, a\<lparr>na_sequences := (na_sequences a)(key \<mapsto> seq), na_times := (na_times a)(key \<mapsto> t)\<rparr>))))"

section \<open>Normalisation\<close>

definition base_message :: "native_settings \<Rightarrow> pyenv \<Rightarrow> nat \<Rightarrow> string \<Rightarrow> micros \<Rightarrow> dict \<Rightarrow> dict" where
  "base_message ns env n kind t payload =
     [(''schema_version'', JStr ''1.2''), (''message_id'', JStr (uuid env n)), (''type'', JStr kind),
      (''vehicle_id'', JStr (ns_internal ns)), (''boot_id'', jget payload ''bridge_boot_id''),
      (''timestamp'', JStr (iso_format env t)), (''seq'', jget payload ''seq'')]"

definition internal_base :: "native_settings \<Rightarrow> pyenv \<Rightarrow> micros \<Rightarrow> dict \<Rightarrow> dict" where
  "internal_base ns env t payload =
     [(''internal_contract'', JStr ''ros-compat-v1''), (''vehicle_id'', JStr (ns_internal ns)),
      (''bridge_boot_id'', jget payload ''bridge_boot_id''), (''seq'', jget payload ''seq''),
      (''timestamp'', JStr (iso_format env t))]"

definition MAP_FACTS :: "string list" where
  "MAP_FACTS = [''site_code'', ''map_code'', ''map_version'', ''map_checksum'']"

definition map_facts :: "adapter \<Rightarrow> dict" where
  "map_facts a =
     map (\<lambda>k. (k, case na_map a of None \<Rightarrow> JStr ''UNVERIFIED'' | Some d \<Rightarrow> jget_or d k (JStr ''UNVERIFIED''))) MAP_FACTS"

definition facts_verified :: "dict \<Rightarrow> bool" where
  "facts_verified facts \<longleftrightarrow> list_all (\<lambda>(k, v). truthy v \<and> v \<noteq> JStr ''UNVERIFIED'') facts"

type_synonym normalized = "(py_exn + (string \<times> dict) list) \<times> adapter"

definition normalize_map :: "native_settings \<Rightarrow> pyenv \<Rightarrow> string \<Rightarrow> micros \<Rightarrow> dict \<Rightarrow> adapter \<Rightarrow> normalized" where
  "normalize_map ns env external t payload a =
     (if \<exists>k \<in> set MAP_FACTS. \<not> truthy (jget payload k) then (Inl ValueError, a)
      else let identity = map (\<lambda>k. (k, JStr (py_str env (jget payload k)))) MAP_FACTS
        in (Inr [(''compat_map'', internal_base ns env t payload @ [(''external_id'', JStr external)] @ identity)],
            a\<lparr>na_map := Some identity\<rparr>))"

definition normalize_availability ::
    "native_settings \<Rightarrow> pyenv \<Rightarrow> string \<Rightarrow> micros \<Rightarrow> dict \<Rightarrow> adapter \<Rightarrow> normalized" where
  "normalize_availability ns env external t payload a =
     (let state = lower (py_str env (jget_or payload ''state'' (JStr []))) in
      if state \<notin> {''online'', ''offline''} then (Inl ValueError, a)
      else (Inr [(''compat_availability'', internal_base ns env t payload @ [(''external_id'', JStr external),
                   (''state'', JStr state), (''reason'', jget payload ''reason'')])], a))"

definition position_of :: "dict \<Rightarrow> py_exn + dict" where
  "position_of payload =
     (if \<not> jhas payload ''position'' then Inr []
      else case jget payload ''position'' of JObj d \<Rightarrow> Inr d | _ \<Rightarrow> Inl AttributeError)"

definition pose_values :: "pyenv \<Rightarrow> dict \<Rightarrow> py_exn + (real \<times> real \<times> real)" where
  "pose_values env payload =
     bind (position_of payload) (\<lambda>p.
       let x = jget_or payload ''x'' (jget p ''x''); y = jget_or payload ''y'' (jget p ''y'');
           yaw = jget_or payload ''yaw'' (jget_or payload ''theta'' (jget p ''theta''))
       in if x = JNull \<or> y = JNull \<or> yaw = JNull then Inl ValueError
          else bind (py_float env x) (\<lambda>vx. bind (py_float env y) (\<lambda>vy. bind (py_float env yaw) (\<lambda>vt.
            Inr (vx, vy, vt)))))"

definition covariance_of :: "dict \<Rightarrow> json" where
  "covariance_of payload =
     py_or (jget payload ''covariance'')
       (JObj (map (\<lambda>k. (k, jget payload k)) (filter (jhas payload) [''cov_xx'', ''cov_yy'', ''cov_yawyaw''])))"

definition carry :: "string \<Rightarrow> string \<Rightarrow> dict \<Rightarrow> dict" where
  "carry source field latest = (if jhas latest source then [(field, jget latest source)] else [])"

definition normalize_pose :: "native_settings \<Rightarrow> pyenv \<Rightarrow> nat \<Rightarrow> micros \<Rightarrow> dict \<Rightarrow> adapter \<Rightarrow> normalized" where
  "normalize_pose ns env n t payload a =
     (case pose_values env payload of
        Inl e \<Rightarrow> (Inl e, a)
      | Inr (x, y, yaw) \<Rightarrow>
        (let pose = [(''x'', JFloat x), (''y'', JFloat y), (''theta'', JFloat yaw)];
             a1 = a\<lparr>na_latest := jupdate (na_latest a) pose\<rparr>;
             frame = py_str env (jget_or payload ''frame_id'' (JStr ''map''));
             covariance = covariance_of payload;
             facts = map_facts a1;
             status = (if facts_verified facts
                       then py_str env (jget_or payload ''localization_status'' (JStr ''VALID_SOURCE''))
                       else ''DEGRADED_MAP_UNVERIFIED'');
             a2 = (if truthy covariance then a1\<lparr>na_latest := jset ''amcl_covariance'' covariance (na_latest a1)\<rparr> else a1)
         in if frame \<noteq> ''map'' then (Inl ValueError, a1)
            else (Inr [(''location'',
                   base_message ns env n ''location'' t payload @ [(''position'', JObj pose)] @ facts
                   @ [(''frame_id'', JStr frame), (''localization_status'', JStr status)]
                   @ carry ''planar_speed'' ''linear_speed'' (na_latest a2)
                   @ carry ''angular_z'' ''angular_speed'' (na_latest a2)
                   @ carry ''battery'' ''battery'' (na_latest a2))], a2)))"

definition odom_values :: "pyenv \<Rightarrow> dict \<Rightarrow> py_exn + dict" where
  "odom_values env payload =
     (let lx = jget_or payload ''vx'' (jget_or payload ''linear_x'' (jget payload ''linear_speed''));
          ly = jget_or payload ''vy'' (jget_or payload ''linear_y'' (JFloat 0));
          wz = jget_or payload ''wz'' (jget_or payload ''angular_z'' (jget payload ''angular_speed''))
      in if lx = JNull \<or> wz = JNull then Inl ValueError
         else bind (py_float env lx) (\<lambda>x. bind (py_float env ly) (\<lambda>y. bind (py_float env wz) (\<lambda>z.
           Inr [(''linear_x'', JFloat x), (''linear_y'', JFloat y), (''angular_z'', JFloat z),
                (''planar_speed'', JFloat (sqrt (x * x + y * y)))]))))"

definition normalize_odom :: "native_settings \<Rightarrow> pyenv \<Rightarrow> micros \<Rightarrow> dict \<Rightarrow> adapter \<Rightarrow> normalized" where
  "normalize_odom ns env t payload a =
     (case odom_values env payload of
        Inl e \<Rightarrow> (Inl e, a)
      | Inr values \<Rightarrow> (Inr [(''compat_odom'', internal_base ns env t payload @ values)],
                       a\<lparr>na_latest := jupdate (na_latest a) values\<rparr>))"

definition BATTERY_FIELDS :: "string list" where
  "BATTERY_FIELDS = [''battery_voltage'', ''battery_current'', ''battery_temperature'', ''battery_capacity'',
     ''battery_charge_state'', ''battery_cycle_count'']"

definition normalize_battery :: "native_settings \<Rightarrow> pyenv \<Rightarrow> micros \<Rightarrow> dict \<Rightarrow> adapter \<Rightarrow> normalized" where
  "normalize_battery ns env t payload a =
     (let v = jget_or payload ''battery_percentage'' (jget_or payload ''percentage'' (jget payload ''battery'')) in
      if v = JNull then (Inl ValueError, a)
      else case py_float env v of
        Inl e \<Rightarrow> (Inl e, a)
      | Inr b \<Rightarrow>
        (let level = JFloat (min 100 (max 0 b)) in
         (Inr [(''compat_battery'', internal_base ns env t payload @ [(''battery'', level),
             (''diagnostics'', JObj (map (\<lambda>k. (k, jget payload k)) (filter (jhas payload) BATTERY_FIELDS)))])],
          a\<lparr>na_latest := jset ''battery'' level (na_latest a)\<rparr>)))"

definition digit_string :: "string \<Rightarrow> bool" where
  "digit_string s \<longleftrightarrow> s \<noteq> [] \<and> list_all (\<lambda>c. 48 \<le> (of_char c :: nat) \<and> (of_char c :: nat) \<le> 57) s"

definition control_mode :: "pyenv \<Rightarrow> dict \<Rightarrow> int option" where
  "control_mode env payload =
     (let v = jget_or payload ''control_mode'' (jget_or payload ''control_mode_str'' (jget payload ''mode''));
          raw = ascii_upper (if v = JNull then ''UNKNOWN'' else py_str env v)
      in if digit_string raw then Some (undigits raw)
         else if raw = ''MANUAL'' then Some 1 else if raw = ''ROS'' then Some 3 else None)"

definition normalize_status :: "native_settings \<Rightarrow> pyenv \<Rightarrow> micros \<Rightarrow> dict \<Rightarrow> adapter \<Rightarrow> normalized" where
  "normalize_status ns env t payload a =
     (Inr [(''compat_status'', internal_base ns env t payload
         @ [(''mode'', JStr (if control_mode env payload = Some 1 then ''MANUAL'' else ''IDLE'')),
            (''ros_control_mode'', case control_mode env payload of None \<Rightarrow> JNull | Some m \<Rightarrow> JInt m)])], a)"

definition normalize_heartbeat :: "native_settings \<Rightarrow> pyenv \<Rightarrow> nat \<Rightarrow> micros \<Rightarrow> dict \<Rightarrow> adapter \<Rightarrow> normalized" where
  "normalize_heartbeat ns env n t payload a =
     (case py_float env (jget_or payload ''uptime_sec'' (jget_or payload ''uptime_seconds'' (JInt 0))) of
        Inl e \<Rightarrow> (Inl e, a)
      | Inr u \<Rightarrow> (Inr [(''heartbeat'', base_message ns env n ''heartbeat'' t payload @ [(''uptime_seconds'', JFloat (max 0 u))])], a))"

definition normalize_diagnostic :: "native_settings \<Rightarrow> pyenv \<Rightarrow> string \<Rightarrow> micros \<Rightarrow> dict \<Rightarrow> adapter \<Rightarrow> normalized" where
  "normalize_diagnostic ns env sfx t payload a =
     (Inr [(''compat_'' @ sfx, internal_base ns env t payload
         @ [(''external_goal_id'', jget payload ''goal_id''),
            (''status'', JStr (py_str env (jget_or payload ''status'' (jget_or payload ''state'' (JStr ''UNKNOWN''))))),
            (''payload'', JObj payload)])], a)"

definition normalize_native ::
    "native_settings \<Rightarrow> pyenv \<Rightarrow> nat \<Rightarrow> string \<Rightarrow> string \<Rightarrow> dict \<Rightarrow> adapter \<Rightarrow> normalized" where
  "normalize_native ns env n external sfx payload a =
     (case validate_envelope ns env external sfx payload a of
        Inl e \<Rightarrow> (Inl e, a)
      | Inr (t, a1) \<Rightarrow>
        (if sfx = ''map'' then normalize_map ns env external t payload a1
         else if sfx = ''availability'' then normalize_availability ns env external t payload a1
         else if sfx = ''pose'' then normalize_pose ns env n t payload a1
         else if sfx = ''odom'' then normalize_odom ns env t payload a1
         else if sfx = ''battery'' then normalize_battery ns env t payload a1
         else if sfx = ''status'' then normalize_status ns env t payload a1
         else if sfx = ''heartbeat'' then normalize_heartbeat ns env n t payload a1
         else if sfx \<in> {''nav_status'', ''nav_result''} then normalize_diagnostic ns env sfx t payload a1
         else (Inr [], a1)))"

section \<open>One message\<close>

definition is_canonical :: "dict \<Rightarrow> bool" where
  "is_canonical payload \<longleftrightarrow> jhas payload ''schema_version''"

text \<open>A message outside the internal contract that the schema refuses raises, and the rest is dropped.\<close>

fun publish_all :: "native_settings \<Rightarrow> (string \<times> dict) list \<Rightarrow> adapter \<Rightarrow> adapter" where
  "publish_all ns [] a = a"
| "publish_all ns ((kind, m) # ms) a =
     (if \<not> starts_with ''compat_'' kind \<and> \<not> ns_valid ns m then a
      else publish_all ns ms (a\<lparr>na_sent := na_sent a @
             [\<lparr>pb_kind = kind, pb_message = m, pb_qos = (if kind = ''location'' then 0 else 1)\<rparr>]\<rparr>))"

text \<open>\<open>body\<close> is what \<open>json.loads\<close> returns, \<open>None\<close> when decoding raises.\<close>

definition on_native ::
    "native_settings \<Rightarrow> pyenv \<Rightarrow> nat \<Rightarrow> string \<Rightarrow> json option \<Rightarrow> 'a database_scheme \<Rightarrow> redis \<Rightarrow> adapter \<Rightarrow> redis \<times> adapter" where
  "on_native ns env n topic body db r a =
     (if \<not> ns_enabled ns then (r, a)
      else case external_id topic of
        None \<Rightarrow> (r, a)
      | Some external \<Rightarrow>
        (if external = [] then (r, a)
         else case body of
           Some (JObj payload) \<Rightarrow>
             (if is_canonical payload then (r, a)
              else case binding ns env external db r of
                (False, r') \<Rightarrow> (r', a)
              | (True, r') \<Rightarrow>
                (case normalize_native ns env n external (topic_suffix topic) payload a of
                   (Inl e, a') \<Rightarrow> (r', a')
                 | (Inr ms, a') \<Rightarrow> (r', publish_all ns ms a')))
         | _ \<Rightarrow> (r, a)))"

end
