(* ===== verification/Compat_Safety.thy ===== *)
theory Compat_Safety
  imports Compat Demo
begin

text \<open>
  What the compatibility adapter guarantees over a whole run, with a changing database and clock: its
  output is ordered per boot session and kind, and a pose is never published as localised on a map the
  vehicle has not reported.
\<close>

section \<open>Runs\<close>

record arrival =
  ar_env :: pyenv
  ar_index :: nat
  ar_topic :: string
  ar_body :: "json option"
  ar_db :: database

fun native_run :: "native_settings \<Rightarrow> arrival list \<Rightarrow> redis \<times> adapter \<Rightarrow> redis \<times> adapter" where
  "native_run ns [] s = s"
| "native_run ns (m # ms) (r, a) =
     native_run ns ms (on_native ns (ar_env m) (ar_index m) (ar_topic m) (ar_body m) (ar_db m) r a)"

text \<open>The boot session a published message belongs to, and the topic its kind comes from.\<close>

definition source_boot :: "dict \<Rightarrow> json" where
  "source_boot m = (if jhas m ''bridge_boot_id'' then jget m ''bridge_boot_id'' else jget m ''boot_id'')"

definition source_topic :: "string \<Rightarrow> string" where
  "source_topic kind =
     (if kind = ''location'' then ''pose'' else if kind = ''heartbeat'' then kind else compat_name kind)"

section \<open>One message\<close>

lemma validatedE:
  assumes "validate_envelope ns env external sfx payload a = Inr (t, a1)"
  obtains seq where "jget payload ''seq'' = JInt seq"
    "(case na_sequences a (boot_text env payload, sfx) of None \<Rightarrow> -1 | Some s \<Rightarrow> s) < seq"
    "na_sequences a1 = (na_sequences a)((boot_text env payload, sfx) \<mapsto> seq)" "na_sent a1 = na_sent a"
    "na_map a1 = na_map a" "na_latest a1 = na_latest a"
    "ns_uuid ns (boot_text env payload)" "source_time env (jget payload ''ts'') = Inr t"
proof -
  obtain seq where "native_seq (jget payload ''seq'') = Inr seq" "source_time env (jget payload ''ts'') = Inr t"
    "(case na_sequences a (boot_text env payload, sfx) of None \<Rightarrow> -1 | Some s \<Rightarrow> s) < seq"
    "a1 = a\<lparr>na_sequences := (na_sequences a)((boot_text env payload, sfx) \<mapsto> seq),
            na_times := (na_times a)((boot_text env payload, sfx) \<mapsto> t)\<rparr>" "ns_uuid ns (boot_text env payload)"
    using assms unfolding validate_envelope_def Let_def bind_Inr
    by (auto split: if_splits simp: not_le bind_Inr)
  moreover from this(1) have "jget payload ''seq'' = JInt seq"
    by (cases "jget payload ''seq''") (auto split: if_splits)
  ultimately show ?thesis by (intro that [of seq]) simp_all
qed

text \<open>What a normalisation may change, and what it returns: at most one message, of its topic.\<close>

definition normal_form :: "string \<Rightarrow> dict \<Rightarrow> (string \<times> dict) list \<Rightarrow> bool" where
  "normal_form sfx payload ms \<longleftrightarrow>
     ms = [] \<or> (\<exists>kind m. ms = [(kind, m)] \<and> source_topic kind = sfx \<and> jget m ''seq'' = jget payload ''seq''
       \<and> source_boot m = jget payload ''bridge_boot_id'')"

lemma normal_form_simps [simp]:
  "normal_form sfx payload []"
  "normal_form sfx payload [(kind, m)] \<longleftrightarrow> source_topic kind = sfx \<and> jget m ''seq'' = jget payload ''seq''
     \<and> source_boot m = jget payload ''bridge_boot_id''"
  by (auto simp: normal_form_def)

lemma source_topic_simps [simp]:
  "source_topic ''location'' = ''pose''" "source_topic ''heartbeat'' = ''heartbeat''"
  "source_topic ''compat_map'' = ''map''" "source_topic ''compat_availability'' = ''availability''"
  "source_topic ''compat_odom'' = ''odom''" "source_topic ''compat_battery'' = ''battery''"
  "source_topic ''compat_status'' = ''status''" "source_topic ''compat_nav_status'' = ''nav_status''"
  "source_topic ''compat_nav_result'' = ''nav_result''"
  by (simp_all add: source_topic_def compat_name_def)

lemmas message_defs = internal_base_def base_message_def source_boot_def

named_theorems branches \<open>the branches of the normalisation\<close>

lemma map_branch [branches]:
  "normalize_map ns env ext t payload a = (res, a') \<Longrightarrow>
     na_sequences a' = na_sequences a \<and> na_sent a' = na_sent a \<and> (\<forall>ms. res = Inr ms \<longrightarrow> normal_form ''map'' payload ms)"
  by (auto simp: normalize_map_def Let_def message_defs split: if_splits)

lemma availability_branch [branches]:
  "normalize_availability ns env ext t payload a = (res, a') \<Longrightarrow>
     na_sequences a' = na_sequences a \<and> na_sent a' = na_sent a \<and> (\<forall>ms. res = Inr ms \<longrightarrow> normal_form ''availability'' payload ms)"
  by (auto simp: normalize_availability_def Let_def message_defs split: if_splits)

lemma pose_branch [branches]:
  "normalize_pose ns env n t payload a = (res, a') \<Longrightarrow>
     na_sequences a' = na_sequences a \<and> na_sent a' = na_sent a \<and> (\<forall>ms. res = Inr ms \<longrightarrow> normal_form ''pose'' payload ms)"
  by (auto simp: normalize_pose_def Let_def message_defs map_facts_def MAP_FACTS_def carry_def
      split: if_splits sum.splits)

lemma odom_branch [branches]:
  "normalize_odom ns env t payload a = (res, a') \<Longrightarrow>
     na_sequences a' = na_sequences a \<and> na_sent a' = na_sent a \<and> (\<forall>ms. res = Inr ms \<longrightarrow> normal_form ''odom'' payload ms)"
  by (auto simp: normalize_odom_def message_defs split: sum.splits)

lemma battery_branch [branches]:
  "normalize_battery ns env t payload a = (res, a') \<Longrightarrow>
     na_sequences a' = na_sequences a \<and> na_sent a' = na_sent a \<and> (\<forall>ms. res = Inr ms \<longrightarrow> normal_form ''battery'' payload ms)"
  by (auto simp: normalize_battery_def Let_def message_defs split: if_splits sum.splits)

lemma status_branch [branches]:
  "normalize_status ns env t payload a = (res, a') \<Longrightarrow>
     na_sequences a' = na_sequences a \<and> na_sent a' = na_sent a \<and> (\<forall>ms. res = Inr ms \<longrightarrow> normal_form ''status'' payload ms)"
  by (auto simp: normalize_status_def message_defs)

lemma heartbeat_branch [branches]:
  "normalize_heartbeat ns env n t payload a = (res, a') \<Longrightarrow>
     na_sequences a' = na_sequences a \<and> na_sent a' = na_sent a \<and> (\<forall>ms. res = Inr ms \<longrightarrow> normal_form ''heartbeat'' payload ms)"
  by (auto simp: normalize_heartbeat_def message_defs split: sum.splits)

lemma diagnostic_branch [branches]:
  "normalize_diagnostic ns env sfx t payload a = (res, a') \<Longrightarrow> sfx \<in> {''nav_status'', ''nav_result''} \<Longrightarrow>
     na_sequences a' = na_sequences a \<and> na_sent a' = na_sent a \<and> (\<forall>ms. res = Inr ms \<longrightarrow> normal_form sfx payload ms)"
  by (auto simp: normalize_diagnostic_def message_defs)

lemma normalized:
  assumes "normalize_native ns env n ext sfx payload a = (res, a')"
    and v: "validate_envelope ns env ext sfx payload a = Inr (t, a1)"
  shows "na_sequences a' = na_sequences a1 \<and> na_sent a' = na_sent a
    \<and> (\<forall>ms. res = Inr ms \<longrightarrow> normal_form sfx payload ms)"
proof -
  have "na_sent a1 = na_sent a" by (rule validatedE [OF v]) simp
  moreover have "na_sequences a' = na_sequences a1 \<and> na_sent a' = na_sent a1 \<and> (\<forall>ms. res = Inr ms \<longrightarrow> normal_form sfx payload ms)"
    using assms(1) unfolding normalize_native_def v
    by (simp split: if_splits) ((drule branches; simp)+, auto)
  ultimately show ?thesis by simp
qed

lemma publish_all_one:
  assumes "normal_form sfx payload ms" "publish_all ns ms a = a'"
  shows "a' = a \<or> (\<exists>kind m. ms = [(kind, m)] \<and> source_topic kind = sfx \<and> jget m ''seq'' = jget payload ''seq''
     \<and> source_boot m = jget payload ''bridge_boot_id''
     \<and> a' = a\<lparr>na_sent := na_sent a @ [\<lparr>pb_kind = kind, pb_message = m, pb_qos = (if kind = ''location'' then 0 else 1)\<rparr>]\<rparr>)"
proof (cases ms)
  case (Cons x xs)
  then obtain kind m where "ms = [(kind, m)]" "source_topic kind = sfx" "jget m ''seq'' = jget payload ''seq''"
     "source_boot m = jget payload ''bridge_boot_id''"
    using assms(1) by (auto simp: normal_form_def)
  moreover from this(1) have "a' = a \<or> a' = a\<lparr>na_sent := na_sent a @
      [\<lparr>pb_kind = kind, pb_message = m, pb_qos = (if kind = ''location'' then 0 else 1)\<rparr>]\<rparr>"
    unfolding assms(2) [symmetric] by simp
  ultimately show ?thesis by blast
qed (use assms(2) in simp)

text \<open>A message is dropped without a trace in the adapter, or its envelope was valid.\<close>

lemma on_nativeE:
  assumes "on_native ns env n topic body db r a = (r', a')"
  obtains (dropped) "a' = a"
  | (validated) ext payload t a1 where "body = Some (JObj payload)" "external_id topic = Some ext"
      "validate_envelope ns env ext (topic_suffix topic) payload a = Inr (t, a1)" "fst (binding ns env ext db r)"
      "(\<exists>e. normalize_native ns env n ext (topic_suffix topic) payload a = (Inl e, a'))
       \<or> (\<exists>ms a2. normalize_native ns env n ext (topic_suffix topic) payload a = (Inr ms, a2) \<and> a' = publish_all ns ms a2)"
proof (cases "a' = a")
  case False
  note run = assms [unfolded on_native_def]
  have en: "ns_enabled ns" by (rule ccontr) (use run False in simp)
  obtain ext where ext: "external_id topic = Some ext"
    by (cases "external_id topic") (use run en False in auto)
  have ne: "ext \<noteq> []" by (rule ccontr) (use run en ext False in simp)
  obtain v where v: "body = Some v" by (cases body) (use run en ext ne False in auto)
  obtain payload where p: "v = JObj payload" by (cases v) (use run en ext ne v False in auto)
  obtain ok r1 where bound: "binding ns env ext db r = (ok, r1)" by (rule prod.exhaust)
  have canon: "\<not> is_canonical payload" by (rule ccontr) (use run en ext ne v p False in simp)
  have ok: "ok" by (cases ok) (use run en ext ne v p bound canon False in simp_all)
  obtain res a2 where n: "normalize_native ns env n ext (topic_suffix topic) payload a = (res, a2)" by (rule prod.exhaust)
  have a': "(\<exists>e. res = Inl e \<and> a' = a2) \<or> (\<exists>ms. res = Inr ms \<and> a' = publish_all ns ms a2)"
    by (cases res) (use run en ext ne v p bound canon ok n in auto)
  have "\<exists>t a1. validate_envelope ns env ext (topic_suffix topic) payload a = Inr (t, a1)"
  proof (cases "validate_envelope ns env ext (topic_suffix topic) payload a")
    case (Inl e)
    then have "res = Inl e \<and> a2 = a" using n by (simp add: normalize_native_def)
    then show ?thesis using a' False by simp
  qed auto
  then show ?thesis using validated ext v p bound ok n a' by auto
qed (use dropped in blast)

section \<open>The output is ordered\<close>

definition pb_seq :: "publication \<Rightarrow> int" where
  "pb_seq p = (case jget (pb_message p) ''seq'' of JInt i \<Rightarrow> i | _ \<Rightarrow> 0)"

definition same_stream :: "publication \<Rightarrow> publication \<Rightarrow> bool" where
  "same_stream p q \<longleftrightarrow> source_topic (pb_kind p) = source_topic (pb_kind q)
     \<and> source_boot (pb_message p) = source_boot (pb_message q)"

text \<open>The last sequence number of a stream bounds everything published on it; \<open>rep\<close> is \<open>str()\<close>.\<close>

definition stream_key :: "(json \<Rightarrow> string) \<Rightarrow> publication \<Rightarrow> string \<times> string" where
  "stream_key rep p =
     (case source_boot (pb_message p) of JStr b \<Rightarrow> b | v \<Rightarrow> rep v, source_topic (pb_kind p))"

definition stream_inv :: "(json \<Rightarrow> string) \<Rightarrow> adapter \<Rightarrow> bool" where
  "stream_inv rep a \<longleftrightarrow>
     sorted_wrt (\<lambda>p q. same_stream p q \<longrightarrow> pb_seq p < pb_seq q) (na_sent a)
     \<and> (\<forall>p \<in> set (na_sent a). \<exists>s. pb_seq p \<le> s \<and> na_sequences a (stream_key rep p) = Some s)"

lemma boot_text_rep:
  assumes "str_repr env = rep" "jhas payload ''bridge_boot_id''"
  shows "boot_text env payload = (case jget payload ''bridge_boot_id'' of JStr b \<Rightarrow> b | v \<Rightarrow> rep v)"
  using assms by (cases "jget payload ''bridge_boot_id''")
    (auto simp: boot_text_def jget_or_def jget_def jhas_def split: option.splits)

lemma boot_of_publication:
  assumes "str_repr env = rep" "ns_uuid ns (boot_text env payload)" "\<not> ns_uuid ns []"
  shows "(case jget payload ''bridge_boot_id'' of JStr b \<Rightarrow> b | v \<Rightarrow> rep v) = boot_text env payload"
proof -
  have "jhas payload ''bridge_boot_id''"
  proof (rule ccontr)
    assume "\<not> jhas payload ''bridge_boot_id''"
    then have "boot_text env payload = []" by (simp add: boot_text_def jget_or_def jhas_def)
    then show False using assms(2,3) by simp
  qed
  then show ?thesis using boot_text_rep [OF assms(1)] by simp
qed

lemma stream_step:
  assumes "stream_inv rep a" "on_native ns env n topic body db r a = (r', a')"
    and rep: "str_repr env = rep" and uuid: "\<not> ns_uuid ns []"
  shows "stream_inv rep a'"
  using assms(2)
proof (cases rule: on_nativeE)
  case (validated ext payload t a1)
  let ?key = "(boot_text env payload, topic_suffix topic)"
  obtain seq where seq: "jget payload ''seq'' = JInt seq"
    and low: "(case na_sequences a ?key of None \<Rightarrow> -1 | Some s \<Rightarrow> s) < seq"
    and a1: "na_sequences a1 = (na_sequences a)(?key \<mapsto> seq)" and u: "ns_uuid ns (boot_text env payload)"
    using validatedE [OF validated(3)] by metis
  note boot = boot_of_publication [OF rep u uuid]
  have keep: "stream_inv rep b" if b: "na_sent b = na_sent a" "na_sequences b = na_sequences a1" for b
  proof -
    have "\<exists>s. pb_seq p \<le> s \<and> ((na_sequences a)(?key \<mapsto> seq)) k = Some s"
      if "\<exists>s. pb_seq p \<le> s \<and> na_sequences a k = Some s" for p k
      using that low by (cases "k = ?key") auto
    then show ?thesis using assms(1) unfolding stream_inv_def b a1 by blast
  qed
  from validated(5) show ?thesis
  proof (elim disjE exE conjE)
    fix e assume "normalize_native ns env n ext (topic_suffix topic) payload a = (Inl e, a')"
    from normalized [OF this validated(3)] show ?thesis using keep by simp
  next
    fix ms a2
    assume nn: "normalize_native ns env n ext (topic_suffix topic) payload a = (Inr ms, a2)" and p: "a' = publish_all ns ms a2"
    have a2: "na_sequences a2 = na_sequences a1" "na_sent a2 = na_sent a" "normal_form (topic_suffix topic) payload ms"
      using normalized [OF nn validated(3)] by auto
    from publish_all_one [OF a2(3) p [symmetric]] show ?thesis
    proof (elim disjE exE conjE)
      assume "a' = a2" then show ?thesis using keep a2 by simp
    next
      fix kind m
      define q where "q = \<lparr>pb_kind = kind, pb_message = m, pb_qos = (if kind = ''location'' then 0 else 1 :: int)\<rparr>"
      assume m: "source_topic kind = topic_suffix topic" "jget m ''seq'' = jget payload ''seq''"
        "source_boot m = jget payload ''bridge_boot_id''"
        and "a' = a2\<lparr>na_sent := na_sent a2 @ [\<lparr>pb_kind = kind, pb_message = m, pb_qos = (if kind = ''location'' then 0 else 1)\<rparr>]\<rparr>"
      then have a': "na_sent a' = na_sent a @ [q]" "na_sequences a' = na_sequences a1" using a2 by (simp_all add: q_def)
      have q: "pb_seq q = seq" "source_topic (pb_kind q) = topic_suffix topic" "source_boot (pb_message q) = jget payload ''bridge_boot_id''"
        using m seq by (simp_all add: q_def pb_seq_def)
      have k: "stream_inv rep a2" by (rule keep [OF a2(2,1)])
      have "pb_seq p < seq" if p: "p \<in> set (na_sent a)" "same_stream p q" for p
      proof -
        have "stream_key rep p = ?key"
          using p(2) q(2,3) boot by (simp add: same_stream_def stream_key_def)
        then obtain s where "pb_seq p \<le> s" "na_sequences a ?key = Some s"
          using assms(1) p(1) unfolding stream_inv_def by fastforce
        then show ?thesis using low by simp
      qed
      moreover have "stream_key rep q = ?key" using q(2,3) boot by (simp add: stream_key_def)
      ultimately show ?thesis using k a' a2 a1 q(1) unfolding stream_inv_def by (auto simp: sorted_wrt_append)
    qed
  qed
qed (use assms(1) in simp)

lemma stream_run:
  "stream_inv rep a \<Longrightarrow> \<forall>m \<in> set ms. str_repr (ar_env m) = rep \<Longrightarrow> \<not> ns_uuid ns [] \<Longrightarrow>
     stream_inv rep (snd (native_run ns ms (r, a)))"
proof (induction ms arbitrary: r a)
  case (Cons m ms)
  obtain r1 a1 where s: "on_native ns (ar_env m) (ar_index m) (ar_topic m) (ar_body m) (ar_db m) r a = (r1, a1)"
    by (rule prod.exhaust)
  have "stream_inv rep a1" by (rule stream_step [OF Cons.prems(1) s]) (use Cons.prems in simp_all)
  then show ?case using Cons s by simp
qed simp

text \<open>
  Property C38. The output of the adapter is ordered: in every run, whatever arrives and however clock
  and database change, the messages published for one boot session and topic carry strictly increasing
  sequence numbers - nothing is repeated, nothing overtakes. The empty text is no UUID, and \<open>str()\<close> is
  the same function throughout.
\<close>

theorem native_stream_ordered:
  assumes "\<not> ns_uuid ns []" "\<forall>m \<in> set ms. str_repr (ar_env m) = rep"
  shows "sorted_wrt (\<lambda>p q. same_stream p q \<longrightarrow> pb_seq p < pb_seq q) (na_sent (snd (native_run ns ms (r, new_adapter))))"
proof -
  have "stream_inv rep new_adapter" by (simp add: stream_inv_def new_adapter_def)
  from stream_run [OF this assms(2,1)] show ?thesis by (simp add: stream_inv_def)
qed

section \<open>A localised pose names the reported map\<close>

definition same_facts :: "dict \<Rightarrow> dict \<Rightarrow> bool" where
  "same_facts d m \<longleftrightarrow> (\<forall>k \<in> set MAP_FACTS. jget m k = jget d k)"

text \<open>\<open>m\<close> names the map that was reported last among the publications \<open>ps\<close>.\<close>

definition reported :: "publication list \<Rightarrow> dict \<Rightarrow> bool" where
  "reported ps m \<longleftrightarrow> (\<exists>us q vs. ps = us @ [q] @ vs \<and> pb_kind q = ''compat_map''
     \<and> (\<forall>v \<in> set vs. pb_kind v \<noteq> ''compat_map'') \<and> same_facts (pb_message q) m)"

definition localised :: "publication \<Rightarrow> bool" where
  "localised p \<longleftrightarrow> pb_kind p = ''location''
     \<and> jget (pb_message p) ''localization_status'' \<noteq> JStr ''DEGRADED_MAP_UNVERIFIED''"

definition map_inv :: "adapter \<Rightarrow> bool" where
  "map_inv a \<longleftrightarrow> (\<forall>d. na_map a = Some d \<longrightarrow> reported (na_sent a) d)
     \<and> (\<forall>xs p ys. na_sent a = xs @ [p] @ ys \<longrightarrow> localised p \<longrightarrow> reported xs (pb_message p))"

lemma verified_facts:
  assumes "facts_verified (map_facts a)"
  obtains d where "na_map a = Some d" "\<forall>k \<in> set MAP_FACTS. jhas d k"
    "map_facts a = map (\<lambda>k. (k, jget d k)) MAP_FACTS"
proof (cases "na_map a")
  case None
  then show ?thesis using assms by (simp add: facts_verified_def map_facts_def MAP_FACTS_def)
next
  case (Some d)
  have "jhas d k" if "k \<in> set MAP_FACTS" for k
    using assms that Some by (auto simp: facts_verified_def map_facts_def MAP_FACTS_def jget_or_def jhas_def split: option.splits)
  then have h: "\<forall>k \<in> set MAP_FACTS. jhas d k" by blast
  have "jget_or d k v = jget d k" if "k \<in> set MAP_FACTS" for k v
    using h that by (auto simp: jget_or_def jget_def jhas_def split: option.splits)
  then have "map_facts a = map (\<lambda>k. (k, jget d k)) MAP_FACTS" by (simp add: map_facts_def Some)
  then show ?thesis using that Some h by blast
qed

lemma pose_facts:
  assumes "normalize_pose ns env n t payload a = (Inr ms, a')"
  shows "na_map a' = na_map a \<and> (\<exists>m. ms = [(''location'', m)]
    \<and> (jget m ''localization_status'' \<noteq> JStr ''DEGRADED_MAP_UNVERIFIED'' \<longrightarrow> (\<exists>d. na_map a = Some d \<and> same_facts d m)))"
proof -
  obtain x y yaw where v: "pose_values env payload = Inr (x, y, yaw)"
    using assms by (auto simp: normalize_pose_def split: sum.splits)
  let ?l = "jupdate (na_latest a) [(''x'', JFloat x), (''y'', JFloat y), (''theta'', JFloat yaw)]"
  have facts: "map_facts (a\<lparr>na_latest := l\<rparr>) = map_facts a" for l by (simp add: map_facts_def)
  have "na_map a' = na_map a"
    using assms by (auto simp: normalize_pose_def Let_def split: sum.splits if_splits)
  moreover obtain h tail where m: "ms = [(''location'', base_message ns env n ''location'' t payload
       @ [(''position'', h)] @ map_facts a @ [(''frame_id'', JStr ''map''), (''localization_status'',
         JStr (if facts_verified (map_facts a) then py_str env (jget_or payload ''localization_status'' (JStr ''VALID_SOURCE''))
               else ''DEGRADED_MAP_UNVERIFIED''))] @ tail)]"
    using assms v by (auto simp: normalize_pose_def Let_def facts split: if_splits)
  moreover have "\<exists>d. na_map a = Some d \<and> same_facts d (snd (hd ms))"
    if l: "jget (snd (hd ms)) ''localization_status'' \<noteq> JStr ''DEGRADED_MAP_UNVERIFIED''"
  proof -
    have "facts_verified (map_facts a)"
      using l by (auto simp: m base_message_def map_facts_def MAP_FACTS_def split: if_splits)
    then obtain d where d: "na_map a = Some d" "map_facts a = map (\<lambda>k. (k, jget d k)) MAP_FACTS"
      by (rule verified_facts)
    have "same_facts d (snd (hd ms))"
      unfolding m d(2) by (simp add: same_facts_def base_message_def MAP_FACTS_def)
    then show ?thesis using d(1) by blast
  qed
  ultimately show ?thesis by auto
qed

lemma map_message:
  assumes "normalize_map ns env ext t payload a = (Inr ms, a')"
  shows "\<exists>m d. ms = [(''compat_map'', m)] \<and> na_map a' = Some d \<and> same_facts m d"
proof -
  let ?d = "map (\<lambda>k. (k, JStr (py_str env (jget payload k)))) MAP_FACTS"
  have "ms = [(''compat_map'', internal_base ns env t payload @ [(''external_id'', JStr ext)] @ ?d)]"
    "na_map a' = Some ?d"
    using assms by (auto simp: normalize_map_def Let_def split: if_splits)
  moreover have "same_facts (internal_base ns env t payload @ [(''external_id'', JStr ext)] @ ?d) ?d"
    by (simp add: same_facts_def MAP_FACTS_def internal_base_def)
  ultimately show ?thesis by blast
qed

text \<open>What one normalisation does to the reported map, and which map its message names.\<close>

definition map_step :: "adapter \<Rightarrow> (py_exn + (string \<times> dict) list) \<Rightarrow> adapter \<Rightarrow> bool" where
  "map_step a res a' \<longleftrightarrow>
     (\<exists>m d. res = Inr [(''compat_map'', m)] \<and> na_map a' = Some d \<and> same_facts m d)
     \<or> (na_map a' = na_map a \<and> (\<forall>ms kind m. res = Inr ms \<longrightarrow> (kind, m) \<in> set ms \<longrightarrow> kind \<noteq> ''compat_map''
          \<and> (kind = ''location'' \<and> jget m ''localization_status'' \<noteq> JStr ''DEGRADED_MAP_UNVERIFIED''
               \<longrightarrow> (\<exists>d. na_map a = Some d \<and> same_facts d m))))"

definition mapless :: "py_exn + (string \<times> dict) list \<Rightarrow> bool" where
  "mapless res \<longleftrightarrow> (\<forall>ms. res = Inr ms \<longrightarrow> fst ` set ms \<inter> {''compat_map'', ''location''} = {})"

lemma map_stepI:
  assumes "na_map a' = na_map a" "mapless res"
  shows "map_step a res a'"
proof -
  have "kind \<noteq> ''compat_map'' \<and> kind \<noteq> ''location''" if "res = Inr ms" "(kind, m) \<in> set ms" for ms kind m
    using assms(2) that by (force simp: mapless_def)
  then show ?thesis using assms(1) unfolding map_step_def by blast
qed

named_theorems map_branches \<open>the branches that leave the reported map alone\<close>

lemma availability_map [map_branches]:
  "normalize_availability ns env ext t payload a = (res, a') \<Longrightarrow> na_map a' = na_map a \<and> mapless res"
  by (auto simp: normalize_availability_def Let_def mapless_def split: if_splits sum.splits)

lemma odom_map [map_branches]:
  "normalize_odom ns env t payload a = (res, a') \<Longrightarrow> na_map a' = na_map a \<and> mapless res"
  by (auto simp: normalize_odom_def Let_def mapless_def split: if_splits sum.splits)

lemma battery_map [map_branches]:
  "normalize_battery ns env t payload a = (res, a') \<Longrightarrow> na_map a' = na_map a \<and> mapless res"
  by (auto simp: normalize_battery_def Let_def mapless_def split: if_splits sum.splits)

lemma status_map [map_branches]:
  "normalize_status ns env t payload a = (res, a') \<Longrightarrow> na_map a' = na_map a \<and> mapless res"
  by (auto simp: normalize_status_def Let_def mapless_def split: if_splits sum.splits)

lemma heartbeat_map [map_branches]:
  "normalize_heartbeat ns env n t payload a = (res, a') \<Longrightarrow> na_map a' = na_map a \<and> mapless res"
  by (auto simp: normalize_heartbeat_def Let_def mapless_def split: if_splits sum.splits)

lemma diagnostic_map [map_branches]:
  "normalize_diagnostic ns env sfx t payload a = (res, a') \<Longrightarrow> sfx \<in> {''nav_status'', ''nav_result''} \<Longrightarrow> na_map a' = na_map a \<and> mapless res"
  by (auto simp: normalize_diagnostic_def Let_def mapless_def split: if_splits sum.splits)

lemma mapless_Nil [simp]: "mapless (Inr [])"
  by (simp add: mapless_def)

lemma normalized_map:
  assumes "normalize_native ns env n ext sfx payload a = (res, a')"
    and v: "validate_envelope ns env ext sfx payload a = Inr (t, a1)"
  shows "map_step a res a'"
proof -
  have m1: "na_map a1 = na_map a" by (rule validatedE [OF v]) simp
  have "map_step a1 res a'"
  proof (cases "sfx = ''map''")
    case True
    then have nm: "normalize_map ns env ext t payload a1 = (res, a')" using assms(1) v by (simp add: normalize_native_def)
    show ?thesis
    proof (cases res)
      case (Inl e)
      then have "na_map a' = na_map a1" using nm by (auto simp: normalize_map_def Let_def split: if_splits)
      then show ?thesis using Inl by (simp add: map_step_def)
    next
      case (Inr ms)
      show ?thesis using map_message [OF nm [unfolded Inr]] unfolding map_step_def Inr by blast
    qed
  next
    case False
    show ?thesis
    proof (cases "sfx = ''pose''")
      case True
      then have np: "normalize_pose ns env n t payload a1 = (res, a')" using assms(1) v by (simp add: normalize_native_def)
      show ?thesis
      proof (cases res)
        case (Inl e)
        then have "na_map a' = na_map a1"
          using np by (auto simp: normalize_pose_def Let_def split: if_splits sum.splits prod.splits)
        then show ?thesis using Inl by (simp add: map_step_def)
      next
        case (Inr ms)
        show ?thesis using pose_facts [OF np [unfolded Inr]] unfolding map_step_def Inr by auto
      qed
    next
      case npose: False
      have "na_map a' = na_map a1 \<and> mapless res"
        using assms(1) False npose v unfolding normalize_native_def
        by (simp split: if_splits) ((drule map_branches; simp)+, auto)
      then show ?thesis using map_stepI by blast
    qed
  qed
  then show ?thesis by (simp add: map_step_def m1)
qed

lemma same_facts_trans: "same_facts a b \<Longrightarrow> same_facts b c \<Longrightarrow> same_facts a c"
  by (simp add: same_facts_def)

lemma same_facts_refl: "same_facts a a"
  by (simp add: same_facts_def)

lemma reported_same: "reported ps d \<Longrightarrow> same_facts d m \<Longrightarrow> reported ps m"
  unfolding reported_def using same_facts_trans by blast

lemma reported_now: "pb_kind q = ''compat_map'' \<Longrightarrow> same_facts (pb_message q) d \<Longrightarrow> reported (ps @ [q]) d"
  unfolding reported_def by (intro exI [of _ ps] exI [of _ q] exI [of _ "[]"]) simp

lemma reported_later:
  assumes "reported ps d" "pb_kind q \<noteq> ''compat_map''"
  shows "reported (ps @ [q]) d"
proof -
  obtain us p vs where "ps = us @ [p] @ vs" "pb_kind p = ''compat_map''" "\<forall>v \<in> set vs. pb_kind v \<noteq> ''compat_map''"
    "same_facts (pb_message p) d"
    using assms(1) unfolding reported_def by blast
  then show ?thesis unfolding reported_def using assms(2)
    by (intro exI [of _ us] exI [of _ p] exI [of _ "vs @ [q]"]) auto
qed

lemma map_step_inv:
  assumes inv: "map_inv a" and st: "map_step a (Inr ms) b" and b: "na_sent b = na_sent a" "normal_form sfx payload ms"
  shows "map_inv (publish_all ns ms b)"
  using b(2) unfolding normal_form_def
proof (elim disjE exE conjE)
  assume "ms = []"
  then show ?thesis using inv st b(1) by (simp add: map_inv_def map_step_def)
next
  fix kind m
  define q where "q = \<lparr>pb_kind = kind, pb_message = m, pb_qos = (if kind = ''location'' then 0 else 1 :: int)\<rparr>"
  assume ms: "ms = [(kind, m)]"
  have new: "map_inv b'" if b': "na_sent b' = na_sent a @ [q]" "na_map b' = na_map b" for b'
  proof (cases "kind = ''compat_map''")
    case True
    then obtain d where d: "na_map b = Some d" "same_facts m d" using st ms by (auto simp: map_step_def)
    have "reported xs (pb_message p)" if "na_sent b' = xs @ [p] @ ys" "localised p" for xs p ys
      using that inv True b' by (cases ys rule: rev_cases) (auto simp: map_inv_def localised_def q_def)
    then show ?thesis using d reported_now [of q d] True b' by (simp add: map_inv_def q_def)
  next
    case False
    then have same: "na_map b = na_map a" and l: "localised q \<Longrightarrow> \<exists>d. na_map a = Some d \<and> same_facts d m"
      using st ms by (auto simp: map_step_def localised_def q_def)
    have "reported xs (pb_message p)" if x: "na_sent b' = xs @ [p] @ ys" "localised p" for xs p ys
    proof (cases ys rule: rev_cases)
      case Nil
      then have "xs = na_sent a" "p = q" using x(1) b' by simp_all
      moreover from this obtain d where "reported (na_sent a) d" "same_facts d m"
        using l x(2) inv by (auto simp: map_inv_def)
      ultimately show ?thesis using reported_same by (simp add: q_def)
    next
      case (snoc zs z)
      then have "na_sent a = xs @ [p] @ zs" using x(1) b' by simp
      then show ?thesis using inv x(2) unfolding map_inv_def by blast
    qed
    then show ?thesis using inv same b' reported_later [of "na_sent a" _ q] False
      by (simp add: map_inv_def q_def)
  qed
  show ?thesis
  proof (cases "starts_with ''compat_'' kind \<or> ns_valid ns m")
    case True
    then show ?thesis unfolding ms by (intro new [of "publish_all ns [(kind, m)] b"]) (auto simp: b(1) q_def)
  next
    case False
    then have "kind \<noteq> ''compat_map''" by (auto simp: starts_with_def)
    then have "na_map b = na_map a" using st ms by (auto simp: map_step_def)
    then show ?thesis using False inv b(1) unfolding ms by (simp add: map_inv_def)
  qed
qed

lemma map_inv_step:
  assumes inv: "map_inv a" and s: "on_native ns env n topic body db r a = (r', a')"
  shows "map_inv a'"
  using s
proof (cases rule: on_nativeE)
  case (validated ext payload t a1)
  from validated(5) show ?thesis
  proof (elim disjE exE conjE)
    fix e assume e: "normalize_native ns env n ext (topic_suffix topic) payload a = (Inl e, a')"
    have "na_sent a' = na_sent a" using normalized [OF e validated(3)] by blast
    moreover have "na_map a' = na_map a" using normalized_map [OF e validated(3)] by (auto simp: map_step_def)
    ultimately show ?thesis using inv by (simp add: map_inv_def)
  next
    fix ms a2
    assume nn: "normalize_native ns env n ext (topic_suffix topic) payload a = (Inr ms, a2)" and p: "a' = publish_all ns ms a2"
    show ?thesis unfolding p
      by (rule map_step_inv [OF inv normalized_map [OF nn validated(3)]]) (use normalized [OF nn validated(3)] in blast)+
  qed
qed (use inv in simp)

lemma map_inv_run: "map_inv a \<Longrightarrow> map_inv (snd (native_run ns ms (r, a)))"
proof (induction ms arbitrary: r a)
  case (Cons m ms)
  obtain r1 a1 where s: "on_native ns (ar_env m) (ar_index m) (ar_topic m) (ar_body m) (ar_db m) r a = (r1, a1)"
    by (rule prod.exhaust)
  then show ?case using Cons.IH [OF map_inv_step [OF Cons.prems s]] by simp
qed simp

text \<open>
  Property C39. A pose is published as localised only on a map the vehicle reported: in every run, a
  location whose status is not DEGRADED_MAP_UNVERIFIED was published after a map message, and its site,
  map, version and checksum are those of the last map message published before it. The server's own
  idea of the map is never used.
\<close>

theorem localised_on_reported_map:
  assumes "na_sent (snd (native_run ns ms (r, new_adapter))) = xs @ [p] @ ys" "localised p"
  shows "\<exists>us q vs. xs = us @ [q] @ vs \<and> pb_kind q = ''compat_map'' \<and> (\<forall>v \<in> set vs. pb_kind v \<noteq> ''compat_map'')
    \<and> (\<forall>k \<in> {''site_code'', ''map_code'', ''map_version'', ''map_checksum''}.
         jget (pb_message p) k = jget (pb_message q) k)"
proof -
  have "map_inv new_adapter" by (simp add: map_inv_def new_adapter_def)
  from map_inv_run [OF this] have "reported xs (pb_message p)" using assms unfolding map_inv_def by blast
  then show ?thesis by (simp add: reported_def same_facts_def MAP_FACTS_def)
qed

text \<open>
  The reported map is not tied to a boot session: a vehicle that restarts and publishes a pose before its
  map is localised on the map of the session before.
\<close>

lemma map_outlives_boot:
  assumes "validate_envelope ns env ext ''pose'' payload a = Inr (t, a1)" "pose_values env payload = Inr (x, y, yaw)"
    and "py_str env (jget_or payload ''frame_id'' (JStr ''map'')) = ''map''" "facts_verified (map_facts a)"
    and "py_str env (jget_or payload ''localization_status'' (JStr ''VALID_SOURCE'')) = ''VALID_SOURCE''"
  shows "\<exists>m a' d. normalize_native ns env n ext ''pose'' payload a = (Inr [(''location'', m)], a')
    \<and> jget m ''localization_status'' = JStr ''VALID_SOURCE'' \<and> jget m ''boot_id'' = jget payload ''bridge_boot_id''
    \<and> na_map a = Some d \<and> same_facts d m"
proof -
  have m1: "na_map a1 = na_map a" by (rule validatedE [OF assms(1)]) simp
  have facts: "map_facts (a1\<lparr>na_latest := l\<rparr>) = map_facts a" for l by (simp add: map_facts_def m1)
  obtain d where d: "na_map a = Some d" "map_facts a = map (\<lambda>k. (k, jget d k)) MAP_FACTS"
    using verified_facts [OF assms(4)] by metis
  define fixed where "fixed = base_message ns env n ''location'' t payload"
  obtain h tail a' where run: "normalize_native ns env n ext ''pose'' payload a = (Inr [(''location'', fixed
       @ [(''position'', h)] @ map_facts a @ [(''frame_id'', JStr ''map''), (''localization_status'', JStr ''VALID_SOURCE'')] @ tail)], a')"
    using assms by (simp add: normalize_native_def normalize_pose_def Let_def facts fixed_def)
  let ?m = "fixed @ [(''position'', h)] @ map_facts a @ [(''frame_id'', JStr ''map''), (''localization_status'', JStr ''VALID_SOURCE'')] @ tail"
  have "jget ?m ''localization_status'' = JStr ''VALID_SOURCE''" "jget ?m ''boot_id'' = jget payload ''bridge_boot_id''"
    by (simp_all add: fixed_def base_message_def map_facts_def MAP_FACTS_def)
  moreover have "same_facts d ?m"
    unfolding d(2) by (simp add: same_facts_def fixed_def base_message_def MAP_FACTS_def)
  ultimately have "jget ?m ''localization_status'' = JStr ''VALID_SOURCE'' \<and> jget ?m ''boot_id'' = jget payload ''bridge_boot_id''
    \<and> na_map a = Some d \<and> same_facts d ?m"
    using d(1) by simp
  then show ?thesis
    by (intro exI [of _ ?m] exI [of _ a'] exI [of _ d]) (rule conjI [OF run])
qed

section \<open>A concrete vehicle\<close>

text \<open>A vehicle that reports its map and its pose, and sends the pose a second time, then a new one.\<close>

definition demo_native :: native_settings where
  "demo_native = \<lparr>ns_enabled = True, ns_internal = ''v'', ns_expected = ''e'', ns_pose_age = 2,
     ns_heartbeat_age = 5, ns_future_skew = 1, ns_uuid = (\<lambda>s. s \<noteq> []), ns_valid = (\<lambda>_. True)\<rparr>"

definition demo_envelope :: "int \<Rightarrow> dict" where
  "demo_envelope seq = [(''compat_schema_version'', JStr ''1.1''), (''external_id'', JStr ''e''),
     (''bridge_boot_id'', JStr ''b''), (''seq'', JInt seq), (''ts'', JStr ''+0'')]"

definition demo_arrival :: "string \<Rightarrow> dict \<Rightarrow> arrival" where
  "demo_arrival topic d = \<lparr>ar_env = plain_env 0, ar_index = 0, ar_topic = topic, ar_body = Some (JObj d), ar_db = demo_db\<rparr>"

definition demo_map_message :: dict where
  "demo_map_message = demo_envelope 3 @ map (\<lambda>k. (k, JStr ''field'')) MAP_FACTS"

definition demo_pose_message :: "int \<Rightarrow> dict" where
  "demo_pose_message seq = demo_envelope seq @ [(''x'', JFloat 1), (''y'', JFloat 2), (''yaw'', JFloat 0)]"

definition demo_latest :: dict where
  "demo_latest = [(''x'', JFloat 1), (''y'', JFloat 2), (''theta'', JFloat 0)]"

definition demo_arrivals :: "arrival list" where
  "demo_arrivals = [demo_arrival ''robot/e/map'' demo_map_message, demo_arrival ''robot/e/pose'' (demo_pose_message 4),
     demo_arrival ''robot/e/pose'' (demo_pose_message 4), demo_arrival ''robot/e/pose'' (demo_pose_message 5)]"

definition demo_published :: "publication list" where
  "demo_published = na_sent (snd (native_run demo_native demo_arrivals (Map.empty, new_adapter)))"

lemmas demo_defs = demo_map_message_def demo_pose_message_def demo_envelope_def MAP_FACTS_def

lemma demo_envelope_valid:
  "validate_envelope demo_native (plain_env 0) ''e'' sfx (demo_envelope seq @ d) a =
     (if seq < 0 then Inl ValueError
      else if seq \<le> (case na_sequences a (''b'', sfx) of None \<Rightarrow> -1 | Some s \<Rightarrow> s) then Inl ValueError
      else if (case na_times a (''b'', sfx) of None \<Rightarrow> False | Some s \<Rightarrow> 0 < s) then Inl ValueError
      else Inr (0, a\<lparr>na_sequences := (na_sequences a)((''b'', sfx) \<mapsto> seq),
                     na_times := (na_times a)((''b'', sfx) \<mapsto> 0)\<rparr>))"
  by (simp add: validate_envelope_def demo_envelope_def demo_native_def plain_env_def boot_text_def Let_def
      replace_Z_def max_age_def elapsed_seconds_def undigits_def)

lemmas demo_validate_map =
  demo_envelope_valid [of _ 3 "map (\<lambda>k. (k, JStr ''field'')) MAP_FACTS", folded demo_map_message_def]

lemmas demo_validate_pose =
  demo_envelope_valid [of _ seq "[(''x'', JFloat 1), (''y'', JFloat 2), (''yaw'', JFloat 0)]", folded demo_pose_message_def] for seq

lemma demo_bound: "binding demo_native (plain_env 0) ''e'' demo_db r = (True, r)"
  by (simp add: binding_def confirmed_alias_def demo_native_def demo_db_def demo_robot_def empty_db_def)

lemma demo_topics: "external_id ''robot/e/map'' = Some ''e''" "external_id ''robot/e/pose'' = Some ''e''"
  "topic_suffix ''robot/e/map'' = ''map''" "topic_suffix ''robot/e/pose'' = ''pose''"
  by (simp_all add: external_id_def topic_suffix_def)

lemma demo_settings: "ns_enabled demo_native" "ns_valid demo_native m" "\<not> ns_uuid demo_native []"
  by (simp_all add: demo_native_def)

lemma demo_payloads: "\<not> is_canonical demo_map_message" "\<not> is_canonical (demo_pose_message seq)"
  by (simp_all add: is_canonical_def demo_defs)

definition demo_map_out :: dict where
  "demo_map_out = internal_base demo_native (plain_env 0) 0 demo_map_message @ [(''external_id'', JStr ''e'')]
     @ map (\<lambda>k. (k, JStr ''field'')) MAP_FACTS"

lemma demo_map_run:
  "normalize_map demo_native (plain_env 0) ''e'' 0 demo_map_message a =
     (Inr [(''compat_map'', demo_map_out)], a\<lparr>na_map := Some (map (\<lambda>k. (k, JStr ''field'')) MAP_FACTS)\<rparr>)"
  by (simp add: normalize_map_def demo_map_out_def demo_defs Let_def)

lemma demo_pose_run:
  assumes "na_map a = Some (map (\<lambda>k. (k, JStr ''field'')) MAP_FACTS)" "na_latest a = [] \<or> na_latest a = demo_latest"
  shows "normalize_pose demo_native (plain_env 0) n 0 (demo_pose_message seq) a =
     (Inr [(''location'', base_message demo_native (plain_env 0) n ''location'' 0 (demo_pose_message seq)
        @ [(''position'', JObj demo_latest)] @ map (\<lambda>k. (k, JStr ''field'')) MAP_FACTS
        @ [(''frame_id'', JStr ''map''), (''localization_status'', JStr ''VALID_SOURCE'')])], a\<lparr>na_latest := demo_latest\<rparr>)"
  using assms by (auto simp: normalize_pose_def pose_values_def position_of_def demo_defs map_facts_def
      facts_verified_def covariance_of_def carry_def Let_def demo_latest_def jupdate_def jset_def)

lemmas demo_runs = demo_published_def demo_arrivals_def demo_arrival_def on_native_def demo_topics demo_payloads
  demo_bound demo_settings normalize_native_def demo_validate_map demo_validate_pose new_adapter_def demo_map_run demo_pose_run

lemma demo_run:
  "map (\<lambda>p. (pb_kind p, pb_seq p)) demo_published = [(''compat_map'', 3), (''location'', 4), (''location'', 5)]"
  by (simp add: demo_runs)
    (simp add: pb_seq_def demo_map_out_def internal_base_def base_message_def demo_defs)

lemma demo_localised: "localised (demo_published ! 1)"
  by (simp add: demo_runs) (simp add: localised_def base_message_def MAP_FACTS_def)

theorem native_stream_ordered_witness:
  "map (\<lambda>p. (pb_kind p, pb_seq p)) demo_published = [(''compat_map'', 3), (''location'', 4), (''location'', 5)]
   \<and> sorted_wrt (\<lambda>p q. same_stream p q \<longrightarrow> pb_seq p < pb_seq q) demo_published"
proof -
  have "\<forall>m \<in> set demo_arrivals. str_repr (ar_env m) = str_repr (plain_env 0)"
    by (simp add: demo_arrivals_def demo_arrival_def)
  from native_stream_ordered [OF demo_settings(3) this, of Map.empty] show ?thesis
    by (simp add: demo_run demo_published_def [symmetric])
qed

theorem localised_on_reported_map_witness:
  "localised (demo_published ! 1)
   \<and> (\<exists>us q vs. [demo_published ! 0] = us @ [q] @ vs \<and> pb_kind q = ''compat_map''
        \<and> (\<forall>v \<in> set vs. pb_kind v \<noteq> ''compat_map'')
        \<and> (\<forall>k \<in> {''site_code'', ''map_code'', ''map_version'', ''map_checksum''}.
             jget (pb_message (demo_published ! 1)) k = jget (pb_message q) k))"
proof -
  have "length demo_published = 3" using arg_cong [OF demo_run, of length] by simp
  then obtain x y z where d: "demo_published = [x, y, z]" by (auto simp: length_Suc_conv eval_nat_numeral)
  have "demo_published = [demo_published ! 0] @ [demo_published ! 1] @ [demo_published ! 2]" unfolding d by simp
  from localised_on_reported_map [OF this [unfolded demo_published_def], folded demo_published_def, OF demo_localised]
  show ?thesis using demo_localised by blast
qed

end
