(* ===== verification/Compat_Ingress.thy ===== *)
theory Compat_Ingress
  imports Compat_Safety Ingress_Safety
begin

text \<open>
  The two ends of the internal contract together: what the compatibility adapter publishes (theory
  \<open>Compat\<close>) is what the ingress reads (theory \<open>Ingress\<close>).
\<close>

section \<open>The ingress takes what the adapter publishes\<close>

text \<open>What the branch of a type reads beside the common head.\<close>

definition branch_ready :: "string \<Rightarrow> dict \<Rightarrow> bool" where
  "branch_ready kind m \<longleftrightarrow>
     (kind = ''compat_availability'' \<longrightarrow> jhas m ''state'') \<and> (kind = ''compat_status'' \<longrightarrow> jhas m ''mode'')
     \<and> (kind = ''compat_map'' \<longrightarrow> (\<forall>k \<in> set MAP_FACTS. jhas m k))
     \<and> (kind = ''compat_battery'' \<longrightarrow> jhas m ''battery'' \<and> (\<exists>b. jget m ''battery'' = JFloat b))"

text \<open>The message carries the head of the internal contract and what its branch reads.\<close>

definition internal_form :: "native_settings \<Rightarrow> pyenv \<Rightarrow> micros \<Rightarrow> dict \<Rightarrow> (string \<times> dict) list \<Rightarrow> bool" where
  "internal_form ns env t payload ms \<longleftrightarrow>
     (\<forall>(kind, m) \<in> set ms. kind \<in> set COMPAT_TYPES \<longrightarrow>
        (\<exists>tail. m = internal_base ns env t payload @ tail) \<and> branch_ready kind m)"

lemma internal_form_simps [simp]:
  "internal_form ns env t payload []"
  "internal_form ns env t payload [(kind, m)] \<longleftrightarrow> (kind \<in> set COMPAT_TYPES \<longrightarrow>
     (\<exists>tail. m = internal_base ns env t payload @ tail) \<and> branch_ready kind m)"
  by (simp_all add: internal_form_def)

named_theorems internals \<open>the form of what each branch publishes\<close>

lemma map_internal [internals]:
  "normalize_map ns env ext t payload a = (Inr ms, a') \<Longrightarrow> internal_form ns env t payload ms"
  by (auto simp: normalize_map_def Let_def branch_ready_def internal_base_def MAP_FACTS_def split: if_splits)

lemma availability_internal [internals]:
  "normalize_availability ns env ext t payload a = (Inr ms, a') \<Longrightarrow> internal_form ns env t payload ms"
  by (auto simp: normalize_availability_def Let_def branch_ready_def internal_base_def split: if_splits)

lemma pose_internal [internals]:
  "normalize_pose ns env n t payload a = (Inr ms, a') \<Longrightarrow> internal_form ns env t payload ms"
  by (auto simp: normalize_pose_def Let_def COMPAT_TYPES_def split: if_splits sum.splits)

lemma odom_internal [internals]:
  "normalize_odom ns env t payload a = (Inr ms, a') \<Longrightarrow> internal_form ns env t payload ms"
  by (auto simp: normalize_odom_def branch_ready_def split: sum.splits)

lemma battery_internal [internals]:
  "normalize_battery ns env t payload a = (Inr ms, a') \<Longrightarrow> internal_form ns env t payload ms"
  by (auto simp: normalize_battery_def Let_def branch_ready_def internal_base_def split: if_splits sum.splits)

lemma status_internal [internals]:
  "normalize_status ns env t payload a = (Inr ms, a') \<Longrightarrow> internal_form ns env t payload ms"
  by (auto simp: normalize_status_def branch_ready_def internal_base_def)

lemma heartbeat_internal [internals]:
  "normalize_heartbeat ns env n t payload a = (Inr ms, a') \<Longrightarrow> internal_form ns env t payload ms"
  by (auto simp: normalize_heartbeat_def COMPAT_TYPES_def split: sum.splits)

lemma diagnostic_internal [internals]:
  "normalize_diagnostic ns env sfx t payload a = (Inr ms, a') \<Longrightarrow> sfx \<in> {''nav_status'', ''nav_result''} \<Longrightarrow>
     internal_form ns env t payload ms"
  by (auto simp: normalize_diagnostic_def branch_ready_def)

lemma normalized_internal:
  assumes "normalize_native ns env n ext sfx payload a = (Inr ms, a')"
  obtains t where "source_time env (jget payload ''ts'') = Inr t" "internal_form ns env t payload ms"
proof -
  obtain t a1 where v: "validate_envelope ns env ext sfx payload a = Inr (t, a1)"
    using assms by (cases "validate_envelope ns env ext sfx payload a") (auto simp: normalize_native_def)
  have "internal_form ns env t payload ms"
    using assms unfolding normalize_native_def v
    by (simp split: if_splits) (drule internals; simp)+
  then show ?thesis using that validatedE [OF v] by metis
qed

lemma branch_accepts:
  assumes "branch_ready kind m" "jhas m ''bridge_boot_id''"
  shows "\<exists>x. compat_branch env redis kind r m source db = Inr x"
proof -
  have "\<exists>x. compat_availability env redis r m db = Inr x" if "kind = ''compat_availability''"
    using assms that by (simp add: branch_ready_def compat_availability_def need_def Let_def)
  moreover have "\<exists>x. compat_map r m db = Inr x" if "kind = ''compat_map''"
    using assms that by (simp add: branch_ready_def compat_map_def need_def MAP_FACTS_def)
  moreover have "\<exists>x. compat_status env r m db = Inr x" if "kind = ''compat_status''"
    using assms that by (simp add: branch_ready_def compat_status_def need_def Let_def)
  moreover have "\<exists>x. compat_battery env r m db = Inr x" if "kind = ''compat_battery''"
    using assms that by (auto simp: branch_ready_def compat_battery_def need_def)
  ultimately show ?thesis by (simp add: compat_branch_def compat_diagnostic_def)
qed

lemma bind_total: "\<exists>x. e = Inr x \<Longrightarrow> (\<And>x. \<exists>y. f x = Inr y) \<Longrightarrow> \<exists>y. bind e f = Inr y"
  by auto

lemma refresh_accepts:
  assumes "branch_ready kind m" "jhas m ''bridge_boot_id''"
  shows "fst (compat_refresh cfg env kind vid m source p) = Internal"
proof (cases "robot_for vid (begin_tx (pf_db p))")
  case (Some r)
  have "\<exists>db. compat_transaction cfg env (pf_redis p) kind vid m source r (begin_tx (pf_db p)) = Inr db"
    unfolding compat_transaction_def Let_def
    by (rule bind_total [OF branch_accepts [OF assms]]) (simp split: prod.split)
  then show ?thesis using Some by (auto simp: compat_refresh_def)
qed (simp add: compat_refresh_def)



end
