(* ===== verification/Spec2Isabelle.thy ===== *)
theory Spec2Isabelle
  imports Bridge_Safety Command_Safety Stop_Safety Worker_Safety Ingress_Gaps Route_Safety Cruise Task_Guards Alarm_Safety Dispatcher_Safety Map_Safety Operations_Safety Coverage_Safety Scheduler_Safety Fleet_Safety Compat_Ingress
begin

text \<open>
  A verification development for the fire-patrol robot platform: the server that commands patrol
  robots in a car park, the services between it and the vehicles, and the bridge that runs on a
  vehicle. All source paths are below \<open>src/\<close>; \<open>api/\<close> stands for \<open>apps/api/app/\<close> and \<open>bridge/\<close> for
  \<open>integration/ros1/vehicle-bridge/firebot_bridge/\<close>.

  \<^bold>\<open>How the program works.\<close> Operators act through HTTP endpoints (\<open>api/modules/*/router.py\<close>). An endpoint
  opens a database session, checks guards, and commits; realtime events and Redis writes are queued
  in the session and applied after the commit (\<open>api/core/events.py\<close>). Every order to a vehicle is a
  command: a row with a JSON payload, let through by one gate (\<open>api/modules/commands/\<close>). Ordinary
  commands leave through the outbox table, safety commands and manual pulses through Redis streams;
  \<open>services/command-dispatcher\<close> publishes both to MQTT. The bridge on the vehicle validates a command,
  hands it to a ROS child process and answers with acknowledgements and task statuses.
  \<open>services/mqtt-ingress\<close> turns what vehicles send (also through \<open>services/ros-compat-adapter\<close>) into
  database rows and events, and \<open>services/task-worker\<close> once a second settles what nobody reports: silent
  robots, unanswered commands, stop operations, arrivals, and the patrols of the schedules.

  \<^bold>\<open>Conventions.\<close> A table is the list of its rows, a session the database with its queues (record \<open>tx\<close>),
  a JSON object an association list (\<open>dict\<close>). An operation that can fail returns a sum, \<open>Inl\<close> the error.
  What the standard library supplies at run time (clock, UUIDs, parsing and printing of times and
  numbers) is the record \<open>pyenv\<close>, an argument of the operations: theorems hold for every such record,
  with the documented behaviour they need as hypotheses. Times are integers in microseconds, floats are
  real numbers, Python integers are unbounded. A critical section, a transaction or a handler is one
  function; where the code can be interrupted between two of them they are separate steps, and the
  properties quantify over the interleavings.

  \<^bold>\<open>Foundations.\<close>
  \<^item> \<open>Prelude\<close>: tables, lookups and the locale \<open>kv_store\<close> of keyed stores. \<open>Json\<close>: JSON values and Python's
    operations on them. \<open>Demo\<close>: a concrete platform for witnesses.
  \<^item> \<open>Platform_Db\<close>: \<open>api/db/models.py\<close> as records, sessions and commit, Redis with expiry.

  \<^bold>\<open>The vehicle.\<close>
  \<^item> \<open>Protocol\<close> (\<open>bridge/protocol.py\<close>, \<open>bridge/downlink/command_validator.py\<close>, \<open>bridge/ros/interfaces.py\<close>),
    \<open>Bridge_State\<close> (\<open>bridge/state.py\<close>, with the locales of the task lock and the idempotency cache),
    \<open>Ros_Lifecycle\<close> (\<open>bridge/ros/lifecycle.py\<close>) and \<open>Command_Processor\<close> (\<open>bridge/downlink/command_receiver.py\<close>).
  \<^item> \<open>Bridge_Interleaving\<close> is the process as a step relation over its threads; \<open>Bridge_Safety\<close> proves mutual
    exclusion of tasks, the origin of acknowledgements, time-outs and the supervisor's invariant.

  \<^bold>\<open>Commands and stopping.\<close>
  \<^item> \<open>Readiness\<close> (\<open>api/modules/commands/readiness.py\<close>, \<open>service.py\<close>): the gate and the rows of a command.
    \<open>Safety_Commands\<close> (\<open>api/modules/commands/router.py\<close>, \<open>api/core/idempotency.py\<close>, the leases of
    \<open>api/modules/robots/router.py\<close>, the compound stop of \<open>api/modules/operations/router.py\<close>), with the locale
    \<open>idempotency\<close>. \<open>Command_Safety\<close>: the gate is the readiness, what it guarantees about motion, commands
    round-trip to the validator of the bridge, safety commands are not lost, leases are exclusive.
  \<^item> \<open>Dispatcher\<close>, \<open>Dispatcher_Safety\<close> (\<open>services/command-dispatcher/main.py\<close>): nothing late is published, a
    safety entry is settled or stays pending, and the acknowledgement the dispatcher overwrites.
  \<^item> \<open>Stop_Worker\<close>, \<open>Stop_Safety\<close> (\<open>services/task-worker/main.py\<close>): what the verdict on a stop is worth, its
    permanence, and that every stop is settled by its deadlines.

  \<^bold>\<open>The worker and the ingress.\<close>
  \<^item> \<open>Worker\<close>, \<open>Worker_Safety\<close>, \<open>Scheduler\<close>, \<open>Scheduler_Safety\<close> (the rest of \<open>services/task-worker/main.py\<close>): arrivals
    need evidence, silent robots lose their lease, every instant of a schedule fires once, scheduled
    patrols are guarded, and the task a refused one leaves behind.
  \<^item> \<open>Ingress_Handlers\<close>, \<open>Ingress\<close> (\<open>services/mqtt-ingress/main.py\<close>) with \<open>Ingress_Safety\<close> (acknowledgements
    are final, no vehicle can claim an arrival), \<open>Ingress_Boot\<close> (boot sessions), \<open>Ingress_Dedup\<close>
    (at-most-once effect of at-least-once delivery) and \<open>Ingress_Gaps\<close>.
  \<^item> \<open>Compat\<close>, \<open>Compat_Safety\<close>, \<open>Compat_Ingress\<close> (\<open>services/ros-compat-adapter/main.py\<close>): the adapter of vehicles that
    speak their own vocabulary; its output is ordered, a localised pose names the map the vehicle reported,
    and the ingress accepts every internal message the adapter publishes.
  \<^bold>\<open>Missions.\<close>
  \<^item> \<open>Dijkstra\<close>, \<open>Route_Builder\<close>, \<open>Projection\<close>, \<open>Route_Safety\<close>, \<open>Cruise\<close> (\<open>api/modules/navigation/route_builder.py\<close>):
    the search is total and optimal, a return route exists from everywhere, the cruise inspects every
    slot once.
  \<^item> \<open>Tasks\<close>, \<open>Task_Endpoints\<close>, \<open>Task_Safety\<close>, \<open>Task_Guards\<close> (\<open>api/modules/tasks/\<close>): a request takes effect once,
    the missions of a robot stay compatible, and what a created task looks like.
  \<^item> \<open>Alarms\<close>, \<open>Alarm_Safety\<close> (\<open>api/modules/alarms/router.py\<close>): refinement of the life of a fire event.
  \<^item> \<open>Maps\<close>, \<open>Map_Safety\<close> (\<open>api/modules/maps/router.py\<close>): the life of a version as a refinement and the
    immutability of published content, with the locale \<open>version_table\<close> for the four tables of a version.
  \<^item> \<open>Operations\<close>, \<open>Operations_Safety\<close>, \<open>Coverage\<close>, \<open>Coverage_Safety\<close> (\<open>api/modules/operations/router.py\<close>): presets,
    plans, schedules, profiles, and the sector of the fire sensor.
  \<^item> \<open>Fleet\<close>, \<open>Fleet_Safety\<close> (\<open>api/modules/enrollment/\<close>, \<open>api/modules/robots/router.py\<close>): one-time enrollment,
    the assignment of a vehicle, and closing the platform for a robot.

  \<^bold>\<open>Interfaces.\<close> The locales are \<open>kv_store\<close> (JSON objects, the bridge's cache, Redis), the task lock and the
  receipt cache of the bridge, \<open>idempotency\<close> and \<open>version_table\<close>; each is interpreted on the model's own
  operations in the theory that provides them.

  \<^bold>\<open>Termination.\<close> The loops of the code are structural recursions over rows, messages or events, and
  need no fuel. The search and its path reconstruction are partial functions (\<open>None\<close> does not end);
  theories \<open>Dijkstra\<close> and \<open>Route_Safety\<close> prove that they end. Threads and services are step relations or
  lists of actions of any length.

  \<^bold>\<open>Errors found.\<close> Some theorems and lemmas state behaviour the code does not intend: a redelivery that
  overwrites a receipt and a feedback that is lost (\<open>Bridge_Safety\<close>), an acknowledgement the dispatcher
  overwrites (\<open>Dispatcher_Safety\<close>), a late report that reopens a task (\<open>Ingress_Gaps\<close>), rows that move into a
  published map (\<open>Map_Safety\<close>), a plan with the trajectory of another map (\<open>Operations_Safety\<close>), segments
  that meet without touching (\<open>Coverage_Safety\<close>), a task that a refused patrol leaves behind
  (\<open>Scheduler_Safety\<close>), a change and a secret with the wrong lifetime (\<open>Fleet_Safety\<close>), and a reported map that outlives its boot session (\<open>Compat_Safety\<close>).

  \<^bold>\<open>Not modelled.\<close>
  \<^item> Pure input and output: MQTT and Redis clients and their reconnection, WebSocket fan-out, media,
    reports, history and other read-only views, logging, metrics, audit rows, tracing.
  \<^item> Third-party logic: JSON schema validation, SQL and its isolation beyond "one transaction is one
    step", JWT and password hashing, cron and time zones, SHA-256, ROS; where the logic depends on them
    they are parameters.
  \<^item> The web frontend, migrations, seeds, the simulator of a robot, testers and release scripts.
  \<^item> Floating point: rounding, overflow and NaN of Python floats.
\<close>

end
